(* ===== verification/Prelude.thy ===== *)
theory Prelude
  imports Complex_Main "HOL-Library.AList" "HOL-Library.Multiset"
begin

text \<open>
  What every component of the development shares: the JSON values the services exchange, the
  Python exceptions as values, the dictionary operations, and a small state-and-exception
  computation type \<open>('s, 'a) py\<close> in which the handlers are written the way the Python reads
  (a statement after another, \<open>raise\<close>, \<open>try\<close>, \<open>for\<close>, \<open>asyncio.gather\<close>).  The second half is the
  automation: invariants of computations (\<open>py_inv\<close>) composed along the same constructs, list
  slicing with Python's treatment of negative bounds, and decimal numerals.
\<close>

named_theorems py_defs \<open>the constructs of the computation type, to run a handler by simp\<close>
named_theorems py_inv_intro \<open>rules that compose invariants of computations\<close>

declare update_conv' [simp]

section \<open>Exceptions and JSON values\<close>

text \<open>
  The class of an exception decides which \<open>except\<close> clause takes it; the text is what \<open>str(e)\<close>
  gives.  Where the source formats a whole reply or data structure into the text, the model keeps
  the fixed part of the message only.
\<close>

datatype exn_class =
    KeyErr | TypeErr | ValueErr | AttributeErr | IndexErr | StopIterationErr | NameErr
  | TimeoutErr | ConnectionErr | CancelledErr | AssertionErr | OSErr | PlainException
  | LibvirtErr | NotEnoughResourceErr | VMRestoreErr | QcowErr | ClientErr | SystemExitErr

datatype exn = Exn (exn_kind: exn_class) (exn_msg: string)

type_synonym 'a res = "exn + 'a"

datatype json =
    JNull
  | JBool bool
  | JNum rat
  | JStr string
  | JList "json list"
  | JObj "(string \<times> json) list"

type_synonym 'v dict = "(string \<times> 'v) list"

text \<open>\<open>bool(v)\<close>: Python's truth value of a decoded JSON value.\<close>

fun truthy :: "json \<Rightarrow> bool" where
  "truthy JNull = False"
| "truthy (JBool b) = b"
| "truthy (JNum q) = (q \<noteq> 0)"
| "truthy (JStr s) = (s \<noteq> [])"
| "truthy (JList xs) = (xs \<noteq> [])"
| "truthy (JObj d) = (d \<noteq> [])"

text \<open>\<open>d[k]\<close>, \<open>d.get(k, dflt)\<close>, \<open>d[k] = v\<close> and \<open>d.update(kw)\<close> on a decoded value.\<close>

definition jitem :: "json \<Rightarrow> string \<Rightarrow> json res" where
  "jitem d k = (case d of
      JObj m \<Rightarrow> (case map_of m k of Some v \<Rightarrow> Inr v | None \<Rightarrow> Inl (Exn KeyErr k))
    | _ \<Rightarrow> Inl (Exn TypeErr ''not subscriptable by a string''))"

definition jget :: "json \<Rightarrow> string \<Rightarrow> json \<Rightarrow> json res" where
  "jget d k dflt = (case d of
      JObj m \<Rightarrow> (case map_of m k of Some v \<Rightarrow> Inr v | None \<Rightarrow> Inr dflt)
    | _ \<Rightarrow> Inl (Exn AttributeErr ''get''))"

definition jset :: "json \<Rightarrow> string \<Rightarrow> json \<Rightarrow> json res" where
  "jset d k v = (case d of
      JObj m \<Rightarrow> Inr (JObj (AList.update k v m))
    | _ \<Rightarrow> Inl (Exn TypeErr ''item assignment''))"

fun dict_update :: "'v dict \<Rightarrow> 'v dict \<Rightarrow> 'v dict" where
  "dict_update d [] = d"
| "dict_update d ((k, v) # kw) = dict_update (AList.update k v d) kw"

definition jupdate :: "json \<Rightarrow> json dict \<Rightarrow> json res" where
  "jupdate d kw = (case d of
      JObj m \<Rightarrow> Inr (JObj (dict_update m kw))
    | _ \<Rightarrow> Inl (Exn AttributeErr ''update''))"

text \<open>\<open>xs[0]\<close>; iteration over a decoded value (a list, the keys of an object, the characters of a
  string); a value used as a key of a Redis hash, which the client accepts as a string only.\<close>

definition jfirst :: "json \<Rightarrow> json res" where
  "jfirst v = (case v of
      JList [] \<Rightarrow> Inl (Exn IndexErr ''list index out of range'')
    | JList (x # _) \<Rightarrow> Inr x
    | JStr [] \<Rightarrow> Inl (Exn IndexErr ''string index out of range'')
    | JStr (c # _) \<Rightarrow> Inr (JStr [c])
    | JObj _ \<Rightarrow> Inl (Exn KeyErr ''0'')
    | _ \<Rightarrow> Inl (Exn TypeErr ''not subscriptable''))"

definition jiter :: "json \<Rightarrow> json list res" where
  "jiter v = (case v of
      JList xs \<Rightarrow> Inr xs
    | JObj m \<Rightarrow> Inr (map (\<lambda>p. JStr (fst p)) m)
    | JStr s \<Rightarrow> Inr (map (\<lambda>c. JStr [c]) s)
    | _ \<Rightarrow> Inl (Exn TypeErr ''not iterable''))"

definition jkey :: "json \<Rightarrow> string res" where
  "jkey v = (case v of JStr s \<Rightarrow> Inr s | _ \<Rightarrow> Inl (Exn TypeErr ''key must be a string''))"

definition jlist :: "json \<Rightarrow> json list res" where
  "jlist v = (case v of JList xs \<Rightarrow> Inr xs | _ \<Rightarrow> Inl (Exn TypeErr ''list expected''))"

definition jobj :: "json \<Rightarrow> json dict res" where
  "jobj v = (case v of JObj m \<Rightarrow> Inr m | _ \<Rightarrow> Inl (Exn AttributeErr ''dict expected''))"

text \<open>The object's field, if the value is an object that has it: what the properties talk about.\<close>

definition fld :: "json \<Rightarrow> string \<Rightarrow> json option" where
  "fld d k = (case d of JObj m \<Rightarrow> map_of m k | _ \<Rightarrow> None)"

lemma fld_JObj [simp]: "fld (JObj m) k = map_of m k"
  by (simp add: fld_def)

lemma jitem_Inr_iff: "jitem d k = Inr v \<longleftrightarrow> fld d k = Some v"
  by (auto simp: jitem_def fld_def split: json.splits option.splits)

lemmas jitem_InrD = jitem_Inr_iff [THEN iffD1]

lemma jitem_JObj [simp]: "jitem (JObj m) k =
    (case map_of m k of Some v \<Rightarrow> Inr v | None \<Rightarrow> Inl (Exn KeyErr k))"
  by (simp add: jitem_def)

lemma jget_JObj [simp]: "jget (JObj m) k v = Inr (case map_of m k of Some x \<Rightarrow> x | None \<Rightarrow> v)"
  by (simp add: jget_def split: option.splits)

lemma jset_JObj [simp]: "jset (JObj m) k v = Inr (JObj (AList.update k v m))"
  by (simp add: jset_def)

lemma jupdate_JObj [simp]: "jupdate (JObj m) kw = Inr (JObj (dict_update m kw))"
  by (simp add: jupdate_def)

lemma jobj_JObj [simp]: "jobj (JObj m) = Inr m"
  by (simp add: jobj_def)

lemma jobj_Inr_iff: "jobj v = Inr m \<longleftrightarrow> v = JObj m"
  by (cases v) (auto simp: jobj_def)

lemma jiter_JList [simp]: "jiter (JList xs) = Inr xs"
  by (simp add: jiter_def)

lemma jkey_JStr [simp]: "jkey (JStr k) = Inr k"
  by (simp add: jkey_def)

lemma fld_SomeD: "fld d k = Some v \<Longrightarrow> \<exists>m. d = JObj m \<and> map_of m k = Some v"
  by (cases d) (auto simp: fld_def)

lemma jset_Inr_iff: "jset d k v = Inr d' \<longleftrightarrow> (\<exists>m. d = JObj m \<and> d' = JObj (AList.update k v m))"
  by (auto simp: jset_def split: json.splits)

lemma fld_jset: "jset d k v = Inr d' \<Longrightarrow> fld d' k' = (if k' = k then Some v else fld d k')"
  by (auto simp: jset_Inr_iff update_conv')

lemma map_of_dict_update: "map_of (dict_update d kw) k =
    (case map_of (rev kw) k of Some v \<Rightarrow> Some v | None \<Rightarrow> map_of d k)"
proof (induction d kw rule: dict_update.induct)
  case (1 d)
  then show ?case by simp
next
  case (2 d a v kw)
  then show ?case
    by (auto simp: update_conv' map_add_def split: option.splits)
qed

lemma fld_jupdate: "jupdate d kw = Inr d' \<Longrightarrow> fld d' k =
    (case map_of (rev kw) k of Some v \<Rightarrow> Some v | None \<Rightarrow> fld d k)"
  by (auto simp: jupdate_def map_of_dict_update split: json.splits option.splits)

section \<open>Computations with state and exceptions\<close>

type_synonym ('s, 'a) py = "'s \<Rightarrow> 'a res \<times> 's"

definition py_return :: "'a \<Rightarrow> ('s, 'a) py" where
  [py_defs]: "py_return x = (\<lambda>s. (Inr x, s))"

definition py_raise :: "exn \<Rightarrow> ('s, 'a) py" where
  [py_defs]: "py_raise e = (\<lambda>s. (Inl e, s))"

definition py_bind :: "('s, 'a) py \<Rightarrow> ('a \<Rightarrow> ('s, 'b) py) \<Rightarrow> ('s, 'b) py" where
  [py_defs]: "py_bind m f = (\<lambda>s. case m s of (r, s') \<Rightarrow>
     (case r of Inl e \<Rightarrow> (Inl e, s') | Inr x \<Rightarrow> f x s'))"

lemma py_bind_run: "m s = (Inr x, s') \<Longrightarrow> py_bind m f s = f x s'"
  and py_bind_fail: "m s = (Inl e, s') \<Longrightarrow> py_bind m f s = (Inl e, s')"
  by (simp_all add: py_bind_def)

text \<open>A statement whose value is not used.\<close>

definition py_then :: "('s, 'a) py \<Rightarrow> ('s, 'b) py \<Rightarrow> ('s, 'b) py" where
  [py_defs]: "py_then m n = py_bind m (\<lambda>_. n)"

lemma py_then_run: "m s = (Inr x, s') \<Longrightarrow> py_then m n s = n s'"
  and py_then_fail: "m s = (Inl e, s') \<Longrightarrow> py_then m n s = (Inl e, s')"
  by (simp_all add: py_then_def py_bind_def)

text \<open>\<open>try: m  except e: h(e)\<close>; the handler gets every exception and re-raises the ones its
  \<open>except\<close> clauses do not name.\<close>

definition py_try :: "('s, 'a) py \<Rightarrow> (exn \<Rightarrow> ('s, 'a) py) \<Rightarrow> ('s, 'a) py" where
  [py_defs]: "py_try m h = (\<lambda>s. case m s of (r, s') \<Rightarrow>
     (case r of Inl e \<Rightarrow> h e s' | Inr x \<Rightarrow> (Inr x, s')))"

text \<open>The outcome of \<open>m\<close> as a value: a \<open>try\<close> whose \<open>else\<close> branch goes on with the result.\<close>

definition py_attempt :: "('s, 'a) py \<Rightarrow> ('s, 'a res) py" where
  [py_defs]: "py_attempt m = (\<lambda>s. case m s of (r, s') \<Rightarrow> (Inr r, s'))"

definition py_lift :: "'a res \<Rightarrow> ('s, 'a) py" where
  [py_defs]: "py_lift r = (\<lambda>s. (r, s))"

definition py_gets :: "('s \<Rightarrow> 'a) \<Rightarrow> ('s, 'a) py" where
  [py_defs]: "py_gets f = (\<lambda>s. (Inr (f s), s))"

definition py_modify :: "('s \<Rightarrow> 's) \<Rightarrow> ('s, unit) py" where
  [py_defs]: "py_modify f = (\<lambda>s. (Inr (), f s))"

lemma py_then_modify: "py_then (py_modify f) m s = m (f s)"
  by (simp add: py_then_def py_bind_def py_modify_def)

text \<open>\<open>for x in xs: f(x)\<close>, and the list of the results.\<close>

fun py_for :: "'a list \<Rightarrow> ('a \<Rightarrow> ('s, unit) py) \<Rightarrow> ('s, unit) py" where
  "py_for [] f = py_return ()"
| "py_for (x # xs) f = py_then (f x) (py_for xs f)"

fun py_collect :: "'a list \<Rightarrow> ('a \<Rightarrow> ('s, 'b) py) \<Rightarrow> ('s, 'b list) py" where
  "py_collect [] f = py_return []"
| "py_collect (x # xs) f =
     py_bind (f x) (\<lambda>y. py_bind (py_collect xs f) (\<lambda>ys. py_return (y # ys)))"

text \<open>\<open>asyncio.gather(..., return_exceptions=True)\<close> with the tasks run in the order of the list:
  every task runs, an exception is a result like another.\<close>

fun py_gather :: "'a list \<Rightarrow> ('a \<Rightarrow> ('s, 'b) py) \<Rightarrow> ('s, 'b res list) py" where
  "py_gather [] f = py_return []"
| "py_gather (x # xs) f = (\<lambda>s. case f x s of (r, s') \<Rightarrow>
     py_bind (py_gather xs f) (\<lambda>rs. py_return (r # rs)) s')"

text \<open>The results of a gather that are not exceptions.\<close>

fun completed :: "'a res list \<Rightarrow> 'a list" where
  "completed [] = []"
| "completed (Inl e # rs) = completed rs"
| "completed (Inr x # rs) = x # completed rs"

text \<open>The same traversal for values that may raise but touch no state.\<close>

fun res_collect :: "'a list \<Rightarrow> ('a \<Rightarrow> 'b res) \<Rightarrow> 'b list res" where
  "res_collect [] f = Inr []"
| "res_collect (x # xs) f = (case f x of Inl e \<Rightarrow> Inl e | Inr y \<Rightarrow>
     (case res_collect xs f of Inl e \<Rightarrow> Inl e | Inr ys \<Rightarrow> Inr (y # ys)))"

definition res_bind :: "'a res \<Rightarrow> ('a \<Rightarrow> 'b res) \<Rightarrow> 'b res" where
  [py_defs]: "res_bind r f = (case r of Inl e \<Rightarrow> Inl e | Inr x \<Rightarrow> f x)"

lemma res_bind_Inr_iff [simp]: "res_bind r f = Inr y \<longleftrightarrow> (\<exists>x. r = Inr x \<and> f x = Inr y)"
  by (cases r) (auto simp: res_bind_def)

lemma res_collect_length: "res_collect xs f = Inr ys \<Longrightarrow> length ys = length xs"
  by (induction xs arbitrary: ys) (auto split: sum.splits)

lemma res_collect_in:
  "res_collect xs f = Inr ys \<Longrightarrow> y \<in> set ys \<Longrightarrow> \<exists>x \<in> set xs. f x = Inr y"
  by (induction xs arbitrary: ys) (auto split: sum.splits)

lemma res_collect_nth: "res_collect xs f = Inr ys \<Longrightarrow> i < length xs \<Longrightarrow> f (xs ! i) = Inr (ys ! i)"
  by (induction xs arbitrary: ys i) (auto split: sum.splits simp: nth_Cons split: nat.splits)

section \<open>Invariants of computations\<close>

text \<open>\<open>py_inv I m\<close>: whatever way \<open>m\<close> ends, by a value or by an exception, it ends in a state
  that satisfies \<open>I\<close> when it started in one.  The rules follow the constructs, so the invariant
  of a handler is proved from those of the store operations it calls.\<close>

definition py_inv :: "('s \<Rightarrow> bool) \<Rightarrow> ('s, 'a) py \<Rightarrow> bool" where
  "py_inv I m \<longleftrightarrow> (\<forall>s. I s \<longrightarrow> I (snd (m s)))"

lemma py_invD: "py_inv I m \<Longrightarrow> I s \<Longrightarrow> I (snd (m s))"
  by (simp add: py_inv_def)

lemma py_inv_return [py_inv_intro]: "py_inv I (py_return x)"
  by (simp add: py_inv_def py_return_def)

lemma py_inv_raise [py_inv_intro]: "py_inv I (py_raise e)"
  by (simp add: py_inv_def py_raise_def)

lemma py_inv_lift [py_inv_intro]: "py_inv I (py_lift r)"
  by (simp add: py_inv_def py_lift_def)

lemma py_inv_gets [py_inv_intro]: "py_inv I (py_gets f)"
  by (simp add: py_inv_def py_gets_def)

lemma py_inv_bind [py_inv_intro]:
  "py_inv I m \<Longrightarrow> (\<And>x. py_inv I (f x)) \<Longrightarrow> py_inv I (py_bind m f)"
  by (fastforce simp: py_inv_def py_bind_def split: sum.splits prod.splits)

lemma py_inv_then [py_inv_intro]: "py_inv I m \<Longrightarrow> py_inv I n \<Longrightarrow> py_inv I (py_then m n)"
  by (simp add: py_then_def py_inv_bind)

lemma py_inv_try [py_inv_intro]:
  "py_inv I m \<Longrightarrow> (\<And>e. py_inv I (h e)) \<Longrightarrow> py_inv I (py_try m h)"
  by (fastforce simp: py_inv_def py_try_def split: sum.splits prod.splits)

lemma py_inv_attempt [py_inv_intro]: "py_inv I m \<Longrightarrow> py_inv I (py_attempt m)"
  by (auto simp: py_inv_def py_attempt_def split: prod.splits)

lemma py_inv_case_sum [py_inv_intro]:
  "(\<And>e. py_inv I (f e)) \<Longrightarrow> (\<And>x. py_inv I (g x)) \<Longrightarrow>
    py_inv I (case r of Inl e \<Rightarrow> f e | Inr x \<Rightarrow> g x)"
  by (cases r) auto

lemma py_inv_for [py_inv_intro]: "(\<And>x. py_inv I (f x)) \<Longrightarrow> py_inv I (py_for xs f)"
  by (induction xs) (auto intro: py_inv_intro)

lemma py_inv_collect [py_inv_intro]: "(\<And>x. py_inv I (f x)) \<Longrightarrow> py_inv I (py_collect xs f)"
  by (induction xs) (auto intro!: py_inv_intro)

lemma py_inv_gather [py_inv_intro]:
  assumes "\<And>x. py_inv I (f x)"
  shows "py_inv I (py_gather xs f)"
proof (induction xs)
  case Nil
  then show ?case by (simp add: py_inv_return)
next
  case (Cons x xs)
  have *: "py_inv I (py_bind (py_gather xs f) (\<lambda>rs. py_return (r # rs)))" for r
    by (intro py_inv_intro Cons.IH)
  show ?case
    using assms [of x] * by (fastforce simp: py_inv_def split: prod.splits)
qed

lemma py_inv_if [py_inv_intro]: "py_inv I m \<Longrightarrow> py_inv I n \<Longrightarrow> py_inv I (if b then m else n)"
  by simp

lemma py_inv_Let [py_inv_intro]: "(\<And>x. py_inv I (f x)) \<Longrightarrow> py_inv I (let x = e in f x)"
  by simp

lemma py_inv_case_option [py_inv_intro]:
  "py_inv I m \<Longrightarrow> (\<And>x. py_inv I (f x)) \<Longrightarrow> py_inv I (case v of None \<Rightarrow> m | Some x \<Rightarrow> f x)"
  by (cases v) auto

lemma py_inv_case_prod [py_inv_intro]:
  "(\<And>x y. py_inv I (f x y)) \<Longrightarrow> py_inv I (case p of (x, y) \<Rightarrow> f x y)"
  by (cases p) auto

text \<open>The same with what is known of the value: \<open>py_spec I m Q\<close> also says that \<open>Q\<close> holds of
  every value \<open>m\<close> returns, which is what a read that is followed by a write needs.\<close>

definition py_spec :: "('s \<Rightarrow> bool) \<Rightarrow> ('s, 'a) py \<Rightarrow> ('a \<Rightarrow> bool) \<Rightarrow> bool" where
  "py_spec I m Q \<longleftrightarrow> (\<forall>s. I s \<longrightarrow> I (snd (m s)) \<and> (\<forall>x. fst (m s) = Inr x \<longrightarrow> Q x))"

lemma py_spec_inv: "py_spec I m Q \<Longrightarrow> py_inv I m"
  by (auto simp: py_spec_def py_inv_def)

lemma py_inv_bind_spec:
  "py_spec I m Q \<Longrightarrow> (\<And>x. Q x \<Longrightarrow> py_inv I (f x)) \<Longrightarrow> py_inv I (py_bind m f)"
  by (fastforce simp: py_spec_def py_inv_def py_bind_def split: sum.splits prod.splits)

lemma py_spec_bind:
  "py_spec I m Q \<Longrightarrow> (\<And>x. Q x \<Longrightarrow> py_spec I (f x) Q') \<Longrightarrow> py_spec I (py_bind m f) Q'"
  by (fastforce simp: py_spec_def py_bind_def split: sum.splits prod.splits)

lemma py_spec_return: "Q x \<Longrightarrow> py_spec I (py_return x) Q"
  by (simp add: py_spec_def py_return_def)

lemma py_spec_lift: "(\<And>x. r = Inr x \<Longrightarrow> Q x) \<Longrightarrow> py_spec I (py_lift r) Q"
  by (simp add: py_spec_def py_lift_def)

lemma py_spec_raise: "py_spec I (py_raise e) Q"
  by (simp add: py_spec_def py_raise_def)

section \<open>Dictionaries as lists\<close>

lemma update_fresh: "k \<notin> fst ` set d \<Longrightarrow> AList.update k v d = d @ [(k, v)]"
  by (induction d) auto

lemma mset_delete:
  "distinct (map fst d) \<Longrightarrow> map_of d k = Some v \<Longrightarrow> mset d = add_mset (k, v) (mset (AList.delete k d))"
proof (induction d)
  case Nil
  then show ?case by simp
next
  case (Cons p d)
  then show ?case
    by (cases p; cases "fst p = k") (auto simp: map_of_eq_None_iff)
qed

lemma list_all2_in2: "list_all2 P xs ys \<Longrightarrow> y \<in> set ys \<Longrightarrow> \<exists>x \<in> set xs. P x y"
  by (induction rule: list_all2_induct) auto

section \<open>Python lists and numerals\<close>

text \<open>\<open>xs[:n]\<close> and \<open>xs[n:]\<close>: a negative bound counts from the end.\<close>

definition py_bound :: "'a list \<Rightarrow> int \<Rightarrow> nat" where
  "py_bound xs n = (if n < 0 then nat (int (length xs) + n) else nat n)"

definition slice_to :: "'a list \<Rightarrow> int \<Rightarrow> 'a list" where
  "slice_to xs n = take (py_bound xs n) xs"

definition slice_from :: "'a list \<Rightarrow> int \<Rightarrow> 'a list" where
  "slice_from xs n = drop (py_bound xs n) xs"

lemma slice_partition [simp]: "slice_to xs n @ slice_from xs n = xs"
  by (simp add: slice_to_def slice_from_def)

lemma mset_slices [simp]: "mset (slice_to xs n) + mset (slice_from xs n) = mset xs"
  by (metis mset_append slice_partition)

lemma length_slice_to: "0 \<le> n \<Longrightarrow> n \<le> int (length xs) \<Longrightarrow> length (slice_to xs n) = nat n"
  by (auto simp: slice_to_def py_bound_def)

text \<open>\<open>k in s\<close> for strings.\<close>

fun infix_of :: "string \<Rightarrow> string \<Rightarrow> bool" where
  "infix_of k [] = (k = [])"
| "infix_of k (c # cs) = (take (length k) (c # cs) = k \<or> infix_of k cs)"

text \<open>\<open>"%d" % n\<close> for \<open>n \<ge> 0\<close>.\<close>

fun dec :: "nat \<Rightarrow> string" where
  "dec n = (if n < 10 then [''0123456789'' ! n] else dec (n div 10) @ [''0123456789'' ! (n mod 10)])"

declare dec.simps [simp del]

lemma dec_nonempty [simp]: "dec n \<noteq> []"
  by (subst dec.simps) simp

lemma dec_nonempty' [simp]: "[] \<noteq> dec n"
  using dec_nonempty [of n] by metis

lemma digit_inj: "i < 10 \<Longrightarrow> j < 10 \<Longrightarrow> (''0123456789'' ! i = ''0123456789'' ! j) = (i = j)"
  by (rule nth_eq_iff_index_eq) auto

lemma dec_inj: "dec m = dec n \<Longrightarrow> m = n"
proof (induction m arbitrary: n rule: dec.induct)
  case (1 m)
  show ?case
  proof (cases "m < 10 \<or> n < 10")
    case True
    with "1.prems" show ?thesis
      by (auto simp: dec.simps [of m] dec.simps [of n] digit_inj split: if_splits)
  next
    case False
    with "1.prems" have eq: "dec (m div 10) = dec (n div 10)"
      and last: "''0123456789'' ! (m mod 10) = ''0123456789'' ! (n mod 10)"
      by (auto simp: dec.simps [of m] dec.simps [of n] simp del: nth_Cons_numeral)
    from last have "m mod 10 = n mod 10" by (simp add: digit_inj)
    moreover from False eq "1.IH" have "m div 10 = n div 10" by auto
    ultimately show ?thesis by (metis div_mult_mod_eq)
  qed
qed

definition int_str :: "int \<Rightarrow> string" where
  "int_str i = (if i < 0 then CHR ''-'' # dec (nat (- i)) else dec (nat i))"

text \<open>A value inside an f-string: strings as they are, the constants by their names, whole numbers in
  decimal; fractions and containers do not occur in the strings the services build and are not
  rendered.\<close>

definition py_str :: "json \<Rightarrow> string" where
  "py_str v = (case v of JStr s \<Rightarrow> s | JNull \<Rightarrow> ''None'' | JBool True \<Rightarrow> ''True''
     | JBool False \<Rightarrow> ''False'' | JNum q \<Rightarrow> if q = of_int \<lfloor>q\<rfloor> then int_str \<lfloor>q\<rfloor> else ''?'' | _ \<Rightarrow> ''?'')"

lemma py_str_JStr [simp]: "py_str (JStr s) = s"
  by (simp add: py_str_def)

text \<open>\<open>int(v)\<close>: a number is cut towards zero; a string is a decimal numeral with an optional sign, with
  white space around it.\<close>

definition is_space :: "char \<Rightarrow> bool" where
  "is_space c \<longleftrightarrow> c = CHR '' '' \<or> (9 \<le> (of_char c :: nat) \<and> (of_char c :: nat) \<le> 13)"

definition strip :: "string \<Rightarrow> string" where
  "strip s = rev (dropWhile is_space (rev (dropWhile is_space s)))"

definition digit_value :: "char \<Rightarrow> int option" where
  "digit_value c = (let n = (of_char c :: nat) in if 48 \<le> n \<and> n \<le> 57 then Some (int n - 48) else None)"

fun digits_value :: "int \<Rightarrow> string \<Rightarrow> int option" where
  "digits_value acc [] = Some acc"
| "digits_value acc (c # cs) = (case digit_value c of None \<Rightarrow> None | Some d \<Rightarrow> digits_value (10 * acc + d) cs)"

definition numeral_value :: "string \<Rightarrow> int option" where
  "numeral_value s = (case s of
      [] \<Rightarrow> None
    | c # cs \<Rightarrow>
        if c = CHR ''-'' then (if cs = [] then None else map_option uminus (digits_value 0 cs))
        else if c = CHR ''+'' then (if cs = [] then None else digits_value 0 cs)
        else digits_value 0 s)"

definition py_int :: "json \<Rightarrow> int res" where
  "py_int v = (case v of
      JNum q \<Rightarrow> Inr (if q < 0 then \<lceil>q\<rceil> else \<lfloor>q\<rfloor>)
    | JBool b \<Rightarrow> Inr (if b then 1 else 0)
    | JStr s \<Rightarrow> (case numeral_value (strip s) of
        None \<Rightarrow> Inl (Exn ValueErr ''invalid literal for int() with base 10'') | Some i \<Rightarrow> Inr i)
    | _ \<Rightarrow> Inl (Exn TypeErr ''int() argument''))"

lemma py_int_of_int [simp]: "py_int (JNum (of_int i)) = Inr i"
  by (simp add: py_int_def)

text \<open>\<open>", ".join(...)\<close>, \<open>s.split()\<close> and \<open>s.split(c)\<close>.\<close>

fun join :: "string \<Rightarrow> string list \<Rightarrow> string" where
  "join sep [] = []"
| "join sep [x] = x"
| "join sep (x # y # ys) = x @ sep @ join sep (y # ys)"

fun split_on :: "(char \<Rightarrow> bool) \<Rightarrow> string \<Rightarrow> string list" where
  "split_on p [] = [[]]"
| "split_on p (c # cs) = (if p c then [] # split_on p cs
     else (case split_on p cs of [] \<Rightarrow> [[c]] | w # ws \<Rightarrow> (c # w) # ws))"

definition split_ws :: "string \<Rightarrow> string list" where
  "split_ws s = filter (\<lambda>w. w \<noteq> []) (split_on is_space s)"

section \<open>Clean-up on every path\<close>

text \<open>\<open>try: m  finally: c\<close>; an exception of the clean-up replaces the outcome.\<close>

definition py_finally :: "('s, 'a) py \<Rightarrow> ('s, unit) py \<Rightarrow> ('s, 'a) py" where
  [py_defs]: "py_finally m c = (\<lambda>s. case m s of (r, s') \<Rightarrow>
     (case c s' of (Inl e, s'') \<Rightarrow> (Inl e, s'') | (Inr _, s'') \<Rightarrow> (r, s'')))"

lemma py_inv_finally [py_inv_intro]: "py_inv I m \<Longrightarrow> py_inv I c \<Longrightarrow> py_inv I (py_finally m c)"
  by (fastforce simp: py_inv_def py_finally_def split: sum.splits prod.splits)

text \<open>\<open>asyncio.gather(*tasks)\<close> with the tasks run in the order of the list: every task runs to its end,
  and the first exception is the outcome.\<close>

fun py_gather_first :: "('s, unit) py list \<Rightarrow> ('s, unit) py" where
  "py_gather_first [] = py_return ()"
| "py_gather_first (m # ms) = (\<lambda>s. case m s of (r, s') \<Rightarrow> (case py_gather_first ms s' of (r', s'') \<Rightarrow>
     ((case r of Inl e \<Rightarrow> Inl e | Inr _ \<Rightarrow> r'), s'')))"

lemma py_inv_gather_first [py_inv_intro]: "(\<And>m. m \<in> set ms \<Longrightarrow> py_inv I m) \<Longrightarrow> py_inv I (py_gather_first ms)"
proof (induction ms)
  case Nil
  then show ?case by (simp add: py_inv_return)
next
  case (Cons m ms)
  then have "py_inv I m" "py_inv I (py_gather_first ms)" by simp_all
  then show ?case by (fastforce simp: py_inv_def split: prod.splits)
qed

text \<open>\<open>asyncio.gather\<close>: every task runs to its end, then the first exception is raised.\<close>

fun first_error :: "'a res list \<Rightarrow> 'a list res" where
  "first_error [] = Inr []"
| "first_error (Inl e # rs) = Inl e"
| "first_error (Inr x # rs) = res_bind (first_error rs) (\<lambda>xs. Inr (x # xs))"

definition gather_raise :: "'a list \<Rightarrow> ('a \<Rightarrow> ('s, 'b) py) \<Rightarrow> ('s, 'b list) py" where
  "gather_raise xs f = py_bind (py_gather xs f) (\<lambda>rs. py_lift (first_error rs))"

end
