(* ===== verification/Tasks.thy ===== *)
theory Tasks
  imports Prelude
begin

text \<open>
  Coroutines.  A handler of the services is not atomic: at every \<open>await\<close> the event loop goes on with
  another one, and a Redis that several processes share changes between two commands.  A \<open>task\<close> is a
  handler cut into the pieces between its scheduling points; \<open>run\<close> runs it in one go, which gives a
  computation of \<open>Prelude\<close> again, and \<open>pool_step\<close> runs the tasks of a pool in any order.  \<open>t_spec\<close> is what a
  task guarantees while others interfere: every piece keeps the invariant from every state that satisfies it,
  whatever happened since the last piece.
\<close>

named_theorems task_run and t_spec_intro

section \<open>Tasks\<close>

text \<open>A task is finished, or it waits for its turn: what the next piece does to the state, and how it goes
  on.\<close>

datatype ('s, 'a) task = Done "'a res" | Await "'s \<Rightarrow> 's" "'s \<Rightarrow> ('s, 'a) task"

definition t_lift :: "'a res \<Rightarrow> ('s, 'a) task" where
  "t_lift r = Done r"

definition t_return :: "'a \<Rightarrow> ('s, 'a) task" where
  "t_return x = Done (Inr x)"

definition t_raise :: "exn \<Rightarrow> ('s, 'a) task" where
  "t_raise e = Done (Inl e)"

text \<open>A piece without a scheduling point inside.\<close>

definition t_atomic :: "('s, 'a) py \<Rightarrow> ('s, 'a) task" where
  "t_atomic m = Await (\<lambda>s. snd (m s)) (\<lambda>s. Done (fst (m s)))"

primrec t_bind :: "('s, 'a) task \<Rightarrow> ('a \<Rightarrow> ('s, 'b) task) \<Rightarrow> ('s, 'b) task" where
  "t_bind (Done r) k = (case r of Inl e \<Rightarrow> Done (Inl e) | Inr x \<Rightarrow> k x)"
| "t_bind (Await f g) k = Await f (\<lambda>s. t_bind (g s) k)"

definition t_then :: "('s, 'a) task \<Rightarrow> ('s, 'b) task \<Rightarrow> ('s, 'b) task" where
  "t_then t u = t_bind t (\<lambda>_. u)"

primrec t_try :: "('s, 'a) task \<Rightarrow> (exn \<Rightarrow> ('s, 'a) task) \<Rightarrow> ('s, 'a) task" where
  "t_try (Done r) h = (case r of Inl e \<Rightarrow> h e | Inr x \<Rightarrow> Done (Inr x))"
| "t_try (Await f g) h = Await f (\<lambda>s. t_try (g s) h)"

primrec t_attempt :: "('s, 'a) task \<Rightarrow> ('s, 'a res) task" where
  "t_attempt (Done r) = Done (Inr r)"
| "t_attempt (Await f g) = Await f (\<lambda>s. t_attempt (g s))"

fun t_for :: "'a list \<Rightarrow> ('a \<Rightarrow> ('s, unit) task) \<Rightarrow> ('s, unit) task" where
  "t_for [] f = t_return ()"
| "t_for (x # xs) f = t_then (f x) (t_for xs f)"

fun t_gather :: "'a list \<Rightarrow> ('a \<Rightarrow> ('s, 'b) task) \<Rightarrow> ('s, 'b res list) task" where
  "t_gather [] f = t_return []"
| "t_gather (x # xs) f = t_bind (t_attempt (f x)) (\<lambda>r. t_bind (t_gather xs f) (\<lambda>rs. t_return (r # rs)))"

section \<open>Running a task in one go\<close>

primrec run :: "('s, 'a) task \<Rightarrow> ('s, 'a) py" where
  "run (Done r) = (\<lambda>s. (r, s))"
| "run (Await f g) = (\<lambda>s. run (g s) (f s))"

lemma run_lift [task_run]: "run (t_lift r) = py_lift r"
  by (simp add: t_lift_def py_lift_def)

lemma run_return [task_run]: "run (t_return x) = py_return x"
  by (simp add: t_return_def py_return_def)

lemma run_raise [task_run]: "run (t_raise e) = py_raise e"
  by (simp add: t_raise_def py_raise_def)

lemma run_atomic [task_run]: "run (t_atomic m) = m"
  by (simp add: t_atomic_def)

lemma run_bind [task_run]: "run (t_bind t k) = py_bind (run t) (\<lambda>x. run (k x))"
  by (induction t) (auto simp: py_bind_def fun_eq_iff split: sum.splits)

lemma run_then [task_run]: "run (t_then t u) = py_then (run t) (run u)"
  by (simp add: t_then_def run_bind py_then_def)

lemma run_try [task_run]: "run (t_try t h) = py_try (run t) (\<lambda>e. run (h e))"
  by (induction t) (auto simp: py_try_def fun_eq_iff split: sum.splits)

lemma run_attempt [task_run]: "run (t_attempt t) = py_attempt (run t)"
  by (induction t) (auto simp: py_attempt_def fun_eq_iff)

lemma run_for [task_run]: "run (t_for xs f) = py_for xs (\<lambda>x. run (f x))"
  by (induction xs) (simp_all add: task_run)

lemma run_gather [task_run]: "run (t_gather xs f) = py_gather xs (\<lambda>x. run (f x))"
  by (induction xs) (simp_all add: task_run py_bind_def py_attempt_def fun_eq_iff split: prod.split)

lemma run_if [task_run]: "run (if b then t else u) = (if b then run t else run u)"
  by simp

lemma run_case_sum [task_run]: "run (case r of Inl e \<Rightarrow> f e | Inr x \<Rightarrow> g x) = (case r of Inl e \<Rightarrow> run (f e) | Inr x \<Rightarrow> run (g x))"
  by (simp split: sum.split)

lemma run_case_option [task_run]:
  "run (case r of None \<Rightarrow> t | Some x \<Rightarrow> g x) = (case r of None \<Rightarrow> run t | Some x \<Rightarrow> run (g x))"
  by (simp split: option.split)

lemma run_case_prod [task_run]: "run (case p of (a, b) \<Rightarrow> f a b) = (case p of (a, b) \<Rightarrow> run (f a b))"
  by (simp split: prod.split)

section \<open>What a task guarantees under interference\<close>

primrec t_spec :: "('s \<Rightarrow> bool) \<Rightarrow> ('s, 'a) task \<Rightarrow> ('a \<Rightarrow> bool) \<Rightarrow> bool" where
  "t_spec I (Done r) Q \<longleftrightarrow> (case r of Inl _ \<Rightarrow> True | Inr x \<Rightarrow> Q x)"
| "t_spec I (Await f g) Q \<longleftrightarrow> (\<forall>s. I s \<longrightarrow> I (f s) \<and> t_spec I (g s) Q)"

definition t_inv :: "('s \<Rightarrow> bool) \<Rightarrow> ('s, 'a) task \<Rightarrow> bool" where
  "t_inv I t \<longleftrightarrow> t_spec I t (\<lambda>_. True)"

lemma t_spec_mono: "t_spec I t Q \<Longrightarrow> (\<And>x. Q x \<Longrightarrow> Q' x) \<Longrightarrow> t_spec I t Q'"
  by (induction t) (auto split: sum.splits)

lemma t_spec_inv: "t_spec I t Q \<Longrightarrow> t_inv I t"
  unfolding t_inv_def by (erule t_spec_mono) simp

lemma t_spec_bind: "t_spec I t Q \<Longrightarrow> (\<And>x. Q x \<Longrightarrow> t_spec I (k x) Q') \<Longrightarrow> t_spec I (t_bind t k) Q'"
  by (induction t) (auto split: sum.splits)

lemma t_inv_bind_spec: "t_spec I t Q \<Longrightarrow> (\<And>x. Q x \<Longrightarrow> t_inv I (k x)) \<Longrightarrow> t_inv I (t_bind t k)"
  unfolding t_inv_def by (rule t_spec_bind)

lemma t_inv_bind [t_spec_intro]: "t_inv I t \<Longrightarrow> (\<And>x. t_inv I (k x)) \<Longrightarrow> t_inv I (t_bind t k)"
  by (rule t_inv_bind_spec [where Q = "\<lambda>_. True"]) (simp_all add: t_inv_def)

lemma t_inv_then [t_spec_intro]: "t_inv I t \<Longrightarrow> t_inv I u \<Longrightarrow> t_inv I (t_then t u)"
  by (simp add: t_then_def t_inv_bind)

lemma t_inv_try [t_spec_intro]: "t_inv I t \<Longrightarrow> (\<And>e. t_inv I (h e)) \<Longrightarrow> t_inv I (t_try t h)"
  unfolding t_inv_def by (induction t) (auto split: sum.splits)

lemma t_inv_attempt [t_spec_intro]: "t_inv I t \<Longrightarrow> t_inv I (t_attempt t)"
  unfolding t_inv_def by (induction t) auto

lemma t_spec_lift: "(\<And>x. r = Inr x \<Longrightarrow> Q x) \<Longrightarrow> t_spec I (t_lift r) Q"
  by (simp add: t_lift_def split: sum.split)

lemma t_spec_return: "Q x \<Longrightarrow> t_spec I (t_return x) Q"
  by (simp add: t_return_def)

lemma t_inv_done [t_spec_intro]: "t_inv I (t_lift r)" "t_inv I (t_return x)" "t_inv I (t_raise e)"
  by (simp_all add: t_inv_def t_lift_def t_return_def t_raise_def split: sum.split)

lemma t_spec_atomic: "py_spec I m Q \<Longrightarrow> t_spec I (t_atomic m) Q"
  by (auto simp: py_spec_def t_atomic_def split: sum.splits prod.splits)

lemma t_inv_atomic: "py_inv I m \<Longrightarrow> t_inv I (t_atomic m)"
  by (auto simp: t_inv_def t_atomic_def py_inv_def split: sum.splits)

lemma t_inv_for [t_spec_intro]: "(\<And>x. t_inv I (f x)) \<Longrightarrow> t_inv I (t_for xs f)"
  by (induction xs) (auto intro: t_spec_intro)

lemma t_inv_gather [t_spec_intro]: "(\<And>x. t_inv I (f x)) \<Longrightarrow> t_inv I (t_gather xs f)"
  by (induction xs) (auto intro!: t_spec_intro)

lemma t_inv_if [t_spec_intro]: "(b \<Longrightarrow> t_inv I t) \<Longrightarrow> (\<not> b \<Longrightarrow> t_inv I u) \<Longrightarrow> t_inv I (if b then t else u)"
  by simp

lemma t_inv_case_sum [t_spec_intro]:
  "(\<And>e. t_inv I (f e)) \<Longrightarrow> (\<And>x. t_inv I (g x)) \<Longrightarrow> t_inv I (case r of Inl e \<Rightarrow> f e | Inr x \<Rightarrow> g x)"
  by (simp split: sum.split)

lemma t_inv_case_option [t_spec_intro]:
  "t_inv I t \<Longrightarrow> (\<And>x. t_inv I (g x)) \<Longrightarrow> t_inv I (case r of None \<Rightarrow> t | Some x \<Rightarrow> g x)"
  by (simp split: option.split)

lemma t_inv_case_prod [t_spec_intro]: "(\<And>a b. t_inv I (f a b)) \<Longrightarrow> t_inv I (case p of (a, b) \<Rightarrow> f a b)"
  by (simp split: prod.split)

section \<open>Pools of tasks\<close>

text \<open>One of the tasks takes its next piece; or a task of the kind \<open>allowed\<close> is added; or something else
  changes the state in the way \<open>moves\<close> allows.\<close>

inductive pool_step :: "(('s, 'a) task \<Rightarrow> bool) \<Rightarrow> ('s \<Rightarrow> 's \<Rightarrow> bool) \<Rightarrow>
    ('s, 'a) task list \<times> 's \<Rightarrow> ('s, 'a) task list \<times> 's \<Rightarrow> bool"
  for allowed :: "('s, 'a) task \<Rightarrow> bool" and moves :: "'s \<Rightarrow> 's \<Rightarrow> bool" where
  advance: "i < length ts \<Longrightarrow> ts ! i = Await f g \<Longrightarrow> pool_step allowed moves (ts, s) (ts[i := g s], f s)"
| spawn: "allowed t \<Longrightarrow> pool_step allowed moves (ts, s) (ts @ [t], s)"
| move: "moves s s' \<Longrightarrow> pool_step allowed moves (ts, s) (ts, s')"

lemma advance_first: "t = Await f g \<Longrightarrow> pool_step allowed moves (t # ts, s) (g s # ts, f s)"
  using advance [of 0 "t # ts" f g] by simp

inductive_cases pool_stepE: "pool_step allowed moves (ts, s) (ts', s')"

theorem pool_invariant:
  assumes "(pool_step allowed moves)\<^sup>*\<^sup>* (ts, s) (ts', s')"
    and allowed: "\<And>t. allowed t \<Longrightarrow> t_inv I t" and moves: "\<And>s s'. moves s s' \<Longrightarrow> I s \<Longrightarrow> I s'"
    and "I s" and "\<forall>t \<in> set ts. t_inv I t"
  shows "I s' \<and> (\<forall>t \<in> set ts'. t_inv I t)"
proof -
  have "I (snd c) \<and> (\<forall>t \<in> set (fst c). t_inv I t)" if "(pool_step allowed moves)\<^sup>*\<^sup>* (ts, s) c" for c
    using that
  proof (induction rule: rtranclp_induct)
    case base
    with assms(4,5) show ?case by simp
  next
    case (step c d)
    from step(2,3) show ?case
    proof (cases rule: pool_step.cases)
      case (advance i us f g u)
      with step(3) have u: "I u" and us: "\<forall>t \<in> set us. t_inv I t" and i: "t_inv I (Await f g)"
        by (auto simp: in_set_conv_nth)
      then have "I (f u)" and "t_inv I (g u)" by (simp_all add: t_inv_def)
      with us advance(2) show ?thesis using set_update_subset_insert [of us i "g u"] by auto
    next
      case (spawn t us u)
      with step(3) allowed [of t] show ?thesis by auto
    next
      case (move u u' us)
      with step(3) moves [of u u'] show ?thesis by auto
    qed
  qed
  from this [OF assms(1)] show ?thesis by simp
qed

text \<open>A task can always be run to its end without the others.\<close>

lemma pool_run:
  assumes "i < length ts" and "ts ! i = t"
  shows "(pool_step allowed moves)\<^sup>*\<^sup>* (ts, s) (ts[i := Done (fst (run t s))], snd (run t s))"
  using assms
proof (induction t arbitrary: ts s)
  case (Done r)
  then show ?case by (metis fst_conv list_update_id rtranclp.rtrancl_refl run.simps(1) snd_conv)
next
  case (Await f g)
  from Await.prems have "pool_step allowed moves (ts, s) (ts[i := g s], f s)" by (rule advance)
  moreover have "(pool_step allowed moves)\<^sup>*\<^sup>* (ts[i := g s], f s)
      ((ts[i := g s])[i := Done (fst (run (g s) (f s)))], snd (run (g s) (f s)))"
    using Await.IH [OF rangeI, of "ts[i := g s]" s "f s"] Await.prems by simp
  ultimately show ?case by (auto intro: converse_rtranclp_into_rtranclp)
qed

end
