(* ===== verification/Redis_Store.thy ===== *)
theory Redis_Store
  imports Prelude
begin

text \<open>
  The outside world of the services.  Redis, the HTTP peers, the clock and the source of uuids
  are not in the repository: they are parameters.  \<open>'s redis_ops\<close> holds the commands the services
  send to Redis (the value of a hash field stands for its JSON text, which \<open>json.dumps\<close> and
  \<open>json.loads\<close> convert without loss for the values of this type); \<open>'w world_ops\<close> holds the rest.
  The locale \<open>redis_server\<close> states what Redis documents of its hash commands; it is the only thing
  a proof uses of them.  \<open>mem_redis\<close> is the in-memory store that interprets it, which the witnesses
  run on.
\<close>

section \<open>The commands\<close>

record 's redis_ops =
  hget :: "'s \<Rightarrow> string \<Rightarrow> string \<Rightarrow> json option"
  hgetall :: "'s \<Rightarrow> string \<Rightarrow> json dict"
  hset :: "'s \<Rightarrow> string \<Rightarrow> string \<Rightarrow> json \<Rightarrow> 's"
  hsetnx :: "'s \<Rightarrow> string \<Rightarrow> string \<Rightarrow> json \<Rightarrow> 's"
  hdel :: "'s \<Rightarrow> string \<Rightarrow> string list \<Rightarrow> 's"
  publish :: "'s \<Rightarrow> string \<Rightarrow> json \<Rightarrow> 's"

locale redis_server =
  fixes R :: "'s redis_ops"
  assumes hget_hset: "hget R (hset R s h k v) h' k' =
      (if h' = h \<and> k' = k then Some v else hget R s h' k')"
    and hget_hsetnx: "hget R (hsetnx R s h k v) h' k' =
      (if h' = h \<and> k' = k \<and> hget R s h k = None then Some v else hget R s h' k')"
    and hget_hdel: "hget R (hdel R s h ks) h' k' =
      (if h' = h \<and> k' \<in> set ks then None else hget R s h' k')"
    and hget_publish: "hget R (publish R s c v) h' k' = hget R s h' k'"
    and hgetall_hget: "map_of (hgetall R s h) k = hget R s h k"
    and hgetall_distinct: "distinct (map fst (hgetall R s h))"

datatype http_method = GET | POST | PUT | DELETE

record http_request =
  req_verb :: http_method
  req_url :: string
  req_body :: json

text \<open>A reply carries the status code and the decoded body; \<open>HFail\<close> is any exception the client
  raises instead (no connection, a timeout, a body that is not JSON, a cancelled task).\<close>

datatype http_result = HReply int json | HFail exn

record 'w world_ops =
  http :: "'w \<Rightarrow> http_request \<Rightarrow> http_result \<times> 'w"
  clock :: "'w \<Rightarrow> rat"
  uuid4 :: "'w \<Rightarrow> string \<times> 'w"
  sleep :: "rat \<Rightarrow> 'w \<Rightarrow> 'w"

record ('s, 'w) node =
  store :: 's
  world :: 'w

type_synonym ('s, 'w, 'a) svc = "(('s, 'w) node, 'a) py"

section \<open>The commands as computations\<close>

definition r_hget :: "'s redis_ops \<Rightarrow> string \<Rightarrow> string \<Rightarrow> ('s, 'w, json option) svc" where
  [py_defs]: "r_hget R h k = py_gets (\<lambda>n. hget R (store n) h k)"

definition r_hgetall :: "'s redis_ops \<Rightarrow> string \<Rightarrow> ('s, 'w, json dict) svc" where
  [py_defs]: "r_hgetall R h = py_gets (\<lambda>n. hgetall R (store n) h)"

definition r_hset :: "'s redis_ops \<Rightarrow> string \<Rightarrow> string \<Rightarrow> json \<Rightarrow> ('s, 'w, unit) svc" where
  [py_defs]: "r_hset R h k v = py_modify (\<lambda>n. n\<lparr>store := hset R (store n) h k v\<rparr>)"

definition r_hsetnx :: "'s redis_ops \<Rightarrow> string \<Rightarrow> string \<Rightarrow> json \<Rightarrow> ('s, 'w, unit) svc" where
  [py_defs]: "r_hsetnx R h k v = py_modify (\<lambda>n. n\<lparr>store := hsetnx R (store n) h k v\<rparr>)"

definition r_hdel :: "'s redis_ops \<Rightarrow> string \<Rightarrow> string list \<Rightarrow> ('s, 'w, unit) svc" where
  [py_defs]: "r_hdel R h ks = py_modify (\<lambda>n. n\<lparr>store := hdel R (store n) h ks\<rparr>)"

definition r_publish :: "'s redis_ops \<Rightarrow> string \<Rightarrow> json \<Rightarrow> ('s, 'w, unit) svc" where
  [py_defs]: "r_publish R c v = py_modify (\<lambda>n. n\<lparr>store := publish R (store n) c v\<rparr>)"

definition w_http :: "'w world_ops \<Rightarrow> http_request \<Rightarrow> ('s, 'w, int \<times> json) svc" where
  [py_defs]: "w_http W rq = (\<lambda>n. case http W (world n) rq of (r, w) \<Rightarrow>
     (case r of HReply st b \<Rightarrow> Inr (st, b) | HFail e \<Rightarrow> Inl e, n\<lparr>world := w\<rparr>))"

definition w_time :: "'w world_ops \<Rightarrow> ('s, 'w, rat) svc" where
  [py_defs]: "w_time W = py_gets (\<lambda>n. clock W (world n))"

definition w_uuid4 :: "'w world_ops \<Rightarrow> ('s, 'w, string) svc" where
  [py_defs]: "w_uuid4 W = (\<lambda>n. case uuid4 W (world n) of (u, w) \<Rightarrow> (Inr u, n\<lparr>world := w\<rparr>))"

definition w_sleep :: "'w world_ops \<Rightarrow> rat \<Rightarrow> ('s, 'w, unit) svc" where
  [py_defs]: "w_sleep W d = py_modify (\<lambda>n. n\<lparr>world := sleep W d (world n)\<rparr>)"

section \<open>Invariants of the stored entries\<close>

text \<open>\<open>entries R P\<close>: every entry of every hash satisfies \<open>P\<close>, given the hash and the key.\<close>

definition entries ::
    "'s redis_ops \<Rightarrow> (string \<Rightarrow> string \<Rightarrow> json \<Rightarrow> bool) \<Rightarrow> ('s, 'w) node \<Rightarrow> bool" where
  "entries R P n \<longleftrightarrow> (\<forall>h k v. hget R (store n) h k = Some v \<longrightarrow> P h k v)"

lemma entries_store_cong: "store n = store n' \<Longrightarrow> entries R P n = entries R P n'"
  by (simp add: entries_def)

lemma entries_http [py_inv_intro]: "py_inv (entries R P) (w_http W rq)"
  by (auto simp: py_inv_def w_http_def entries_def split: prod.splits)

lemma entries_time [py_inv_intro]: "py_inv (entries R P) (w_time W)"
  by (simp add: w_time_def py_inv_intro)

lemma entries_sleep [py_inv_intro]: "py_inv (entries R P) (w_sleep W d)"
  by (simp add: py_inv_def w_sleep_def py_modify_def entries_def)

lemma entries_uuid4 [py_inv_intro]: "py_inv (entries R P) (w_uuid4 W)"
  by (auto simp: py_inv_def w_uuid4_def entries_def split: prod.splits)

lemma entries_r_hget: "py_spec (entries R P) (r_hget R h k) (\<lambda>v. \<forall>x. v = Some x \<longrightarrow> P h k x)"
  by (auto simp: py_spec_def r_hget_def py_gets_def entries_def)

lemma entries_hget [py_inv_intro]: "py_inv (entries R P) (r_hget R h k)"
  by (rule py_spec_inv [OF entries_r_hget])

lemma entries_hgetall [py_inv_intro]: "py_inv (entries R P) (r_hgetall R h)"
  by (simp add: r_hgetall_def py_inv_intro)

context redis_server
begin

lemma hgetall_SomeD: "(k, v) \<in> set (hgetall R s h) \<longleftrightarrow> hget R s h k = Some v"
  by (metis hgetall_distinct hgetall_hget map_of_eq_Some_iff)

lemma hgetall_keys: "k \<in> fst ` set (hgetall R s h) \<longleftrightarrow> hget R s h k \<noteq> None"
  by (metis dom_map_of_conv_image_fst domIff hgetall_hget)

lemma hdel_hset_same: "hget R (hdel R (hset R s h k v) h [k]) h' k' = hget R (hdel R s h [k]) h' k'"
  by (simp add: hget_hdel hget_hset)

lemma entries_hset: "P h k v \<Longrightarrow> py_inv (entries R P) (r_hset R h k v)"
  by (auto simp: py_inv_def r_hset_def py_modify_def entries_def hget_hset)

lemma entries_hsetnx: "P h k v \<Longrightarrow> py_inv (entries R P) (r_hsetnx R h k v)"
  by (auto simp: py_inv_def r_hsetnx_def py_modify_def entries_def hget_hsetnx)

lemma entries_hdel: "py_inv (entries R P) (r_hdel R h ks)"
  by (auto simp: py_inv_def r_hdel_def py_modify_def entries_def hget_hdel)

lemma entries_publish: "py_inv (entries R P) (r_publish R c v)"
  by (simp add: py_inv_def r_publish_def py_modify_def entries_def hget_publish)

lemma entries_r_hgetall:
  "py_spec (entries R P) (r_hgetall R h) (\<lambda>kvs. \<forall>k v. (k, v) \<in> set kvs \<longrightarrow> P h k v)"
  by (auto simp: py_spec_def r_hgetall_def py_gets_def entries_def hgetall_SomeD)

end

section \<open>An in-memory store\<close>

text \<open>Hashes and their fields in the order they were first written, and the published messages.\<close>

record mem =
  hashes :: "json dict dict"
  published :: "json dict"

definition mem_hash :: "mem \<Rightarrow> string \<Rightarrow> json dict" where
  "mem_hash m h = (case map_of (hashes m) h of Some d \<Rightarrow> d | None \<Rightarrow> [])"

definition mem_put :: "mem \<Rightarrow> string \<Rightarrow> json dict \<Rightarrow> mem" where
  "mem_put m h d = m\<lparr>hashes := AList.update h d (hashes m)\<rparr>"

definition mem_hset :: "mem \<Rightarrow> string \<Rightarrow> string \<Rightarrow> json \<Rightarrow> mem" where
  "mem_hset m h k v = mem_put m h (AList.update k v (mem_hash m h))"

definition mem_redis :: "mem redis_ops" where
  "mem_redis = \<lparr>
     hget = (\<lambda>m h k. map_of (mem_hash m h) k),
     hgetall = (\<lambda>m h. AList.clearjunk (mem_hash m h)),
     hset = mem_hset,
     hsetnx = (\<lambda>m h k v. if map_of (mem_hash m h) k = None then mem_hset m h k v else m),
     hdel = (\<lambda>m h ks. mem_put m h (filter (\<lambda>p. fst p \<notin> set ks) (mem_hash m h))),
     publish = (\<lambda>m c v. m\<lparr>published := published m @ [(c, v)]\<rparr>)\<rparr>"

lemma mem_hash_put: "mem_hash (mem_put m h d) h' = (if h' = h then d else mem_hash m h')"
  by (simp add: mem_hash_def mem_put_def update_conv')

lemma map_of_filter_notin:
  "map_of (filter (\<lambda>p. fst p \<notin> A) d) k = (if k \<in> A then None else map_of d k)"
  by (induction d) auto

interpretation mem_redis: redis_server mem_redis
  by unfold_locales
    (auto simp: mem_redis_def mem_hset_def mem_hash_put map_of_filter_notin map_of_clearjunk
      distinct_clearjunk update_conv' mem_hash_def [of "m\<lparr>published := p\<rparr>" for m p]
      mem_hash_def [symmetric])

lemma entries_mem: "entries mem_redis P n \<longleftrightarrow>
    (\<forall>h d k v. map_of (hashes (store n)) h = Some d \<longrightarrow> map_of d k = Some v \<longrightarrow> P h k v)"
  by (auto simp: entries_def mem_redis_def mem_hash_def split: option.splits)

text \<open>A world whose peers answer by a fixed table and whose clock stands still between requests; the
  witnesses run in it.\<close>

definition scripted :: "(http_request \<Rightarrow> http_result) \<Rightarrow> rat world_ops" where
  "scripted answer = \<lparr>http = (\<lambda>t rq. (answer rq, t)), clock = (\<lambda>t. t),
     uuid4 = (\<lambda>t. (''6f1a'', t)), sleep = (\<lambda>d t. t + d)\<rparr>"

text \<open>A node of the service with the given hashes at a given time.\<close>

definition at_time :: "rat \<Rightarrow> json dict dict \<Rightarrow> (mem, rat) node" where
  "at_time t hs = \<lparr>store = \<lparr>hashes = hs, published = []\<rparr>, world = t\<rparr>"

lemma scripted_simps [simp]:
  "http (scripted answer) t rq = (answer rq, t)"
  "clock (scripted answer) t = t"
  "uuid4 (scripted answer) t = (''6f1a'', t)"
  "sleep (scripted answer) d t = t + d"
  by (simp_all add: scripted_def)

lemma at_time_simps [simp]:
  "store (at_time t hs) = \<lparr>hashes = hs, published = []\<rparr>"
  "world (at_time t hs) = t"
  by (simp_all add: at_time_def)

text \<open>Running the in-memory store.\<close>

lemma mem_run:
  "hget mem_redis m h k = map_of (mem_hash m h) k"
  "hgetall mem_redis m h = AList.clearjunk (mem_hash m h)"
  "hset mem_redis m h k v = mem_put m h (AList.update k v (mem_hash m h))"
  "hsetnx mem_redis m h k v =
     (if map_of (mem_hash m h) k = None then mem_put m h (AList.update k v (mem_hash m h)) else m)"
  "hdel mem_redis m h ks = mem_put m h (filter (\<lambda>p. fst p \<notin> set ks) (mem_hash m h))"
  "publish mem_redis m c v = m\<lparr>published := published m @ [(c, v)]\<rparr>"
  by (simp_all add: mem_redis_def mem_hset_def)

lemma mem_hash_run [simp]:
  "mem_hash \<lparr>hashes = hs, published = p\<rparr> h = (case map_of hs h of Some d \<Rightarrow> d | None \<Rightarrow> [])"
  by (simp add: mem_hash_def)

lemmas mem_defs = mem_redis_def mem_hset_def mem_put_def mem_hash_def

end
