(* ===== verification/Provisioner_Store.thy ===== *)
theory Provisioner_Store
  imports Redis_Store
begin

text \<open>
  The allocate service's Redis client (\<open>hwallocator/provisioner/webapp/redisclient.py\<close>): the two
  hashes \<open>resource_managers\<close> and \<open>allocations\<close>, the operations that write them, and the invariant
  of the stored allocations that all operations of the service keep.
\<close>

section \<open>Reading\<close>

definition resource_managers :: "'s redis_ops \<Rightarrow> json \<Rightarrow> ('s, 'w, json) svc" where
  "resource_managers R rm = (if truthy rm then
      py_bind (py_lift (jkey rm)) (\<lambda>k.
      py_bind (r_hget R ''resource_managers'' k) (\<lambda>v.
        (case v of None \<Rightarrow> py_raise (Exn TypeErr ''the JSON object must be str'')
                 | Some x \<Rightarrow> py_return x)))
    else
      py_bind (r_hgetall R ''resource_managers'') (\<lambda>kvs. py_return (JObj kvs)))"

definition allocations :: "'s redis_ops \<Rightarrow> json \<Rightarrow> ('s, 'w, json) svc" where
  "allocations R aid = (if truthy aid then
      py_bind (py_lift (jkey aid)) (\<lambda>k.
      py_bind (r_hget R ''allocations'' k) (\<lambda>v.
        py_return (case v of None \<Rightarrow> JNull | Some a \<Rightarrow> a)))
    else
      py_bind (r_hgetall R ''allocations'') (\<lambda>kvs. py_return (JObj kvs)))"

section \<open>Writing\<close>

text \<open>\<open>int(time.time()) + 60\<close>\<close>

definition expiry_in :: "rat \<Rightarrow> int \<Rightarrow> json" where
  "expiry_in t d = JNum (of_int (\<lfloor>t\<rfloor> + d))"

text \<open>\<open>save_request\<close> mutates its argument, so the model returns it.\<close>

definition save_request :: "'s redis_ops \<Rightarrow> 'w world_ops \<Rightarrow> json \<Rightarrow> ('s, 'w, json) svc" where
  "save_request R W request =
     py_bind (py_lift (jset request ''status'' (JStr ''received''))) (\<lambda>request.
     py_bind (w_time W) (\<lambda>t.
     py_bind (py_lift (jset request ''expiration'' (expiry_in t 60))) (\<lambda>request.
     py_bind (py_lift (res_bind (jitem request ''allocation_id'') jkey)) (\<lambda>k.
     py_then (r_hset R ''allocations'' k request) (py_return request)))))"

definition update_status :: "'s redis_ops \<Rightarrow> json \<Rightarrow> json dict \<Rightarrow> ('s, 'w, unit) svc" where
  "update_status R aid kw =
     py_bind (allocations R aid) (\<lambda>allocation.
     py_bind (py_lift (jupdate allocation kw)) (\<lambda>allocation.
     py_bind (py_lift (res_bind (jitem allocation ''allocation_id'') jkey)) (\<lambda>k.
       r_hset R ''allocations'' k allocation)))"

text \<open>One entry of \<open>hardware_details\<close>.\<close>

definition hardware_detail :: "json \<Rightarrow> json \<Rightarrow> json res" where
  "hardware_detail rm vm =
     res_bind (res_bind (res_bind (jitem vm ''net_ifaces'') jfirst) (\<lambda>i. jitem i ''ip'')) (\<lambda>ip.
     res_bind (jget vm ''user'' JNull) (\<lambda>user.
     res_bind (jget vm ''password'' JNull) (\<lambda>password.
     res_bind (jget vm ''pem_key_string'' JNull) (\<lambda>pem.
     res_bind (jget vm ''key_file_path'' JNull) (\<lambda>keyfile.
     res_bind (jitem rm ''endpoint'') (\<lambda>ep.
     res_bind (jitem vm ''name'') (\<lambda>name.
       Inr (JObj [(''ip'', ip), (''user'', user), (''password'', password),
         (''pem_key_string'', pem), (''key_file_path'', keyfile),
         (''resource_manager_ep'', ep), (''vm_id'', name)]))))))))"

definition save_fulfilled_request ::
    "'s redis_ops \<Rightarrow> 'w world_ops \<Rightarrow> json \<Rightarrow> json \<Rightarrow> json \<Rightarrow> ('s, 'w, unit) svc" where
  "save_fulfilled_request R W aid rm result =
     py_bind (py_lift (res_bind (jitem result ''info'') jiter)) (\<lambda>vms.
     py_bind (py_lift (res_collect vms (hardware_detail rm))) (\<lambda>details.
     py_bind (py_lift (jitem rm ''endpoint'')) (\<lambda>ep.
     py_bind (w_time W) (\<lambda>t.
       update_status R aid
         [(''resource_manager'', ep), (''hardware_details'', JList details),
          (''result'', result), (''status'', JStr ''success''),
          (''expiration'', expiry_in t 60)]))))"

definition delete :: "'s redis_ops \<Rightarrow> string \<Rightarrow> string list \<Rightarrow> ('s, 'w, unit) svc" where
  "delete R key ks = r_hdel R key ks"

lemmas store_defs = resource_managers_def allocations_def save_request_def update_status_def
  save_fulfilled_request_def delete_def

section \<open>The invariant of the stored allocations\<close>

text \<open>The states an allocation is ever stored in.\<close>

definition stored_statuses :: "string list" where
  "stored_statuses = [''received'', ''allocating'', ''success'', ''exception'', ''cancelled'',
     ''unknown'', ''deallocating'', ''error_deallocating'', ''deallocated'']"

definition wf_allocation :: "string \<Rightarrow> json \<Rightarrow> bool" where
  "wf_allocation k a \<longleftrightarrow> fld a ''allocation_id'' = Some (JStr k)
     \<and> (case fld a ''status'' of Some (JStr st) \<Rightarrow> st \<in> set stored_statuses | _ \<Rightarrow> False)
     \<and> (case fld a ''expiration'' of Some (JNum _) \<Rightarrow> True | _ \<Rightarrow> False)"

definition wf_entry :: "string \<Rightarrow> string \<Rightarrow> json \<Rightarrow> bool" where
  "wf_entry h k v \<longleftrightarrow> (h = ''allocations'' \<longrightarrow> wf_allocation k v)"

text \<open>The keyword arguments that \<open>update_status\<close> may be called with.\<close>

definition good_kw :: "string \<times> json \<Rightarrow> bool" where
  "good_kw p \<longleftrightarrow> fst p \<noteq> ''allocation_id''
     \<and> (fst p = ''status'' \<longrightarrow> (case snd p of JStr st \<Rightarrow> st \<in> set stored_statuses | _ \<Rightarrow> False))
     \<and> (fst p = ''expiration'' \<longrightarrow> (case snd p of JNum _ \<Rightarrow> True | _ \<Rightarrow> False))"

lemma jkey_Inr_iff [simp]: "jkey v = Inr k \<longleftrightarrow> v = JStr k"
  by (auto simp: jkey_def split: json.splits)

lemma fld_fld_not_JStr: "fld a k = Some v \<Longrightarrow> a \<noteq> JStr s"
  by (auto simp: fld_def)

lemma wf_allocation_update:
  assumes wf: "wf_allocation k a" and good: "\<forall>p \<in> set kw. good_kw p"
    and upd: "jupdate a kw = Inr a'"
  shows "wf_allocation k a'"
proof -
  have kw: "good_kw (x, v)" if "map_of (rev kw) x = Some v" for x v
    using map_of_SomeD [OF that] good by simp
  then have "map_of (rev kw) ''allocation_id'' = None"
    by (cases "map_of (rev kw) ''allocation_id''") (auto simp: good_kw_def)
  with wf show ?thesis
    using kw [of "''status''"] kw [of "''expiration''"]
    by (auto simp: wf_allocation_def fld_jupdate [OF upd] good_kw_def
        split: option.splits)
qed

context redis_server
begin

lemma allocations_spec:
  "py_spec (entries R wf_entry) (allocations R aid)
     (\<lambda>a. \<forall>k. fld a ''allocation_id'' = Some (JStr k) \<longrightarrow> wf_allocation k a)"
proof (cases "truthy aid")
  case True
  then show ?thesis
    unfolding allocations_def if_P [OF True]
    by (intro py_spec_bind [OF py_spec_lift [where Q = "\<lambda>k. aid = JStr k"]]
        py_spec_bind [OF entries_r_hget] py_spec_return)
      (auto simp: wf_entry_def wf_allocation_def fld_def split: option.splits)
next
  case False
  have none: "map_of kvs ''allocation_id'' \<noteq> Some (JStr k)"
    if wf: "\<forall>k v. (k, v) \<in> set kvs \<longrightarrow> wf_entry ''allocations'' k v" for kvs k
  proof
    assume "map_of kvs ''allocation_id'' = Some (JStr k)"
    from map_of_SomeD [OF this] wf have "wf_allocation ''allocation_id'' (JStr k)"
      by (simp add: wf_entry_def)
    then show False by (simp add: wf_allocation_def fld_def)
  qed
  show ?thesis
    unfolding allocations_def if_not_P [OF False]
    by (intro py_spec_bind [OF entries_r_hgetall] py_spec_return) (auto simp: none)
qed

lemma allocations_all_spec:
  "py_spec (entries R P) (allocations R JNull)
     (\<lambda>a. \<forall>kvs. a = JObj kvs \<longrightarrow> (\<forall>(k, v) \<in> set kvs. P ''allocations'' k v))"
  unfolding allocations_def
  by (auto intro!: py_spec_bind [OF entries_r_hgetall] py_spec_return)

lemmas allocations_inv = py_spec_inv [OF allocations_spec]

lemma save_request_inv: "py_inv (entries R wf_entry) (save_request R W request)"
proof -
  have wf: "wf_entry ''allocations'' k r2"
    if "jset request ''status'' (JStr ''received'') = Inr r1"
      "jset r1 ''expiration'' (expiry_in t 60) = Inr r2"
      "fld r2 ''allocation_id'' = Some (JStr k)" for r1 r2 t k
    using that by (auto simp: wf_entry_def wf_allocation_def fld_jset [OF that(2)]
        fld_jset [OF that(1)] expiry_in_def stored_statuses_def)
  have *: "py_inv (entries R wf_entry)
      (py_bind (py_lift (res_bind (jitem r2 ''allocation_id'') jkey))
        (\<lambda>k. py_then (r_hset R ''allocations'' k r2) (py_return r2)))"
    if "jset request ''status'' (JStr ''received'') = Inr r1"
      "jset r1 ''expiration'' (expiry_in t 60) = Inr r2" for r1 r2 t
    by (rule py_inv_bind_spec [where Q = "\<lambda>k. fld r2 ''allocation_id'' = Some (JStr k)"])
      (auto intro!: py_spec_lift py_inv_then entries_hset py_inv_return wf [OF that]
        simp: jitem_Inr_iff)
  show ?thesis
    unfolding save_request_def
    by (intro py_inv_bind_spec [OF py_spec_lift [where Q = "\<lambda>r. jset request _ _ = Inr r"]]
          py_inv_bind entries_time
          py_inv_bind_spec [OF py_spec_lift [where Q = "\<lambda>r. jset _ ''expiration'' _ = Inr r"]] *)
qed

lemma update_status_inv:
  assumes "\<forall>p \<in> set kw. good_kw p"
  shows "py_inv (entries R wf_entry) (update_status R aid kw)"
proof -
  have *: "py_inv (entries R wf_entry)
      (py_bind (py_lift (jupdate a kw)) (\<lambda>a'.
       py_bind (py_lift (res_bind (jitem a' ''allocation_id'') jkey)) (\<lambda>k.
         r_hset R ''allocations'' k a')))"
    if a: "\<forall>k. fld a ''allocation_id'' = Some (JStr k) \<longrightarrow> wf_allocation k a" for a
  proof (intro py_inv_bind_spec [OF py_spec_lift [where Q = "\<lambda>a'. jupdate a kw = Inr a'"]]
      py_inv_bind_spec [OF py_spec_lift [where Q = "\<lambda>k. fld _ ''allocation_id'' = Some (JStr k)"]]
      entries_hset)
    fix a' k
    assume upd: "jupdate a kw = Inr a'" and k: "fld a' ''allocation_id'' = Some (JStr k)"
    have "map_of (rev kw) ''allocation_id'' = None"
      using assms by (auto simp: map_of_eq_None_iff good_kw_def)
    with k have "fld a ''allocation_id'' = Some (JStr k)"
      by (simp add: fld_jupdate [OF upd])
    with a assms upd show "wf_entry ''allocations'' k a'"
      by (auto simp: wf_entry_def intro: wf_allocation_update)
  qed (simp_all add: jitem_Inr_iff)
  show ?thesis
    unfolding update_status_def by (rule py_inv_bind_spec [OF allocations_spec *])
qed

lemma save_fulfilled_request_inv:
  "py_inv (entries R wf_entry) (save_fulfilled_request R W aid rm result)"
  unfolding save_fulfilled_request_def
  by (intro py_inv_intro entries_time update_status_inv)
    (simp add: good_kw_def expiry_in_def stored_statuses_def)

lemma delete_inv: "py_inv (entries R P) (delete R h ks)"
  by (simp add: delete_def entries_hdel)

end

end
