(* ===== verification/Rm_Requestor.thy ===== *)
theory Rm_Requestor
  imports Redis_Store
begin

text \<open>
  The allocate service's HTTP client for resource managers
  (\<open>hwallocator/provisioner/webapp/rm_requestor.py\<close>): one request per function, with the checks the
  code makes on the reply.
\<close>

definition theoretically_url :: "string \<Rightarrow> string" where
  "theoretically_url ep = ''http://'' @ ep @ ''/fulfill/theoretically''"

definition now_url :: "string \<Rightarrow> string" where
  "now_url ep = ''http://'' @ ep @ ''/fulfill/now''"

definition deallocate_url :: "string \<Rightarrow> string \<Rightarrow> string" where
  "deallocate_url ep name = ''http://'' @ ep @ ''/deallocate/'' @ name"

definition allocations_url :: "string \<Rightarrow> string \<Rightarrow> string" where
  "allocations_url ep aid = ''http://'' @ ep @ ''/allocations/'' @ aid"

text \<open>The other side: the routes a resource manager serves for these requests.  A \<open>{name}\<close> in a route
  matches one path segment; aiohttp answers an exception of a handler with 500 and an unknown route
  with 404.\<close>

definition url_segment :: "string \<Rightarrow> bool" where
  "url_segment s \<longleftrightarrow> s \<noteq> [] \<and> CHR ''/'' \<notin> set s"

definition strip_prefix :: "string \<Rightarrow> string \<Rightarrow> string option" where
  "strip_prefix p s = (if take (length p) s = p then Some (drop (length p) s) else None)"

definition serve :: "('n, int \<times> json) py \<Rightarrow> 'n \<Rightarrow> http_result \<times> 'n" where
  "serve h n = (case h n of (r, n') \<Rightarrow>
     (case r of Inl e \<Rightarrow> HReply 500 JNull | Inr (st, b) \<Rightarrow> HReply st b, n'))"

definition rm_http :: "string \<Rightarrow> (json \<Rightarrow> ('n, int \<times> json) py) \<Rightarrow> (json \<Rightarrow> ('n, int \<times> json) py) \<Rightarrow>
    (string \<Rightarrow> ('n, int \<times> json) py) \<Rightarrow> (string \<Rightarrow> ('n, int \<times> json) py) \<Rightarrow>
    'n \<Rightarrow> http_request \<Rightarrow> http_result \<times> 'n" where
  "rm_http ep theoretically now dealloc alloc n rq =
     (if req_verb rq = POST \<and> req_url rq = theoretically_url ep then serve (theoretically (req_body rq)) n
      else if req_verb rq = POST \<and> req_url rq = now_url ep then serve (now (req_body rq)) n
      else if req_verb rq = DELETE then
        (case strip_prefix (deallocate_url ep []) (req_url rq) of
           Some name \<Rightarrow> if url_segment name then serve (dealloc name) n else (HReply 404 JNull, n)
         | None \<Rightarrow> (HReply 404 JNull, n))
      else if req_verb rq = GET then
        (case strip_prefix (allocations_url ep []) (req_url rq) of
           Some aid \<Rightarrow> if url_segment aid then serve (alloc aid) n else (HReply 404 JNull, n)
         | None \<Rightarrow> (HReply 404 JNull, n))
      else (HReply 404 JNull, n))"

lemma serve_snd: "snd (serve h n) = snd (h n)"
  by (auto simp: serve_def split: prod.splits sum.splits)

lemma strip_prefix_append [simp]: "strip_prefix p (p @ s) = Some s"
  by (simp add: strip_prefix_def)

lemma urls_differ: "theoretically_url ep \<noteq> now_url ep" "now_url ep \<noteq> theoretically_url ep"
  by (simp_all add: theoretically_url_def now_url_def)

lemma deallocate_url_append: "deallocate_url ep k = deallocate_url ep [] @ k"
  by (simp add: deallocate_url_def)

lemma allocations_url_append: "allocations_url ep k = allocations_url ep [] @ k"
  by (simp add: allocations_url_def)

lemma rm_http_simps [simp]:
  "rm_http ep theoretically now dealloc alloc n \<lparr>req_verb = POST, req_url = theoretically_url ep, req_body = b\<rparr>
    = serve (theoretically b) n"
  "rm_http ep theoretically now dealloc alloc n \<lparr>req_verb = POST, req_url = now_url ep, req_body = b\<rparr>
    = serve (now b) n"
  "url_segment k \<Longrightarrow>
    rm_http ep theoretically now dealloc alloc n \<lparr>req_verb = DELETE, req_url = deallocate_url ep k, req_body = JNull\<rparr>
    = serve (dealloc k) n"
  "url_segment k \<Longrightarrow>
    rm_http ep theoretically now dealloc alloc n \<lparr>req_verb = GET, req_url = allocations_url ep k, req_body = JNull\<rparr>
    = serve (alloc k) n"
  by (simp_all add: rm_http_def urls_differ deallocate_url_append [of ep k] allocations_url_append [of ep k])

text \<open>The bare \<open>except\<close> turns every failure after the endpoint is read, a reply other than 200 and
  a reply without \<open>machines\<close> included, into a \<open>ConnectionError\<close>.\<close>

definition theoretically_fulfill ::
    "'w world_ops \<Rightarrow> json \<Rightarrow> json \<Rightarrow> ('s, 'w, json \<times> json) svc" where
  "theoretically_fulfill W rm data =
     py_bind (py_lift (jitem rm ''endpoint'')) (\<lambda>ep.
     py_try
       (py_bind (w_http W \<lparr>req_verb = POST, req_url = theoretically_url (py_str ep), req_body = data\<rparr>)
         (\<lambda>(status, result).
           if status \<noteq> 200 then py_raise (Exn PlainException ''cant theoretically fulfill'')
           else py_bind (py_lift (jitem result ''machines'')) (\<lambda>ms. py_return (rm, ms))))
       (\<lambda>_. py_raise (Exn ConnectionErr (''Couldnt connect to resource_manager '' @ py_str ep))))"

definition rm_allocate :: "'w world_ops \<Rightarrow> json \<Rightarrow> json \<Rightarrow> ('s, 'w, json) svc" where
  "rm_allocate W ep data =
     py_bind (w_http W \<lparr>req_verb = POST, req_url = now_url (py_str ep), req_body = data\<rparr>)
       (\<lambda>(status, result).
         if status \<noteq> 200 then py_raise (Exn PlainException (''Error allocating on ep '' @ py_str ep))
         else py_return result)"

definition rm_deallocate :: "'w world_ops \<Rightarrow> json \<Rightarrow> json \<Rightarrow> ('s, 'w, json) svc" where
  "rm_deallocate W name ep =
     py_bind (w_http W \<lparr>req_verb = DELETE, req_url = deallocate_url (py_str ep) (py_str name), req_body = JNull\<rparr>)
       (\<lambda>(status, result).
         if status \<noteq> 200 then py_raise (Exn PlainException (''Error deallocating resource '' @ py_str name))
         else py_return result)"

definition check_status :: "'w world_ops \<Rightarrow> json \<Rightarrow> json \<Rightarrow> ('s, 'w, json) svc" where
  "check_status W aid ep =
     py_bind (w_http W \<lparr>req_verb = GET, req_url = allocations_url (py_str ep) (py_str aid), req_body = JNull\<rparr>)
       (\<lambda>(status, result).
         if status \<noteq> 200 then py_raise (Exn PlainException (''Error getting status of '' @ py_str aid))
         else py_return result)"

lemmas requestor_defs = theoretically_fulfill_def rm_allocate_def rm_deallocate_def check_status_def

text \<open>The requests touch no hash.\<close>

lemma requestor_inv [py_inv_intro]:
  "py_inv (entries R P) (theoretically_fulfill W rm data)"
  "py_inv (entries R P) (rm_allocate W ep data)"
  "py_inv (entries R P) (rm_deallocate W name ep)"
  "py_inv (entries R P) (check_status W aid ep)"
  unfolding requestor_defs by (intro py_inv_intro)+

text \<open>The store is not even read: a request changes nothing of a node but its world.\<close>

lemma store_w_http [simp]: "store (snd (w_http W rq n)) = store n"
  by (simp add: w_http_def split: prod.splits)

lemma py_inv_store_http [py_inv_intro]: "py_inv (\<lambda>n. store n = s) (w_http W rq)"
  by (simp add: py_inv_def)

lemma store_requestor:
  "py_inv (\<lambda>n. store n = s) (theoretically_fulfill W rm data)"
  "py_inv (\<lambda>n. store n = s) (rm_allocate W ep data)"
  "py_inv (\<lambda>n. store n = s) (rm_deallocate W name ep)"
  "py_inv (\<lambda>n. store n = s) (check_status W aid ep)"
  unfolding requestor_defs by (intro py_inv_intro)+

text \<open>A resource manager is a potential fulfiller only with a reply of status 200 that has
  \<open>machines\<close>.\<close>

lemma theoretically_fulfill_InrD:
  assumes "theoretically_fulfill W rm data n = (Inr p, n')"
  obtains ep w b where "fld rm ''endpoint'' = Some ep"
    and "http W (world n) \<lparr>req_verb = POST, req_url = theoretically_url (py_str ep), req_body = data\<rparr> = (HReply 200 b, w)"
    and "fld b ''machines'' = Some (snd p)" and "fst p = rm" and "n' = n\<lparr>world := w\<rparr>"
  using assms
  by (auto simp: theoretically_fulfill_def py_defs dest!: jitem_InrD
      split: sum.splits prod.splits http_result.splits if_splits)

end
