(* ===== verification/Fulfiller.thy ===== *)
theory Fulfiller
  imports Provisioner_Store Rm_Requestor
begin

text \<open>
  The heart of the allocate service (\<open>hwallocator/provisioner/webapp/fulfiller.py\<close>): which resource
  managers can serve a request, which hosts each of them is asked for, the calls that allocate and
  the status the allocation record goes through, and the release.  A \<open>Fulfiller\<close> is created for each
  request (\<open>rest.py\<close>), so its lock is a fresh object that never makes anyone wait; it has no part in
  the model.  \<open>shield\<close> has an effect for the cancelled caller only: the call comes back as a
  \<open>CancelledErr\<close> while the resource manager goes on.
\<close>

section \<open>Which resource managers can serve\<close>

text \<open>The registrations that are not among the keys of the live ones are deleted.\<close>

definition remove_unavailable_rms ::
    "'s redis_ops \<Rightarrow> (json \<times> json) list \<Rightarrow> json dict \<Rightarrow> ('s, 'w, unit) svc" where
  "remove_unavailable_rms R live_rms all_rms =
     py_bind (py_lift (res_collect live_rms (\<lambda>p. jitem (fst p) ''key''))) (\<lambda>live.
       (let dead = filter (\<lambda>k. JStr k \<notin> set live) (map fst all_rms)
        in if dead \<noteq> [] then delete R ''resource_managers'' dead else py_return ()))"

fun successes :: "'a res list \<Rightarrow> 'a list" where
  "successes [] = []"
| "successes (Inl e # rs) = successes rs"
| "successes (Inr x # rs) = x # successes rs"

definition find_potential_fulfillers ::
    "'s redis_ops \<Rightarrow> 'w world_ops \<Rightarrow> json \<Rightarrow> ('s, 'w, (json \<times> json) list) svc" where
  "find_potential_fulfillers R W aid =
     py_bind (allocations R aid) (\<lambda>allocation_request.
     py_bind (resource_managers R JNull) (\<lambda>rms.
     py_bind (py_lift (jobj rms)) (\<lambda>rms.
     py_bind (py_lift (res_collect rms (\<lambda>(key, rm). jset rm ''key'' (JStr key)))) (\<lambda>keyed.
     py_bind (py_gather keyed (\<lambda>rm. theoretically_fulfill W rm allocation_request)) (\<lambda>rs.
     (let potentials = successes rs in
      py_then (remove_unavailable_rms R potentials rms) (py_return potentials)))))))"

text \<open>\<open>possible_machines\<close>: the number of different hosts the potential fulfillers offer.\<close>

fun hashable :: "json \<Rightarrow> bool" where
  "hashable (JList _) = False"
| "hashable (JObj _) = False"
| "hashable _ = True"

definition possible_machines :: "(json \<times> json) list \<Rightarrow> json list res" where
  "possible_machines ps = res_bind
     (res_collect ps (\<lambda>p. res_bind (jiter (snd p)) (\<lambda>xs.
        if \<forall>x \<in> set xs. hashable x then Inr xs else Inl (Exn TypeErr ''unhashable type''))))
     (\<lambda>xss. Inr (remdups (concat xss)))"

definition all_possible :: "(json \<times> json) list \<Rightarrow> json \<Rightarrow> bool res" where
  "all_possible ps request = (if ps = [] then Inr False else
     res_bind (possible_machines ps) (\<lambda>machines.
     res_bind (res_bind (jitem request ''demands'') jobj) (\<lambda>demands.
       Inr (length machines = length demands))))"

section \<open>Who is asked for what\<close>

text \<open>
  \<open>for host in hosts: if host in others: hosts.remove(host)\<close>.  The list is edited while the loop
  walks it by position, so the element that moves into the place of a removed one is not visited.
\<close>

function drop_shared :: "'h list \<Rightarrow> nat \<Rightarrow> 'h list \<Rightarrow> 'h list" where
  "drop_shared others i hosts =
     (if i < length hosts then
        drop_shared others (Suc i)
          (if hosts ! i \<in> set others then remove1 (hosts ! i) hosts else hosts)
      else hosts)"
  by pat_completeness auto
termination
  by (relation "measure (\<lambda>(others, i, hosts). length hosts - i)") (auto simp: length_remove1)

declare drop_shared.simps [simp del]

text \<open>One turn of the outer loop: position \<open>i\<close> of the list of fulfillers.  \<open>copy()\<close> copies the outer
  list only, so the turn sees what the earlier turns left.\<close>

definition dedupe_at :: "('r \<times> 'h list) list \<Rightarrow> nat \<Rightarrow> ('r \<times> 'h list) list" where
  "dedupe_at ps i = (let (rm, hosts) = ps ! i
     in ps[i := (rm, drop_shared (concat (map snd (remove1 (rm, hosts) ps))) 0 hosts)])"

definition dedupe :: "('r \<times> 'h list) list \<Rightarrow> ('r \<times> 'h list) list" where
  "dedupe ps = foldl dedupe_at ps [0..<length ps]"

fun dedupe_loop :: "'s redis_ops \<Rightarrow> json \<Rightarrow> nat list \<Rightarrow> (json \<times> json list) list
    \<Rightarrow> ('s, 'w, (json \<times> json list) list) svc" where
  "dedupe_loop R aid [] ps = py_return ps"
| "dedupe_loop R aid (i # is) ps =
     py_bind (py_lift (jitem (fst (ps ! i)) ''endpoint'')) (\<lambda>ep.
     py_then (update_status R aid
         [(''status'', JStr ''allocating''), (''rm_endpoint'', ep), (''message'', JStr ''in progress'')])
       (dedupe_loop R aid is (dedupe_at ps i)))"

text \<open>The demands that stay in the request sent to one resource manager.\<close>

definition restrict_demands :: "json \<Rightarrow> json list \<Rightarrow> json res" where
  "restrict_demands request hosts =
     res_bind (res_bind (jitem request ''demands'') jobj) (\<lambda>demands.
       jset request ''demands'' (JObj (filter (\<lambda>p. JStr (fst p) \<in> set hosts) demands)))"

section \<open>Allocating\<close>

fun fulfil_loop :: "'s redis_ops \<Rightarrow> 'w world_ops \<Rightarrow> json \<Rightarrow> (json \<times> json list) list
    \<Rightarrow> ('s, 'w, unit) svc" where
  "fulfil_loop R W aid [] = py_return ()"
| "fulfil_loop R W aid ((fulfiller, hosts) # rest) =
     py_bind (allocations R aid) (\<lambda>request.
     py_bind (py_lift (restrict_demands request hosts)) (\<lambda>request.
     py_bind (py_attempt (py_bind (py_lift (jitem fulfiller ''endpoint''))
                (\<lambda>ep. rm_allocate W ep request))) (\<lambda>r.
     case r of
       Inl e \<Rightarrow>
         if exn_kind e = CancelledErr then
           update_status R aid [(''status'', JStr ''cancelled''), (''message'', JStr
             ''client cancelled after allocation started but before allocation was finish'')]
         else
           py_then (update_status R aid [(''status'', JStr ''exception''), (''message'', JStr (exn_msg e))])
             (py_then (py_lift (jitem fulfiller ''alias'')) (py_return ()))
     | Inr result \<Rightarrow>
         py_then (save_fulfilled_request R W aid fulfiller result) (fulfil_loop R W aid rest))))"

definition unfulfillable_kw :: "json dict" where
  "unfulfillable_kw = [(''status'', JStr ''unfulfillable''),
     (''message'', JStr ''Allocator doesnt have resource_managers which can fulfill demands'')]"

text \<open>A reply whose \<open>machines\<close> is not a list, which no resource manager of the repository sends, is
  refused where the code begins to split the hosts; the code would fail in the middle of it.\<close>

text \<open>The \<open>return\<close> inside the \<open>async with\<close> ends the method; the statements after the block, which
  would set the status \<open>busy\<close>, are not reached.\<close>

text \<open>A request whose identifier has no record: it is saved, offered to the resource managers, and served.\<close>

definition serve_request :: "'s redis_ops \<Rightarrow> 'w world_ops \<Rightarrow> json \<Rightarrow> json \<Rightarrow> ('s, 'w, json) svc" where
  "serve_request R W aid allocation_request =
     py_bind (save_request R W allocation_request) (\<lambda>allocation_request.
     py_bind (find_potential_fulfillers R W aid) (\<lambda>potential_fulfillers.
     py_bind (py_lift (all_possible potential_fulfillers allocation_request)) (\<lambda>possible.
     if \<not> possible then
       py_bind (allocations R aid) (\<lambda>allocation.
       py_bind (py_lift (jupdate allocation unfulfillable_kw)) (\<lambda>allocation.
       py_bind (py_lift (jkey aid)) (\<lambda>k.
       py_then (delete R ''allocations'' [k]) (py_return allocation))))
     else
       py_bind (py_lift (res_collect potential_fulfillers
          (\<lambda>(rm, ms). res_bind (jlist ms) (\<lambda>hosts. Inr (rm, hosts))))) (\<lambda>ps.
       py_bind (dedupe_loop R aid [0..<length ps] ps) (\<lambda>ps.
       py_then (fulfil_loop R W aid ps) (allocations R aid))))))"

definition fulfill :: "'s redis_ops \<Rightarrow> 'w world_ops \<Rightarrow> json \<Rightarrow> ('s, 'w, json) svc" where
  "fulfill R W allocation_request =
     py_bind (w_uuid4 W) (\<lambda>u.
     py_bind (py_lift (jget allocation_request ''allocation_id'' (JStr u))) (\<lambda>aid.
     py_bind (allocations R aid) (\<lambda>allocation.
     if truthy allocation then py_return allocation else serve_request R W aid allocation_request)))"

section \<open>Releasing\<close>

definition release :: "'s redis_ops \<Rightarrow> 'w world_ops \<Rightarrow> json \<Rightarrow> ('s, 'w, unit) svc" where
  "release R W aid =
     py_bind (allocations R aid) (\<lambda>allocation.
     if \<not> truthy allocation then py_return () else
     py_bind (py_lift (res_bind (jget allocation ''hardware_details'' (JList [])) jiter)) (\<lambda>details.
     py_then (py_for details (\<lambda>hd.
         py_bind (py_lift (jitem hd ''vm_id'')) (\<lambda>vm_id.
         py_bind (py_lift (jitem hd ''resource_manager_ep'')) (\<lambda>ep.
         py_then (rm_deallocate W vm_id ep) (py_return ())))))
     (py_then (update_status R aid [(''status'', JStr ''deallocated'')])
     (py_bind (py_lift (jkey aid)) (\<lambda>k. delete R ''allocations'' [k])))))"

section \<open>Splitting the hosts\<close>

lemma drop_shared_subset: "set (drop_shared others i hosts) \<subseteq> set hosts"
proof (induction others i hosts rule: drop_shared.induct)
  case (1 others i hosts)
  then show ?case
    using set_remove1_subset [of "hosts ! i" hosts]
    by (subst drop_shared.simps) (fastforce split: if_splits)
qed

lemma drop_shared_keeps: "h \<in> set hosts \<Longrightarrow> h \<notin> set others \<Longrightarrow> h \<in> set (drop_shared others i hosts)"
proof (induction others i hosts rule: drop_shared.induct)
  case (1 others i hosts)
  show ?case
  proof (cases "i < length hosts")
    case True
    have "h \<in> set (if hosts ! i \<in> set others then remove1 (hosts ! i) hosts else hosts)"
      using "1.prems" by (cases "hosts ! i = h") (auto simp: in_set_remove1)
    with True "1.IH" "1.prems" show ?thesis
      by (subst drop_shared.simps) simp
  next
    case False
    with "1.prems" show ?thesis by (subst drop_shared.simps) simp
  qed
qed

lemma drop_shared_single [simp]:
  "drop_shared others 0 [h] = (if h \<in> set others then [] else [h])"
  "drop_shared others i [] = []"
  by (simp_all add: drop_shared.simps)

lemma mset_remove1_nth:
  assumes "i < length ps"
  shows "mset (remove1 (ps ! i) ps) = mset (take i ps @ drop (Suc i) ps)"
proof -
  have "mset ps = add_mset (ps ! i) (mset (take i ps @ drop (Suc i) ps))"
    by (subst id_take_nth_drop [OF assms]) simp
  then show ?thesis by simp
qed

text \<open>The hosts the others offer, as the inner loop computes them.\<close>

lemma others_iff:
  assumes "i < length ps" and "ps ! i = (rm, hosts)"
  shows "h \<in> set (concat (map snd (remove1 (rm, hosts) ps)))
    \<longleftrightarrow> (\<exists>j < length ps. j \<noteq> i \<and> h \<in> set (snd (ps ! j)))" (is "?L \<longleftrightarrow> ?R")
proof -
  have "set (remove1 (rm, hosts) ps) = set (take i ps) \<union> set (drop (Suc i) ps)"
    using mset_remove1_nth [OF assms(1)] assms(2) by (metis set_append set_mset_mset)
  then have "?L \<longleftrightarrow> (\<exists>p \<in> set (take i ps) \<union> set (drop (Suc i) ps). h \<in> set (snd p))"
    by auto
  also have "\<dots> \<longleftrightarrow> ?R"
  proof
    assume "\<exists>p \<in> set (take i ps) \<union> set (drop (Suc i) ps). h \<in> set (snd p)"
    then obtain p where p: "h \<in> set (snd p)" and "p \<in> set (take i ps) \<or> p \<in> set (drop (Suc i) ps)"
      by blast
    then show ?R
    proof (elim disjE)
      assume "p \<in> set (take i ps)"
      then obtain j where "j < i" "p = ps ! j"
        by (metis in_set_conv_nth length_take min_less_iff_conj nth_take)
      with p assms show ?R by (intro exI [of _ j]) auto
    next
      assume "p \<in> set (drop (Suc i) ps)"
      then obtain j where "Suc i + j < length ps" "p = ps ! (Suc i + j)"
        by (metis add.commute in_set_conv_nth length_drop less_diff_conv nth_drop
            nat_less_le add_leD1 less_or_eq_imp_le assms(1) Suc_leI)
      with p show ?R by (intro exI [of _ "Suc i + j"]) auto
    qed
  next
    assume ?R
    then obtain j where j: "j < length ps" "j \<noteq> i" "h \<in> set (snd (ps ! j))" by blast
    have "ps ! j \<in> set (take i ps) \<union> set (drop (Suc i) ps)"
    proof (cases "j < i")
      case True
      with j have "ps ! j \<in> set (take i ps)"
        by (metis in_set_conv_nth length_take min_less_iff_conj nth_take)
      then show ?thesis ..
    next
      case False
      with j have "drop (Suc i) ps ! (j - Suc i) = ps ! j" "j - Suc i < length (drop (Suc i) ps)"
        by auto
      then have "ps ! j \<in> set (drop (Suc i) ps)" by (metis nth_mem)
      then show ?thesis ..
    qed
    with j show "\<exists>p \<in> set (take i ps) \<union> set (drop (Suc i) ps). h \<in> set (snd p)" by blast
  qed
  finally show ?thesis .
qed

lemma dedupe_at_nth_other: "j \<noteq> i \<Longrightarrow> dedupe_at ps i ! j = ps ! j"
  by (simp add: dedupe_at_def Let_def split: prod.splits)

lemma dedupe_at_length [simp]: "length (dedupe_at ps i) = length ps"
  by (simp add: dedupe_at_def Let_def split: prod.splits)

lemma dedupe_at_nth_same: "i < length ps \<Longrightarrow> ps ! i = (rm, hosts) \<Longrightarrow>
   dedupe_at ps i ! i = (rm, drop_shared (concat (map snd (remove1 (rm, hosts) ps))) 0 hosts)"
  by (simp add: dedupe_at_def)

lemma dedupe_at_subset:
  "i < length ps \<Longrightarrow> set (snd (dedupe_at ps i ! j)) \<subseteq> set (snd (ps ! j))"
  by (cases "j = i"; cases "ps ! i")
    (auto simp: dedupe_at_nth_other dedupe_at_nth_same dest: set_mp [OF drop_shared_subset])

lemma dedupe_at_fst: "i < length ps \<Longrightarrow> j < length ps \<Longrightarrow> fst (dedupe_at ps i ! j) = fst (ps ! j)"
  by (cases "j = i"; cases "ps ! i") (auto simp: dedupe_at_nth_other dedupe_at_nth_same)

text \<open>\<open>offers ps h j\<close>: the fulfiller at position \<open>j\<close> offers \<open>h\<close>.\<close>

definition offers :: "('r \<times> 'h list) list \<Rightarrow> 'h \<Rightarrow> nat \<Rightarrow> bool" where
  "offers ps h j \<longleftrightarrow> j < length ps \<and> h \<in> set (snd (ps ! j))"

lemma dedupe_at_offers:
  assumes "i < length ps"
  shows "(\<exists>j. offers (dedupe_at ps i) h j) \<longleftrightarrow> (\<exists>j. offers ps h j)"
proof
  assume "\<exists>j. offers (dedupe_at ps i) h j"
  then show "\<exists>j. offers ps h j"
    using dedupe_at_subset [OF assms] by (force simp: offers_def)
next
  obtain rm hosts where at: "ps ! i = (rm, hosts)" by (cases "ps ! i")
  assume "\<exists>j. offers ps h j"
  then obtain j where j: "j < length ps" "h \<in> set (snd (ps ! j))" by (auto simp: offers_def)
  show "\<exists>j. offers (dedupe_at ps i) h j"
  proof (cases "\<exists>k < length ps. k \<noteq> i \<and> h \<in> set (snd (ps ! k))")
    case True
    then obtain k where "k < length ps" "k \<noteq> i" "h \<in> set (snd (ps ! k))" by blast
    then show ?thesis by (auto simp: offers_def dedupe_at_nth_other intro!: exI [of _ k])
  next
    case False
    with j have "j = i" by blast
    with j at False have "h \<in> set (snd (dedupe_at ps i ! i))"
      using others_iff [OF assms at, of h]
      by (simp add: dedupe_at_nth_same [OF assms at] drop_shared_keeps)
    with assms show ?thesis by (auto simp: offers_def)
  qed
qed

lemma foldl_dedupe_length [simp]: "length (foldl dedupe_at ps is) = length ps"
  by (induction "is" arbitrary: ps) auto

lemma dedupe_length [simp]: "length (dedupe ps) = length ps"
  by (simp add: dedupe_def)

lemma foldl_dedupe_offers:
  "\<forall>i \<in> set is. i < length ps \<Longrightarrow>
    (\<exists>j. offers (foldl dedupe_at ps is) h j) \<longleftrightarrow> (\<exists>j. offers ps h j)"
  by (induction "is" arbitrary: ps) (auto simp: dedupe_at_offers)

lemma foldl_dedupe_subset:
  "\<forall>i \<in> set is. i < length ps \<Longrightarrow> set (snd (foldl dedupe_at ps is ! j)) \<subseteq> set (snd (ps ! j))"
proof (induction "is" arbitrary: ps)
  case Nil
  then show ?case by simp
next
  case (Cons i "is")
  then have "set (snd (foldl dedupe_at (dedupe_at ps i) is ! j)) \<subseteq> set (snd (dedupe_at ps i ! j))"
    by simp
  also have "\<dots> \<subseteq> set (snd (ps ! j))" using Cons.prems by (simp add: dedupe_at_subset)
  finally show ?case by simp
qed

lemma dedupe_subset: "set (snd (dedupe ps ! j)) \<subseteq> set (snd (ps ! j))"
  by (simp add: dedupe_def foldl_dedupe_subset)

lemma dedupe_offers: "(\<exists>j. offers (dedupe ps) h j) \<longleftrightarrow> (\<exists>j. offers ps h j)"
  by (simp add: dedupe_def foldl_dedupe_offers)

text \<open>With at most one host per fulfiller, a processed fulfiller that still has its host shares it
  with nobody.\<close>

lemma foldl_dedupe_single:
  assumes "\<forall>p \<in> set ps. length (snd p) \<le> 1" and "m \<le> length ps"
  shows "(\<forall>p \<in> set (foldl dedupe_at ps [0..<m]). length (snd p) \<le> 1)
    \<and> (\<forall>h j k. j < m \<longrightarrow> j \<noteq> k \<longrightarrow> offers (foldl dedupe_at ps [0..<m]) h j \<longrightarrow>
         \<not> offers (foldl dedupe_at ps [0..<m]) h k)"
  using assms(2)
proof (induction m)
  case 0
  with assms(1) show ?case by simp
next
  case (Suc m)
  define qs where "qs = foldl dedupe_at ps [0..<m]"
  have step: "foldl dedupe_at ps [0..<Suc m] = dedupe_at qs m"
    by (simp add: qs_def)
  from Suc have m: "m < length qs" and small: "\<forall>p \<in> set qs. length (snd p) \<le> 1"
    and alone: "\<And>h j k. j < m \<Longrightarrow> j \<noteq> k \<Longrightarrow> offers qs h j \<Longrightarrow> \<not> offers qs h k"
    by (auto simp: qs_def)
  have shrink: "offers (dedupe_at qs m) h j \<Longrightarrow> offers qs h j" for h j
    using dedupe_at_subset [OF m, of j] by (auto simp: offers_def)
  obtain rm hosts where at: "qs ! m = (rm, hosts)" by (cases "qs ! m")
  from small m at have "length hosts \<le> 1" by (metis nth_mem snd_conv)
  then have hosts: "hosts = [] \<or> (\<exists>h. hosts = [h])"
    by (cases hosts) auto
  have new: "\<not> offers (dedupe_at qs m) h k" if "offers (dedupe_at qs m) h m" and "m \<noteq> k" for h k
  proof
    assume "offers (dedupe_at qs m) h k"
    with \<open>m \<noteq> k\<close> have k: "k < length qs" "h \<in> set (snd (qs ! k))"
      by (auto simp: offers_def dedupe_at_nth_other)
    with \<open>m \<noteq> k\<close> have "h \<in> set (concat (map snd (remove1 (rm, hosts) qs)))"
      using others_iff [OF m at, of h] by blast
    with that(1) hosts show False
      by (fastforce simp: offers_def dedupe_at_nth_same [OF m at] split: if_splits)
  qed
  have "length (snd (dedupe_at qs m ! j)) \<le> 1" if "j < length qs" for j
    using that small hosts at
    by (cases "j = m") (auto simp: dedupe_at_nth_other dedupe_at_nth_same [OF m at])
  then have "\<forall>p \<in> set (dedupe_at qs m). length (snd p) \<le> 1"
    by (metis dedupe_at_length in_set_conv_nth)
  moreover have "\<not> offers (dedupe_at qs m) h k"
    if "j < Suc m" "j \<noteq> k" "offers (dedupe_at qs m) h j" for h j k
    using that new alone [of j k h] shrink by (cases "j = m") auto
  ultimately show ?case
    unfolding step by blast
qed

lemma dedupe_single:
  assumes "\<forall>p \<in> set ps. length (snd p) \<le> 1"
    and "offers (dedupe ps) h j" and "offers (dedupe ps) h k"
  shows "j = k"
  using foldl_dedupe_single [OF assms(1), of "length ps"] assms(2,3)
  unfolding dedupe_def by (metis (no_types, lifting) foldl_dedupe_length le_refl offers_def)

text \<open>Running the loop on a concrete list.\<close>

lemma drop_shared_step:
  "i < length hosts \<Longrightarrow> drop_shared others i hosts =
     drop_shared others (Suc i) (if hosts ! i \<in> set others then remove1 (hosts ! i) hosts else hosts)"
  "\<not> i < length hosts \<Longrightarrow> drop_shared others i hosts = hosts"
  by (subst drop_shared.simps, simp)+

lemmas dedupe_run = dedupe_def dedupe_at_def drop_shared_step upt_rec

end
