(* ===== verification/Fulfiller_Correct.thy ===== *)
theory Fulfiller_Correct
  imports Fulfiller
begin

text \<open>
  What the allocate service's requests and releases do to the store: the invariant of the stored
  allocations, the effect of \<open>update_status\<close> and \<open>save_fulfilled_request\<close> on a well-formed store, and
  the outcome of whole requests.
\<close>

section \<open>The invariant\<close>

context redis_server
begin

lemma remove_unavailable_inv: "py_inv (entries R P) (remove_unavailable_rms R live rms)"
  unfolding remove_unavailable_rms_def by (intro py_inv_intro delete_inv)

lemma resource_managers_inv: "py_inv (entries R P) (resource_managers R rm)"
  unfolding resource_managers_def by (intro py_inv_intro)

lemma allocations_inv': "py_inv (entries R P) (allocations R aid)"
  unfolding allocations_def by (intro py_inv_intro)

lemma find_inv: "py_inv (entries R P) (find_potential_fulfillers R W aid)"
  unfolding find_potential_fulfillers_def
  by (intro py_inv_intro remove_unavailable_inv resource_managers_inv allocations_inv')

lemma dedupe_loop_inv: "py_inv (entries R wf_entry) (dedupe_loop R aid is ps)"
proof (induction "is" arbitrary: ps)
  case Nil
  then show ?case by (simp add: py_inv_return)
next
  case (Cons i "is")
  then show ?case
    by (auto intro!: py_inv_intro update_status_inv simp: good_kw_def stored_statuses_def)
qed

lemma fulfil_loop_inv: "py_inv (entries R wf_entry) (fulfil_loop R W aid ps)"
proof (induction ps)
  case Nil
  then show ?case by (simp add: py_inv_return)
next
  case (Cons p ps)
  then show ?case
    by (cases p)
      (auto intro!: py_inv_intro update_status_inv allocations_inv save_fulfilled_request_inv
        simp: good_kw_def stored_statuses_def)
qed

lemma serve_request_inv: "py_inv (entries R wf_entry) (serve_request R W aid request)"
  unfolding serve_request_def
  by (intro py_inv_intro allocations_inv save_request_inv find_inv delete_inv dedupe_loop_inv fulfil_loop_inv)

lemma fulfill_inv: "py_inv (entries R wf_entry) (fulfill R W request)"
  unfolding fulfill_def by (intro py_inv_intro allocations_inv serve_request_inv entries_uuid4)

lemma release_inv: "py_inv (entries R wf_entry) (release R W aid)"
  unfolding release_def
  by (intro py_inv_intro allocations_inv update_status_inv delete_inv)
    (simp add: good_kw_def stored_statuses_def)

end

section \<open>The effect of the store operations\<close>

lemma wf_allocation_JObj: "wf_allocation k a \<Longrightarrow> \<exists>m. a = JObj m \<and> map_of m ''allocation_id'' = Some (JStr k)"
  by (cases a) (auto simp: wf_allocation_def fld_def)

lemma entries_hgetD: "entries R wf_entry n \<Longrightarrow> hget R (store n) ''allocations'' k = Some a
    \<Longrightarrow> \<exists>m. a = JObj m \<and> map_of m ''allocation_id'' = Some (JStr k)"
  by (auto simp: entries_def wf_entry_def dest: wf_allocation_JObj)

lemma allocations_eq:
  "k \<noteq> [] \<Longrightarrow> allocations R (JStr k) n =
     (Inr (case hget R (store n) ''allocations'' k of None \<Rightarrow> JNull | Some a \<Rightarrow> a), n)"
  by (simp add: allocations_def py_defs jkey_def)

text \<open>On a well-formed store \<open>update_status\<close> is the dictionary update of the record it names.\<close>

lemma update_status_eq:
  assumes k: "k \<noteq> []" and wf: "entries R wf_entry n"
    and kw: "\<forall>p \<in> set kw. fst p \<noteq> ''allocation_id''"
  shows "update_status R (JStr k) kw n =
    (case hget R (store n) ''allocations'' k of
       Some (JObj m) \<Rightarrow> (Inr (), n\<lparr>store := hset R (store n) ''allocations'' k (JObj (dict_update m kw))\<rparr>)
     | _ \<Rightarrow> (Inl (Exn AttributeErr ''update''), n))"
proof (cases "hget R (store n) ''allocations'' k")
  case None
  then show ?thesis
    by (simp add: update_status_def py_defs allocations_eq [OF k] jupdate_def)
next
  case (Some a)
  with entries_hgetD [OF wf] obtain m where a: "a = JObj m"
    and aid: "map_of m ''allocation_id'' = Some (JStr k)" by blast
  have "map_of (rev kw) ''allocation_id'' = None"
    using kw by (auto simp: map_of_eq_None_iff)
  then have "map_of (dict_update m kw) ''allocation_id'' = Some (JStr k)"
    by (simp add: map_of_dict_update aid)
  with Some a show ?thesis
    by (simp add: update_status_def py_defs allocations_eq [OF k])
qed

text \<open>\<open>hardware_of rm result\<close>: the details one reply gives.\<close>

definition hardware_of :: "json \<Rightarrow> json \<Rightarrow> json list res" where
  "hardware_of rm result =
     res_bind (res_bind (jitem result ''info'') jiter) (\<lambda>vms. res_collect vms (hardware_detail rm))"

lemma hardware_detail_fields:
  assumes "hardware_detail rm vm = Inr d"
  shows "fld d ''resource_manager_ep'' = fld rm ''endpoint'' \<and> fld d ''vm_id'' = fld vm ''name''
    \<and> fld rm ''endpoint'' \<noteq> None \<and> fld vm ''name'' \<noteq> None"
  using assms by (auto simp: hardware_detail_def jitem_Inr_iff)

lemma hardware_of_endpoint:
  "hardware_of rm result = Inr details \<Longrightarrow> d \<in> set details \<Longrightarrow>
    fld d ''resource_manager_ep'' = fld rm ''endpoint''"
  unfolding hardware_of_def
  by (auto dest!: res_collect_in hardware_detail_fields)

text \<open>What a successful \<open>save_fulfilled_request\<close> leaves: the record with the details of this reply,
  whatever details it had before.\<close>

definition fulfilled_kw :: "json \<Rightarrow> json list \<Rightarrow> json \<Rightarrow> rat \<Rightarrow> json dict" where
  "fulfilled_kw ep details result t =
     [(''resource_manager'', ep), (''hardware_details'', JList details), (''result'', result),
      (''status'', JStr ''success''), (''expiration'', expiry_in t 60)]"

lemma save_fulfilled_request_eq:
  assumes k: "k \<noteq> []" and wf: "entries R wf_entry n"
    and hw: "hardware_of rm result = Inr details" and ep: "fld rm ''endpoint'' = Some ep"
    and m: "hget R (store n) ''allocations'' k = Some (JObj m)"
  shows "save_fulfilled_request R W (JStr k) rm result n =
    (Inr (), n\<lparr>store := hset R (store n) ''allocations'' k
       (JObj (dict_update m (fulfilled_kw ep details result (clock W (world n)))))\<rparr>)"
proof -
  from hw obtain vms where vms: "res_bind (jitem result ''info'') jiter = Inr vms"
    and details: "res_collect vms (hardware_detail rm) = Inr details"
    by (auto simp: hardware_of_def)
  from ep obtain r where "rm = JObj r" "map_of r ''endpoint'' = Some ep"
    by (auto dest: fld_SomeD)
  with vms details m show ?thesis
    unfolding save_fulfilled_request_def vms
    by (simp add: py_bind_def py_lift_def w_time_def py_gets_def update_status_eq [OF k wf]
        fulfilled_kw_def)
qed

lemma save_fulfilled_request_Inr:
  assumes "save_fulfilled_request R W aid rm result n = (Inr (), n')"
  obtains ep details where "fld rm ''endpoint'' = Some ep" and "hardware_of rm result = Inr details"
  using assms
  by (auto simp: save_fulfilled_request_def hardware_of_def py_defs dest!: jitem_InrD
      split: sum.splits prod.splits)

section \<open>What is left of the details when several resource managers took part\<close>

context redis_server
begin

text \<open>Each turn replaces \<open>hardware_details\<close>, so after a loop that ended in success they are those of
  the last resource manager.\<close>

lemma fulfil_turn:
  fixes W :: "'w world_ops" and n :: "('s, 'w) node"
  assumes k: "k \<noteq> []" and wf: "entries R wf_entry n"
    and run: "fulfil_loop R W (JStr k) ((rm, hosts) # ps) n = (Inr (), n')"
  obtains (failed) st msg n1 where "update_status R (JStr k)
        [(''status'', JStr st), (''message'', msg)] n1 = (Inr (), n')"
      and "entries R wf_entry n1" and "st \<noteq> ''success''"
  | (served) result n1 n2 where "save_fulfilled_request R W (JStr k) rm result n1 = (Inr (), n2)"
      and "entries R wf_entry n1" and "entries R wf_entry n2"
      and "fulfil_loop R W (JStr k) ps n2 = (Inr (), n')"
proof -
  obtain request request' where "allocations R (JStr k) n = (Inr request, n)"
    and req: "restrict_demands request hosts = Inr request'"
    using run by (auto simp: allocations_eq [OF k] py_defs split: sum.splits)
  define call :: "('s, 'w, json) svc" where
    "call = py_bind (py_lift (jitem rm ''endpoint'')) (\<lambda>ep. rm_allocate W ep request')"
  obtain r n1 where r: "call n = (r, n1)" by (cases "call n")
  have "py_inv (entries R wf_entry) call"
    unfolding call_def by (intro py_inv_intro)
  from py_invD [OF this wf] r have wf1: "entries R wf_entry n1" by simp
  have after: "(case r of
       Inl e \<Rightarrow>
         if exn_kind e = CancelledErr then
           update_status R (JStr k) [(''status'', JStr ''cancelled''), (''message'', JStr
             ''client cancelled after allocation started but before allocation was finish'')]
         else
           py_then (update_status R (JStr k) [(''status'', JStr ''exception''), (''message'', JStr (exn_msg e))])
             (py_then (py_lift (jitem rm ''alias'')) (py_return ()))
     | Inr result \<Rightarrow>
         py_then (save_fulfilled_request R W (JStr k) rm result) (fulfil_loop R W (JStr k) ps)) n1
     = (Inr (), n')"
    using run r \<open>allocations R (JStr k) n = _\<close> req unfolding call_def
    by (simp add: py_bind_def py_attempt_def py_lift_def)
  show thesis
  proof (cases r)
    case (Inl e)
    then show thesis
      using after failed [OF _ wf1]
      by (auto simp: py_defs split: if_splits sum.splits prod.splits)
  next
    case (Inr result)
    with after obtain n2 where "save_fulfilled_request R W (JStr k) rm result n1 = (Inr (), n2)"
      and "fulfil_loop R W (JStr k) ps n2 = (Inr (), n')"
      by (auto simp: py_then_def py_bind_def split: sum.splits prod.splits)
    moreover from this wf1 have "entries R wf_entry n2"
      using py_invD [OF save_fulfilled_request_inv wf1] by (metis snd_conv)
    ultimately show thesis using served wf1 by blast
  qed
qed

lemma save_fulfilled_hardware:
  assumes k: "k \<noteq> []" and wf: "entries R wf_entry n"
    and run: "save_fulfilled_request R W (JStr k) rm result n = (Inr (), n')"
  shows "\<exists>a details. hget R (store n') ''allocations'' k = Some a
    \<and> fld a ''status'' = Some (JStr ''success'')
    \<and> hardware_of rm result = Inr details \<and> fld a ''hardware_details'' = Some (JList details)"
proof -
  obtain ep details where hw: "hardware_of rm result = Inr details" and ep: "fld rm ''endpoint'' = Some ep"
    using run by (rule save_fulfilled_request_Inr)
  show ?thesis
  proof (cases "hget R (store n) ''allocations'' k")
    case None
    with run show ?thesis
      by (auto simp: save_fulfilled_request_def py_defs update_status_eq [OF k wf]
          split: sum.splits prod.splits)
  next
    case (Some a)
    with entries_hgetD [OF wf] obtain m where "hget R (store n) ''allocations'' k = Some (JObj m)"
      by blast
    from save_fulfilled_request_eq [OF k wf hw ep this] run hw show ?thesis
      by (auto simp: hget_hset map_of_dict_update fulfilled_kw_def)
  qed
qed

lemma update_status_status:
  assumes k: "k \<noteq> []" and wf: "entries R wf_entry n"
    and run: "update_status R (JStr k) [(''status'', JStr st), (''message'', msg)] n = (Inr (), n')"
  shows "\<exists>a. hget R (store n') ''allocations'' k = Some a \<and> fld a ''status'' = Some (JStr st)"
  using run
  by (auto simp: update_status_eq [OF k wf] hget_hset update_conv' split: option.splits json.splits)

lemma fulfil_loop_last:
  assumes "k \<noteq> []" and "entries R wf_entry n"
    and "fulfil_loop R W (JStr k) (ps @ [(rm, hosts)]) n = (Inr (), n')"
    and "hget R (store n') ''allocations'' k = Some a" and "fld a ''status'' = Some (JStr ''success'')"
  shows "\<exists>details. fld a ''hardware_details'' = Some (JList details)
    \<and> (\<forall>d \<in> set details. fld d ''resource_manager_ep'' = fld rm ''endpoint'')"
  using assms(2,3)
proof (induction ps arbitrary: n)
  case Nil
  then have run: "fulfil_loop R W (JStr k) ((rm, hosts) # []) n = (Inr (), n')" by simp
  from assms(1) Nil.prems(1) run show ?case
  proof (cases rule: fulfil_turn)
    case (failed st msg n1)
    with update_status_status [OF assms(1) failed(2,1)] assms(4,5) show ?thesis by auto
  next
    case (served result n1 n2)
    from served(4) have "n2 = n'" by (simp add: py_return_def)
    with save_fulfilled_hardware [OF assms(1) served(2,1)] assms(4) show ?thesis
      by (auto dest: hardware_of_endpoint)
  qed
next
  case (Cons p ps)
  obtain rm1 hosts1 where "p = (rm1, hosts1)" by (cases p)
  with Cons.prems have run: "fulfil_loop R W (JStr k) ((rm1, hosts1) # (ps @ [(rm, hosts)])) n = (Inr (), n')"
    by simp
  from assms(1) Cons.prems(1) run show ?case
  proof (cases rule: fulfil_turn)
    case (failed st msg n1)
    with update_status_status [OF assms(1) failed(2,1)] assms(4,5) show ?thesis by auto
  next
    case (served result n1 n2)
    from Cons.IH [OF served(3,4)] show ?thesis .
  qed
qed

end

section \<open>Whole requests\<close>

lemma fulfill_known_id:
  assumes "map_of m ''allocation_id'' = Some (JStr k)" and "k \<noteq> []"
    and "hget R (store n) ''allocations'' k = Some a" and "truthy a"
  shows "fulfill R W (JObj m) n = (Inr a, n\<lparr>world := snd (uuid4 W (world n))\<rparr>)"
proof -
  obtain u w where u: "uuid4 W (world n) = (u, w)" by (cases "uuid4 W (world n)")
  with assms show ?thesis
    by (simp add: fulfill_def py_bind_def w_uuid4_def py_lift_def allocations_eq py_return_def)
qed

text \<open>The record a request becomes when it is saved, and when its first host is being allocated.\<close>

definition saved_record :: "json dict \<Rightarrow> rat \<Rightarrow> json dict" where
  "saved_record m t = dict_update m [(''status'', JStr ''received''), (''expiration'', expiry_in t 60)]"

definition allocating_record :: "json dict \<Rightarrow> json \<Rightarrow> json dict" where
  "allocating_record m ep = dict_update m
     [(''status'', JStr ''allocating''), (''rm_endpoint'', ep), (''message'', JStr ''in progress'')]"

lemma save_request_eq:
  assumes "map_of m ''allocation_id'' = Some (JStr k)"
  shows "save_request R W (JObj m) n =
    (let r = JObj (saved_record m (clock W (world n)))
     in (Inr r, n\<lparr>store := hset R (store n) ''allocations'' k r\<rparr>))"
  using assms by (simp add: save_request_def py_defs saved_record_def Let_def)

lemma wf_saved_record:
  "map_of m ''allocation_id'' = Some (JStr k) \<Longrightarrow> wf_allocation k (JObj (saved_record m t))"
  by (simp add: wf_allocation_def saved_record_def expiry_in_def stored_statuses_def)

text \<open>The requests that a resource manager accepts a demand for, in principle.\<close>

definition accepts :: "http_result \<Rightarrow> bool" where
  "accepts r = (case r of HReply st b \<Rightarrow> st = 200 \<and> fld b ''machines'' \<noteq> None | HFail _ \<Rightarrow> False)"

definition nobody_accepts :: "'w world_ops \<Rightarrow> bool" where
  "nobody_accepts W \<longleftrightarrow> (\<forall>w rq. req_verb rq = POST \<longrightarrow> \<not> accepts (fst (http W w rq)))"

lemma theoretically_fulfill_refused:
  assumes "nobody_accepts W"
  shows "\<exists>e w. theoretically_fulfill W rm data n = (Inl e, n\<lparr>world := w\<rparr>)"
proof (cases "jitem rm ''endpoint''")
  case (Inl e)
  then show ?thesis
    by (intro exI [of _ e] exI [of _ "world n"]) (simp add: theoretically_fulfill_def py_defs)
next
  case (Inr ep)
  then obtain d where d: "rm = JObj d" "map_of d ''endpoint'' = Some ep"
    by (auto dest: jitem_InrD fld_SomeD)
  define rq where "rq = \<lparr>req_verb = POST, req_url = theoretically_url (py_str ep), req_body = data\<rparr>"
  obtain r w where h: "http W (world n) rq = (r, w)" by (cases "http W (world n) rq")
  have "req_verb rq = POST" by (simp add: rq_def)
  with assms h have "\<not> accepts r" unfolding nobody_accepts_def by (metis fst_conv)
  then have "theoretically_fulfill W rm data n =
      (Inl (Exn ConnectionErr (''Couldnt connect to resource_manager '' @ py_str ep)), n\<lparr>world := w\<rparr>)"
    using h unfolding theoretically_fulfill_def d
    by (auto simp: d py_defs rq_def [symmetric] accepts_def jitem_def split: http_result.splits sum.splits
        json.splits option.splits)
  then show ?thesis by blast
qed

lemma gather_refused:
  assumes "nobody_accepts W"
  shows "\<exists>rs w. py_gather rms (\<lambda>rm. theoretically_fulfill W rm data) n = (Inr rs, n\<lparr>world := w\<rparr>)
    \<and> successes rs = []"
proof (induction rms arbitrary: n)
  case Nil
  then show ?case by (intro exI [of _ "[]"] exI [of _ "world n"]) (simp add: py_return_def)
next
  case (Cons rm rms)
  obtain e w where "theoretically_fulfill W rm data n = (Inl e, n\<lparr>world := w\<rparr>)"
    using theoretically_fulfill_refused [OF assms] by blast
  moreover obtain rs w' where "py_gather rms (\<lambda>rm. theoretically_fulfill W rm data) (n\<lparr>world := w\<rparr>)
      = (Inr rs, n\<lparr>world := w\<rparr>\<lparr>world := w'\<rparr>)" and "successes rs = []"
    using Cons.IH by blast
  ultimately show ?case
    by (intro exI [of _ "Inl e # rs"] exI [of _ w']) (simp add: py_bind_def py_return_def)
qed

definition objects :: "json dict \<Rightarrow> bool" where
  "objects d \<longleftrightarrow> (\<forall>p \<in> set d. case snd p of JObj _ \<Rightarrow> True | _ \<Rightarrow> False)"

lemma res_collect_keyed:
  "objects rms \<Longrightarrow> \<exists>ks. res_collect rms (\<lambda>(key, rm). jset rm ''key'' (JStr key)) = Inr ks"
  by (induction rms) (auto simp: objects_def jset_def split: json.splits)

context redis_server
begin

lemma find_refused:
  assumes "nobody_accepts W" and k: "k \<noteq> []"
    and objs: "objects (hgetall R (store n) ''resource_managers'')"
  shows "\<exists>w s. find_potential_fulfillers R W (JStr k) n = (Inr [], n\<lparr>store := s, world := w\<rparr>)
    \<and> (\<forall>h k'. hget R s h k' = (if h = ''resource_managers'' then None else hget R (store n) h k'))"
proof -
  define rms where "rms = hgetall R (store n) ''resource_managers''"
  obtain keyed where keyed: "res_collect rms (\<lambda>(key, rm). jset rm ''key'' (JStr key)) = Inr keyed"
    using res_collect_keyed objs rms_def by blast
  define req where "req = (case hget R (store n) ''allocations'' k of None \<Rightarrow> JNull | Some a \<Rightarrow> a)"
  obtain rs w where g: "py_gather keyed (\<lambda>rm. theoretically_fulfill W rm req) n
      = (Inr rs, n\<lparr>world := w\<rparr>)" "successes rs = []"
    using gather_refused [OF assms(1)] by blast
  define s where "s = (if rms = [] then store n else hdel R (store n) ''resource_managers'' (map fst rms))"
  have "find_potential_fulfillers R W (JStr k) n = (Inr [], n\<lparr>store := s, world := w\<rparr>)"
    using g keyed
    by (auto simp: find_potential_fulfillers_def allocations_eq [OF k] req_def [symmetric]
        py_bind_def py_then_def py_return_def py_lift_def resource_managers_def r_hgetall_def
        py_gets_def rms_def [symmetric] remove_unavailable_rms_def delete_def r_hdel_def py_modify_def
        s_def Let_def)
  moreover have "hget R s h k' = (if h = ''resource_managers'' then None else hget R (store n) h k')" for h k'
  proof (cases "k' \<in> set (map fst rms)")
    case True
    then show ?thesis by (auto simp: s_def hget_hdel)
  next
    case False
    then have "hget R (store n) ''resource_managers'' k' = None"
      using hgetall_keys [of k' "store n" "''resource_managers''"] by (auto simp: rms_def)
    with False show ?thesis by (auto simp: s_def hget_hdel)
  qed
  ultimately show ?thesis by blast
qed

lemma hgetall_cong:
  assumes "\<And>k. hget R s h k = hget R s' h k"
  shows "set (hgetall R s h) = set (hgetall R s' h)"
  by (metis assms hgetall_SomeD subrelI subset_antisym)

lemma fulfill_refused:
  assumes nobody: "nobody_accepts W" and k: "map_of m ''allocation_id'' = Some (JStr k)" "k \<noteq> []"
    and new: "hget R (store n) ''allocations'' k = None"
    and objs: "objects (hgetall R (store n) ''resource_managers'')"
  shows "\<exists>a n'. fulfill R W (JObj m) n = (Inr a, n')
    \<and> fld a ''status'' = Some (JStr ''unfulfillable'')
    \<and> (\<forall>h k'. hget R (store n') h k' =
        (if h = ''resource_managers'' then None else hget R (store n) h k'))"
proof -
  obtain u w where u: "uuid4 W (world n) = (u, w)" by (cases "uuid4 W (world n)")
  define r where "r = JObj (saved_record m (clock W w))"
  define n1 where "n1 = n\<lparr>store := hset R (store n) ''allocations'' k r, world := w\<rparr>"
  have "objects (hgetall R (store n1) ''resource_managers'')"
    using objs hgetall_cong [of "store n1" "''resource_managers''" "store n"]
    by (auto simp: n1_def hget_hset objects_def)
  from find_refused [OF nobody k(2) this] obtain w2 s2
    where find: "find_potential_fulfillers R W (JStr k) n1 = (Inr [], n1\<lparr>store := s2, world := w2\<rparr>)"
      and s2: "\<And>h k'. hget R s2 h k' = (if h = ''resource_managers'' then None else hget R (store n1) h k')"
    by blast
  have sk: "hget R s2 ''allocations'' k = Some r"
    by (simp add: s2 n1_def hget_hset)
  have save: "save_request R W (JObj m) (n\<lparr>world := w\<rparr>) = (Inr r, n1)"
    by (simp add: save_request_eq [OF k(1)] Let_def r_def n1_def)
  have "fulfill R W (JObj m) n =
      (Inr (JObj (dict_update (saved_record m (clock W w)) unfulfillable_kw)),
       n1\<lparr>store := hdel R s2 ''allocations'' [k], world := w2\<rparr>)"
    unfolding fulfill_def serve_request_def
    using u k new save find sk
    by (simp add: py_bind_def w_uuid4_def py_lift_def allocations_eq all_possible_def py_then_def
        delete_def r_hdel_def py_modify_def py_return_def) (simp add: r_def)
  moreover have "hget R (hdel R s2 ''allocations'' [k]) h k' =
      (if h = ''resource_managers'' then None else hget R (store n) h k')" for h k'
    using new by (auto simp: hget_hdel s2 n1_def hget_hset)
  ultimately show ?thesis
    by (auto simp: unfulfillable_kw_def)
qed

end

section \<open>A request that one resource manager serves\<close>

lemma drop_shared_none [simp]: "drop_shared [] i hosts = hosts"
proof (induction "[] :: 'a list" i hosts rule: drop_shared.induct)
  case (1 i hosts)
  then show ?case by (subst drop_shared.simps) simp
qed

lemma dedupe_at_single [simp]: "dedupe_at [(rm, hosts)] 0 = [(rm, hosts)]"
  by (simp add: dedupe_at_def)

text \<open>The registration as the service sends it around, and the request the manager is sent.\<close>

definition keyed_rm :: "string \<Rightarrow> json dict \<Rightarrow> json" where
  "keyed_rm key rm = JObj (AList.update ''key'' (JStr key) rm)"

definition restricted :: "json dict \<Rightarrow> json dict \<Rightarrow> json list \<Rightarrow> json" where
  "restricted m demands hosts =
     JObj (AList.update ''demands'' (JObj (filter (\<lambda>p. JStr (fst p) \<in> set hosts) demands)) m)"

lemma find_single:
  assumes k: "k \<noteq> []"
    and rms: "hgetall R (store n) ''resource_managers'' = [(rk, JObj rm)]"
    and ep: "map_of rm ''endpoint'' = Some (JStr ep)"
    and req: "hget R (store n) ''allocations'' k = Some req"
    and http: "http W (world n) \<lparr>req_verb = POST, req_url = theoretically_url ep, req_body = req\<rparr> = (HReply 200 b, w)"
    and ms: "fld b ''machines'' = Some ms"
  shows "find_potential_fulfillers R W (JStr k) n = (Inr [(keyed_rm rk rm, ms)], n\<lparr>world := w\<rparr>)"
proof -
  obtain bm where b: "b = JObj bm" "map_of bm ''machines'' = Some ms"
    using ms by (auto dest: fld_SomeD)
  have t: "theoretically_fulfill W (keyed_rm rk rm) req n = (Inr (keyed_rm rk rm, ms), n\<lparr>world := w\<rparr>)"
    using ep http b by (simp add: theoretically_fulfill_def keyed_rm_def py_defs)
  show ?thesis
    unfolding find_potential_fulfillers_def
    using t req rms
    by (simp add: allocations_eq [OF k] py_bind_def py_lift_def resource_managers_def r_hgetall_def
        py_gets_def py_return_def remove_unavailable_rms_def py_then_def Let_def keyed_rm_def)
qed

context redis_server
begin

lemma hgetall_singleton:
  assumes "hgetall R s h = [(rk, v)]" and "\<And>k. hget R s' h k = hget R s h k"
  shows "hgetall R s' h = [(rk, v)]"
proof -
  have "set (hgetall R s' h) = {(rk, v)}"
    using hgetall_cong [of s' h s] assms by simp
  moreover have "distinct (hgetall R s' h)"
    using hgetall_distinct [of s' h] by (simp add: distinct_map)
  ultimately show ?thesis
    by (metis distinct_card card.empty card.insert finite.emptyI insert_absorb insert_not_empty
        length_0_conv length_Suc_conv list.set_intros(1) singletonD)
qed

lemma serve_request_single:
  fixes W :: "'w world_ops" and n :: "('s, 'w) node"
  assumes wf: "entries R wf_entry n"
    and k: "map_of m ''allocation_id'' = Some (JStr k)" "k \<noteq> []"
    and demands: "map_of m ''demands'' = Some (JObj demands)"
    and rms: "hgetall R (store n) ''resource_managers'' = [(rk, JObj rm)]"
    and ep: "map_of rm ''endpoint'' = Some (JStr ep)"
    and w0: "world n = w0"
    and saved: "saved = saved_record m (clock W w0)"
    and allocating: "allocating = allocating_record saved (JStr ep)"
    and http1: "http W w0 \<lparr>req_verb = POST, req_url = theoretically_url ep, req_body = JObj saved\<rparr> = (HReply 200 b, w1)"
    and hosts: "fld b ''machines'' = Some (JList hosts)" "\<forall>h \<in> set hosts. hashable h"
      "length (remdups hosts) = length demands"
    and http2: "http W w1 \<lparr>req_verb = POST, req_url = now_url ep, req_body = restricted allocating demands hosts\<rparr>
      = (HReply 200 result, w2)"
    and hw: "hardware_of (keyed_rm rk rm) result = Inr details"
  shows "\<exists>n'. serve_request R W (JStr k) (JObj m) n =
      (Inr (JObj (dict_update allocating (fulfilled_kw (JStr ep) details result (clock W w2)))), n')
    \<and> hget R (store n') ''allocations'' k =
        Some (JObj (dict_update allocating (fulfilled_kw (JStr ep) details result (clock W w2))))
    \<and> (\<forall>h k'. (h, k') \<noteq> (''allocations'', k) \<longrightarrow> hget R (store n') h k' = hget R (store n) h k')
    \<and> world n' = w2"
proof -
  let ?A = "''allocations''"
  define final where "final = JObj (dict_update allocating (fulfilled_kw (JStr ep) details result (clock W w2)))"
  define n1 where "n1 = n\<lparr>store := hset R (store n) ?A k (JObj saved)\<rparr>"
  define n2 where "n2 = n1\<lparr>world := w1\<rparr>"
  define n3 where "n3 = n2\<lparr>store := hset R (store n2) ?A k (JObj allocating)\<rparr>"
  define n4 where "n4 = n3\<lparr>world := w2\<rparr>"
  define n5 where "n5 = n4\<lparr>store := hset R (store n4) ?A k final\<rparr>"
  note ns = n1_def n2_def n3_def n4_def n5_def
  have s0: "save_request R W (JObj m) n = (Inr (JObj saved), n1)"
    by (simp add: save_request_eq [OF k(1)] Let_def n1_def saved w0)
  have wf1: "entries R wf_entry n1"
    using wf wf_saved_record [OF k(1)]
    by (auto simp: n1_def entries_def hget_hset wf_entry_def saved)
  have wf2: "entries R wf_entry n2" using wf1 by (simp add: n2_def entries_def)
  have h1: "hget R (store n1) ?A k = Some (JObj saved)" by (simp add: n1_def hget_hset)
  have rms1: "hgetall R (store n1) ''resource_managers'' = [(rk, JObj rm)]"
    by (rule hgetall_singleton [OF rms]) (simp add: n1_def hget_hset)
  have find: "find_potential_fulfillers R W (JStr k) n1 = (Inr [(keyed_rm rk rm, JList hosts)], n2)"
    unfolding n2_def by (rule find_single [OF k(2) rms1 ep h1 _ hosts(1)]) (simp add: n1_def http1 w0)
  have saved_demands: "map_of saved ''demands'' = Some (JObj demands)"
    and alloc_demands: "map_of allocating ''demands'' = Some (JObj demands)"
    by (simp_all add: saved allocating saved_record_def allocating_record_def demands)
  have possible: "all_possible [(keyed_rm rk rm, JList hosts)] (JObj saved) = Inr True"
    using hosts(2,3) saved_demands
    by (simp add: all_possible_def possible_machines_def res_bind_def)
  have kep: "jitem (keyed_rm rk rm) ''endpoint'' = Inr (JStr ep)"
    by (simp add: keyed_rm_def ep)
  have upd: "update_status R (JStr k) [(''status'', JStr ''allocating''), (''rm_endpoint'', JStr ep),
      (''message'', JStr ''in progress'')] n2 = (Inr (), n3)"
    by (simp add: update_status_eq [OF k(2) wf2] n2_def [symmetric] h1 [folded n2_def] n3_def)
      (simp add: n2_def h1 n3_def allocating allocating_record_def)
  have h3: "hget R (store n3) ?A k = Some (JObj allocating)" by (simp add: n3_def hget_hset)
  have wf3: "entries R wf_entry n3"
    using py_invD [OF update_status_inv wf2, of "[(''status'', JStr ''allocating''), (''rm_endpoint'', JStr ep),
      (''message'', JStr ''in progress'')]" "JStr k"] upd
    by (simp add: good_kw_def stored_statuses_def)
  have call: "rm_allocate W (JStr ep) (restricted allocating demands hosts) n3 = (Inr result, n4)"
    by (simp add: rm_allocate_def py_defs ns http2)
  have wf4: "entries R wf_entry n4" using wf3 by (simp add: n4_def entries_def)
  have h4: "hget R (store n4) ?A k = Some (JObj allocating)" by (simp add: n4_def h3)
  have "fld (keyed_rm rk rm) ''endpoint'' = Some (JStr ep)" by (simp add: keyed_rm_def ep)
  from save_fulfilled_request_eq [OF k(2) wf4 hw this h4]
  have save: "save_fulfilled_request R W (JStr k) (keyed_rm rk rm) result n4 = (Inr (), n5)"
    by (simp add: n5_def final_def n4_def)
  have loop: "fulfil_loop R W (JStr k) [(keyed_rm rk rm, hosts)] n3 = (Inr (), n5)"
    using h3 alloc_demands kep call save
    by (simp add: py_bind_def allocations_eq [OF k(2)] py_lift_def restrict_demands_def res_bind_def
        restricted_def [symmetric] py_attempt_def py_then_def py_return_def)
  have h5: "hget R (store n5) ?A k = Some final" by (simp add: n5_def hget_hset)
  have "serve_request R W (JStr k) (JObj m) n = (Inr final, n5)"
    using k s0 find possible kep upd loop h5
    by (simp add: serve_request_def py_bind_def py_lift_def allocations_eq py_then_def
        jlist_def res_bind_def py_return_def)
  moreover have "hget R (store n5) h k' = hget R (store n) h k'" if "(h, k') \<noteq> (?A, k)" for h k'
    using that by (auto simp: ns hget_hset)
  moreover have "world n5 = w2" by (simp add: ns)
  ultimately show ?thesis using h5 by (auto simp: final_def)
qed

lemma fulfill_new:
  assumes "map_of m ''allocation_id'' = Some (JStr k)" and "k \<noteq> []" and "hget R (store n) ''allocations'' k = None"
    and "uuid4 W (world n) = (u, w0)"
  shows "fulfill R W (JObj m) n = serve_request R W (JStr k) (JObj m) (n\<lparr>world := w0\<rparr>)"
  using assms by (simp add: fulfill_def py_bind_def w_uuid4_def py_lift_def allocations_eq)

lemma fulfill_single:
  fixes W :: "'w world_ops" and n :: "('s, 'w) node"
  assumes wf: "entries R wf_entry n"
    and k: "map_of m ''allocation_id'' = Some (JStr k)" "k \<noteq> []"
    and demands: "map_of m ''demands'' = Some (JObj demands)"
    and new: "hget R (store n) ''allocations'' k = None"
    and rms: "hgetall R (store n) ''resource_managers'' = [(rk, JObj rm)]"
    and ep: "map_of rm ''endpoint'' = Some (JStr ep)"
    and uuid: "uuid4 W (world n) = (u, w0)"
    and saved: "saved = saved_record m (clock W w0)"
    and allocating: "allocating = allocating_record saved (JStr ep)"
    and http1: "http W w0 \<lparr>req_verb = POST, req_url = theoretically_url ep, req_body = JObj saved\<rparr> = (HReply 200 b, w1)"
    and hosts: "fld b ''machines'' = Some (JList hosts)" "\<forall>h \<in> set hosts. hashable h"
      "length (remdups hosts) = length demands"
    and http2: "http W w1 \<lparr>req_verb = POST, req_url = now_url ep, req_body = restricted allocating demands hosts\<rparr>
      = (HReply 200 result, w2)"
    and hw: "hardware_of (keyed_rm rk rm) result = Inr details"
  shows "\<exists>n'. fulfill R W (JObj m) n =
      (Inr (JObj (dict_update allocating (fulfilled_kw (JStr ep) details result (clock W w2)))), n')
    \<and> hget R (store n') ''allocations'' k =
        Some (JObj (dict_update allocating (fulfilled_kw (JStr ep) details result (clock W w2))))
    \<and> (\<forall>h k'. (h, k') \<noteq> (''allocations'', k) \<longrightarrow> hget R (store n') h k' = hget R (store n) h k')
    \<and> world n' = w2"
  using serve_request_single [of "n\<lparr>world := w0\<rparr>", OF _ k demands _ ep _ saved allocating http1 hosts http2 hw] wf rms
  by (simp add: fulfill_new [OF k new uuid] entries_def)

end

section \<open>The loop that splits the hosts, and the release\<close>

text \<open>Whatever the status updates do, a loop that comes to its end has split the hosts as \<open>dedupe_at\<close>
  does.\<close>

lemma dedupe_loop_result: "dedupe_loop R aid is ps n = (Inr qs, n') \<Longrightarrow> qs = foldl dedupe_at ps is"
proof (induction "is" arbitrary: ps n)
  case Nil
  then show ?case by (simp add: py_return_def)
next
  case (Cons i "is")
  then show ?case
    by (auto simp: py_bind_def py_then_def py_lift_def split: sum.splits prod.splits)
qed

lemma dedupe_loop_dedupe:
  "dedupe_loop R aid [0..<length ps] ps n = (Inr qs, n') \<Longrightarrow> qs = dedupe ps"
  by (simp add: dedupe_loop_result dedupe_def)

text \<open>The calls that a release makes leave the store alone.\<close>

lemma release_calls_store: "py_inv (\<lambda>n. store n = s) (py_for details (\<lambda>hd.
    py_bind (py_lift (jitem hd ''vm_id'')) (\<lambda>vm_id.
    py_bind (py_lift (jitem hd ''resource_manager_ep'')) (\<lambda>ep.
    py_then (rm_deallocate W vm_id ep) (py_return ())))))"
  unfolding rm_deallocate_def by (intro py_inv_intro)

context redis_server
begin

lemma release_outcome:
  fixes W :: "'w world_ops" and n :: "('s, 'w) node"
  assumes k: "k \<noteq> []" and wf: "entries R wf_entry n"
    and run: "release R W (JStr k) n = (r, n')"
  shows "(\<exists>e. r = Inl e \<and> store n' = store n)
    \<or> (r = Inr () \<and> (\<forall>h k'. hget R (store n') h k' =
         (if h = ''allocations'' \<and> k' = k then None else hget R (store n) h k')))"
proof (cases "hget R (store n) ''allocations'' k")
  case None
  with run show ?thesis
    by (auto simp: release_def py_bind_def allocations_eq [OF k] py_return_def)
next
  case (Some a)
  with entries_hgetD [OF wf] obtain m where a: "hget R (store n) ''allocations'' k = Some (JObj m)"
    and aid: "map_of m ''allocation_id'' = Some (JStr k)" by blast
  then have tr: "truthy (JObj m)" by auto
  show ?thesis
  proof (cases "res_bind (jget (JObj m) ''hardware_details'' (JList [])) jiter")
    case (Inl e)
    with run a tr show ?thesis
      by (auto simp: release_def py_bind_def allocations_eq [OF k] py_lift_def)
  next
    case (Inr details)
    define calls :: "('s, 'w, unit) svc" where "calls = py_for details (\<lambda>hd.
      py_bind (py_lift (jitem hd ''vm_id'')) (\<lambda>vm_id.
      py_bind (py_lift (jitem hd ''resource_manager_ep'')) (\<lambda>ep.
      py_then (rm_deallocate W vm_id ep) (py_return ()))))"
    obtain rc n1 where c: "calls n = (rc, n1)" by (cases "calls n")
    from py_invD [OF release_calls_store, of n "store n" details W] c
    have st: "store n1 = store n" by (simp add: calls_def)
    have wf1: "entries R wf_entry n1" using wf st by (simp add: entries_def)
    have body: "release R W (JStr k) n = py_then calls
        (py_then (update_status R (JStr k) [(''status'', JStr ''deallocated'')])
          (py_bind (py_lift (jkey (JStr k))) (\<lambda>k. delete R ''allocations'' [k]))) n"
    proof -
      have "allocations R (JStr k) n = (Inr (JObj m), n)" by (simp add: allocations_eq [OF k] a)
      moreover have "py_lift (res_bind (jget (JObj m) ''hardware_details'' (JList [])) jiter) n = (Inr details, n)"
        by (simp only: py_lift_def Inr)
      ultimately show ?thesis
        unfolding release_def calls_def by (simp only: py_bind_run tr not_True_eq_False if_False)
    qed
    show ?thesis
    proof (cases rc)
      case (Inl e)
      with run body c st show ?thesis by (auto simp: py_then_def py_bind_def)
    next
      case (Inr u)
      have "update_status R (JStr k) [(''status'', JStr ''deallocated'')] n1 = (Inr (),
          n1\<lparr>store := hset R (store n1) ''allocations'' k
            (JObj (dict_update m [(''status'', JStr ''deallocated'')]))\<rparr>)"
        using a st by (simp add: update_status_eq [OF k wf1])
      with run body c Inr st show ?thesis
        by (auto simp: py_then_def py_bind_def py_lift_def delete_def r_hdel_def py_modify_def
            hget_hdel hget_hset)
    qed
  qed
qed

end

end
