(* ===== verification/Expires.thy ===== *)
theory Expires
  imports Provisioner_Store Rm_Requestor
begin

text \<open>
  The background task of the allocate service (\<open>hwallocator/provisioner/webapp/expires.py\<close>): every
  ten seconds it walks over the stored allocations, asks the resource managers about those that are
  in none of the regular states, deallocates the expired ones and removes what nobody owns.

  The deallocations are tasks that start while the walk goes on.  They touch no hash, so the model
  runs them where the code awaits them, in the order they were created.
\<close>

section \<open>Deallocating\<close>

definition try_deallocate :: "'w world_ops \<Rightarrow> json \<Rightarrow> json \<Rightarrow> ('s, 'w, unit) svc" where
  "try_deallocate W ep name = py_then (rm_deallocate W name ep) (py_return ())"

definition expire_deallocate :: "'w world_ops \<Rightarrow> json \<Rightarrow> ('s, 'w, unit) svc" where
  "expire_deallocate W allocation =
     py_bind (py_lift (res_bind (jitem allocation ''hardware_details'') jiter)) (\<lambda>details.
     py_for details (\<lambda>hardware.
       py_bind (py_lift (jitem hardware ''resource_manager_ep'')) (\<lambda>rm_ep.
       py_bind (py_lift (jitem hardware ''vm_id'')) (\<lambda>vm_name.
         try_deallocate W rm_ep vm_name))))"

section \<open>One allocation\<close>

definition regular_statuses :: "json list" where
  "regular_statuses = [JStr ''received'', JStr ''allocating'', JStr ''success'']"

definition jnum :: "json \<Rightarrow> rat res" where
  "jnum v = (case v of JNum q \<Rightarrow> Inr q | _ \<Rightarrow> Inl (Exn TypeErr ''not a number''))"

definition unknown_kw :: "json dict" where
  "unknown_kw = [(''status'', JStr ''unknown''), (''message'', JStr ''Currently unable to check status'')]"

text \<open>The part of the loop body after the state was looked at: is the allocation past its
  expiration?  The result says which deallocation was scheduled and how the rest of the body
  ended.\<close>

definition expire_due :: "'s redis_ops \<Rightarrow> 'w world_ops \<Rightarrow> string \<Rightarrow> json
    \<Rightarrow> ('s, 'w, json option \<times> unit res) svc" where
  "expire_due R W allocation_id allocation =
     py_bind (py_lift (res_bind (jitem allocation ''expiration'') jnum)) (\<lambda>expiration.
     py_bind (w_time W) (\<lambda>t.
     if expiration \<le> t then
       py_bind (py_lift (jitem allocation ''status'')) (\<lambda>status.
       if status \<in> {JStr ''success'', JStr ''allocated''} then
         py_bind (py_lift (jset allocation ''status'' (JStr ''deallocating''))) (\<lambda>allocation.
         py_bind (py_attempt (py_bind (py_lift (res_bind (jitem allocation ''allocation_id'') jkey))
             (\<lambda>k. r_hset R ''allocations'' k allocation))) (\<lambda>r.
         py_return (Some allocation, r)))
       else py_then (delete R ''allocations'' [allocation_id]) (py_return (None, Inr ())))
     else py_then (py_lift (jitem allocation ''allocation_id'')) (py_return (None, Inr ()))))"

definition expire_one :: "'s redis_ops \<Rightarrow> 'w world_ops \<Rightarrow> string \<Rightarrow> json
    \<Rightarrow> ('s, 'w, json option \<times> unit res) svc" where
  "expire_one R W allocation_id allocation =
     py_bind (py_lift (jitem allocation ''status'')) (\<lambda>status.
     if status \<notin> set regular_statuses then
       py_bind (py_lift (jget allocation ''rm_endpoint'' JNull)) (\<lambda>rm_endpoint.
       if \<not> truthy rm_endpoint then
         py_then (delete R ''allocations'' [allocation_id]) (py_return (None, Inr ()))
       else
       py_bind (py_lift (res_bind (jitem allocation ''expiration'') jnum)) (\<lambda>expiration.
       py_bind (w_time W) (\<lambda>t.
       if expiration < t - 15 * 60 then
         py_then (delete R ''allocations'' [allocation_id]) (py_return (None, Inr ()))
       else
       py_bind (py_attempt
         (py_bind (py_lift (jitem allocation ''allocation_id'')) (\<lambda>aid.
          py_bind (py_lift (jitem allocation ''rm_endpoint'')) (\<lambda>ep. check_status W aid ep)))) (\<lambda>r.
       case r of
         Inl e \<Rightarrow> py_then (update_status R (JStr allocation_id) unknown_kw) (py_return (None, Inr ()))
       | Inr result \<Rightarrow>
           if truthy result then
             py_then (save_fulfilled_request R W (JStr allocation_id)
                 (JObj [(''endpoint'', rm_endpoint)]) result)
               (py_return (None, Inr ()))
           else expire_due R W allocation_id allocation))))
     else expire_due R W allocation_id allocation)"

section \<open>One pass\<close>

text \<open>The walk stops at the first exception; what was scheduled up to there is returned.\<close>

fun expire_scan :: "'s redis_ops \<Rightarrow> 'w world_ops \<Rightarrow> json dict \<Rightarrow> json dict
    \<Rightarrow> ('s, 'w, json dict \<times> unit res) svc" where
  "expire_scan R W [] tasks = py_return (tasks, Inr ())"
| "expire_scan R W ((allocation_id, allocation) # rest) tasks =
     py_bind (py_attempt (expire_one R W allocation_id allocation)) (\<lambda>r.
     case r of
       Inl e \<Rightarrow> py_return (tasks, Inl e)
     | Inr (scheduled, r') \<Rightarrow>
         (let tasks' = (case scheduled of None \<Rightarrow> tasks | Some a \<Rightarrow> AList.update allocation_id a tasks)
          in case r' of
               Inl e \<Rightarrow> py_return (tasks', Inl e)
             | Inr _ \<Rightarrow> expire_scan R W rest tasks'))"

definition finish_task :: "'s redis_ops \<Rightarrow> 'w world_ops \<Rightarrow> string \<times> json \<Rightarrow> ('s, 'w, unit) svc" where
  "finish_task R W task =
     py_try
       (py_then (expire_deallocate W (snd task)) (delete R ''allocations'' [fst task]))
       (\<lambda>_. update_status R (JStr (fst task)) [(''status'', JStr ''error_deallocating'')])"

text \<open>When the walk raised, the scheduled tasks run on but nobody awaits them.\<close>

definition expire_pass :: "'s redis_ops \<Rightarrow> 'w world_ops \<Rightarrow> ('s, 'w, unit) svc" where
  "expire_pass R W =
     py_try
       (py_bind (allocations R JNull) (\<lambda>allocations.
        py_bind (py_lift (jobj allocations)) (\<lambda>kvs.
        py_bind (expire_scan R W kvs []) (\<lambda>(tasks, r).
        case r of
          Inl e \<Rightarrow> py_then (py_gather tasks (\<lambda>t. expire_deallocate W (snd t))) (py_raise e)
        | Inr _ \<Rightarrow> py_for tasks (finish_task R W)))))
       (\<lambda>_. py_return ())"

fun expire_rounds :: "'s redis_ops \<Rightarrow> 'w world_ops \<Rightarrow> nat \<Rightarrow> ('s, 'w, unit) svc" where
  "expire_rounds R W 0 = py_return ()"
| "expire_rounds R W (Suc i) =
     py_then (expire_pass R W) (py_then (w_sleep W 10) (expire_rounds R W i))"

section \<open>The invariant\<close>

lemma wf_deallocating:
  "wf_allocation k a \<Longrightarrow> jset a ''status'' (JStr ''deallocating'') = Inr a' \<Longrightarrow> wf_allocation k a'"
  by (auto simp: wf_allocation_def fld_jset stored_statuses_def)

lemma expire_deallocate_inv: "py_inv (entries R P) (expire_deallocate W a)"
  unfolding expire_deallocate_def try_deallocate_def by (intro py_inv_intro)

lemma deallocate_store: "py_inv (\<lambda>n. store n = s) (expire_deallocate W a)"
  unfolding expire_deallocate_def try_deallocate_def rm_deallocate_def by (intro py_inv_intro)

context redis_server
begin

lemma expire_due_inv:
  assumes a: "wf_allocation k a"
  shows "py_inv (entries R wf_entry) (expire_due R W k a)"
proof -
  have *: "py_inv (entries R wf_entry)
      (py_bind (py_lift (res_bind (jitem a' ''allocation_id'') jkey)) (\<lambda>k. r_hset R ''allocations'' k a'))"
    if "jset a ''status'' (JStr ''deallocating'') = Inr a'" for a'
    using wf_deallocating [OF a that]
    by (intro py_inv_bind_spec [OF py_spec_lift [where Q = "\<lambda>k'. k' = k"]] entries_hset)
      (auto simp: wf_entry_def wf_allocation_def jitem_Inr_iff)
  show ?thesis
    unfolding expire_due_def
    by (intro py_inv_intro delete_inv py_inv_attempt *
        py_inv_bind_spec [OF py_spec_lift [where Q = "\<lambda>r. jset a _ _ = Inr r"]])
qed

lemma expire_one_inv: "wf_allocation k a \<Longrightarrow> py_inv (entries R wf_entry) (expire_one R W k a)"
  unfolding expire_one_def
  by (intro py_inv_intro delete_inv update_status_inv save_fulfilled_request_inv expire_due_inv)
    (auto simp: unknown_kw_def good_kw_def stored_statuses_def)

lemma expire_scan_inv:
  "\<forall>(k, a) \<in> set kvs. wf_allocation k a \<Longrightarrow> py_inv (entries R wf_entry) (expire_scan R W kvs tasks)"
proof (induction kvs arbitrary: tasks)
  case Nil
  then show ?case by (simp add: py_inv_return)
next
  case (Cons p kvs)
  then show ?case
    by (cases p) (auto intro!: py_inv_intro expire_one_inv split: prod.splits)
qed

lemma finish_task_inv: "py_inv (entries R wf_entry) (finish_task R W t)"
  unfolding finish_task_def
  by (intro py_inv_intro expire_deallocate_inv delete_inv update_status_inv)
    (simp add: good_kw_def stored_statuses_def)

lemma expire_pass_inv: "py_inv (entries R wf_entry) (expire_pass R W)"
proof -
  have *: "py_inv (entries R wf_entry) (py_bind (expire_scan R W kvs []) (\<lambda>(tasks, r).
        case r of
          Inl e \<Rightarrow> py_then (py_gather tasks (\<lambda>t. expire_deallocate W (snd t))) (py_raise e)
        | Inr _ \<Rightarrow> py_for tasks (finish_task R W)))"
    if "\<forall>(k, v) \<in> set kvs. wf_entry ''allocations'' k v" for kvs
    using that
    by (intro py_inv_intro expire_scan_inv finish_task_inv expire_deallocate_inv)
      (auto simp: wf_entry_def)
  have jobj: "jobj a = Inr kvs \<Longrightarrow> a = JObj kvs" for a kvs
    by (simp add: jobj_def split: json.splits)
  show ?thesis
    unfolding expire_pass_def
    by (rule py_inv_try [OF py_inv_bind_spec [OF allocations_all_spec] py_inv_return],
        rule py_inv_bind_spec [OF py_spec_lift]) (auto intro!: * dest!: jobj)
qed

end

text \<open>Whatever happens in a pass, the task goes on.\<close>

lemma expire_pass_returns: "fst (expire_pass R W n) = Inr ()"
  by (auto simp: expire_pass_def py_try_def py_return_def split: sum.splits prod.splits)

lemma expire_rounds_returns: "fst (expire_rounds R W i n) = Inr ()"
proof (induction i arbitrary: n)
  case 0
  then show ?case by (simp add: py_return_def)
next
  case (Suc i)
  obtain n1 where "expire_pass R W n = (Inr (), n1)"
    using expire_pass_returns [of R W n] by (metis prod.collapse)
  then show ?case
    using Suc.IH by (simp add: py_then_def py_bind_def w_sleep_def py_modify_def)
qed

end
