(* ===== verification/Provisioner_Rest.thy ===== *)
theory Provisioner_Rest
  imports Fulfiller_Correct Expires
begin

text \<open>
  The HTTP and websocket handlers of the allocate service (\<open>rest.py\<close>, \<open>resourcemanager.py\<close>,
  \<open>claim.py\<close> and the environment check of \<open>app.py\<close> under \<open>hwallocator/provisioner/webapp\<close>) and the
  heartbeat service (\<open>hwallocator/heartbeat_server/webapp/heartbeats.py\<close>), which shares the Redis
  hash \<open>allocations\<close> with it.
\<close>

text \<open>A reply of a handler: the HTTP status and the JSON body.\<close>

type_synonym reply = "int \<times> json"

definition status_body :: "int \<Rightarrow> json dict \<Rightarrow> json" where
  "status_body st rest = JObj ((''status'', JNum (of_int st)) # rest)"

section \<open>Jobs\<close>

definition alljobs :: "'s redis_ops \<Rightarrow> ('s, 'w, reply) svc" where
  "alljobs R = py_bind (r_hgetall R ''allocations'') (\<lambda>kvs.
     py_return (200, status_body 200 [(''data'', JList (map snd kvs))]))"

text \<open>A missing job is a reply with HTTP status 200 whose body says 404.\<close>

definition onejob :: "'s redis_ops \<Rightarrow> string \<Rightarrow> ('s, 'w, reply) svc" where
  "onejob R allocation_id = py_bind (r_hget R ''allocations'' allocation_id) (\<lambda>job.
     (case job of
        None \<Rightarrow> py_return (200, status_body 404
          [(''error'', JStr (''couldnt find allocation_id '' @ allocation_id))])
      | Some data \<Rightarrow> py_return (200, status_body 200 [(''data'', data)])))"

text \<open>\<open>k in v\<close> for a decoded value.\<close>

definition jcontains :: "json \<Rightarrow> string \<Rightarrow> bool res" where
  "jcontains v k = (case v of
      JObj m \<Rightarrow> Inr (map_of m k \<noteq> None)
    | JList xs \<Rightarrow> Inr (JStr k \<in> set xs)
    | JStr s \<Rightarrow> Inr (infix_of k s)
    | _ \<Rightarrow> Inl (Exn TypeErr ''not iterable''))"

text \<open>The websocket: what it sends, and how the handler ends when the messages are used up or one
  of them raises outside the inner \<open>try\<close>.\<close>

fun fulfill_ws :: "'s redis_ops \<Rightarrow> 'w world_ops \<Rightarrow> json list \<Rightarrow> ('s, 'w, json list \<times> unit res) svc" where
  "fulfill_ws R W [] = py_return ([], Inr ())"
| "fulfill_ws R W (payload # msgs) =
     (case res_bind (jcontains payload ''data'') (\<lambda>has.
        if has then res_bind (jitem payload ''data'') (\<lambda>d. Inr (Some d)) else Inr None) of
       Inl e \<Rightarrow> py_return ([], Inl e)
     | Inr None \<Rightarrow> fulfill_ws R W msgs
     | Inr (Some data) \<Rightarrow>
         py_bind (py_attempt (fulfill R W data)) (\<lambda>r.
         py_bind (fulfill_ws R W msgs) (\<lambda>(replies, ending).
           py_return ((case r of
               Inl e \<Rightarrow> JObj [(''status'', JStr ''exception''), (''message'', JStr (exn_msg e))]
             | Inr resp \<Rightarrow> resp) # replies, ending))))"

definition release_job :: "'s redis_ops \<Rightarrow> 'w world_ops \<Rightarrow> string \<Rightarrow> ('s, 'w, reply) svc" where
  "release_job R W allocation_id =
     py_then (release R W (JStr allocation_id)) (py_return (200, status_body 200 []))"

section \<open>Resource managers\<close>

definition rm_heartbeat :: "'s redis_ops \<Rightarrow> json \<Rightarrow> ('s, 'w, reply) svc" where
  "rm_heartbeat R body =
     py_bind (py_lift (res_bind (jget body ''alias'' JNull) jkey)) (\<lambda>rm_alias.
     py_then (r_hset R ''resource_managers'' rm_alias body)
       (py_return (200, status_body 200 [])))"

definition volunteer :: "'s redis_ops \<Rightarrow> json \<Rightarrow> string \<Rightarrow> ('s, 'w, reply) svc" where
  "volunteer R body resourcemanager_id =
     py_bind (py_lift (jcontains body ''data'')) (\<lambda>has.
     if has then
       py_bind (py_lift (res_bind (jitem body ''data'') jiter)) (\<lambda>volunteers.
       py_then (py_for volunteers (\<lambda>v.
           py_bind (py_lift (jitem v ''inventory_type'')) (\<lambda>ty.
           py_bind (py_lift (jitem v ''inventory_ref'')) (\<lambda>ref.
             r_publish R (''i:'' @ resourcemanager_id @ ''-'' @ py_str ty @ ''-'' @ py_str ref) v))))
         (py_return (200, status_body 200 [])))
     else py_return (400, JObj [(''status'', JStr ''400''), (''reason'', JStr ''data not in payload'')]))"

definition claim :: "'s redis_ops \<Rightarrow> json \<Rightarrow> ('s, 'w, reply) svc" where
  "claim R data =
     py_bind (py_lift (res_bind (jitem data ''allocation_id'') jkey)) (\<lambda>aid.
     py_bind (r_hget R ''jobs'' aid) (\<lambda>job.
     py_bind (case job of None \<Rightarrow> py_raise (Exn TypeErr ''the JSON object must be str'')
                        | Some j \<Rightarrow> py_return j) (\<lambda>job_data.
     py_bind (py_lift (jset job_data ''state'' (JStr ''claimed''))) (\<lambda>job_data.
     py_bind (py_lift (res_bind (jitem data ''resourcemanager_id'') (jset job_data ''resourcemanager_id''))) (\<lambda>job_data.
     py_bind (py_lift (res_bind (jitem data ''inventory_type'') (jset job_data ''inventory_type''))) (\<lambda>job_data.
     py_bind (py_lift (res_bind (jitem data ''inventory_ref'') (jset job_data ''inventory_ref''))) (\<lambda>job_data.
     py_then (r_hset R ''jobs'' aid job_data)
     (py_then (r_publish R (''j:'' @ aid) data)
       (py_return (200, status_body 200 [(''data'', JStr ''claimed'')]))))))))))"

section \<open>Start-up\<close>

definition required_env :: "string list" where
  "required_env = [''REDIS_PORT'', ''REDIS_HOST'', ''REDIS_DB'', ''REDIS_USER'', ''REDIS_PASSWORD'']"

definition checkenv :: "string dict \<Rightarrow> unit res" where
  "checkenv env =
     (let missing = filter (\<lambda>field. case map_of env field of None \<Rightarrow> True | Some v \<Rightarrow> v = []) required_env
      in if missing \<noteq> [] then
           Inl (Exn OSErr (''The following environment variables are not set: '' @ join '', '' missing))
         else Inr ())"

lemma checkenv_ok: "checkenv env = Inr () \<longleftrightarrow>
    (\<forall>f \<in> set required_env. \<exists>v. map_of env f = Some v \<and> v \<noteq> [])"
  by (auto simp: checkenv_def Let_def filter_empty_conv required_env_def split: option.splits)

lemma checkenv_eq:
  "checkenv env = (if \<forall>f \<in> set required_env. \<exists>v. map_of env f = Some v \<and> v \<noteq> [] then Inr ()
     else Inl (Exn OSErr (''The following environment variables are not set: '' @
       join '', '' (filter (\<lambda>f. map_of env f = None \<or> map_of env f = Some []) required_env))))"
proof -
  have "(case map_of env f of None \<Rightarrow> True | Some v \<Rightarrow> v = []) \<longleftrightarrow> map_of env f = None \<or> map_of env f = Some []" for f
    by (simp split: option.splits)
  moreover have "filter (\<lambda>f. map_of env f = None \<or> map_of env f = Some []) required_env = []
      \<longleftrightarrow> (\<forall>f \<in> set required_env. \<exists>v. map_of env f = Some v \<and> v \<noteq> [])"
    unfolding filter_empty_conv by (metis not_None_eq option.inject)
  ultimately show ?thesis by (simp add: checkenv_def Let_def)
qed

section \<open>The heartbeat service\<close>

definition update_expires :: "'s redis_ops \<Rightarrow> 'w world_ops \<Rightarrow> json \<Rightarrow> ('s, 'w, unit) svc" where
  "update_expires R W allocation_id =
     py_bind (py_lift (jkey allocation_id)) (\<lambda>k.
     py_bind (r_hget R ''allocations'' k) (\<lambda>value.
     py_bind (case value of None \<Rightarrow> py_raise (Exn TypeErr ''the JSON object must be str'')
                          | Some v \<Rightarrow> py_return v) (\<lambda>d_value.
     py_bind (w_time W) (\<lambda>t.
     py_bind (py_lift (jset d_value ''expiration'' (JNum (t + 60)))) (\<lambda>d_value.
     py_bind (py_lift (jitem d_value ''status'')) (\<lambda>status.
     if status \<noteq> JStr ''success'' then
       py_raise (Exn PlainException (''received hb for allocation which has status: '' @ py_str status))
     else r_hset R ''allocations'' k d_value))))))"

definition heartbeat :: "'s redis_ops \<Rightarrow> 'w world_ops \<Rightarrow> json \<Rightarrow> ('s, 'w, reply) svc" where
  "heartbeat R W body =
     py_bind (py_lift (jcontains body ''allocation_id'')) (\<lambda>has.
     if has then
       py_bind (py_lift (jitem body ''allocation_id'')) (\<lambda>allocation_id.
       py_bind (py_attempt (update_expires R W allocation_id)) (\<lambda>r.
         (case r of
            Inl e \<Rightarrow> py_return (400, status_body 400 [(''reason'', JStr (exn_msg e))])
          | Inr _ \<Rightarrow> py_return (200, status_body 200 []))))
     else py_return (400, status_body 400 [(''reason'', JStr ''allocation_id missing from body'')]))"

section \<open>What a heartbeat does\<close>

lemma update_expires_success:
  assumes "hget R (store n) ''allocations'' k = Some (JObj m)"
    and "map_of m ''status'' = Some (JStr ''success'')"
  shows "update_expires R W (JStr k) n = (Inr (), n\<lparr>store := hset R (store n) ''allocations'' k
    (JObj (AList.update ''expiration'' (JNum (clock W (world n) + 60)) m))\<rparr>)"
  using assms by (simp add: update_expires_def py_defs)

lemma update_expires_refused:
  assumes "case hget R (store n) ''allocations'' k of None \<Rightarrow> True
    | Some a \<Rightarrow> fld a ''status'' \<noteq> Some (JStr ''success'')"
  shows "\<exists>e. update_expires R W (JStr k) n = (Inl e, n)"
  using assms
  by (auto simp: update_expires_def py_defs jset_def jitem_def fld_def split: option.splits json.splits sum.splits)

lemma heartbeat_eq:
  assumes "map_of b ''allocation_id'' = Some aid"
  shows "heartbeat R W (JObj b) n =
    (case update_expires R W aid n of
       (Inl e, n') \<Rightarrow> (Inr (400, status_body 400 [(''reason'', JStr (exn_msg e))]), n')
     | (Inr _, n') \<Rightarrow> (Inr (200, status_body 200 []), n'))"
  using assms
  by (simp add: heartbeat_def jcontains_def py_bind_def py_lift_def py_attempt_def py_return_def
      split: prod.splits sum.splits)

lemma heartbeat_replies:
  "map_of b ''allocation_id'' = Some aid \<Longrightarrow> \<exists>rep n'. heartbeat R W (JObj b) n = (Inr rep, n')"
  by (auto simp: heartbeat_eq split: prod.splits sum.splits)

lemma heartbeat_refused:
  assumes "case hget R (store n) ''allocations'' k of None \<Rightarrow> True
    | Some a \<Rightarrow> fld a ''status'' \<noteq> Some (JStr ''success'')"
  shows "\<exists>b. heartbeat R W (JObj [(''allocation_id'', JStr k)]) n = (Inr (400, b), n)"
  using update_expires_refused [of R n k, OF assms, of W] by (auto simp: heartbeat_eq)

lemma heartbeat_success:
  assumes "hget R (store n) ''allocations'' k = Some (JObj m)" and "map_of m ''status'' = Some (JStr ''success'')"
  shows "heartbeat R W (JObj [(''allocation_id'', JStr k)]) n = (Inr (200, status_body 200 []),
    n\<lparr>store := hset R (store n) ''allocations'' k
      (JObj (AList.update ''expiration'' (JNum (clock W (world n) + 60)) m))\<rparr>)"
  by (simp add: heartbeat_eq update_expires_success [OF assms])

section \<open>The invariant\<close>

context redis_server
begin

lemma update_expires_inv:
  fixes W :: "'w world_ops"
  shows "py_inv (entries R wf_entry) (update_expires R W aid)"
proof (unfold py_inv_def, intro allI impI)
  fix n :: "('s, 'w) node"
  assume wf: "entries R wf_entry n"
  show "entries R wf_entry (snd (update_expires R W aid n))"
  proof (cases "\<exists>k a. aid = JStr k \<and> hget R (store n) ''allocations'' k = Some a \<and> fld a ''status'' = Some (JStr ''success'')")
    case True
    then obtain k a where aid: "aid = JStr k" and a: "hget R (store n) ''allocations'' k = Some a"
      and st: "fld a ''status'' = Some (JStr ''success'')" by blast
    from wf a have "wf_allocation k a" by (simp add: entries_def wf_entry_def)
    with st obtain m where m: "a = JObj m" and "map_of m ''status'' = Some (JStr ''success'')"
      and "map_of m ''allocation_id'' = Some (JStr k)"
      by (auto dest!: wf_allocation_JObj)
    then have "wf_allocation k (JObj (AList.update ''expiration'' (JNum q) m))" for q
      by (simp add: wf_allocation_def stored_statuses_def)
    with update_expires_success [of R n k m W] a m st wf aid show ?thesis
      by (auto simp: entries_def hget_hset wf_entry_def)
  next
    case False
    then have "snd (update_expires R W aid n) = n"
    proof (cases aid)
      case (JStr k)
      with False have "case hget R (store n) ''allocations'' k of None \<Rightarrow> True
          | Some a \<Rightarrow> fld a ''status'' \<noteq> Some (JStr ''success'')"
        by (simp split: option.splits)
      from update_expires_refused [of R n k, OF this, of W] JStr show ?thesis by auto
    qed (simp_all add: update_expires_def py_defs jkey_def)
    with wf show ?thesis by simp
  qed
qed

lemma heartbeat_inv: "py_inv (entries R wf_entry) (heartbeat R W body)"
  unfolding heartbeat_def by (intro py_inv_intro update_expires_inv)

lemma rm_heartbeat_inv: "py_inv (entries R wf_entry) (rm_heartbeat R body)"
  unfolding rm_heartbeat_def by (intro py_inv_intro entries_hset) (simp add: wf_entry_def)

lemma claim_inv: "py_inv (entries R wf_entry) (claim R data)"
  unfolding claim_def by (intro py_inv_intro entries_hset entries_publish) (simp add: wf_entry_def)

lemma volunteer_inv: "py_inv (entries R P) (volunteer R body rmid)"
  unfolding volunteer_def by (intro py_inv_intro entries_publish)

lemma alljobs_inv: "py_inv (entries R P) (alljobs R)"
  unfolding alljobs_def by (intro py_inv_intro)

lemma onejob_inv: "py_inv (entries R P) (onejob R aid)"
  unfolding onejob_def by (intro py_inv_intro)

lemma release_job_inv: "py_inv (entries R wf_entry) (release_job R W aid)"
  unfolding release_job_def by (intro py_inv_intro release_inv)

lemma fulfill_ws_inv: "py_inv (entries R wf_entry) (fulfill_ws R W msgs)"
proof (induction msgs)
  case Nil
  then show ?case by (simp add: py_inv_return)
next
  case (Cons p msgs)
  then show ?case
    by (simp only: fulfill_ws.simps) (intro py_inv_intro fulfill_inv)
qed

end

section \<open>The service as a state machine\<close>

text \<open>Whole operations of the two services, in any order.\<close>

datatype operation =
    OpWebsocket "json list"
  | OpRelease string
  | OpRmHeartbeat json
  | OpVolunteer json string
  | OpClaim json
  | OpAllJobs
  | OpOneJob string
  | OpHeartbeat json
  | OpExpirePass

fun perform :: "'s redis_ops \<Rightarrow> 'w world_ops \<Rightarrow> operation \<Rightarrow> ('s, 'w) node \<Rightarrow> ('s, 'w) node" where
  "perform R W (OpWebsocket msgs) n = snd (fulfill_ws R W msgs n)"
| "perform R W (OpRelease aid) n = snd (release_job R W aid n)"
| "perform R W (OpRmHeartbeat b) n = snd (rm_heartbeat R b n)"
| "perform R W (OpVolunteer b rmid) n = snd (volunteer R b rmid n)"
| "perform R W (OpClaim b) n = snd (claim R b n)"
| "perform R W OpAllJobs n = snd (alljobs R n)"
| "perform R W (OpOneJob aid) n = snd (onejob R aid n)"
| "perform R W (OpHeartbeat b) n = snd (heartbeat R W b n)"
| "perform R W OpExpirePass n = snd (expire_pass R W n)"

inductive service_step :: "'s redis_ops \<Rightarrow> 'w world_ops \<Rightarrow> ('s, 'w) node \<Rightarrow> ('s, 'w) node \<Rightarrow> bool"
  for R :: "'s redis_ops" and W :: "'w world_ops" where
  operate: "service_step R W n (perform R W operation n)"
| world_moves: "service_step R W n (n\<lparr>world := w\<rparr>)"

inductive_cases service_stepE: "service_step R W n n'"

context redis_server
begin

lemma service_step_inv:
  assumes "service_step R W n n'" and "entries R wf_entry n"
  shows "entries R wf_entry n'"
  using assms(1)
proof (cases rule: service_step.cases)
  case (operate operation)
  then show ?thesis
    using assms(2)
    by (cases operation)
      (auto intro: py_invD fulfill_ws_inv release_job_inv rm_heartbeat_inv volunteer_inv claim_inv
        alljobs_inv onejob_inv heartbeat_inv expire_pass_inv)
next
  case (world_moves w)
  with assms(2) show ?thesis by (simp add: entries_def)
qed

end

end
