(* ===== verification/Interleaved.thy ===== *)
theory Interleaved
  imports Tasks Provisioner_Rest
begin

text \<open>
  The handlers of the allocate service, its expiry task and the heartbeat service as tasks: cut at every Redis
  command and every request to a resource manager.  Run in one go, each is the handler of \<open>Fulfiller\<close>,
  \<open>Expires\<close> and \<open>Provisioner_Rest\<close> (the lemmas \<open>run_\<dots>\<close>).  A request is one piece: the other side has
  done its work when the reply is read.
\<close>

section \<open>Redis client\<close>

definition t_allocations :: "'s redis_ops \<Rightarrow> json \<Rightarrow> (('s, 'w) node, json) task" where
  "t_allocations R aid = t_atomic (allocations R aid)"

definition t_delete :: "'s redis_ops \<Rightarrow> string \<Rightarrow> string list \<Rightarrow> (('s, 'w) node, unit) task" where
  "t_delete R key ks = t_atomic (delete R key ks)"

text \<open>The update of a status reads the record, and writes it back later.\<close>

definition t_update_status :: "'s redis_ops \<Rightarrow> json \<Rightarrow> json dict \<Rightarrow> (('s, 'w) node, unit) task" where
  "t_update_status R aid kw =
     t_bind (t_allocations R aid) (\<lambda>allocation.
     t_bind (t_lift (jupdate allocation kw)) (\<lambda>allocation.
     t_bind (t_lift (res_bind (jitem allocation ''allocation_id'') jkey)) (\<lambda>k.
       t_atomic (r_hset R ''allocations'' k allocation))))"

definition t_save_fulfilled_request ::
    "'s redis_ops \<Rightarrow> 'w world_ops \<Rightarrow> json \<Rightarrow> json \<Rightarrow> json \<Rightarrow> (('s, 'w) node, unit) task" where
  "t_save_fulfilled_request R W aid rm result =
     t_bind (t_lift (res_bind (jitem result ''info'') jiter)) (\<lambda>vms.
     t_bind (t_lift (res_collect vms (hardware_detail rm))) (\<lambda>details.
     t_bind (t_lift (jitem rm ''endpoint'')) (\<lambda>ep.
     t_bind (t_atomic (w_time W)) (\<lambda>t.
       t_update_status R aid
         [(''resource_manager'', ep), (''hardware_details'', JList details),
          (''result'', result), (''status'', JStr ''success''),
          (''expiration'', expiry_in t 60)]))))"

lemma run_update_status [task_run]: "run (t_update_status R aid kw) = update_status R aid kw"
  by (simp add: t_update_status_def update_status_def t_allocations_def task_run)

lemma run_save_fulfilled_request [task_run]:
  "run (t_save_fulfilled_request R W aid rm result) = save_fulfilled_request R W aid rm result"
  by (simp add: t_save_fulfilled_request_def save_fulfilled_request_def task_run)

lemma run_commands [task_run]:
  "run (t_allocations R aid) = allocations R aid" "run (t_delete R key ks) = delete R key ks"
  by (simp_all add: t_allocations_def t_delete_def task_run)

section \<open>Serving a request\<close>

definition t_remove_unavailable_rms ::
    "'s redis_ops \<Rightarrow> (json \<times> json) list \<Rightarrow> json dict \<Rightarrow> (('s, 'w) node, unit) task" where
  "t_remove_unavailable_rms R live_rms all_rms =
     t_bind (t_lift (res_collect live_rms (\<lambda>p. jitem (fst p) ''key''))) (\<lambda>live.
       (let dead = filter (\<lambda>k. JStr k \<notin> set live) (map fst all_rms)
        in if dead \<noteq> [] then t_delete R ''resource_managers'' dead else t_return ()))"

definition t_find_potential_fulfillers ::
    "'s redis_ops \<Rightarrow> 'w world_ops \<Rightarrow> json \<Rightarrow> (('s, 'w) node, (json \<times> json) list) task" where
  "t_find_potential_fulfillers R W aid =
     t_bind (t_allocations R aid) (\<lambda>allocation_request.
     t_bind (t_atomic (resource_managers R JNull)) (\<lambda>rms.
     t_bind (t_lift (jobj rms)) (\<lambda>rms.
     t_bind (t_lift (res_collect rms (\<lambda>(key, rm). jset rm ''key'' (JStr key)))) (\<lambda>keyed.
     t_bind (t_gather keyed (\<lambda>rm. t_atomic (theoretically_fulfill W rm allocation_request))) (\<lambda>rs.
     (let potentials = successes rs in
      t_then (t_remove_unavailable_rms R potentials rms) (t_return potentials)))))))"

fun t_dedupe_loop :: "'s redis_ops \<Rightarrow> json \<Rightarrow> nat list \<Rightarrow> (json \<times> json list) list
    \<Rightarrow> (('s, 'w) node, (json \<times> json list) list) task" where
  "t_dedupe_loop R aid [] ps = t_return ps"
| "t_dedupe_loop R aid (i # is) ps =
     t_bind (t_lift (jitem (fst (ps ! i)) ''endpoint'')) (\<lambda>ep.
     t_then (t_update_status R aid
         [(''status'', JStr ''allocating''), (''rm_endpoint'', ep), (''message'', JStr ''in progress'')])
       (t_dedupe_loop R aid is (dedupe_at ps i)))"

fun t_fulfil_loop :: "'s redis_ops \<Rightarrow> 'w world_ops \<Rightarrow> json \<Rightarrow> (json \<times> json list) list
    \<Rightarrow> (('s, 'w) node, unit) task" where
  "t_fulfil_loop R W aid [] = t_return ()"
| "t_fulfil_loop R W aid ((fulfiller, hosts) # rest) =
     t_bind (t_allocations R aid) (\<lambda>request.
     t_bind (t_lift (restrict_demands request hosts)) (\<lambda>request.
     t_bind (t_attempt (t_bind (t_lift (jitem fulfiller ''endpoint''))
                (\<lambda>ep. t_atomic (rm_allocate W ep request)))) (\<lambda>r.
     case r of
       Inl e \<Rightarrow>
         if exn_kind e = CancelledErr then
           t_update_status R aid [(''status'', JStr ''cancelled''), (''message'', JStr
             ''client cancelled after allocation started but before allocation was finish'')]
         else
           t_then (t_update_status R aid [(''status'', JStr ''exception''), (''message'', JStr (exn_msg e))])
             (t_then (t_lift (jitem fulfiller ''alias'')) (t_return ()))
     | Inr result \<Rightarrow>
         t_then (t_save_fulfilled_request R W aid fulfiller result) (t_fulfil_loop R W aid rest))))"

definition t_serve_request :: "'s redis_ops \<Rightarrow> 'w world_ops \<Rightarrow> json \<Rightarrow> json \<Rightarrow> (('s, 'w) node, json) task" where
  "t_serve_request R W aid allocation_request =
     t_bind (t_atomic (save_request R W allocation_request)) (\<lambda>allocation_request.
     t_bind (t_find_potential_fulfillers R W aid) (\<lambda>potential_fulfillers.
     t_bind (t_lift (all_possible potential_fulfillers allocation_request)) (\<lambda>possible.
     if \<not> possible then
       t_bind (t_allocations R aid) (\<lambda>allocation.
       t_bind (t_lift (jupdate allocation unfulfillable_kw)) (\<lambda>allocation.
       t_bind (t_lift (jkey aid)) (\<lambda>k.
       t_then (t_delete R ''allocations'' [k]) (t_return allocation))))
     else
       t_bind (t_lift (res_collect potential_fulfillers
          (\<lambda>(rm, ms). res_bind (jlist ms) (\<lambda>hosts. Inr (rm, hosts))))) (\<lambda>ps.
       t_bind (t_dedupe_loop R aid [0..<length ps] ps) (\<lambda>ps.
       t_then (t_fulfil_loop R W aid ps) (t_allocations R aid))))))"

definition t_fulfill :: "'s redis_ops \<Rightarrow> 'w world_ops \<Rightarrow> json \<Rightarrow> (('s, 'w) node, json) task" where
  "t_fulfill R W allocation_request =
     t_bind (t_atomic (w_uuid4 W)) (\<lambda>u.
     t_bind (t_lift (jget allocation_request ''allocation_id'' (JStr u))) (\<lambda>aid.
     t_bind (t_allocations R aid) (\<lambda>allocation.
     if truthy allocation then t_return allocation else t_serve_request R W aid allocation_request)))"

definition t_release :: "'s redis_ops \<Rightarrow> 'w world_ops \<Rightarrow> json \<Rightarrow> (('s, 'w) node, unit) task" where
  "t_release R W aid =
     t_bind (t_allocations R aid) (\<lambda>allocation.
     if \<not> truthy allocation then t_return () else
     t_bind (t_lift (res_bind (jget allocation ''hardware_details'' (JList [])) jiter)) (\<lambda>details.
     t_then (t_for details (\<lambda>hd.
         t_bind (t_lift (jitem hd ''vm_id'')) (\<lambda>vm_id.
         t_bind (t_lift (jitem hd ''resource_manager_ep'')) (\<lambda>ep.
         t_then (t_atomic (rm_deallocate W vm_id ep)) (t_return ())))))
     (t_then (t_update_status R aid [(''status'', JStr ''deallocated'')])
     (t_bind (t_lift (jkey aid)) (\<lambda>k. t_delete R ''allocations'' [k])))))"

lemma run_remove_unavailable_rms [task_run]:
  "run (t_remove_unavailable_rms R live all) = remove_unavailable_rms R live all"
  by (simp add: t_remove_unavailable_rms_def remove_unavailable_rms_def task_run Let_def cong: if_cong)

lemma run_find_potential_fulfillers [task_run]:
  "run (t_find_potential_fulfillers R W aid) = find_potential_fulfillers R W aid"
  by (simp add: t_find_potential_fulfillers_def find_potential_fulfillers_def task_run Let_def)

lemma run_dedupe_loop [task_run]: "run (t_dedupe_loop R aid is ps) = dedupe_loop R aid is ps"
  by (induction "is" arbitrary: ps) (simp_all add: task_run)

lemma run_fulfil_loop [task_run]: "run (t_fulfil_loop R W aid ps) = fulfil_loop R W aid ps"
proof (induction ps)
  case Nil
  then show ?case by (simp add: task_run)
next
  case (Cons p ps)
  then show ?case by (cases p) (simp add: task_run cong: if_cong sum.case_cong)
qed

lemma run_serve_request [task_run]: "run (t_serve_request R W aid m) = serve_request R W aid m"
  by (simp add: t_serve_request_def serve_request_def task_run cong: if_cong)

lemma run_fulfill [task_run]: "run (t_fulfill R W m) = fulfill R W m"
  by (simp add: t_fulfill_def fulfill_def task_run cong: if_cong)

lemma run_release [task_run]: "run (t_release R W aid) = release R W aid"
  by (simp add: t_release_def release_def task_run cong: if_cong)

section \<open>The expiry task\<close>

definition t_expire_deallocate :: "'w world_ops \<Rightarrow> json \<Rightarrow> (('s, 'w) node, unit) task" where
  "t_expire_deallocate W allocation =
     t_bind (t_lift (res_bind (jitem allocation ''hardware_details'') jiter)) (\<lambda>details.
     t_for details (\<lambda>hardware.
       t_bind (t_lift (jitem hardware ''resource_manager_ep'')) (\<lambda>rm_ep.
       t_bind (t_lift (jitem hardware ''vm_id'')) (\<lambda>vm_name.
         t_atomic (try_deallocate W rm_ep vm_name)))))"

definition t_expire_due :: "'s redis_ops \<Rightarrow> 'w world_ops \<Rightarrow> string \<Rightarrow> json
    \<Rightarrow> (('s, 'w) node, json option \<times> unit res) task" where
  "t_expire_due R W allocation_id allocation =
     t_bind (t_lift (res_bind (jitem allocation ''expiration'') jnum)) (\<lambda>expiration.
     t_bind (t_atomic (w_time W)) (\<lambda>t.
     if expiration \<le> t then
       t_bind (t_lift (jitem allocation ''status'')) (\<lambda>status.
       if status \<in> {JStr ''success'', JStr ''allocated''} then
         t_bind (t_lift (jset allocation ''status'' (JStr ''deallocating''))) (\<lambda>allocation.
         t_bind (t_attempt (t_bind (t_lift (res_bind (jitem allocation ''allocation_id'') jkey))
             (\<lambda>k. t_atomic (r_hset R ''allocations'' k allocation)))) (\<lambda>r.
         t_return (Some allocation, r)))
       else t_then (t_delete R ''allocations'' [allocation_id]) (t_return (None, Inr ())))
     else t_then (t_lift (jitem allocation ''allocation_id'')) (t_return (None, Inr ()))))"

definition t_expire_one :: "'s redis_ops \<Rightarrow> 'w world_ops \<Rightarrow> string \<Rightarrow> json
    \<Rightarrow> (('s, 'w) node, json option \<times> unit res) task" where
  "t_expire_one R W allocation_id allocation =
     t_bind (t_lift (jitem allocation ''status'')) (\<lambda>status.
     if status \<notin> set regular_statuses then
       t_bind (t_lift (jget allocation ''rm_endpoint'' JNull)) (\<lambda>rm_endpoint.
       if \<not> truthy rm_endpoint then
         t_then (t_delete R ''allocations'' [allocation_id]) (t_return (None, Inr ()))
       else
       t_bind (t_lift (res_bind (jitem allocation ''expiration'') jnum)) (\<lambda>expiration.
       t_bind (t_atomic (w_time W)) (\<lambda>t.
       if expiration < t - 15 * 60 then
         t_then (t_delete R ''allocations'' [allocation_id]) (t_return (None, Inr ()))
       else
       t_bind (t_attempt
         (t_bind (t_lift (jitem allocation ''allocation_id'')) (\<lambda>aid.
          t_bind (t_lift (jitem allocation ''rm_endpoint'')) (\<lambda>ep. t_atomic (check_status W aid ep))))) (\<lambda>r.
       case r of
         Inl e \<Rightarrow> t_then (t_update_status R (JStr allocation_id) unknown_kw) (t_return (None, Inr ()))
       | Inr result \<Rightarrow>
           if truthy result then
             t_then (t_save_fulfilled_request R W (JStr allocation_id)
                 (JObj [(''endpoint'', rm_endpoint)]) result)
               (t_return (None, Inr ()))
           else t_expire_due R W allocation_id allocation))))
     else t_expire_due R W allocation_id allocation)"

fun t_expire_scan :: "'s redis_ops \<Rightarrow> 'w world_ops \<Rightarrow> json dict \<Rightarrow> json dict
    \<Rightarrow> (('s, 'w) node, json dict \<times> unit res) task" where
  "t_expire_scan R W [] tasks = t_return (tasks, Inr ())"
| "t_expire_scan R W ((allocation_id, allocation) # rest) tasks =
     t_bind (t_attempt (t_expire_one R W allocation_id allocation)) (\<lambda>r.
     case r of
       Inl e \<Rightarrow> t_return (tasks, Inl e)
     | Inr (scheduled, r') \<Rightarrow>
         (let tasks' = (case scheduled of None \<Rightarrow> tasks | Some a \<Rightarrow> AList.update allocation_id a tasks)
          in case r' of
               Inl e \<Rightarrow> t_return (tasks', Inl e)
             | Inr _ \<Rightarrow> t_expire_scan R W rest tasks'))"

definition t_finish_task :: "'s redis_ops \<Rightarrow> 'w world_ops \<Rightarrow> string \<times> json \<Rightarrow> (('s, 'w) node, unit) task" where
  "t_finish_task R W task =
     t_try
       (t_then (t_expire_deallocate W (snd task)) (t_delete R ''allocations'' [fst task]))
       (\<lambda>_. t_update_status R (JStr (fst task)) [(''status'', JStr ''error_deallocating'')])"

definition t_expire_pass :: "'s redis_ops \<Rightarrow> 'w world_ops \<Rightarrow> (('s, 'w) node, unit) task" where
  "t_expire_pass R W =
     t_try
       (t_bind (t_allocations R JNull) (\<lambda>allocations.
        t_bind (t_lift (jobj allocations)) (\<lambda>kvs.
        t_bind (t_expire_scan R W kvs []) (\<lambda>(tasks, r).
        case r of
          Inl e \<Rightarrow> t_then (t_gather tasks (\<lambda>t. t_expire_deallocate W (snd t))) (t_raise e)
        | Inr _ \<Rightarrow> t_for tasks (t_finish_task R W)))))
       (\<lambda>_. t_return ())"

lemma run_expire_deallocate [task_run]: "run (t_expire_deallocate W a) = expire_deallocate W a"
  by (simp add: t_expire_deallocate_def expire_deallocate_def task_run)

lemma run_expire_due [task_run]: "run (t_expire_due R W k a) = expire_due R W k a"
  by (simp add: t_expire_due_def expire_due_def task_run cong: if_cong)

lemma run_expire_one [task_run]: "run (t_expire_one R W k a) = expire_one R W k a"
  by (simp add: t_expire_one_def expire_one_def task_run cong: if_cong sum.case_cong)

lemma run_expire_scan [task_run]: "run (t_expire_scan R W kvs tasks) = expire_scan R W kvs tasks"
proof (induction kvs arbitrary: tasks)
  case Nil
  then show ?case by (simp add: task_run)
next
  case (Cons p kvs)
  then show ?case by (cases p) (simp add: task_run Let_def cong: sum.case_cong prod.case_cong)
qed

lemma run_finish_task [task_run]: "run (t_finish_task R W t) = finish_task R W t"
  by (simp add: t_finish_task_def finish_task_def task_run)

lemma run_expire_pass [task_run]: "run (t_expire_pass R W) = expire_pass R W"
  by (simp add: t_expire_pass_def expire_pass_def task_run cong: sum.case_cong prod.case_cong)

section \<open>The heartbeat service and the other handlers\<close>

definition t_update_expires :: "'s redis_ops \<Rightarrow> 'w world_ops \<Rightarrow> json \<Rightarrow> (('s, 'w) node, unit) task" where
  "t_update_expires R W allocation_id =
     t_bind (t_lift (jkey allocation_id)) (\<lambda>k.
     t_bind (t_atomic (r_hget R ''allocations'' k)) (\<lambda>value.
     t_bind (case value of None \<Rightarrow> t_raise (Exn TypeErr ''the JSON object must be str'')
                         | Some v \<Rightarrow> t_return v) (\<lambda>d_value.
     t_bind (t_atomic (w_time W)) (\<lambda>t.
     t_bind (t_lift (jset d_value ''expiration'' (JNum (t + 60)))) (\<lambda>d_value.
     t_bind (t_lift (jitem d_value ''status'')) (\<lambda>status.
     if status \<noteq> JStr ''success'' then
       t_raise (Exn PlainException (''received hb for allocation which has status: '' @ py_str status))
     else t_atomic (r_hset R ''allocations'' k d_value)))))))"

definition t_heartbeat :: "'s redis_ops \<Rightarrow> 'w world_ops \<Rightarrow> json \<Rightarrow> (('s, 'w) node, reply) task" where
  "t_heartbeat R W body =
     t_bind (t_lift (jcontains body ''allocation_id'')) (\<lambda>has.
     if has then
       t_bind (t_lift (jitem body ''allocation_id'')) (\<lambda>allocation_id.
       t_bind (t_attempt (t_update_expires R W allocation_id)) (\<lambda>r.
         (case r of
            Inl e \<Rightarrow> t_return (400, status_body 400 [(''reason'', JStr (exn_msg e))])
          | Inr _ \<Rightarrow> t_return (200, status_body 200 []))))
     else t_return (400, status_body 400 [(''reason'', JStr ''allocation_id missing from body'')]))"

fun t_fulfill_ws :: "'s redis_ops \<Rightarrow> 'w world_ops \<Rightarrow> json list \<Rightarrow> (('s, 'w) node, json list \<times> unit res) task" where
  "t_fulfill_ws R W [] = t_return ([], Inr ())"
| "t_fulfill_ws R W (payload # msgs) =
     (case res_bind (jcontains payload ''data'') (\<lambda>has.
        if has then res_bind (jitem payload ''data'') (\<lambda>d. Inr (Some d)) else Inr None) of
       Inl e \<Rightarrow> t_return ([], Inl e)
     | Inr None \<Rightarrow> t_fulfill_ws R W msgs
     | Inr (Some data) \<Rightarrow>
         t_bind (t_attempt (t_fulfill R W data)) (\<lambda>r.
         t_bind (t_fulfill_ws R W msgs) (\<lambda>(replies, ending).
           t_return ((case r of
               Inl e \<Rightarrow> JObj [(''status'', JStr ''exception''), (''message'', JStr (exn_msg e))]
             | Inr resp \<Rightarrow> resp) # replies, ending))))"

definition t_release_job :: "'s redis_ops \<Rightarrow> 'w world_ops \<Rightarrow> string \<Rightarrow> (('s, 'w) node, reply) task" where
  "t_release_job R W allocation_id =
     t_then (t_release R W (JStr allocation_id)) (t_return (200, status_body 200 []))"

lemma run_update_expires [task_run]: "run (t_update_expires R W aid) = update_expires R W aid"
  by (simp add: t_update_expires_def update_expires_def task_run cong: if_cong option.case_cong)

lemma run_heartbeat [task_run]: "run (t_heartbeat R W b) = heartbeat R W b"
  by (simp add: t_heartbeat_def heartbeat_def task_run cong: if_cong sum.case_cong)

lemma run_fulfill_ws [task_run]: "run (t_fulfill_ws R W msgs) = fulfill_ws R W msgs"
  by (induction msgs) (simp_all add: task_run cong: sum.case_cong option.case_cong prod.case_cong)

lemma run_release_job [task_run]: "run (t_release_job R W aid) = release_job R W aid"
  by (simp add: t_release_job_def release_job_def task_run)

text \<open>A task of the services: what is started for an operation, without its reply.  The handlers that are
  not cut use the synchronous connection, or make a single command.\<close>

definition silent :: "(('s, 'w) node, 'a) task \<Rightarrow> (('s, 'w) node, unit) task" where
  "silent t = t_then t (t_return ())"

fun task_of :: "'s redis_ops \<Rightarrow> 'w world_ops \<Rightarrow> operation \<Rightarrow> (('s, 'w) node, unit) task" where
  "task_of R W (OpWebsocket msgs) = silent (t_fulfill_ws R W msgs)"
| "task_of R W (OpRelease aid) = silent (t_release_job R W aid)"
| "task_of R W (OpRmHeartbeat b) = silent (t_atomic (rm_heartbeat R b))"
| "task_of R W (OpVolunteer b rmid) = silent (t_atomic (volunteer R b rmid))"
| "task_of R W (OpClaim b) = silent (t_atomic (claim R b))"
| "task_of R W OpAllJobs = silent (t_atomic (alljobs R))"
| "task_of R W (OpOneJob aid) = silent (t_atomic (onejob R aid))"
| "task_of R W (OpHeartbeat b) = silent (t_heartbeat R W b)"
| "task_of R W OpExpirePass = silent (t_expire_pass R W)"

lemma run_silent: "snd (run (silent t) n) = snd (run t n)"
  by (auto simp: silent_def task_run py_defs split: prod.split sum.split)

text \<open>A task that nobody interrupts is the operation as a whole.\<close>

lemma run_task_of: "snd (run (task_of R W operation) n) = perform R W operation n"
  by (cases operation) (simp_all add: run_silent, simp_all add: task_run)

end
