(* ===== verification/Interleaved_Correct.thy ===== *)
theory Interleaved_Correct
  imports Interleaved
begin

text \<open>
  What the tasks of the services guarantee to each other: every piece keeps the stored allocations well
  formed, although the record it works on was read in an earlier piece.
\<close>

context redis_server
begin

lemma t_allocations_spec:
  "t_spec (entries R wf_entry) (t_allocations R aid)
     (\<lambda>a. \<forall>k. fld a ''allocation_id'' = Some (JStr k) \<longrightarrow> wf_allocation k a)"
  unfolding t_allocations_def by (rule t_spec_atomic [OF allocations_spec])

lemma t_allocations_all_spec:
  "t_spec (entries R P) (t_allocations R JNull)
     (\<lambda>a. \<forall>kvs. a = JObj kvs \<longrightarrow> (\<forall>(k, v) \<in> set kvs. P ''allocations'' k v))"
  unfolding t_allocations_def by (rule t_spec_atomic [OF allocations_all_spec])

lemmas t_allocations_inv = t_spec_inv [OF t_allocations_spec]

lemma t_delete_inv: "t_inv (entries R P) (t_delete R h ks)"
  unfolding t_delete_def by (rule t_inv_atomic [OF delete_inv])

lemma t_hset_inv: "P h k v \<Longrightarrow> t_inv (entries R P) (t_atomic (r_hset R h k v))"
  by (rule t_inv_atomic [OF entries_hset])

lemma t_time_inv: "t_inv (entries R P) (t_atomic (w_time W))"
  by (rule t_inv_atomic [OF entries_time])

lemma t_requestor_inv:
  "t_inv (entries R P) (t_atomic (theoretically_fulfill W rm data))"
  "t_inv (entries R P) (t_atomic (rm_allocate W ep data))"
  "t_inv (entries R P) (t_atomic (rm_deallocate W name ep))"
  "t_inv (entries R P) (t_atomic (check_status W aid ep))"
  by (rule t_inv_atomic, rule requestor_inv)+

lemma t_update_status_inv:
  assumes "\<forall>p \<in> set kw. good_kw p"
  shows "t_inv (entries R wf_entry) (t_update_status R aid kw)"
proof -
  have *: "t_inv (entries R wf_entry)
      (t_bind (t_lift (jupdate a kw)) (\<lambda>a'.
       t_bind (t_lift (res_bind (jitem a' ''allocation_id'') jkey)) (\<lambda>k.
         t_atomic (r_hset R ''allocations'' k a'))))"
    if a: "\<forall>k. fld a ''allocation_id'' = Some (JStr k) \<longrightarrow> wf_allocation k a" for a
  proof (intro t_inv_bind_spec [OF t_spec_lift [where Q = "\<lambda>a'. jupdate a kw = Inr a'"]]
      t_inv_bind_spec [OF t_spec_lift [where Q = "\<lambda>k. fld _ ''allocation_id'' = Some (JStr k)"]] t_hset_inv)
    fix a' k
    assume upd: "jupdate a kw = Inr a'" and k: "fld a' ''allocation_id'' = Some (JStr k)"
    have "map_of (rev kw) ''allocation_id'' = None"
      using assms by (auto simp: map_of_eq_None_iff good_kw_def)
    with k have "fld a ''allocation_id'' = Some (JStr k)" by (simp add: fld_jupdate [OF upd])
    with a assms upd show "wf_entry ''allocations'' k a'"
      by (auto simp: wf_entry_def intro: wf_allocation_update)
  qed (simp_all add: jitem_Inr_iff)
  show ?thesis
    unfolding t_update_status_def by (rule t_inv_bind_spec [OF t_allocations_spec *])
qed

lemma t_save_fulfilled_request_inv:
  "t_inv (entries R wf_entry) (t_save_fulfilled_request R W aid rm result)"
  unfolding t_save_fulfilled_request_def
  by (intro t_spec_intro t_time_inv t_update_status_inv) (simp add: good_kw_def expiry_in_def stored_statuses_def)

lemma t_find_potential_fulfillers_inv: "t_inv (entries R wf_entry) (t_find_potential_fulfillers R W aid)"
  unfolding t_find_potential_fulfillers_def t_remove_unavailable_rms_def Let_def
  by (intro t_spec_intro t_allocations_inv t_delete_inv t_requestor_inv t_inv_atomic)
    (auto simp: resource_managers_def intro!: py_inv_intro split: option.split)

lemma t_dedupe_loop_inv: "t_inv (entries R wf_entry) (t_dedupe_loop R aid is ps)"
  by (induction "is" arbitrary: ps)
    (auto intro!: t_spec_intro t_update_status_inv simp: good_kw_def stored_statuses_def)

lemma t_fulfil_loop_inv: "t_inv (entries R wf_entry) (t_fulfil_loop R W aid ps)"
proof (induction ps)
  case Nil
  then show ?case by (simp add: t_spec_intro)
next
  case (Cons p ps)
  then show ?case
    by (cases p) (auto intro!: t_spec_intro t_allocations_inv t_requestor_inv t_update_status_inv
      t_save_fulfilled_request_inv simp: good_kw_def stored_statuses_def)
qed

lemma t_fulfill_inv: "t_inv (entries R wf_entry) (t_fulfill R W m)"
  unfolding t_fulfill_def t_serve_request_def
  by (intro t_spec_intro t_allocations_inv t_find_potential_fulfillers_inv t_delete_inv t_dedupe_loop_inv
      t_fulfil_loop_inv t_inv_atomic entries_uuid4 save_request_inv)

lemma t_release_inv: "t_inv (entries R wf_entry) (t_release R W aid)"
  unfolding t_release_def
  by (intro t_spec_intro t_allocations_inv t_requestor_inv t_update_status_inv t_delete_inv)
    (simp add: good_kw_def stored_statuses_def)

lemma t_expire_deallocate_inv: "t_inv (entries R P) (t_expire_deallocate W a)"
  unfolding t_expire_deallocate_def try_deallocate_def
  by (intro t_spec_intro t_inv_atomic py_inv_then requestor_inv py_inv_return)

lemma t_expire_due_inv:
  assumes a: "wf_allocation k a"
  shows "t_inv (entries R wf_entry) (t_expire_due R W k a)"
proof -
  have *: "t_inv (entries R wf_entry)
      (t_bind (t_lift (res_bind (jitem a' ''allocation_id'') jkey)) (\<lambda>k. t_atomic (r_hset R ''allocations'' k a')))"
    if "jset a ''status'' (JStr ''deallocating'') = Inr a'" for a'
    using wf_deallocating [OF a that]
    by (intro t_inv_bind_spec [OF t_spec_lift [where Q = "\<lambda>k'. k' = k"]] t_hset_inv)
      (auto simp: wf_entry_def wf_allocation_def jitem_Inr_iff)
  show ?thesis
    unfolding t_expire_due_def
    by (intro t_spec_intro t_delete_inv t_time_inv t_inv_attempt *
        t_inv_bind_spec [OF t_spec_lift [where Q = "\<lambda>r. jset a _ _ = Inr r"]])
qed

lemma t_expire_one_inv: "wf_allocation k a \<Longrightarrow> t_inv (entries R wf_entry) (t_expire_one R W k a)"
  unfolding t_expire_one_def
  by (intro t_spec_intro t_delete_inv t_time_inv t_requestor_inv t_update_status_inv
      t_save_fulfilled_request_inv t_expire_due_inv)
    (auto simp: unknown_kw_def good_kw_def stored_statuses_def)

lemma t_expire_scan_inv:
  "\<forall>(k, a) \<in> set kvs. wf_allocation k a \<Longrightarrow> t_inv (entries R wf_entry) (t_expire_scan R W kvs tasks)"
proof (induction kvs arbitrary: tasks)
  case Nil
  then show ?case by (simp add: t_spec_intro)
next
  case (Cons p kvs)
  then show ?case
    by (cases p) (auto intro!: t_spec_intro t_expire_one_inv simp: Let_def split: prod.splits)
qed

lemma t_finish_task_inv: "t_inv (entries R wf_entry) (t_finish_task R W t)"
  unfolding t_finish_task_def
  by (intro t_spec_intro t_expire_deallocate_inv t_delete_inv t_update_status_inv)
    (simp add: good_kw_def stored_statuses_def)

lemma t_expire_pass_inv: "t_inv (entries R wf_entry) (t_expire_pass R W)"
proof -
  have *: "t_inv (entries R wf_entry) (t_bind (t_expire_scan R W kvs []) (\<lambda>(tasks, r).
        case r of
          Inl e \<Rightarrow> t_then (t_gather tasks (\<lambda>t. t_expire_deallocate W (snd t))) (t_raise e)
        | Inr _ \<Rightarrow> t_for tasks (t_finish_task R W)))"
    if "\<forall>(k, v) \<in> set kvs. wf_entry ''allocations'' k v" for kvs
    using that
    by (intro t_spec_intro t_expire_scan_inv t_finish_task_inv t_expire_deallocate_inv) (auto simp: wf_entry_def)
  show ?thesis
    unfolding t_expire_pass_def
    by (rule t_inv_try [OF t_inv_bind_spec [OF t_allocations_all_spec] t_inv_done(2)],
        rule t_inv_bind_spec [OF t_spec_lift]) (auto intro!: * simp: jobj_Inr_iff)
qed

text \<open>The heartbeat writes what it read, with a later expiration.\<close>

lemma t_update_expires_inv: "t_inv (entries R wf_entry) (t_update_expires R W aid)"
proof -
  have hget: "t_spec (entries R wf_entry) (t_atomic (r_hget R ''allocations'' k))
      (\<lambda>v. \<forall>a. v = Some a \<longrightarrow> wf_allocation k a)" for k
    by (rule t_spec_atomic) (auto simp: py_spec_def r_hget_def py_gets_def entries_def wf_entry_def)
  have found: "t_spec I (case v of None \<Rightarrow> t_raise e | Some a \<Rightarrow> t_return a) (wf_allocation k)"
    if "\<forall>a. v = Some a \<longrightarrow> wf_allocation k a" for v k e and I :: "('s, 'w) node \<Rightarrow> bool"
    using that by (simp add: t_raise_def t_return_def split: option.split)
  have set: "t_spec I (t_lift (jset a ''expiration'' (JNum q))) (wf_allocation k)"
    if "wf_allocation k a" for a k q and I :: "('s, 'w) node \<Rightarrow> bool"
    using that by (intro t_spec_lift) (auto simp: wf_allocation_def fld_jset)
  show ?thesis
    unfolding t_update_expires_def
    by (intro t_inv_bind t_spec_intro t_time_inv t_inv_bind_spec [OF hget] t_inv_bind_spec [OF found]
        t_inv_bind_spec [OF set] t_hset_inv) (auto simp: wf_entry_def)
qed

lemma t_heartbeat_inv: "t_inv (entries R wf_entry) (t_heartbeat R W b)"
  unfolding t_heartbeat_def by (intro t_spec_intro t_update_expires_inv)

lemma t_fulfill_ws_inv: "t_inv (entries R wf_entry) (t_fulfill_ws R W msgs)"
  by (induction msgs) (auto intro!: t_spec_intro t_fulfill_inv split: sum.split option.split)

text \<open>Every task that is started for an operation keeps the allocations well formed under any
  interference that does.\<close>

lemma task_of_inv: "t_inv (entries R wf_entry) (task_of R W operation)"
  by (cases operation)
    (auto simp: silent_def t_release_job_def intro!: t_spec_intro t_fulfill_ws_inv t_release_inv t_heartbeat_inv t_expire_pass_inv
      t_inv_atomic rm_heartbeat_inv volunteer_inv claim_inv alljobs_inv onejob_inv)

end

section \<open>The services under interleaving\<close>

definition service_task :: "'s redis_ops \<Rightarrow> 'w world_ops \<Rightarrow> (('s, 'w) node, unit) task \<Rightarrow> bool" where
  "service_task R W t \<longleftrightarrow> (\<exists>operation. t = task_of R W operation)"

definition world_moved :: "('s, 'w) node \<Rightarrow> ('s, 'w) node \<Rightarrow> bool" where
  "world_moved n n' \<longleftrightarrow> (\<exists>w. n' = n\<lparr>world := w\<rparr>)"

abbreviation services :: "'s redis_ops \<Rightarrow> 'w world_ops \<Rightarrow> (('s, 'w) node, unit) task list \<times> ('s, 'w) node \<Rightarrow>
    (('s, 'w) node, unit) task list \<times> ('s, 'w) node \<Rightarrow> bool" where
  "services R W \<equiv> pool_step (service_task R W) world_moved"

text \<open>The coarse steps of \<open>service_step\<close> are among the interleavings: an operation is a task that is started
  and run to its end.\<close>

lemma service_step_interleaving:
  assumes "service_step R W n n'"
  shows "\<exists>ts'. (services R W)\<^sup>*\<^sup>* (ts, n) (ts', n')"
  using assms
proof (cases rule: service_step.cases)
  case (operate operation)
  let ?t = "task_of R W operation"
  have "services R W (ts, n) (ts @ [?t], n)" by (rule spawn) (auto simp: service_task_def)
  moreover have "(services R W)\<^sup>*\<^sup>* (ts @ [?t], n) ((ts @ [?t])[length ts := Done (fst (run ?t n))], snd (run ?t n))"
    by (rule pool_run) simp_all
  ultimately show ?thesis using operate by (auto simp: run_task_of intro: converse_rtranclp_into_rtranclp)
next
  case (world_moves w)
  then have "services R W (ts, n) (ts, n')" by (intro move) (auto simp: world_moved_def)
  then show ?thesis by blast
qed

lemma services_inv:
  assumes "redis_server R" and "(services R W)\<^sup>*\<^sup>* ([], n) (ts, n')" and "entries R wf_entry n"
  shows "entries R wf_entry n'"
proof -
  have "entries R wf_entry n' \<and> (\<forall>t \<in> set ts. t_inv (entries R wf_entry) t)"
    by (rule pool_invariant [where I = "entries R wf_entry", OF assms(2) _ _ assms(3)])
      (auto simp: service_task_def world_moved_def entries_def intro: redis_server.task_of_inv [OF assms(1)])
  then show ?thesis by simp
qed

end
