(* ===== verification/Expires_Correct.thy ===== *)
theory Expires_Correct
  imports Expires Fulfiller_Correct
begin

text \<open>
  What one pass of the expiry task does to a well-formed store: the outcome for one allocation in
  every case of the code, and the outcome of a whole pass over allocations in the regular states.
\<close>

definition expired :: "rat \<Rightarrow> json \<Rightarrow> bool" where
  "expired t a \<longleftrightarrow> (case fld a ''expiration'' of Some (JNum q) \<Rightarrow> q \<le> t | _ \<Rightarrow> False)"

definition regular :: "json \<Rightarrow> bool" where
  "regular a \<longleftrightarrow> (\<exists>st \<in> set regular_statuses. fld a ''status'' = Some st)"

definition succeeded :: "json \<Rightarrow> bool" where
  "succeeded a \<longleftrightarrow> fld a ''status'' = Some (JStr ''success'')"

fun set_status :: "string \<Rightarrow> json \<Rightarrow> json" where
  "set_status st (JObj m) = JObj (AList.update ''status'' (JStr st) m)"
| "set_status st v = v"

lemma wf_allocationE:
  assumes "wf_allocation k a"
  obtains m st q where "a = JObj m" and "map_of m ''allocation_id'' = Some (JStr k)"
    and "map_of m ''status'' = Some (JStr st)" and "st \<in> set stored_statuses"
    and "map_of m ''expiration'' = Some (JNum q)"
  using assms wf_allocation_JObj [OF assms]
  by (auto simp: wf_allocation_def split: option.splits json.splits)

section \<open>One allocation in a regular state\<close>

text \<open>The store after the body of the walk.\<close>

definition due_store :: "'s redis_ops \<Rightarrow> rat \<Rightarrow> string \<Rightarrow> json \<Rightarrow> 's \<Rightarrow> 's" where
  "due_store R t k a s =
     (if \<not> expired t a then s
      else if succeeded a then hset R s ''allocations'' k (set_status ''deallocating'' a)
      else hdel R s ''allocations'' [k])"

definition due_task :: "rat \<Rightarrow> json \<Rightarrow> json option" where
  "due_task t a = (if expired t a \<and> succeeded a then Some (set_status ''deallocating'' a) else None)"

lemma expire_due_eq:
  assumes "wf_allocation k a" and "fld a ''status'' \<noteq> Some (JStr ''allocated'')"
  shows "expire_due R W k a n =
    (Inr (due_task (clock W (world n)) a, Inr ()),
     n\<lparr>store := due_store R (clock W (world n)) k a (store n)\<rparr>)"
  using assms(1)
proof (cases rule: wf_allocationE)
  case (1 m st q)
  with assms(2) show ?thesis
    by (auto simp: expire_due_def py_defs jnum_def due_task_def due_store_def expired_def
        succeeded_def delete_def jitem_def)
qed

lemma not_allocated: "wf_allocation k a \<Longrightarrow> fld a ''status'' \<noteq> Some (JStr ''allocated'')"
  by (auto simp: wf_allocation_def stored_statuses_def)

lemma expire_one_regular:
  assumes wf: "wf_allocation k a" and reg: "regular a"
  shows "expire_one R W k a n =
    (Inr (due_task (clock W (world n)) a, Inr ()),
     n\<lparr>store := due_store R (clock W (world n)) k a (store n)\<rparr>)"
  using wf
proof (cases rule: wf_allocationE)
  case (1 m st q)
  with reg have "JStr st \<in> set regular_statuses" by (auto simp: regular_def)
  with 1 show ?thesis
    using expire_due_eq [OF wf not_allocated [OF wf], of R W n]
    by (simp add: expire_one_def py_bind_def py_lift_def)
qed

section \<open>One allocation in another state\<close>

lemma expire_one_orphan:
  assumes wf: "wf_allocation k a" and "\<not> regular a"
    and "case fld a ''rm_endpoint'' of None \<Rightarrow> True | Some v \<Rightarrow> \<not> truthy v"
  shows "expire_one R W k a n = (Inr (None, Inr ()), n\<lparr>store := hdel R (store n) ''allocations'' [k]\<rparr>)"
  using wf
proof (cases rule: wf_allocationE)
  case (1 m st q)
  with assms(2,3) show ?thesis
    by (auto simp: expire_one_def py_defs regular_def delete_def split: option.splits)
qed

lemma expire_one_stale:
  assumes wf: "wf_allocation k a" and "\<not> regular a"
    and "fld a ''rm_endpoint'' = Some ep" and "truthy ep"
    and "fld a ''expiration'' = Some (JNum q)" and "q < clock W (world n) - 15 * 60"
  shows "expire_one R W k a n = (Inr (None, Inr ()), n\<lparr>store := hdel R (store n) ''allocations'' [k]\<rparr>)"
  using wf
proof (cases rule: wf_allocationE)
  case (1 m st q')
  with assms(2-) show ?thesis
    by (auto simp: expire_one_def py_defs regular_def delete_def jnum_def)
qed

text \<open>The resource manager is asked; the record says what came of it.\<close>

lemma expire_one_asked:
  assumes wf: "entries R wf_entry n" and k: "k \<noteq> []"
    and a: "hget R (store n) ''allocations'' k = Some a" and "\<not> regular a"
    and ep: "fld a ''rm_endpoint'' = Some (JStr ep)" "ep \<noteq> []"
    and "fld a ''expiration'' = Some (JNum q)" and "clock W (world n) - 15 * 60 \<le> q"
    and http: "http W (world n) \<lparr>req_verb = GET, req_url = allocations_url ep k, req_body = JNull\<rparr> = (r, w)"
    and bad: "case r of HFail _ \<Rightarrow> True | HReply st _ \<Rightarrow> st \<noteq> 200"
  shows "\<exists>m. a = JObj m \<and> expire_one R W k a n = (Inr (None, Inr ()),
    n\<lparr>world := w, store := hset R (store n) ''allocations'' k (JObj (dict_update m unknown_kw))\<rparr>)"
proof -
  have "wf_allocation k a" using wf a by (auto simp: entries_def wf_entry_def)
  then show ?thesis
  proof (cases rule: wf_allocationE)
    case (1 m st q')
    have wf': "entries R wf_entry (n\<lparr>world := w\<rparr>)" using wf by (simp add: entries_def)
    have upd: "update_status R (JStr k) unknown_kw (n\<lparr>world := w\<rparr>) = (Inr (),
        n\<lparr>world := w, store := hset R (store n) ''allocations'' k (JObj (dict_update m unknown_kw))\<rparr>)"
      using a 1 by (subst update_status_eq [OF k wf']) (auto simp: unknown_kw_def)
    from 1 assms(4-8) http bad upd show ?thesis
      by (auto simp: expire_one_def py_bind_def py_lift_def regular_def jnum_def w_time_def
          py_gets_def py_attempt_def check_status_def w_http_def py_raise_def py_then_def
          py_return_def res_bind_def split: http_result.splits)
  qed
qed

section \<open>A pass over allocations in the regular states\<close>

fun scan_store :: "'s redis_ops \<Rightarrow> rat \<Rightarrow> json dict \<Rightarrow> 's \<Rightarrow> 's" where
  "scan_store R t [] s = s"
| "scan_store R t ((k, a) # kvs) s = scan_store R t kvs (due_store R t k a s)"

definition due_tasks :: "rat \<Rightarrow> json dict \<Rightarrow> json dict" where
  "due_tasks t kvs = map (\<lambda>(k, a). (k, set_status ''deallocating'' a))
     (filter (\<lambda>(k, a). expired t a \<and> succeeded a) kvs)"

lemma expire_scan_regular:
  assumes "\<forall>(k, a) \<in> set kvs. wf_allocation k a \<and> regular a"
    and "distinct (map fst (tasks @ kvs))"
  shows "expire_scan R W kvs tasks n =
    (Inr (tasks @ due_tasks (clock W (world n)) kvs, Inr ()),
     n\<lparr>store := scan_store R (clock W (world n)) kvs (store n)\<rparr>)"
  using assms
proof (induction kvs arbitrary: tasks n)
  case Nil
  then show ?case by (simp add: py_return_def due_tasks_def)
next
  case (Cons p kvs)
  obtain k a where p: "p = (k, a)" by (cases p)
  let ?t = "clock W (world n)"
  let ?n = "n\<lparr>store := due_store R ?t k a (store n)\<rparr>"
  have one: "expire_one R W k a n = (Inr (due_task ?t a, Inr ()), ?n)"
    using Cons.prems p by (intro expire_one_regular) auto
  define tasks' where "tasks' = (case due_task ?t a of None \<Rightarrow> tasks | Some a' \<Rightarrow> tasks @ [(k, a')])"
  have "AList.update k a' tasks = tasks @ [(k, a')]" for a'
    using Cons.prems(2) p by (intro update_fresh) auto
  then have step: "expire_scan R W (p # kvs) tasks n = expire_scan R W kvs tasks' ?n"
    using one p by (simp add: py_bind_def py_attempt_def tasks'_def split: option.splits)
  have "distinct (map fst (tasks' @ kvs))"
    using Cons.prems(2) p by (auto simp: tasks'_def split: option.splits)
  from Cons.IH [OF _ this, of ?n] Cons.prems(1) step p show ?case
    by (auto simp: tasks'_def due_task_def due_tasks_def)
qed

context redis_server
begin

lemma hget_due_store:
  "hget R (due_store R t k a s) h k' =
    (if h = ''allocations'' \<and> k' = k \<and> expired t a
     then (if succeeded a then Some (set_status ''deallocating'' a) else None)
     else hget R s h k')"
  by (simp add: due_store_def hget_hset hget_hdel)

lemma hget_scan_store:
  assumes "distinct (map fst kvs)"
  shows "hget R (scan_store R t kvs s) h k =
    (case map_of kvs k of
       Some a \<Rightarrow> if h = ''allocations'' \<and> expired t a
         then (if succeeded a then Some (set_status ''deallocating'' a) else None)
         else hget R s h k
     | None \<Rightarrow> hget R s h k)"
  using assms
proof (induction kvs arbitrary: s)
  case Nil
  then show ?case by simp
next
  case (Cons p kvs)
  obtain k' a where p: "p = (k', a)" by (cases p)
  from Cons p have "map_of kvs k' = None" by (auto simp: map_of_eq_None_iff)
  with Cons p show ?case by (auto simp: hget_due_store split: option.splits)
qed

text \<open>A finished task leaves the allocation removed or marked; nothing else changes.\<close>

lemma finish_task_effect:
  assumes wf: "entries R wf_entry n" and k: "k \<noteq> []"
    and stored: "hget R (store n) ''allocations'' k = Some (JObj m)"
  obtains s w where "finish_task R W (k, a) n = (Inr (), n\<lparr>store := s, world := w\<rparr>)"
    and "hget R s ''allocations'' k = None
      \<or> hget R s ''allocations'' k = Some (set_status ''error_deallocating'' (JObj m))"
    and "\<And>h k'. (h, k') \<noteq> (''allocations'', k) \<Longrightarrow> hget R s h k' = hget R (store n) h k'"
proof -
  obtain r n1 where run: "expire_deallocate W a n = (r, n1)" by (cases "expire_deallocate W a n")
  from py_invD [OF deallocate_store, of n "store n" W a] run have st: "store n1 = store n" by simp
  have wf1: "entries R wf_entry n1" using wf st by (simp add: entries_def)
  show thesis
  proof (cases r)
    case (Inr u)
    show thesis
    proof (rule that)
      show "finish_task R W (k, a) n = (Inr (),
          n\<lparr>store := hdel R (store n) ''allocations'' [k], world := world n1\<rparr>)"
        using run Inr st by (simp add: finish_task_def py_defs delete_def)
    qed (auto simp: hget_hdel)
  next
    case (Inl e)
    show thesis
    proof (rule that)
      show "finish_task R W (k, a) n = (Inr (), n\<lparr>store := hset R (store n) ''allocations'' k
          (set_status ''error_deallocating'' (JObj m)), world := world n1\<rparr>)"
        using run Inl st stored
        by (simp add: finish_task_def py_try_def py_then_def py_bind_def update_status_eq [OF k wf1])
    qed (auto simp: hget_hset)
  qed
qed

lemma finish_tasks_effect:
  assumes "entries R wf_entry n" and "distinct (map fst tasks)"
    and "\<forall>(k, a) \<in> set tasks. k \<noteq> [] \<and> (\<exists>m. hget R (store n) ''allocations'' k = Some (JObj m))"
  shows "\<exists>n'. py_for tasks (finish_task R W) n = (Inr (), n')
    \<and> (\<forall>h k. hget R (store n') h k = hget R (store n) h k
        \<or> h = ''allocations'' \<and> k \<in> fst ` set tasks)
    \<and> (\<forall>k \<in> fst ` set tasks. hget R (store n') ''allocations'' k = None
        \<or> (\<exists>m. hget R (store n) ''allocations'' k = Some (JObj m)
            \<and> hget R (store n') ''allocations'' k = Some (set_status ''error_deallocating'' (JObj m))))"
  using assms
proof (induction tasks arbitrary: n)
  case Nil
  then show ?case by (simp add: py_return_def)
next
  case (Cons p tasks)
  obtain k a where p: "p = (k, a)" by (cases p)
  from Cons.prems(3) p obtain m where k: "k \<noteq> []"
    and stored: "hget R (store n) ''allocations'' k = Some (JObj m)" by auto
  obtain s w where run: "finish_task R W (k, a) n = (Inr (), n\<lparr>store := s, world := w\<rparr>)"
    and own: "hget R s ''allocations'' k = None
      \<or> hget R s ''allocations'' k = Some (set_status ''error_deallocating'' (JObj m))"
    and others: "\<And>h k'. (h, k') \<noteq> (''allocations'', k) \<Longrightarrow> hget R s h k' = hget R (store n) h k'"
    by (rule finish_task_effect [where W = W and a = a, OF Cons.prems(1) k stored], rule that)
  let ?n = "n\<lparr>store := s, world := w\<rparr>"
  have wf: "entries R wf_entry ?n"
    using py_invD [OF finish_task_inv Cons.prems(1), of W "(k, a)"] run by simp
  have fresh: "k \<notin> fst ` set tasks" using Cons.prems(2) p by auto
  have "\<forall>(k', a) \<in> set tasks. k' \<noteq> [] \<and> (\<exists>m. hget R (store ?n) ''allocations'' k' = Some (JObj m))"
  proof (clarify)
    fix k' a' assume t: "(k', a') \<in> set tasks"
    with fresh have "k' \<noteq> k" by force
    then have "hget R s ''allocations'' k' = hget R (store n) ''allocations'' k'" by (simp add: others)
    with Cons.prems(3) t show "k' \<noteq> [] \<and> (\<exists>m. hget R (store ?n) ''allocations'' k' = Some (JObj m))"
      by auto
  qed
  moreover have "distinct (map fst tasks)" using Cons.prems(2) by simp
  ultimately obtain n' where
    run': "py_for tasks (finish_task R W) ?n = (Inr (), n')"
    and frame0: "\<forall>h k'. hget R (store n') h k' = hget R (store ?n) h k' \<or> h = ''allocations'' \<and> k' \<in> fst ` set tasks"
    and fin0: "\<forall>k' \<in> fst ` set tasks. hget R (store n') ''allocations'' k' = None
        \<or> (\<exists>m. hget R (store ?n) ''allocations'' k' = Some (JObj m)
            \<and> hget R (store n') ''allocations'' k' = Some (set_status ''error_deallocating'' (JObj m)))"
    using Cons.IH [OF wf] by (elim meta_impE exE conjE)
  note frame = frame0 [rule_format] and fin = fin0 [rule_format]
  show ?case
  proof (intro exI [of _ n'] conjI allI ballI)
    show "py_for (p # tasks) (finish_task R W) n = (Inr (), n')"
      using run run' p by (simp add: py_then_def py_bind_def)
    show "hget R (store n') h k' = hget R (store n) h k'
        \<or> h = ''allocations'' \<and> k' \<in> fst ` set (p # tasks)" for h k'
      using frame [of h k'] others [of h k'] p by (cases "(h, k') = (''allocations'', k)") auto
    show "hget R (store n') ''allocations'' k' = None
        \<or> (\<exists>m. hget R (store n) ''allocations'' k' = Some (JObj m)
            \<and> hget R (store n') ''allocations'' k' = Some (set_status ''error_deallocating'' (JObj m)))"
      if "k' \<in> fst ` set (p # tasks)" for k'
    proof (cases "k' = k")
      case True
      with frame [of "''allocations''" k] fresh own stored show ?thesis by auto
    next
      case False
      with that p fin [of k'] others [of "''allocations''" k'] show ?thesis by auto
    qed
  qed
qed

lemma expire_pass_regular:
  assumes wf: "entries R wf_entry n"
    and reg: "\<forall>k a. hget R (store n) ''allocations'' k = Some a \<longrightarrow> regular a"
    and ne: "hget R (store n) ''allocations'' [] = None"
  shows "\<exists>n'. expire_pass R W n = (Inr (), n')
    \<and> (\<forall>k a. hget R (store n) ''allocations'' k = Some a \<longrightarrow>
        hget R (store n') ''allocations'' k =
          (if \<not> expired (clock W (world n)) a then Some a else None)
        \<or> expired (clock W (world n)) a \<and> succeeded a
          \<and> hget R (store n') ''allocations'' k = Some (set_status ''error_deallocating''
              (set_status ''deallocating'' a)))
    \<and> (\<forall>h k. hget R (store n) h k = None \<or> h \<noteq> ''allocations'' \<longrightarrow>
        hget R (store n') h k = hget R (store n) h k)"
proof -
  let ?t = "clock W (world n)"
  define kvs where "kvs = hgetall R (store n) ''allocations''"
  have kv: "map_of kvs k = hget R (store n) ''allocations'' k" for k
    by (simp add: kvs_def hgetall_hget)
  have dist: "distinct (map fst kvs)" by (simp add: kvs_def hgetall_distinct)
  have all: "\<forall>(k, a) \<in> set kvs. wf_allocation k a \<and> regular a"
    using wf reg by (auto simp: kvs_def hgetall_SomeD entries_def wf_entry_def)
  let ?n1 = "n\<lparr>store := scan_store R ?t kvs (store n)\<rparr>"
  have scan: "expire_scan R W kvs [] n = (Inr (due_tasks ?t kvs, Inr ()), ?n1)"
    using expire_scan_regular [OF all, of "[]"] dist by simp
  have "py_inv (entries R wf_entry) (expire_scan R W kvs [])"
    using all by (intro expire_scan_inv) auto
  from py_invD [OF this wf] scan have wf1: "entries R wf_entry ?n1" by simp
  have tasks: "k \<in> fst ` set (due_tasks ?t kvs) \<longleftrightarrow>
      (\<exists>a. map_of kvs k = Some a \<and> expired ?t a \<and> succeeded a)" for k
    using dist by (force simp: due_tasks_def map_of_eq_Some_iff)
  have obj: "\<exists>m. set_status st a = JObj m" if "map_of kvs k = Some a" for k a st
    using all map_of_SomeD [OF that] by (auto dest!: wf_allocation_JObj)
  have dt: "distinct (map fst (due_tasks ?t kvs))"
  proof -
    have "map fst (due_tasks ?t kvs) = map fst (filter (\<lambda>(k, a). expired ?t a \<and> succeeded a) kvs)"
      by (simp add: due_tasks_def case_prod_beta comp_def)
    then show ?thesis using dist by (simp add: distinct_map_filter)
  qed
  have h1: "hget R (store ?n1) h k = (case map_of kvs k of
       Some a \<Rightarrow> if h = ''allocations'' \<and> expired ?t a
         then (if succeeded a then Some (set_status ''deallocating'' a) else None)
         else hget R (store n) h k
     | None \<Rightarrow> hget R (store n) h k)" for h k
    using hget_scan_store [OF dist] by simp
  have pre: "\<forall>(k, a) \<in> set (due_tasks ?t kvs).
      k \<noteq> [] \<and> (\<exists>m. hget R (store ?n1) ''allocations'' k = Some (JObj m))"
  proof (clarify)
    fix k a assume "(k, a) \<in> set (due_tasks ?t kvs)"
    then have "k \<in> fst ` set (due_tasks ?t kvs)" by force
    then obtain a' where a': "map_of kvs k = Some a'" "expired ?t a'" "succeeded a'" using tasks by blast
    with kv ne have "k \<noteq> []" by auto
    with a' h1 [of "''allocations''" k] obj [OF a'(1)]
    show "k \<noteq> [] \<and> (\<exists>m. hget R (store ?n1) ''allocations'' k = Some (JObj m))" by simp
  qed
  from finish_tasks_effect [OF wf1 dt pre, of W] obtain n' where
    run: "py_for (due_tasks ?t kvs) (finish_task R W) ?n1 = (Inr (), n')"
    and frame0: "\<forall>h k. hget R (store n') h k = hget R (store ?n1) h k
        \<or> h = ''allocations'' \<and> k \<in> fst ` set (due_tasks ?t kvs)"
    and fin0: "\<forall>k \<in> fst ` set (due_tasks ?t kvs). hget R (store n') ''allocations'' k = None
        \<or> (\<exists>m. hget R (store ?n1) ''allocations'' k = Some (JObj m)
            \<and> hget R (store n') ''allocations'' k = Some (set_status ''error_deallocating'' (JObj m)))"
    by (elim exE conjE)
  note frame = frame0 [rule_format] and fin = fin0 [rule_format]
  have "expire_pass R W n = (Inr (), n')"
    using scan run
    by (simp add: expire_pass_def py_try_def py_bind_def allocations_def r_hgetall_def py_gets_def
        py_return_def py_lift_def kvs_def)
  moreover have "hget R (store n') ''allocations'' k = (if \<not> expired ?t a then Some a else None)
        \<or> expired ?t a \<and> succeeded a
          \<and> hget R (store n') ''allocations'' k = Some (set_status ''error_deallocating''
              (set_status ''deallocating'' a))"
    if a: "hget R (store n) ''allocations'' k = Some a" for k a
  proof (cases "expired ?t a \<and> succeeded a")
    case True
    with a kv tasks have "k \<in> fst ` set (due_tasks ?t kvs)" by metis
    from fin [OF this] True a kv h1 [of "''allocations''" k] show ?thesis by auto
  next
    case False
    with a kv tasks have "k \<notin> fst ` set (due_tasks ?t kvs)" by auto
    with frame [of "''allocations''" k] h1 [of "''allocations''" k] a kv False show ?thesis by auto
  qed
  moreover have "hget R (store n') h k = hget R (store n) h k"
    if "hget R (store n) h k = None \<or> h \<noteq> ''allocations''" for h k
  proof (cases "h = ''allocations''")
    case True
    with that kv tasks have "k \<notin> fst ` set (due_tasks ?t kvs)" by auto
    with frame [of h k] h1 [of h k] True that kv show ?thesis by simp
  next
    case False
    with frame [of h k] h1 [of h k] show ?thesis by (auto split: option.splits)
  qed
  ultimately show ?thesis by blast
qed

end

end
