(* ===== verification/Rm_Contract.thy ===== *)
theory Rm_Contract
  imports Fulfiller_Correct Expires_Correct
begin

text \<open>
  What the allocate service relies on a resource manager for, as two interfaces.

  \<open>machine_lender\<close>: the manager's state is seen through a view, and the deallocation of a machine that
  is lent is answered with 200 and gives it back.  The service's guarantee: a release and an expiry
  give back every machine the record names.  The machines of hardvisor and the instances of an EC2
  account are lent in this sense.

  \<open>resource_manager\<close>: the manager holds machines for allocations; a fulfilment that is answered with
  200 holds new machines for the allocation of the request and lists them, any other answer holds
  nothing new, and a deallocation frees the named machine.  Such a manager is a lender, and the record
  of a served request names machines that are held for it.
\<close>

definition body_id :: "json \<Rightarrow> json" where
  "body_id b = (case fld b ''allocation_id'' of None \<Rightarrow> JNull | Some v \<Rightarrow> v)"

locale machine_lender =
  fixes serve_rm :: "'w \<Rightarrow> http_request \<Rightarrow> http_result \<times> 'w"
    and ep :: string
    and ok :: "'w \<Rightarrow> bool"
    and view :: "'w \<Rightarrow> 'm"
    and give_back :: "string \<Rightarrow> 'm \<Rightarrow> 'm"
    and lent :: "'m \<Rightarrow> string \<Rightarrow> bool"
  assumes deallocate_gives_back:
      "ok w \<Longrightarrow> url_segment k \<Longrightarrow> lent (view w) k \<Longrightarrow>
        \<exists>res w'. serve_rm w \<lparr>req_verb = DELETE, req_url = deallocate_url ep k, req_body = JNull\<rparr> = (HReply 200 res, w')
          \<and> ok w' \<and> view w' = give_back k (view w)"
    and lent_stays: "lent m k' \<Longrightarrow> lent (give_back k m) k'"

text \<open>The machines a record names, when all of them are the manager's.\<close>

definition names_at :: "string \<Rightarrow> json list \<Rightarrow> string list \<Rightarrow> bool" where
  "names_at ep details ks \<longleftrightarrow> list_all2 (\<lambda>d k. url_segment k \<and> fld d ''vm_id'' = Some (JStr k)
     \<and> fld d ''resource_manager_ep'' = Some (JStr ep)) details ks"

lemma names_at_names:
  assumes "names_at ep details ks"
  shows "d \<in> set details \<Longrightarrow> \<exists>x \<in> set ks. fld d ''vm_id'' = Some (JStr x)"
    and "x \<in> set ks \<Longrightarrow> \<exists>d \<in> set details. fld d ''vm_id'' = Some (JStr x)"
  using assms unfolding names_at_def
  by (induction rule: list_all2_induct) auto

context machine_lender
begin

text \<open>The two loops over the details make the same calls.\<close>

lemma rm_deallocate_call:
  assumes W: "http W = serve_rm" and okw: "ok (world n)" and k: "url_segment k"
    and l: "lent (view (world n)) k"
  shows "\<exists>b w'. rm_deallocate W (JStr k) (JStr ep) n = (Inr b, n\<lparr>world := w'\<rparr>)
    \<and> ok w' \<and> view w' = give_back k (view (world n))"
proof -
  obtain res w' where run: "serve_rm (world n) \<lparr>req_verb = DELETE, req_url = deallocate_url ep k, req_body = JNull\<rparr>
      = (HReply 200 res, w')" and h: "ok w'" "view w' = give_back k (view (world n))"
    using deallocate_gives_back [OF okw k l] by blast
  with W show ?thesis
    by (intro exI [of _ res] exI [of _ w'])
      (simp add: rm_deallocate_def py_bind_def w_http_def py_return_def)
qed

lemma calls_give_back:
  assumes W: "http W = serve_rm" and step: "\<And>d k n. fld d ''vm_id'' = Some (JStr k) \<Longrightarrow>
      fld d ''resource_manager_ep'' = Some (JStr ep) \<Longrightarrow>
      f d n = py_then (rm_deallocate W (JStr k) (JStr ep)) (py_return ()) n"
    and "ok (world n)" and "names_at ep details ks" and "list_all (lent (view (world n))) ks"
  shows "\<exists>w'. py_for details f n = (Inr (), n\<lparr>world := w'\<rparr>) \<and> ok w' \<and> view w' = fold give_back ks (view (world n))"
  using assms(3-5)
proof (induction details arbitrary: ks n)
  case Nil
  then show ?case
    by (intro exI [of _ "world n"]) (auto simp: py_return_def names_at_def)
next
  case (Cons d details)
  then obtain k ks' where ks: "ks = k # ks'" and k: "url_segment k" "fld d ''vm_id'' = Some (JStr k)"
      "fld d ''resource_manager_ep'' = Some (JStr ep)" and rest: "names_at ep details ks'"
    by (auto simp: names_at_def list_all2_Cons1)
  from ks Cons.prems(3) have l: "lent (view (world n)) k" "list_all (lent (view (world n))) ks'" by simp_all
  obtain b w1 where one: "rm_deallocate W (JStr k) (JStr ep) n = (Inr b, n\<lparr>world := w1\<rparr>)"
    and ok1: "ok w1" and h1: "view w1 = give_back k (view (world n))"
    using rm_deallocate_call [OF W Cons.prems(1) k(1) l(1)] by blast
  have l1: "list_all (lent (view w1)) ks'" using l(2) by (auto simp: h1 list_all_iff lent_stays)
  obtain w' where "py_for details f (n\<lparr>world := w1\<rparr>) = (Inr (), n\<lparr>world := w1\<rparr>\<lparr>world := w'\<rparr>)" and "ok w'"
    and "view w' = fold give_back ks' (view w1)"
    using Cons.IH [of "n\<lparr>world := w1\<rparr>" ks'] ok1 rest l1 by auto
  with one step [OF k(2,3)] h1 ks show ?case
    by (intro exI [of _ w']) (simp add: py_then_def py_bind_def py_return_def)
qed

lemma expire_deallocate_gives_back:
  assumes W: "http W = serve_rm" and okw: "ok (world n)"
    and a: "fld a ''hardware_details'' = Some (JList details)" and ks: "names_at ep details ks" and l: "list_all (lent (view (world n))) ks"
  shows "\<exists>w'. expire_deallocate W a n = (Inr (), n\<lparr>world := w'\<rparr>) \<and> ok w'
    \<and> view w' = fold give_back ks (view (world n))"
proof -
  obtain m where m: "a = JObj m" "map_of m ''hardware_details'' = Some (JList details)"
    using fld_SomeD [OF a] by blast
  let ?f = "\<lambda>hardware. py_bind (py_lift (jitem hardware ''resource_manager_ep'')) (\<lambda>rm_ep.
       py_bind (py_lift (jitem hardware ''vm_id'')) (\<lambda>vm_name. try_deallocate W rm_ep vm_name))"
  have "?f d n' = py_then (rm_deallocate W (JStr k) (JStr ep)) (py_return ()) n'"
    if "fld d ''vm_id'' = Some (JStr k)" "fld d ''resource_manager_ep'' = Some (JStr ep)" for d k n'
    using that by (auto simp: py_bind_def py_lift_def try_deallocate_def dest!: jitem_Inr_iff [THEN iffD2])
  from calls_give_back [where f = ?f, OF W this okw ks l] m show ?thesis
    by (simp add: expire_deallocate_def py_bind_def py_lift_def res_bind_def)
qed

lemma release_gives_back:
  assumes R: "redis_server R" and W: "http W = serve_rm" and okw: "ok (world n)" and wf: "entries R wf_entry n"
    and k: "k \<noteq> []" and stored: "hget R (store n) ''allocations'' k = Some a"
    and a: "fld a ''hardware_details'' = Some (JList details)" and ks: "names_at ep details ks" and l: "list_all (lent (view (world n))) ks"
  shows "\<exists>n'. release R W (JStr k) n = (Inr (), n') \<and> ok (world n') \<and> view (world n') = fold give_back ks (view (world n))
    \<and> (\<forall>h k'. hget R (store n') h k' = (if h = ''allocations'' \<and> k' = k then None else hget R (store n) h k'))"
proof -
  obtain m where m: "a = JObj m" "map_of m ''hardware_details'' = Some (JList details)"
    using fld_SomeD [OF a] by blast
  then have tr: "truthy a" by auto
  let ?f = "\<lambda>hd. py_bind (py_lift (jitem hd ''vm_id'')) (\<lambda>vm_id.
         py_bind (py_lift (jitem hd ''resource_manager_ep'')) (\<lambda>ep.
         py_then (rm_deallocate W vm_id ep) (py_return ())))"
  have "?f d n' = py_then (rm_deallocate W (JStr k) (JStr ep)) (py_return ()) n'"
    if "fld d ''vm_id'' = Some (JStr k)" "fld d ''resource_manager_ep'' = Some (JStr ep)" for d k n'
    using that by (auto simp: py_bind_def py_lift_def dest!: jitem_Inr_iff [THEN iffD2])
  from calls_give_back [where f = ?f, OF W this okw ks l] obtain w' where
    calls: "py_for details ?f n = (Inr (), n\<lparr>world := w'\<rparr>)" and w': "ok w'" "view w' = fold give_back ks (view (world n))"
    by blast
  let ?n = "n\<lparr>world := w'\<rparr>"
  have wf': "entries R wf_entry ?n" using wf by (simp add: entries_def)
  let ?n2 = "?n\<lparr>store := hset R (store n) ''allocations'' k (JObj (dict_update m [(''status'', JStr ''deallocated'')]))\<rparr>"
  have upd: "update_status R (JStr k) [(''status'', JStr ''deallocated'')] ?n = (Inr (), ?n2)"
    using stored m(1) by (subst update_status_eq [OF k wf']) auto
  have "allocations R (JStr k) n = (Inr a, n)" by (simp add: allocations_eq [OF k] stored)
  then have "release R W (JStr k) n = (Inr (), ?n2\<lparr>store := hdel R (store ?n2) ''allocations'' [k]\<rparr>)"
    using m tr calls upd
    by (simp add: release_def py_bind_def py_lift_def res_bind_def py_then_def delete_def r_hdel_def py_modify_def)
  with w' show ?thesis
    by (auto simp: redis_server.hget_hset [OF R] redis_server.hget_hdel [OF R])
qed

text \<open>The task that the expiry pass awaits for an expired allocation.\<close>

lemma finish_task_gives_back:
  assumes R: "redis_server R" and W: "http W = serve_rm" and okw: "ok (world n)"
    and a: "fld a ''hardware_details'' = Some (JList details)" and ks: "names_at ep details ks" and l: "list_all (lent (view (world n))) ks"
  shows "\<exists>n'. finish_task R W (k, a) n = (Inr (), n') \<and> ok (world n')
    \<and> view (world n') = fold give_back ks (view (world n)) \<and> hget R (store n') ''allocations'' k = None"
proof -
  obtain w' where "expire_deallocate W a n = (Inr (), n\<lparr>world := w'\<rparr>)" "ok w'" "view w' = fold give_back ks (view (world n))"
    using expire_deallocate_gives_back [OF W okw a ks l] by blast
  then show ?thesis
    by (simp add: finish_task_def py_try_def py_then_def py_bind_def delete_def r_hdel_def py_modify_def
        redis_server.hget_hdel [OF R])
qed

end

section \<open>Holding machines for allocations\<close>

locale resource_manager =
  fixes serve_rm :: "'w \<Rightarrow> http_request \<Rightarrow> http_result \<times> 'w"
    and ep :: string
    and ok :: "'w \<Rightarrow> bool"
    and held :: "'w \<Rightarrow> string \<Rightarrow> json option"
  assumes keeps_ok: "ok w \<Longrightarrow> ok (snd (serve_rm w rq))"
    and check_holds_nothing:
      "ok w \<Longrightarrow> held (snd (serve_rm w \<lparr>req_verb = POST, req_url = theoretically_url ep, req_body = b\<rparr>)) = held w"
    and fulfil_holds:
      "ok w \<Longrightarrow> serve_rm w \<lparr>req_verb = POST, req_url = now_url ep, req_body = b\<rparr> = (HReply 200 res, w') \<Longrightarrow>
        \<exists>infos. fld res ''info'' = Some (JList infos) \<and>
          (\<forall>i \<in> set infos. \<exists>k. fld i ''name'' = Some (JStr k) \<and> held w k = None \<and> held w' k = Some (body_id b)) \<and>
          (\<forall>k. (\<forall>i \<in> set infos. fld i ''name'' \<noteq> Some (JStr k)) \<longrightarrow> held w' k = held w k)"
    and fulfil_refuses:
      "ok w \<Longrightarrow> serve_rm w \<lparr>req_verb = POST, req_url = now_url ep, req_body = b\<rparr> = (r, w') \<Longrightarrow>
        (\<forall>res. r \<noteq> HReply 200 res) \<Longrightarrow> held w' = held w"
    and deallocate_frees:
      "ok w \<Longrightarrow> url_segment k \<Longrightarrow>
        \<exists>res w'. serve_rm w \<lparr>req_verb = DELETE, req_url = deallocate_url ep k, req_body = JNull\<rparr> = (HReply 200 res, w')
          \<and> held w' = (held w)(k := None)"

definition without :: "(string \<Rightarrow> json option) \<Rightarrow> string list \<Rightarrow> string \<Rightarrow> json option" where
  "without h ks k = (if k \<in> set ks then None else h k)"

lemma without_Cons: "without (h(k := None)) ks = without h (k # ks)"
  by (auto simp: without_def)

lemma fold_without: "fold (\<lambda>k h. h(k := None)) ks h = without h ks"
  by (induction ks arbitrary: h) (simp_all add: without_Cons, simp add: without_def fun_eq_iff)

sublocale resource_manager \<subseteq> lender: machine_lender serve_rm ep ok held "\<lambda>k h. h(k := None)" "\<lambda>h k. True"
proof
  fix w k
  assume okw: "ok w" and k: "url_segment k"
  let ?rq = "\<lparr>req_verb = DELETE, req_url = deallocate_url ep k, req_body = JNull\<rparr>"
  obtain res w' where "serve_rm w ?rq = (HReply 200 res, w')" "held w' = (held w)(k := None)"
    using deallocate_frees [OF okw k] by blast
  moreover from this keeps_ok [OF okw, of ?rq] have "ok w'" by simp
  ultimately show "\<exists>res w'. serve_rm w ?rq = (HReply 200 res, w') \<and> ok w' \<and> held w' = (held w)(k := None)" by blast
qed simp

context resource_manager
begin

lemmas release_frees = lender.release_gives_back [unfolded fold_without list_all_iff, simplified]
  and finish_task_frees = lender.finish_task_gives_back [unfolded fold_without list_all_iff, simplified]

text \<open>The details of a reply name machines that the manager holds for the request.\<close>

lemma reply_details_held:
  assumes okw: "ok w" and run: "serve_rm w \<lparr>req_verb = POST, req_url = now_url ep, req_body = b\<rparr> = (HReply 200 res, w')"
    and hw: "hardware_of rm res = Inr details" and d: "d \<in> set details"
  shows "\<exists>m. fld d ''vm_id'' = Some (JStr m) \<and> held w m = None \<and> held w' m = Some (body_id b)"
proof -
  obtain infos where infos: "fld res ''info'' = Some (JList infos)"
    and each: "\<And>i. i \<in> set infos \<Longrightarrow> \<exists>k. fld i ''name'' = Some (JStr k) \<and> held w k = None \<and> held w' k = Some (body_id b)"
    using fulfil_holds [OF okw run] by blast
  from hw infos have "res_collect infos (hardware_detail rm) = Inr details"
    by (auto simp: hardware_of_def jitem_Inr_iff)
  from res_collect_in [OF this d] obtain i where "i \<in> set infos" "hardware_detail rm i = Inr d" by blast
  with each [of i] hardware_detail_fields [of rm i d] show ?thesis by auto
qed

text \<open>The names of the details, and what a fulfilment does to the machines it does not name.\<close>

lemma hardware_of_names:
  assumes okw: "ok w" and run: "serve_rm w \<lparr>req_verb = POST, req_url = now_url ep, req_body = b\<rparr> = (HReply 200 res, w')"
    and hw: "hardware_of rm res = Inr details" and rm: "fld rm ''endpoint'' = Some (JStr ep)"
    and seg: "\<forall>d \<in> set details. \<forall>x. fld d ''vm_id'' = Some (JStr x) \<longrightarrow> url_segment x"
  shows "\<exists>ks. names_at ep details ks \<and> (\<forall>x \<in> set ks. held w x = None)
    \<and> (\<forall>x. x \<notin> set ks \<longrightarrow> held w' x = held w x)"
proof -
  obtain infos where infos: "fld res ''info'' = Some (JList infos)"
    and each: "\<forall>i \<in> set infos. \<exists>k. fld i ''name'' = Some (JStr k) \<and> held w k = None \<and> held w' k = Some (body_id b)"
    and others: "\<forall>k. (\<forall>i \<in> set infos. fld i ''name'' \<noteq> Some (JStr k)) \<longrightarrow> held w' k = held w k"
    using fulfil_holds [OF okw run] by blast
  let ?name = "\<lambda>d. case fld d ''vm_id'' of Some (JStr k) \<Rightarrow> k | _ \<Rightarrow> []"
  from hw infos have collect: "res_collect infos (hardware_detail rm) = Inr details"
    by (auto simp: hardware_of_def jitem_Inr_iff)
  have named: "fld d ''vm_id'' = Some (JStr (?name d)) \<and> fld d ''resource_manager_ep'' = Some (JStr ep)
      \<and> held w (?name d) = None" if "d \<in> set details" for d
    using reply_details_held [OF okw run hw that] hardware_of_endpoint [OF hw that] rm by auto
  have "names_at ep details (map ?name details)"
    using named seg by (auto simp: names_at_def list_all2_map2 list_all2_same)
  moreover have "\<forall>x \<in> set (map ?name details). held w x = None" using named by auto
  moreover have "held w' x = held w x" if x: "x \<notin> set (map ?name details)" for x
  proof -
    have "fld i ''name'' \<noteq> Some (JStr x)" if "i \<in> set infos" for i
    proof -
      from that obtain j where j: "j < length infos" "i = infos ! j" by (auto simp: in_set_conv_nth)
      from hardware_detail_fields [OF res_collect_nth [OF collect j(1)]] j(2)
      have "fld (details ! j) ''vm_id'' = fld i ''name''" by simp
      moreover have d: "details ! j \<in> set details" using j(1) res_collect_length [OF collect] by simp
      ultimately show ?thesis using x named [OF d] by force
    qed
    with others show ?thesis by blast
  qed
  ultimately show ?thesis by blast
qed

text \<open>A request that is served: its record names machines that nobody held, which are held for it now, and
  nothing else is held otherwise than before.\<close>

lemma serve_rental:
  fixes n :: "('s, 'w) node"
  assumes R: "redis_server R" and W: "http W = serve_rm" and okw: "ok w0" and wf: "entries R wf_entry n"
    and k: "map_of m ''allocation_id'' = Some (JStr k)" "k \<noteq> []"
    and demands: "map_of m ''demands'' = Some (JObj demands)"
    and rms: "hgetall R (store n) ''resource_managers'' = [(rk, JObj rm)]" and ep: "map_of rm ''endpoint'' = Some (JStr ep)"
    and w0: "world n = w0"
    and saved: "saved = saved_record m (clock W w0)" and allocating: "allocating = allocating_record saved (JStr ep)"
    and check: "serve_rm w0 \<lparr>req_verb = POST, req_url = theoretically_url ep, req_body = JObj saved\<rparr> = (HReply 200 b, w1)"
    and hosts: "fld b ''machines'' = Some (JList hosts)" "\<forall>h \<in> set hosts. hashable h" "length (remdups hosts) = length demands"
    and now: "serve_rm w1 \<lparr>req_verb = POST, req_url = now_url ep, req_body = restricted allocating demands hosts\<rparr> = (HReply 200 result, w2)"
    and hw: "hardware_of (keyed_rm rk rm) result = Inr details"
    and seg: "\<forall>d \<in> set details. \<forall>x. fld d ''vm_id'' = Some (JStr x) \<longrightarrow> url_segment x"
  shows "\<exists>a n1 ks. serve_request R W (JStr k) (JObj m) n = (Inr a, n1) \<and> fld a ''status'' = Some (JStr ''success'')
    \<and> fld a ''hardware_details'' = Some (JList details) \<and> world n1 = w2 \<and> ok w2 \<and> entries R wf_entry n1
    \<and> hget R (store n1) ''allocations'' k = Some a
    \<and> (\<forall>h k'. (h, k') \<noteq> (''allocations'', k) \<longrightarrow> hget R (store n1) h k' = hget R (store n) h k')
    \<and> names_at ep details ks \<and> (\<forall>x \<in> set ks. held w0 x = None \<and> held w2 x = Some (JStr k))
    \<and> (\<forall>x. x \<notin> set ks \<longrightarrow> held w2 x = held w0 x)"
proof -
  let ?a = "JObj (dict_update allocating (fulfilled_kw (JStr ep) details result (clock W w2)))"
  obtain n1 where run: "serve_request R W (JStr k) (JObj m) n = (Inr ?a, n1)"
    and stored: "hget R (store n1) ''allocations'' k = Some ?a" and w2: "world n1 = w2"
    and same: "\<forall>h k'. (h, k') \<noteq> (''allocations'', k) \<longrightarrow> hget R (store n1) h k' = hget R (store n) h k'"
    using redis_server.serve_request_single [OF R wf k demands rms ep w0 saved allocating check [folded W] hosts now [folded W] hw]
    by blast
  have wf1: "entries R wf_entry n1" using py_invD [OF redis_server.serve_request_inv [OF R] wf, of W "JStr k" "JObj m"] run by simp
  have ok1: "ok w1" and h1: "held w1 = held w0"
    using keeps_ok [OF okw] check_holds_nothing [OF okw] check by (metis snd_conv)+
  have ok2: "ok w2" using keeps_ok [OF ok1] now by (metis snd_conv)
  have rm: "fld (keyed_rm rk rm) ''endpoint'' = Some (JStr ep)" using ep by (simp add: keyed_rm_def)
  obtain ks where ks: "names_at ep details ks" "\<forall>x \<in> set ks. held w1 x = None" "\<forall>x. x \<notin> set ks \<longrightarrow> held w2 x = held w1 x"
    using hardware_of_names [OF ok1 now hw rm seg] by blast
  have a: "fld ?a ''status'' = Some (JStr ''success'')" "fld ?a ''hardware_details'' = Some (JList details)"
    by (simp_all add: map_of_dict_update fulfilled_kw_def)
  have body: "body_id (restricted allocating demands hosts) = JStr k"
    using k(1) by (simp add: body_id_def restricted_def allocating saved allocating_record_def saved_record_def map_of_dict_update update_conv')
  have "held w2 x = Some (JStr k)" if "x \<in> set ks" for x
  proof -
    from ks(1) that obtain d where "d \<in> set details" "fld d ''vm_id'' = Some (JStr x)"
      using names_at_names(2) by blast
    with reply_details_held [OF ok1 now hw] show ?thesis by (fastforce simp: body)
  qed
  then have "\<forall>x \<in> set ks. held w0 x = None \<and> held w2 x = Some (JStr k)" using ks(2) h1 by simp
  moreover have "\<forall>x. x \<notin> set ks \<longrightarrow> held w2 x = held w0 x" using ks(3) h1 by simp
  ultimately show ?thesis using run stored w2 same wf1 ok2 ks(1) a by (intro exI conjI)
qed

text \<open>A whole rental: the release of the record brings back what was held before and what was stored
  before.\<close>

lemma rental:
  fixes n :: "('s, 'w) node"
  assumes R: "redis_server R" and W: "http W = serve_rm" and okw: "ok w0" and wf: "entries R wf_entry n"
    and k: "map_of m ''allocation_id'' = Some (JStr k)" "k \<noteq> []"
    and demands: "map_of m ''demands'' = Some (JObj demands)"
    and new: "hget R (store n) ''allocations'' k = None"
    and rms: "hgetall R (store n) ''resource_managers'' = [(rk, JObj rm)]" and ep: "map_of rm ''endpoint'' = Some (JStr ep)"
    and uuid: "uuid4 W (world n) = (u, w0)"
    and saved: "saved = saved_record m (clock W w0)" and allocating: "allocating = allocating_record saved (JStr ep)"
    and check: "serve_rm w0 \<lparr>req_verb = POST, req_url = theoretically_url ep, req_body = JObj saved\<rparr> = (HReply 200 b, w1)"
    and hosts: "fld b ''machines'' = Some (JList hosts)" "\<forall>h \<in> set hosts. hashable h" "length (remdups hosts) = length demands"
    and now: "serve_rm w1 \<lparr>req_verb = POST, req_url = now_url ep, req_body = restricted allocating demands hosts\<rparr> = (HReply 200 result, w2)"
    and hw: "hardware_of (keyed_rm rk rm) result = Inr details"
    and seg: "\<forall>d \<in> set details. \<forall>x. fld d ''vm_id'' = Some (JStr x) \<longrightarrow> url_segment x"
  shows "\<exists>a n1 n2. fulfill R W (JObj m) n = (Inr a, n1) \<and> fld a ''status'' = Some (JStr ''success'')
    \<and> fld a ''hardware_details'' = Some (JList details) \<and> world n1 = w2
    \<and> (\<forall>d \<in> set details. \<exists>x. fld d ''vm_id'' = Some (JStr x) \<and> held w0 x = None \<and> held w2 x = Some (JStr k))
    \<and> release R W (JStr k) n1 = (Inr (), n2) \<and> held (world n2) = held w0
    \<and> (\<forall>h k'. hget R (store n2) h k' = hget R (store n) h k')"
proof -
  let ?n = "n\<lparr>world := w0\<rparr>"
  have n: "entries R wf_entry ?n" "hgetall R (store ?n) ''resource_managers'' = [(rk, JObj rm)]" "world ?n = w0" "store ?n = store n"
    using wf rms by (simp_all add: entries_def)
  obtain a n1 ks where run: "serve_request R W (JStr k) (JObj m) ?n = (Inr a, n1)" and a: "fld a ''status'' = Some (JStr ''success'')"
    "fld a ''hardware_details'' = Some (JList details)" and w2: "world n1 = w2" and ok2: "ok w2" and wf1: "entries R wf_entry n1"
    and stored: "hget R (store n1) ''allocations'' k = Some a"
    and same: "\<forall>h k'. (h, k') \<noteq> (''allocations'', k) \<longrightarrow> hget R (store n1) h k' = hget R (store ?n) h k'"
    and ks: "names_at ep details ks" "\<forall>x \<in> set ks. held w0 x = None \<and> held w2 x = Some (JStr k)" "\<forall>x. x \<notin> set ks \<longrightarrow> held w2 x = held w0 x"
    using serve_rental [OF R W okw n(1) k demands n(2) ep n(3) saved allocating check hosts now hw seg] by blast
  obtain n2 where rel: "release R W (JStr k) n1 = (Inr (), n2)" and h2: "held (world n2) = without (held (world n1)) ks"
    and eff: "\<forall>h k'. hget R (store n2) h k' = (if h = ''allocations'' \<and> k' = k then None else hget R (store n1) h k')"
    using release_frees [OF R W _ wf1 k(2) stored a(2) ks(1)] ok2 w2 by blast
  have "\<exists>x. fld d ''vm_id'' = Some (JStr x) \<and> held w0 x = None \<and> held w2 x = Some (JStr k)" if "d \<in> set details" for d
    using names_at_names(1) [OF ks(1) that] ks(2) by blast
  moreover have "held (world n2) = held w0"
    using ks(2,3) by (simp add: h2 w2 without_def fun_eq_iff)
  moreover have "\<forall>h k'. hget R (store n2) h k' = hget R (store n) h k'" using eff same new n(4) by simp
  moreover have "fulfill R W (JObj m) n = (Inr a, n1)"
    using run by (simp add: redis_server.fulfill_new [OF R k new uuid])
  ultimately show ?thesis using a w2 rel by blast
qed

end

end
