(* ===== verification/Hardvisor.thy ===== *)
theory Hardvisor
  imports Rm_Requestor
begin

text \<open>
  The resource manager of physical machines (\<open>resource_managers/hardvisor\<close>): its inventory in the
  Redis hash \<open>resources\<close> (\<open>redis_client.py\<close>), the manager that reserves and releases machines
  (\<open>manager.py\<close>), the HTTP handlers (\<open>__init__.py\<close>) and the periodic cleaner (\<open>periodically.py\<close>).
  The body of \<open>allocate\<close> runs under a lock, so the tasks of a gather run one after another.  An
  exception that a handler does not catch is answered with HTTP status 500.
\<close>

section \<open>The inventory\<close>

text \<open>\<open>d.setdefault(k, v)\<close>\<close>

definition setdefault :: "string \<Rightarrow> json \<Rightarrow> json dict \<Rightarrow> json dict" where
  "setdefault k v d = (if map_of d k = None then AList.update k v d else d)"

definition configured_machine :: "string \<Rightarrow> json \<Rightarrow> json res" where
  "configured_machine name conn_details =
     res_bind (jobj conn_details) (\<lambda>d.
     (let d = setdefault ''arch'' (JStr ''x86_64'') (setdefault ''name'' (JStr name) d) in
     res_bind (jitem (JObj d) ''ip'') (\<lambda>ip.
       Inr (JObj (dict_update d [(''net_ifaces'', JList [JObj [(''ip'', ip)]]),
                                 (''status'', JStr ''available'')])))))"

definition update_machines :: "'s redis_ops \<Rightarrow> json dict \<Rightarrow> ('s, 'w, unit) svc" where
  "update_machines R machines =
     py_bind (py_lift (res_collect machines (\<lambda>(name, d).
        res_bind (configured_machine name d) (\<lambda>d. Inr (name, d))))) (\<lambda>machines.
     py_for machines (\<lambda>(machine, d). r_hsetnx R ''resources'' machine d))"

definition all_machines :: "'s redis_ops \<Rightarrow> ('s, 'w, json dict) svc" where
  "all_machines R = r_hgetall R ''resources''"

text \<open>\<open>machines(name)\<close>: an unknown name gives None, an empty name everything.\<close>

definition machine_status :: "'s redis_ops \<Rightarrow> string \<Rightarrow> ('s, 'w, json) svc" where
  "machine_status R name = (if name \<noteq> [] then
      py_bind (r_hget R ''resources'' name) (\<lambda>v.
        py_return (case v of None \<Rightarrow> JNull | Some m \<Rightarrow> m))
    else py_bind (all_machines R) (\<lambda>ms. py_return (JObj ms)))"

definition update_resource :: "'s redis_ops \<Rightarrow> json \<Rightarrow> json \<Rightarrow> ('s, 'w, unit) svc" where
  "update_resource R name machine =
     py_bind (py_lift (jkey name)) (\<lambda>k. r_hset R ''resources'' k machine)"

section \<open>The manager\<close>

definition fulfills_reqs :: "json \<Rightarrow> json \<Rightarrow> bool res" where
  "fulfills_reqs machine reqs =
     res_bind (jitem reqs ''arch'') (\<lambda>a. res_bind (jitem machine ''arch'') (\<lambda>b. Inr (a = b)))"

definition matching_machines :: "'s redis_ops \<Rightarrow> json \<Rightarrow> ('s, 'w, json list) svc" where
  "matching_machines R reqs =
     py_bind (all_machines R) (\<lambda>machines.
     py_bind (py_lift (res_collect (map snd machines) (\<lambda>m.
        res_bind (fulfills_reqs m reqs) (\<lambda>ok. Inr (m, ok))))) (\<lambda>tagged.
     py_return (map fst (filter snd tagged))))"

fun first_available :: "json list \<Rightarrow> json option res" where
  "first_available [] = Inr None"
| "first_available (machine # rest) =
     res_bind (jget machine ''status'' (JStr ''available'')) (\<lambda>st.
       if st = JStr ''available'' then Inr (Some machine) else first_available rest)"

definition match_reqs_to_available_machine :: "'s redis_ops \<Rightarrow> json \<Rightarrow> ('s, 'w, json option) svc" where
  "match_reqs_to_available_machine R reqs =
     py_bind (matching_machines R reqs) (\<lambda>ms. py_lift (first_available ms))"

definition check_allocate :: "'s redis_ops \<Rightarrow> json \<Rightarrow> ('s, 'w, json \<times> bool) svc" where
  "check_allocate R requirements =
     py_bind (py_lift (jitem requirements ''host'')) (\<lambda>host.
     py_bind (matching_machines R requirements) (\<lambda>ms. py_return (host, ms \<noteq> [])))"

definition reserve_machine :: "'s redis_ops \<Rightarrow> json \<Rightarrow> json \<Rightarrow> ('s, 'w, json) svc" where
  "reserve_machine R machine reqs =
     py_bind (py_lift (res_bind (jitem machine ''ip'') (\<lambda>ip.
       jset machine ''net_ifaces'' (JList [JObj [(''ip'', ip)]])))) (\<lambda>machine.
     py_bind (py_lift (res_bind (jget reqs ''allocation_id'' JNull) (jset machine ''allocation_id''))) (\<lambda>machine.
     py_bind (py_lift (res_bind (jget reqs ''requestor'' JNull) (jset machine ''requestor''))) (\<lambda>machine.
     py_bind (py_lift (jset machine ''status'' (JStr ''in_use''))) (\<lambda>machine.
     py_bind (py_lift (jitem machine ''name'')) (\<lambda>name.
     py_then (update_resource R name machine) (py_return machine))))))"

definition hw_allocate :: "'s redis_ops \<Rightarrow> json \<Rightarrow> ('s, 'w, json option) svc" where
  "hw_allocate R requirements =
     py_bind (match_reqs_to_available_machine R requirements) (\<lambda>machine.
     (case machine of
        Some m \<Rightarrow> if truthy m then
            py_bind (reserve_machine R m requirements) (\<lambda>r. py_return (Some r))
          else py_return None
      | None \<Rightarrow> py_return None))"

text \<open>\<open>RemoteExecutor\<close>'s constructor: exactly one kind of credentials.\<close>

definition remote_executor :: "json \<Rightarrow> unit res" where
  "remote_executor d = res_bind (jobj d) (\<lambda>d.
     if (map_of d ''password'' \<noteq> None) \<noteq> (map_of d ''key_file_path'' \<noteq> None) then Inr ()
     else Inl (Exn AssertionErr ''Must have password or key_file_path in connection_details''))"

text \<open>The command line that reaches the machine.\<close>

definition ssh_string :: "json dict \<Rightarrow> string res" where
  "ssh_string d = (case map_of d ''key_file_path'' of
      Some key \<Rightarrow>
        res_bind (jitem (JObj d) ''user'') (\<lambda>user.
        res_bind (jitem (JObj d) ''ip'') (\<lambda>ip.
          Inr (''ssh -i '' @ py_str key @ '' '' @ py_str user @ ''@'' @ py_str ip)))
    | None \<Rightarrow>
        res_bind (jitem (JObj d) ''password'') (\<lambda>pw.
        res_bind (jitem (JObj d) ''user'') (\<lambda>user.
        res_bind (jitem (JObj d) ''ip'') (\<lambda>ip.
          Inr (''sshpass -p '' @ py_str pw @ '' ssh '' @ py_str user @ ''@'' @ py_str ip)))))"

definition remote_cmd :: "json dict \<Rightarrow> string \<Rightarrow> string res" where
  "remote_cmd d cmd = res_bind (ssh_string d) (\<lambda>ssh. Inr (ssh @ '' '' @ [CHR 0x27] @ cmd @ [CHR 0x27]))"

definition hw_release :: "'s redis_ops \<Rightarrow> json \<Rightarrow> ('s, 'w, unit) svc" where
  "hw_release R machine_name =
     py_bind (py_lift (jkey machine_name)) (\<lambda>name.
     py_bind (machine_status R name) (\<lambda>machine.
     if \<not> truthy machine then py_return ()
     else
     py_bind (py_lift (remote_executor machine)) (\<lambda>_.
     py_bind (py_lift (jobj machine)) (\<lambda>m.
     update_resource R machine_name
       (JObj (AList.update ''status'' (JStr ''available'') (AList.delete ''allocation_id'' m)))))))"

section \<open>The handlers\<close>

text \<open>A requirement popped from the demand when it is there.\<close>

definition pop_req :: "string \<Rightarrow> json dict \<times> json dict \<Rightarrow> json dict \<times> json dict" where
  "pop_req k = (\<lambda>(machine, reqs). case map_of reqs k of
      None \<Rightarrow> (machine, reqs)
    | Some v \<Rightarrow> (AList.update k v machine, AList.delete k reqs))"

definition parse_machine :: "json \<Rightarrow> json \<Rightarrow> string \<times> json \<Rightarrow> json res" where
  "parse_machine allocation_id requestor = (\<lambda>(host, reqs).
     res_bind (jobj reqs) (\<lambda>reqs.
     (let machine = [(''allocation_id'', allocation_id), (''requestor'', requestor), (''host'', JStr host)];
          (machine, reqs) = pop_req ''type'' (pop_req ''cpu'' (pop_req ''gpu'' (machine, reqs)));
          arch = (case map_of reqs ''arch'' of None \<Rightarrow> JStr ''x86_64'' | Some v \<Rightarrow> v)
      in Inr (JObj (AList.update ''arch'' arch machine)))))"

definition parse_requirements :: "json \<Rightarrow> json list res" where
  "parse_requirements request =
     res_bind (jget request ''allocation_id'' JNull) (\<lambda>allocation_id.
     res_bind (jitem request ''requestor'') (\<lambda>requestor.
     res_bind (res_bind (jitem request ''demands'') jobj) (\<lambda>demands.
       res_collect demands (parse_machine allocation_id requestor))))"

definition hw_check_fulfill :: "'s redis_ops \<Rightarrow> json \<Rightarrow> ('s, 'w, int \<times> json) svc" where
  "hw_check_fulfill R requirements =
     py_bind (py_lift (parse_requirements requirements)) (\<lambda>demands.
     py_bind (gather_raise demands (check_allocate R)) (\<lambda>possibles.
     (let hosts = map fst (filter snd possibles) in
      py_return (if hosts \<noteq> [] then
          (200, JObj [(''status'', JStr ''Success''), (''machines'', JList hosts)])
        else (406, JObj [(''status'', JStr ''Unable'')])))))"

definition hw_fulfill :: "'s redis_ops \<Rightarrow> json \<Rightarrow> ('s, 'w, int \<times> json) svc" where
  "hw_fulfill R requirements =
     py_bind (py_lift (parse_requirements requirements)) (\<lambda>demands.
     py_bind (gather_raise demands (hw_allocate R)) (\<lambda>allocated.
     if \<exists>m \<in> set allocated. m = None then
       py_bind (gather_raise (filter (\<lambda>m. m \<noteq> None) allocated) (\<lambda>m.
           py_bind (py_lift (jitem (the m) ''name'')) (hw_release R))) (\<lambda>_.
       py_return (503, JObj [(''status'', JStr ''Failed''),
         (''error'', JStr ''matching resources busy, try again later'')]))
     else py_return (200, JObj [(''status'', JStr ''Success''), (''info'', JList (map the allocated))])))"

definition handle_release_machine :: "'s redis_ops \<Rightarrow> string \<Rightarrow> ('s, 'w, int \<times> json) svc" where
  "handle_release_machine R machine_name =
     py_then (hw_release R (JStr machine_name)) (py_return (200, JObj [(''status'', JStr ''Success'')]))"

definition handle_get_allocation :: "'s redis_ops \<Rightarrow> string \<Rightarrow> ('s, 'w, int \<times> json) svc" where
  "handle_get_allocation R allocation_id =
     py_bind (all_machines R) (\<lambda>machines.
     py_bind (py_lift (res_collect (map snd machines) (\<lambda>m.
        res_bind (jget m ''allocation_id'' JNull) (\<lambda>a. Inr (m, a))))) (\<lambda>tagged.
     py_return (200, JObj [(''info'',
       JList (map fst (filter (\<lambda>p. snd p = JStr allocation_id) tagged)))])))"

definition handle_list_machines :: "'s redis_ops \<Rightarrow> ('s, 'w, int \<times> json) svc" where
  "handle_list_machines R = py_bind (all_machines R) (\<lambda>machines.
     py_return (200, JObj [(''status'', JStr ''Success''), (''machines'', JList (map snd machines))]))"

definition handle_machine_status :: "'s redis_ops \<Rightarrow> string \<Rightarrow> ('s, 'w, int \<times> json) svc" where
  "handle_machine_status R machine_name = py_bind (machine_status R machine_name) (\<lambda>m.
     py_return (200, JObj [(''info'', m)]))"

text \<open>The routes the allocate service uses, by method and URL; aiohttp answers an exception with
  500 and an unknown route with 404.\<close>

definition hardvisor_http ::
    "'s redis_ops \<Rightarrow> string \<Rightarrow> ('s, 'w) node \<Rightarrow> http_request \<Rightarrow> http_result \<times> ('s, 'w) node" where
  "hardvisor_http R ep =
     rm_http ep (hw_check_fulfill R) (hw_fulfill R) (handle_release_machine R) (handle_get_allocation R)"

section \<open>The periodic cleaner\<close>

text \<open>The constructor sets \<open>ssl_context\<close> only when it is given a certificate.\<close>

definition active_allocation_ids :: "'w world_ops \<Rightarrow> bool \<Rightarrow> string \<Rightarrow> ('s, 'w, json list) svc" where
  "active_allocation_ids W has_cert provisioner_ep =
     (if \<not> has_cert then py_raise (Exn AttributeErr ''ssl_context'') else
     py_bind (w_http W \<lparr>req_verb = GET, req_url = ''http://'' @ provisioner_ep @ ''/api/jobs'', req_body = JNull\<rparr>)
       (\<lambda>(_, data).
     py_bind (py_lift (jitem data ''status'')) (\<lambda>st.
     if st \<noteq> JNum 200 then py_raise (Exn PlainException ''couldnt get jobs'')
     else py_lift (res_bind (res_bind (jitem data ''data'') jiter) (\<lambda>as.
       res_collect as (\<lambda>a. jitem a ''allocation_id''))))))"

definition release_dangling :: "'s redis_ops \<Rightarrow> json list \<Rightarrow> json \<Rightarrow> ('s, 'w, unit) svc" where
  "release_dangling R active machine =
     py_bind (py_lift (jget machine ''status'' JNull)) (\<lambda>st.
     if st = JStr ''in_use'' then
       py_bind (py_lift (jget machine ''allocation_id'' JNull)) (\<lambda>aid.
       if aid \<notin> set active then
         py_bind (py_lift (jitem machine ''name'')) (hw_release R)
       else py_return ())
     else py_return ())"

definition do_clean_dangling_hardware ::
    "'s redis_ops \<Rightarrow> 'w world_ops \<Rightarrow> bool \<Rightarrow> string \<Rightarrow> ('s, 'w, unit) svc" where
  "do_clean_dangling_hardware R W has_cert provisioner_ep =
     py_bind (active_allocation_ids W has_cert provisioner_ep) (\<lambda>active.
     py_bind (all_machines R) (\<lambda>machines.
     py_for (map snd machines) (release_dangling R active)))"

fun clean_dangling_hardware ::
    "'s redis_ops \<Rightarrow> 'w world_ops \<Rightarrow> bool \<Rightarrow> string \<Rightarrow> nat \<Rightarrow> ('s, 'w, unit) svc" where
  "clean_dangling_hardware R W has_cert provisioner_ep 0 = py_return ()"
| "clean_dangling_hardware R W has_cert provisioner_ep (Suc i) =
     py_then (py_try (do_clean_dangling_hardware R W has_cert provisioner_ep) (\<lambda>_. py_return ()))
       (py_then (w_sleep W 60) (clean_dangling_hardware R W has_cert provisioner_ep i))"

lemmas hardvisor_defs = all_machines_def machine_status_def update_resource_def matching_machines_def
  match_reqs_to_available_machine_def reserve_machine_def hw_allocate_def hw_release_def

end
