(* ===== verification/Hardvisor_Correct.thy ===== *)
theory Hardvisor_Correct
  imports Hardvisor
begin

text \<open>
  What the operations of the physical-machine manager do to the inventory: on a well-formed store
  no operation of the manager raises, a demand takes the first free machine of its architecture, a
  request is all or nothing, a release frees exactly the named machine, and the cleaner frees exactly
  the machines of allocations the allocate service no longer knows.
\<close>

section \<open>The invariant of the inventory\<close>

definition wf_machine :: "string \<Rightarrow> json \<Rightarrow> bool" where
  "wf_machine k a \<longleftrightarrow> k \<noteq> [] \<and> fld a ''name'' = Some (JStr k) \<and> fld a ''arch'' \<noteq> None \<and> fld a ''ip'' \<noteq> None
     \<and> ((fld a ''password'' \<noteq> None) \<noteq> (fld a ''key_file_path'' \<noteq> None))
     \<and> (fld a ''status'' = Some (JStr ''available'') \<or> fld a ''status'' = Some (JStr ''in_use''))"

definition wf_resource :: "string \<Rightarrow> string \<Rightarrow> json \<Rightarrow> bool" where
  "wf_resource h k v \<longleftrightarrow> (h = ''resources'' \<longrightarrow> wf_machine k v)"

definition is_free :: "json \<Rightarrow> bool" where
  "is_free a \<longleftrightarrow> fld a ''status'' = Some (JStr ''available'')"

definition suits :: "json \<Rightarrow> json \<Rightarrow> bool" where
  "suits arch a \<longleftrightarrow> fld a ''arch'' = Some arch"

lemma wf_machineE:
  assumes "wf_machine k a"
  obtains m arch ip where "a = JObj m" and "k \<noteq> []" and "map_of m ''name'' = Some (JStr k)"
    and "map_of m ''arch'' = Some arch" and "map_of m ''ip'' = Some ip"
    and "(map_of m ''password'' \<noteq> None) \<noteq> (map_of m ''key_file_path'' \<noteq> None)"
    and "map_of m ''status'' = Some (JStr ''available'') \<or> map_of m ''status'' = Some (JStr ''in_use'')"
  using assms by (cases a) (auto simp: wf_machine_def fld_def)

section \<open>The records the operations write\<close>

definition reserved :: "json \<Rightarrow> json \<Rightarrow> json dict \<Rightarrow> json" where
  "reserved aid requestor m = JObj (dict_update m
     [(''net_ifaces'', JList [JObj [(''ip'', the (map_of m ''ip''))]]), (''allocation_id'', aid),
      (''requestor'', requestor), (''status'', JStr ''in_use'')])"

definition released :: "json dict \<Rightarrow> json" where
  "released m = JObj (AList.update ''status'' (JStr ''available'') (AList.delete ''allocation_id'' m))"

lemma wf_reserved: "wf_machine k (JObj m) \<Longrightarrow> wf_machine k (reserved aid rq m)"
  by (auto simp: wf_machine_def reserved_def)

lemma wf_released: "wf_machine k (JObj m) \<Longrightarrow> wf_machine k (released m)"
  by (auto simp: wf_machine_def released_def delete_conv')

text \<open>A demand as \<open>parse_requirements\<close> builds it.\<close>

definition demand_of :: "json \<Rightarrow> bool" where
  "demand_of d \<longleftrightarrow> (\<exists>m. d = JObj m \<and> map_of m ''arch'' \<noteq> None \<and> map_of m ''host'' \<noteq> None)"

definition arch_of :: "json \<Rightarrow> json" where
  "arch_of d = the (fld d ''arch'')"

definition opt :: "json option \<Rightarrow> json" where
  "opt v = (case v of None \<Rightarrow> JNull | Some x \<Rightarrow> x)"

text \<open>\<open>granted R s s' g\<close>: between two stores the machines of \<open>g\<close>, given by name, old record and new
  record, went from free to in use, and nothing else changed.\<close>

definition granted :: "'s redis_ops \<Rightarrow> 's \<Rightarrow> 's \<Rightarrow> (string \<times> json dict \<times> json) list \<Rightarrow> bool" where
  "granted R s s' g \<longleftrightarrow> distinct (map fst g)
     \<and> (\<forall>(k, m, r) \<in> set g. hget R s ''resources'' k = Some (JObj m) \<and> is_free (JObj m)
          \<and> (\<exists>aid rq. r = reserved aid rq m) \<and> hget R s' ''resources'' k = Some r)
     \<and> (\<forall>h k. h \<noteq> ''resources'' \<or> k \<notin> fst ` set g \<longrightarrow> hget R s' h k = hget R s h k)"

definition served :: "json \<Rightarrow> json option \<Rightarrow> bool" where
  "served d r \<longleftrightarrow> (case r of None \<Rightarrow> True | Some r \<Rightarrow> \<exists>m. suits (arch_of d) (JObj m)
     \<and> r = reserved (opt (fld d ''allocation_id'')) (opt (fld d ''requestor'')) m)"

lemma served_None [simp]: "served d None"
  by (simp add: served_def)

section \<open>Choosing a machine\<close>

lemma first_available_wf:
  "\<forall>a \<in> set ms. \<exists>k. wf_machine k a \<Longrightarrow>
    first_available ms = Inr (case filter is_free ms of [] \<Rightarrow> None | a # _ \<Rightarrow> Some a)"
proof (induction ms)
  case Nil
  then show ?case by simp
next
  case (Cons a ms)
  from Cons.prems obtain k where "wf_machine k a" by auto
  then show ?case
    by (rule wf_machineE) (use Cons in \<open>auto simp: is_free_def res_bind_def\<close>)
qed

lemma tag_matching:
  "\<forall>a \<in> set ms. \<exists>k. wf_machine k a \<Longrightarrow> fld d ''arch'' = Some arch \<Longrightarrow>
    res_collect ms (\<lambda>m. res_bind (fulfills_reqs m d) (\<lambda>ok. Inr (m, ok))) = Inr (map (\<lambda>m. (m, suits arch m)) ms)"
proof (induction ms)
  case Nil
  then show ?case by simp
next
  case (Cons a ms)
  from Cons.prems(1) obtain k where "wf_machine k a" by auto
  moreover obtain dm where "d = JObj dm" "map_of dm ''arch'' = Some arch"
    using fld_SomeD [OF Cons.prems(2)] by blast
  ultimately show ?case
    by (elim wf_machineE) (use Cons in \<open>auto simp: fulfills_reqs_def res_bind_def suits_def\<close>)
qed

definition inventory :: "'s redis_ops \<Rightarrow> 's \<Rightarrow> json list" where
  "inventory R s = map snd (hgetall R s ''resources'')"

context redis_server
begin

lemma inventory_iff: "a \<in> set (inventory R s) \<longleftrightarrow> (\<exists>k. hget R s ''resources'' k = Some a)"
  by (force simp: inventory_def hgetall_SomeD [symmetric])

lemma inventory_wf: "entries R wf_resource n \<Longrightarrow> a \<in> set (inventory R (store n)) \<Longrightarrow> \<exists>k. wf_machine k a"
  by (auto simp: inventory_iff entries_def wf_resource_def)

lemma matching_machines_eq:
  assumes "entries R wf_resource n" and "fld d ''arch'' = Some arch"
  shows "matching_machines R d n = (Inr (filter (suits arch) (inventory R (store n))), n)"
proof -
  have "\<forall>a \<in> set (inventory R (store n)). \<exists>k. wf_machine k a" using inventory_wf [OF assms(1)] by blast
  from tag_matching [OF this assms(2)] show ?thesis
    by (simp add: matching_machines_def all_machines_def py_defs inventory_def [symmetric] filter_map comp_def)
qed

lemma match_eq:
  assumes wf: "entries R wf_resource n" and "fld d ''arch'' = Some arch"
  shows "match_reqs_to_available_machine R d n =
    (Inr (case filter is_free (filter (suits arch) (inventory R (store n))) of [] \<Rightarrow> None | a # _ \<Rightarrow> Some a), n)"
proof -
  have "\<forall>a \<in> set (filter (suits arch) (inventory R (store n))). \<exists>k. wf_machine k a"
    using inventory_wf [OF wf] by auto
  from first_available_wf [OF this] show ?thesis
    by (simp add: match_reqs_to_available_machine_def py_bind_def matching_machines_eq [OF assms] py_lift_def)
qed

text \<open>\<open>hw_allocate\<close> on a well-formed inventory.\<close>

lemma hw_allocate_eq:
  assumes wf: "entries R wf_resource n" and arch: "fld d ''arch'' = Some arch"
  shows "hw_allocate R d n =
    (case filter is_free (filter (suits arch) (inventory R (store n))) of
       [] \<Rightarrow> (Inr None, n)
     | JObj m # _ \<Rightarrow>
         (let r = reserved (opt (fld d ''allocation_id'')) (opt (fld d ''requestor'')) m
          in (Inr (Some r), n\<lparr>store := hset R (store n) ''resources''
                (case the (map_of m ''name'') of JStr k \<Rightarrow> k) r\<rparr>))
     | _ \<Rightarrow> (Inr None, n))"
proof (cases "filter is_free (filter (suits arch) (inventory R (store n)))")
  case Nil
  then show ?thesis
    by (simp add: hw_allocate_def py_bind_def match_eq [OF assms] py_return_def)
next
  case (Cons a rest)
  then have "a \<in> set (inventory R (store n))"
    by (metis (no_types, lifting) filter_is_subset list.set_intros(1) subsetD)
  with inventory_wf [OF wf] obtain k where "wf_machine k a" by blast
  then obtain m ar ip where m: "a = JObj m" "k \<noteq> []" "map_of m ''name'' = Some (JStr k)" "map_of m ''ip'' = Some ip"
    by (rule wf_machineE)
  obtain dm where d: "d = JObj dm" using fld_SomeD [OF arch] by blast
  from m have "m \<noteq> []" by auto
  then show ?thesis
    using m Cons
    by (simp add: hw_allocate_def py_bind_def match_eq [OF assms])
      (simp add: reserve_machine_def update_resource_def py_defs d reserved_def Let_def opt_def update_conv')
qed

text \<open>The two outcomes of a demand.\<close>

lemma hw_allocate_cases:
  assumes wf: "entries R wf_resource n" and arch: "fld d ''arch'' = Some arch"
  obtains (full) "hw_allocate R d n = (Inr None, n)"
      and "\<And>k a. hget R (store n) ''resources'' k = Some a \<Longrightarrow> suits arch a \<Longrightarrow> \<not> is_free a"
  | (found) k m where "hget R (store n) ''resources'' k = Some (JObj m)" and "suits arch (JObj m)"
      and "is_free (JObj m)"
      and "hw_allocate R d n =
        (Inr (Some (reserved (opt (fld d ''allocation_id'')) (opt (fld d ''requestor'')) m)),
         n\<lparr>store := hset R (store n) ''resources'' k
           (reserved (opt (fld d ''allocation_id'')) (opt (fld d ''requestor'')) m)\<rparr>)"
proof (cases "filter is_free (filter (suits arch) (inventory R (store n)))")
  case Nil
  then have "\<not> (suits arch a \<and> is_free a)" if "a \<in> set (inventory R (store n))" for a
    using that by (auto simp: filter_empty_conv)
  with Nil show thesis
    by (intro full) (auto simp: hw_allocate_eq [OF assms] inventory_iff)
next
  case (Cons a rest)
  then have "a \<in> set (filter is_free (filter (suits arch) (inventory R (store n))))" by simp
  then have a: "suits arch a" "is_free a" and "a \<in> set (inventory R (store n))" by auto
  then obtain k where k: "hget R (store n) ''resources'' k = Some a" by (auto simp: inventory_iff)
  with wf have "wf_machine k a" by (auto simp: entries_def wf_resource_def)
  then obtain m where m: "a = JObj m" "map_of m ''name'' = Some (JStr k)" by (rule wf_machineE)
  with k a Cons show thesis
    by (intro found) (auto simp: hw_allocate_eq [OF assms] Let_def)
qed

section \<open>Releasing\<close>

lemma hw_release_eq:
  assumes wf: "entries R wf_resource n" and k: "k \<noteq> []"
  shows "hw_release R (JStr k) n =
    (case hget R (store n) ''resources'' k of
       Some (JObj m) \<Rightarrow> (Inr (), n\<lparr>store := hset R (store n) ''resources'' k (released m)\<rparr>)
     | _ \<Rightarrow> (Inr (), n))"
proof (cases "hget R (store n) ''resources'' k")
  case None
  with k show ?thesis by (simp add: hw_release_def machine_status_def py_defs)
next
  case (Some a)
  with wf have "wf_machine k a" by (auto simp: entries_def wf_resource_def)
  then show ?thesis
  proof (rule wf_machineE)
    fix m arch ip assume m: "a = JObj m" "map_of m ''name'' = Some (JStr k)"
      and pw: "(map_of m ''password'' \<noteq> None) \<noteq> (map_of m ''key_file_path'' \<noteq> None)"
    from m have "m \<noteq> []" by auto
    with Some k m pw show ?thesis
      by (simp add: hw_release_def machine_status_def update_resource_def remote_executor_def
          released_def py_defs)
  qed
qed

lemma hget_hw_release:
  assumes wf: "entries R wf_resource n" and k: "k \<noteq> []" and n': "hw_release R (JStr k) n = (r, n')"
  shows "r = Inr () \<and> entries R wf_resource n' \<and> world n' = world n \<and>
    (\<forall>h k'. hget R (store n') h k' = (if h = ''resources'' \<and> k' = k
       then map_option (\<lambda>a. case a of JObj m \<Rightarrow> released m | _ \<Rightarrow> a) (hget R (store n) h k')
       else hget R (store n) h k'))"
proof (cases "hget R (store n) ''resources'' k")
  case None
  with n' wf show ?thesis by (auto simp: hw_release_eq [OF wf k])
next
  case (Some a)
  with wf have w: "wf_machine k a" by (auto simp: entries_def wf_resource_def)
  then obtain m where m: "a = JObj m" by (rule wf_machineE)
  with n' Some have n': "r = Inr ()" "n' = n\<lparr>store := hset R (store n) ''resources'' k (released m)\<rparr>"
    by (simp_all add: hw_release_eq [OF wf k])
  with wf w m wf_released [of k m] have "entries R wf_resource n'"
    by (auto simp: entries_def hget_hset wf_resource_def)
  with n' Some m show ?thesis by (simp add: hget_hset)
qed

section \<open>All the demands of a request\<close>

lemma reserved_not_free: "\<not> is_free (reserved aid rq m)"
  by (simp add: is_free_def reserved_def)

lemma granted_Cons:
  assumes "hget R s ''resources'' k = Some (JObj m)" and "is_free (JObj m)"
    and "granted R (hset R s ''resources'' k (reserved aid rq m)) s' g"
  shows "granted R s s' ((k, m, reserved aid rq m) # g)"
proof -
  let ?s = "hset R s ''resources'' k (reserved aid rq m)"
  have fresh: "k \<notin> fst ` set g"
  proof
    assume "k \<in> fst ` set g"
    then obtain m' r where "(k, m', r) \<in> set g" by force
    with assms(3) have "hget R ?s ''resources'' k = Some (JObj m')" "is_free (JObj m')"
      by (auto simp: granted_def)
    then show False using reserved_not_free [of aid rq m] by (simp add: hget_hset)
  qed
  have g: "distinct (map fst g)"
    "\<And>k m r. (k, m, r) \<in> set g \<Longrightarrow> hget R ?s ''resources'' k = Some (JObj m) \<and> is_free (JObj m)
       \<and> (\<exists>aid rq. r = reserved aid rq m) \<and> hget R s' ''resources'' k = Some r"
    "\<And>h k. h \<noteq> ''resources'' \<or> k \<notin> fst ` set g \<Longrightarrow> hget R s' h k = hget R ?s h k"
    using assms(3) by (auto simp: granted_def)
  show ?thesis
    unfolding granted_def
  proof (intro conjI ballI allI impI)
    show "distinct (map fst ((k, m, reserved aid rq m) # g))" using g(1) fresh by simp
  next
    fix p assume p: "p \<in> set ((k, m, reserved aid rq m) # g)"
    show "case p of (k, m, r) \<Rightarrow> hget R s ''resources'' k = Some (JObj m) \<and> is_free (JObj m)
          \<and> (\<exists>aid rq. r = reserved aid rq m) \<and> hget R s' ''resources'' k = Some r"
    proof (cases "p = (k, m, reserved aid rq m)")
      case True
      with assms(1,2) g(3) [of "''resources''" k] fresh show ?thesis by (auto simp: hget_hset)
    next
      case False
      obtain k' m' r' where p': "p = (k', m', r')" by (cases p)
      with False p have in_g: "(k', m', r') \<in> set g" by auto
      then have "k' \<noteq> k" using fresh by force
      with p' g(2) [OF in_g] show ?thesis by (auto simp: hget_hset)
    qed
  next
    fix h k' assume "h \<noteq> ''resources'' \<or> k' \<notin> fst ` set ((k, m, reserved aid rq m) # g)"
    with g(3) [of h k'] show "hget R s' h k' = hget R s h k'" by (auto simp: hget_hset)
  qed
qed

lemma allocate_all:
  assumes "entries R wf_resource n" and "\<forall>d \<in> set ds. demand_of d"
  shows "\<exists>ms n' g. py_gather ds (hw_allocate R) n = (Inr (map Inr ms), n')
    \<and> entries R wf_resource n' \<and> world n' = world n \<and> list_all2 served ds ms
    \<and> granted R (store n) (store n') g \<and> filter (\<lambda>r. r \<noteq> None) ms = map (\<lambda>(k, m, r). Some r) g"
  using assms
proof (induction ds arbitrary: n)
  case Nil
  then show ?case
    by (intro exI [of _ "[]"] exI [of _ n]) (simp add: py_return_def granted_def)
next
  case (Cons d ds)
  obtain arch where arch: "fld d ''arch'' = Some arch"
    using Cons.prems(2) by (auto simp: demand_of_def)
  from Cons.prems(1) arch show ?case
  proof (cases rule: hw_allocate_cases)
    case full
    from Cons.IH [OF Cons.prems(1)] Cons.prems(2) obtain ms n' g where
      ih: "py_gather ds (hw_allocate R) n = (Inr (map Inr ms), n')" "entries R wf_resource n'"
        "world n' = world n" "list_all2 served ds ms" "granted R (store n) (store n') g"
        "filter (\<lambda>r. r \<noteq> None) ms = map (\<lambda>(k, m, r). Some r) g" by auto
    with full(1) show ?thesis
      by (intro exI [of _ "None # ms"] exI [of _ n'] exI [of _ g])
        (simp add: py_bind_def py_return_def)
  next
    case (found k m)
    let ?r = "reserved (opt (fld d ''allocation_id'')) (opt (fld d ''requestor'')) m"
    let ?n = "n\<lparr>store := hset R (store n) ''resources'' k ?r\<rparr>"
    have "wf_machine k ?r"
      using Cons.prems(1) found(1) by (auto simp: entries_def wf_resource_def intro: wf_reserved)
    then have "entries R wf_resource ?n"
      using Cons.prems(1) by (auto simp: entries_def hget_hset wf_resource_def)
    from Cons.IH [OF this] Cons.prems(2) obtain ms n' g where
      ih: "py_gather ds (hw_allocate R) ?n = (Inr (map Inr ms), n')" "entries R wf_resource n'"
        "world n' = world n" "list_all2 served ds ms" "granted R (store ?n) (store n') g"
        "filter (\<lambda>r. r \<noteq> None) ms = map (\<lambda>(k, m, r). Some r) g" by auto
    have "served d (Some ?r)" using found(2) arch by (auto simp: served_def arch_of_def)
    moreover have "granted R (store n) (store n') ((k, m, ?r) # g)"
      using granted_Cons [OF found(1,3)] ih(5) by simp
    ultimately show ?thesis
      using found(4) ih
      by (intro exI [of _ "Some ?r # ms"] exI [of _ n'] exI [of _ "(k, m, ?r) # g"])
        (simp add: py_bind_def py_return_def)
  qed
qed

lemma release_all:
  assumes "entries R wf_resource n" and "distinct (map fst kr)"
    and "\<forall>(k, r) \<in> set kr. k \<noteq> [] \<and> fld r ''name'' = Some (JStr k)"
  shows "\<exists>n'. py_gather (map (\<lambda>p. Some (snd p)) kr)
      (\<lambda>m. py_bind (py_lift (jitem (the m) ''name'')) (hw_release R)) n = (Inr (map (\<lambda>_. Inr ()) kr), n')
    \<and> entries R wf_resource n' \<and> world n' = world n
    \<and> (\<forall>h k. hget R (store n') h k = (if h = ''resources'' \<and> k \<in> fst ` set kr
         then map_option (\<lambda>a. case a of JObj m \<Rightarrow> released m | _ \<Rightarrow> a) (hget R (store n) h k)
         else hget R (store n) h k))"
  using assms
proof (induction kr arbitrary: n)
  case Nil
  then show ?case by (simp add: py_return_def)
next
  case (Cons p kr)
  obtain k r where p: "p = (k, r)" by (cases p)
  obtain x n1 where x: "hw_release R (JStr k) n = (x, n1)" by (cases "hw_release R (JStr k) n")
  have k: "k \<noteq> []" and r: "jitem r ''name'' = Inr (JStr k)" using Cons.prems(3) p by (auto simp: jitem_Inr_iff)
  note one = hget_hw_release [OF Cons.prems(1) k x]
  from Cons.IH [of n1] one Cons.prems p obtain n' where
    ih: "py_gather (map (\<lambda>p. Some (snd p)) kr)
      (\<lambda>m. py_bind (py_lift (jitem (the m) ''name'')) (hw_release R)) n1 = (Inr (map (\<lambda>_. Inr ()) kr), n')"
      "entries R wf_resource n'" "world n' = world n1"
    and eff: "\<forall>h k. hget R (store n') h k = (if h = ''resources'' \<and> k \<in> fst ` set kr
         then map_option (\<lambda>a. case a of JObj m \<Rightarrow> released m | _ \<Rightarrow> a) (hget R (store n1) h k)
         else hget R (store n1) h k)"
    by auto
  have run: "py_gather (map (\<lambda>p. Some (snd p)) (p # kr))
      (\<lambda>m. py_bind (py_lift (jitem (the m) ''name'')) (hw_release R)) n = (Inr (map (\<lambda>_. Inr ()) (p # kr)), n')"
    using x r ih(1) one p by (simp add: py_bind_def py_lift_def py_return_def)
  have "k \<notin> fst ` set kr" using Cons.prems(2) p by auto
  then have "hget R (store n') h k' = (if h = ''resources'' \<and> k' \<in> fst ` set (p # kr)
         then map_option (\<lambda>a. case a of JObj m \<Rightarrow> released m | _ \<Rightarrow> a) (hget R (store n) h k')
         else hget R (store n) h k')" for h k'
    using eff [rule_format, of h k'] one p by auto
  with run ih one show ?case by (intro exI [of _ n']) simp
qed

end

section \<open>Parsing a request\<close>

definition demanded_arch :: "json \<Rightarrow> json" where
  "demanded_arch reqs = (case fld reqs ''arch'' of None \<Rightarrow> JStr ''x86_64'' | Some v \<Rightarrow> v)"

text \<open>The demand that a host's requirements become.\<close>

definition demand_for :: "json \<Rightarrow> json \<Rightarrow> string \<times> json \<Rightarrow> json \<Rightarrow> bool" where
  "demand_for aid rq p d \<longleftrightarrow> demand_of d \<and> fld d ''arch'' = Some (demanded_arch (snd p))
     \<and> fld d ''host'' = Some (JStr (fst p)) \<and> fld d ''allocation_id'' = Some aid \<and> fld d ''requestor'' = Some rq"

lemma pop_req_other:
  "k \<noteq> x \<Longrightarrow> map_of (fst (pop_req k p)) x = map_of (fst p) x"
  "k \<noteq> x \<Longrightarrow> map_of (snd (pop_req k p)) x = map_of (snd p) x"
  by (cases p; auto simp: pop_req_def delete_conv' split: option.splits)+

lemma parse_machine_demand:
  assumes "parse_machine aid rq p = Inr d"
  shows "demand_for aid rq p d"
proof -
  obtain host reqs where p: "p = (host, reqs)" by (cases p)
  with assms obtain rs where rs: "reqs = JObj rs"
    by (cases reqs) (auto simp: parse_machine_def jobj_def)
  define q where "q = pop_req ''type'' (pop_req ''cpu'' (pop_req ''gpu''
    ([(''allocation_id'', aid), (''requestor'', rq), (''host'', JStr host)], rs)))"
  have q: "map_of (snd q) ''arch'' = map_of rs ''arch''" "map_of (fst q) ''allocation_id'' = Some aid"
    "map_of (fst q) ''requestor'' = Some rq" "map_of (fst q) ''host'' = Some (JStr host)"
    by (simp_all add: q_def pop_req_other)
  have "d = JObj (AList.update ''arch'' (case map_of (snd q) ''arch'' of None \<Rightarrow> JStr ''x86_64'' | Some v \<Rightarrow> v) (fst q))"
    using assms p rs
    by (simp add: parse_machine_def res_bind_def q_def [symmetric] Let_def case_prod_beta)
  with q p rs show ?thesis
    by (auto simp: demand_for_def demand_of_def demanded_arch_def)
qed

lemma res_collect_all2: "res_collect xs f = Inr ys \<Longrightarrow> list_all2 (\<lambda>x y. f x = Inr y) xs ys"
  by (induction xs arbitrary: ys) (auto split: sum.splits)

lemma parse_requirements_demands:
  assumes "parse_requirements req = Inr ds"
  shows "\<exists>demands rq. fld req ''demands'' = Some (JObj demands) \<and> fld req ''requestor'' = Some rq
    \<and> list_all2 (demand_for (opt (fld req ''allocation_id'')) rq) demands ds"
proof -
  from assms obtain aid rq demands where "jget req ''allocation_id'' JNull = Inr aid"
    and "jitem req ''requestor'' = Inr rq" and d: "res_bind (jitem req ''demands'') jobj = Inr demands"
    and c: "res_collect demands (parse_machine aid rq) = Inr ds"
    by (auto simp: parse_requirements_def)
  moreover from this have "aid = opt (fld req ''allocation_id'')"
    by (cases req) (auto simp: jget_def opt_def split: option.splits)
  moreover from d have "fld req ''demands'' = Some (JObj demands)"
    by (auto simp: jitem_Inr_iff jobj_Inr_iff)
  ultimately show ?thesis
    using list_all2_mono [OF res_collect_all2 [OF c] parse_machine_demand]
    by (auto simp: jitem_Inr_iff)
qed

section \<open>A whole request\<close>

lemma first_error_Inr [simp]: "first_error (map Inr xs) = Inr xs"
  by (induction xs) (auto simp: res_bind_def)

lemma first_error_units [simp]: "first_error (map (\<lambda>_. Inr ()) xs) = Inr (map (\<lambda>_. ()) xs)"
  using first_error_Inr [of "map (\<lambda>_. ()) xs"] by (simp add: comp_def)

text \<open>The hardware of two records of a machine is the same: everything but what a reservation
  writes.\<close>

definition same_hardware :: "json \<Rightarrow> json \<Rightarrow> bool" where
  "same_hardware a b \<longleftrightarrow> (\<forall>f. f \<notin> {''net_ifaces'', ''allocation_id'', ''requestor'', ''status''} \<longrightarrow> fld a f = fld b f)"

lemma same_hardware_reserved: "same_hardware (reserved aid rq m) (JObj m)"
  by (simp add: same_hardware_def reserved_def)

lemma reserved_JObj: "\<exists>m'. reserved aid rq m = JObj m'"
  by (simp add: reserved_def)

lemma released_reserved:
  assumes "reserved aid rq m = JObj m'"
  shows "is_free (released m') \<and> same_hardware (released m') (JObj m) \<and> fld (released m') ''allocation_id'' = None"
  using assms by (auto simp: reserved_def is_free_def released_def same_hardware_def delete_conv')

context redis_server
begin

lemma hw_fulfill_outcome:
  assumes wf: "entries R wf_resource n" and run: "hw_fulfill R req n = (r, n')"
  shows "(\<exists>e. r = Inl e \<and> n' = n)
    \<or> (\<exists>b. r = Inr (503, b) \<and> entries R wf_resource n' \<and> world n' = world n \<and>
        (\<forall>h k. hget R (store n') h k = hget R (store n) h k
          \<or> (h = ''resources'' \<and> (\<exists>a a'. hget R (store n) h k = Some a \<and> hget R (store n') h k = Some a'
               \<and> is_free a \<and> is_free a' \<and> same_hardware a' a))))
    \<or> (\<exists>ds infos g. r = Inr (200, JObj [(''status'', JStr ''Success''), (''info'', JList infos)])
        \<and> entries R wf_resource n' \<and> world n' = world n
        \<and> parse_requirements req = Inr ds \<and> granted R (store n) (store n') g
        \<and> infos = map (\<lambda>(k, m, r). r) g \<and> list_all2 (\<lambda>d i. served d (Some i)) ds infos)"
proof (cases "parse_requirements req")
  case (Inl e)
  with run show ?thesis by (auto simp: hw_fulfill_def py_bind_def py_lift_def)
next
  case (Inr ds)
  from parse_requirements_demands [OF this] have ds: "\<forall>d \<in> set ds. demand_of d"
    by (auto simp: demand_for_def list_all2_conv_all_nth in_set_conv_nth)
  from allocate_all [OF wf ds] obtain ms n1 g where
    all: "py_gather ds (hw_allocate R) n = (Inr (map Inr ms), n1)"
    and wf1: "entries R wf_resource n1" and w1: "world n1 = world n" and served: "list_all2 served ds ms"
    and g: "granted R (store n) (store n1) g"
    and some: "filter (\<lambda>r. r \<noteq> None) ms = map (\<lambda>(k, m, r). Some r) g" by blast
  have g': "distinct (map fst g)"
    "\<And>k m r. (k, m, r) \<in> set g \<Longrightarrow> hget R (store n) ''resources'' k = Some (JObj m) \<and> is_free (JObj m)
       \<and> (\<exists>aid rq. r = reserved aid rq m) \<and> hget R (store n1) ''resources'' k = Some r"
    "\<And>h k. h \<noteq> ''resources'' \<or> k \<notin> fst ` set g \<Longrightarrow> hget R (store n1) h k = hget R (store n) h k"
    using g by (auto simp: granted_def)
  show ?thesis
  proof (cases "\<exists>m \<in> set ms. m = None")
    case False
    then have "\<forall>r \<in> set ms. r \<noteq> None" by metis
    then have "filter (\<lambda>r. r \<noteq> None) ms = ms" by (rule filter_True)
    from this some have "ms = map (\<lambda>(k, m, r). Some r) g" by (rule trans [OF sym])
    then have ms: "ms = map Some (map (\<lambda>(k, m, r). r) g)"
      by (simp add: comp_def split_def)
    from False run all Inr have "r = Inr (200, JObj [(''status'', JStr ''Success''), (''info'', JList (map the ms))])"
      and n': "n' = n1"
      by (simp_all add: hw_fulfill_def gather_raise_def py_bind_def py_lift_def py_return_def)
    moreover have "list_all2 (\<lambda>d i. served d (Some i)) ds (map (\<lambda>(k, m, r). r) g)"
      using served unfolding ms by (simp add: list.rel_map)
    ultimately show ?thesis
      using Inr wf1 w1 g ms by (auto simp: comp_def)
  next
    case True
    define kr where "kr = map (\<lambda>(k, m, r). (k, r)) g"
    have kr: "map (\<lambda>p. Some (snd p)) kr = filter (\<lambda>r. r \<noteq> None) ms" "fst ` set kr = fst ` set g"
      unfolding some by (simp_all add: kr_def comp_def split_def image_image)
    have "distinct (map fst kr)" using g'(1) by (simp add: kr_def comp_def case_prod_beta)
    moreover have "\<forall>(k, r) \<in> set kr. k \<noteq> [] \<and> fld r ''name'' = Some (JStr k)"
      using g'(2) wf1 by (fastforce simp: kr_def entries_def wf_resource_def wf_machine_def)
    ultimately obtain n2 where rel: "py_gather (map (\<lambda>p. Some (snd p)) kr)
        (\<lambda>m. py_bind (py_lift (jitem (the m) ''name'')) (hw_release R)) n1 = (Inr (map (\<lambda>_. Inr ()) kr), n2)"
      and wf2: "entries R wf_resource n2" and w2: "world n2 = world n1"
      and eff: "\<forall>h k. hget R (store n2) h k = (if h = ''resources'' \<and> k \<in> fst ` set kr
         then map_option (\<lambda>a. case a of JObj m \<Rightarrow> released m | _ \<Rightarrow> a) (hget R (store n1) h k)
         else hget R (store n1) h k)"
      using release_all [OF wf1] by blast
    have res: "hw_fulfill R req n = (Inr (503, JObj [(''status'', JStr ''Failed''),
         (''error'', JStr ''matching resources busy, try again later'')]), n2)"
      using True Inr all rel
      by (simp add: hw_fulfill_def gather_raise_def py_bind_def py_lift_def py_return_def kr)
    have "hget R (store n2) h k = hget R (store n) h k
        \<or> (h = ''resources'' \<and> (\<exists>a a'. hget R (store n) h k = Some a \<and> hget R (store n2) h k = Some a'
             \<and> is_free a \<and> is_free a' \<and> same_hardware a' a))" for h k
    proof (cases "h = ''resources'' \<and> k \<in> fst ` set g")
      case True
      then obtain m r where "(k, m, r) \<in> set g" by force
      from g'(2) [OF this] obtain aid rq where m: "hget R (store n) ''resources'' k = Some (JObj m)"
        "is_free (JObj m)" "hget R (store n1) ''resources'' k = Some (reserved aid rq m)" by blast
      obtain m' where m': "reserved aid rq m = JObj m'" using reserved_JObj by blast
      have "hget R (store n2) h k = Some (released m')"
        using eff [rule_format, of h k] True m m' kr(2) by simp
      with True m released_reserved [OF m'] show ?thesis by blast
    next
      case False
      with eff [rule_format, of h k] g'(3) [of h k] kr(2) show ?thesis by auto
    qed
    with res run wf2 w2 w1 show ?thesis by auto
  qed
qed

end

section \<open>The cleaner\<close>

lemma active_allocation_ids_store: "store (snd (active_allocation_ids W has_cert ep n)) = store n"
  by (auto simp: active_allocation_ids_def py_defs split: prod.splits sum.splits http_result.splits)

text \<open>\<open>active_ok ids a\<close>: a machine in use belongs to one of the allocations.\<close>

definition active_ok :: "json list \<Rightarrow> json \<Rightarrow> bool" where
  "active_ok ids a \<longleftrightarrow> is_free a \<or> opt (fld a ''allocation_id'') \<in> set ids"

context redis_server
begin

lemma release_dangling_effect:
  assumes wf: "entries R wf_resource n" and a: "wf_machine k a"
    and now: "hget R (store n) ''resources'' k = Some a"
  shows "\<exists>n'. release_dangling R ids a n = (Inr (), n') \<and> entries R wf_resource n' \<and> world n' = world n
    \<and> (\<forall>h k'. hget R (store n') h k' = (if h = ''resources'' \<and> k' = k \<and> \<not> active_ok ids a
         then Some (case a of JObj m \<Rightarrow> released m | _ \<Rightarrow> a) else hget R (store n) h k'))"
  using a
proof (rule wf_machineE)
  fix m arch ip
  assume m: "a = JObj m" "k \<noteq> []" "map_of m ''name'' = Some (JStr k)"
    and st: "map_of m ''status'' = Some (JStr ''available'') \<or> map_of m ''status'' = Some (JStr ''in_use'')"
  have opt: "(case map_of m ''allocation_id'' of None \<Rightarrow> JNull | Some x \<Rightarrow> x) = opt (map_of m ''allocation_id'')"
    by (simp add: opt_def)
  show ?thesis
  proof (cases "active_ok ids a")
    case True
    then have "release_dangling R ids a n = (Inr (), n)"
      using m st by (auto simp: release_dangling_def active_ok_def is_free_def py_defs opt)
    with True wf show ?thesis by auto
  next
    case False
    obtain x n' where x: "hw_release R (JStr k) n = (x, n')" by (cases "hw_release R (JStr k) n")
    from False have "release_dangling R ids a n = (x, n')"
      using m st x by (auto simp: release_dangling_def active_ok_def is_free_def py_defs opt)
    with hget_hw_release [OF wf m(2) x] False now m(1) show ?thesis
      by (intro exI [of _ n']) auto
  qed
qed

lemma release_dangling_all:
  assumes "entries R wf_resource n" and "distinct (map fst kas)"
    and "\<forall>(k, a) \<in> set kas. wf_machine k a \<and> hget R (store n) ''resources'' k = Some a"
  shows "\<exists>n'. py_for (map snd kas) (release_dangling R ids) n = (Inr (), n') \<and> entries R wf_resource n'
    \<and> world n' = world n
    \<and> (\<forall>h k. hget R (store n') h k = (case map_of kas k of
         Some a \<Rightarrow> if h = ''resources'' \<and> \<not> active_ok ids a
           then Some (case a of JObj m \<Rightarrow> released m | _ \<Rightarrow> a) else hget R (store n) h k
       | None \<Rightarrow> hget R (store n) h k))"
  using assms
proof (induction kas arbitrary: n)
  case Nil
  then show ?case by (simp add: py_return_def)
next
  case (Cons p kas)
  obtain k a where p: "p = (k, a)" by (cases p)
  with Cons.prems(3) have "wf_machine k a" and now: "hget R (store n) ''resources'' k = Some a" by auto
  from release_dangling_effect [OF Cons.prems(1) this, of ids] obtain n1 where
    one: "release_dangling R ids a n = (Inr (), n1)" "entries R wf_resource n1" "world n1 = world n"
    and eff1: "\<forall>h k'. hget R (store n1) h k' = (if h = ''resources'' \<and> k' = k \<and> \<not> active_ok ids a
         then Some (case a of JObj m \<Rightarrow> released m | _ \<Rightarrow> a) else hget R (store n) h k')" by blast
  have fresh: "k \<notin> fst ` set kas" using Cons.prems(2) p by auto
  have "\<forall>(k', b) \<in> set kas. wf_machine k' b \<and> hget R (store n1) ''resources'' k' = Some b"
  proof (clarify)
    fix k' b assume in_kas: "(k', b) \<in> set kas"
    with fresh have "k' \<noteq> k" by force
    with eff1 [rule_format, of "''resources''" k'] Cons.prems(3) in_kas p
    show "wf_machine k' b \<and> hget R (store n1) ''resources'' k' = Some b" by auto
  qed
  from Cons.IH [OF one(2) _ this] Cons.prems(2) obtain n' where
    rest: "py_for (map snd kas) (release_dangling R ids) n1 = (Inr (), n')" "entries R wf_resource n'"
      "world n' = world n1"
    and eff: "\<forall>h k. hget R (store n') h k = (case map_of kas k of
         Some a \<Rightarrow> if h = ''resources'' \<and> \<not> active_ok ids a
           then Some (case a of JObj m \<Rightarrow> released m | _ \<Rightarrow> a) else hget R (store n1) h k
       | None \<Rightarrow> hget R (store n1) h k)" by auto
  have none: "map_of kas k = None" using fresh by (simp add: map_of_eq_None_iff)
  have "py_for (map snd (p # kas)) (release_dangling R ids) n = (Inr (), n')"
    using p one(1) rest(1) by (simp add: py_then_def py_bind_def)
  moreover have "hget R (store n') h k' = (case map_of (p # kas) k' of
         Some a \<Rightarrow> if h = ''resources'' \<and> \<not> active_ok ids a
           then Some (case a of JObj m \<Rightarrow> released m | _ \<Rightarrow> a) else hget R (store n) h k'
       | None \<Rightarrow> hget R (store n) h k')" for h k'
    using p none eff [rule_format, of h k'] eff1 [rule_format, of h k']
    by (cases "k' = k") (simp_all split: option.splits)
  ultimately show ?case using rest one by (intro exI [of _ n']) simp
qed

text \<open>What a pass does after it has learnt the active allocations.\<close>

lemma clean_machines_outcome:
  assumes wf: "entries R wf_resource n"
  shows "\<exists>n'. py_bind (all_machines R) (\<lambda>machines. py_for (map snd machines) (release_dangling R ids)) n = (Inr (), n')
    \<and> (\<forall>h k. hget R (store n') h k =
        (case hget R (store n) h k of
           Some (JObj m) \<Rightarrow> Some (if h = ''resources'' \<and> \<not> active_ok ids (JObj m) then released m else JObj m)
         | v \<Rightarrow> v))"
proof -
  define kas where "kas = hgetall R (store n) ''resources''"
  have kas: "\<forall>(k, a) \<in> set kas. wf_machine k a \<and> hget R (store n) ''resources'' k = Some a"
    using wf by (auto simp: kas_def hgetall_SomeD entries_def wf_resource_def)
  have "distinct (map fst kas)" by (simp add: kas_def hgetall_distinct)
  from release_dangling_all [OF wf this kas, of ids] obtain n' where
    run: "py_for (map snd kas) (release_dangling R ids) n = (Inr (), n')"
    and eff: "\<forall>h k. hget R (store n') h k = (case map_of kas k of
         Some a \<Rightarrow> if h = ''resources'' \<and> \<not> active_ok ids a
           then Some (case a of JObj m \<Rightarrow> released m | _ \<Rightarrow> a) else hget R (store n) h k
       | None \<Rightarrow> hget R (store n) h k)" by blast
  have "py_bind (all_machines R) (\<lambda>machines. py_for (map snd machines) (release_dangling R ids)) n = (Inr (), n')"
    using run by (simp add: py_bind_def all_machines_def r_hgetall_def py_gets_def kas_def)
  moreover have "hget R (store n') h k =
        (case hget R (store n) h k of
           Some (JObj m) \<Rightarrow> Some (if h = ''resources'' \<and> \<not> active_ok ids (JObj m) then released m else JObj m)
         | v \<Rightarrow> v)" for h k
  proof (cases "h = ''resources''")
    case True
    have "map_of kas k = hget R (store n) h k" using True by (simp add: kas_def hgetall_hget)
    moreover have "\<exists>m. a = JObj m" if "hget R (store n) h k = Some a" for a
    proof -
      from wf that True have "wf_machine k a" by (simp add: entries_def wf_resource_def)
      then show ?thesis by (rule wf_machineE) blast
    qed
    ultimately show ?thesis
      using eff [rule_format, of h k] True by (auto split: option.splits)
  next
    case False
    with eff [rule_format, of h k] show ?thesis by (auto split: option.splits json.splits)
  qed
  ultimately show ?thesis by blast
qed

lemma do_clean_outcome:
  assumes wf: "entries R wf_resource n"
    and ids: "active_allocation_ids W has_cert ep n = (Inr ids, n0)" and st: "store n0 = store n"
  shows "\<exists>n'. do_clean_dangling_hardware R W has_cert ep n = (Inr (), n')
    \<and> (\<forall>h k. hget R (store n') h k =
        (case hget R (store n) h k of
           Some (JObj m) \<Rightarrow> Some (if h = ''resources'' \<and> \<not> active_ok ids (JObj m) then released m else JObj m)
         | v \<Rightarrow> v))"
proof -
  have "entries R wf_resource n0" using wf st by (simp add: entries_def)
  from clean_machines_outcome [OF this, of ids] ids st show ?thesis
    by (simp add: do_clean_dangling_hardware_def py_bind_def)
qed

end

section \<open>Start-up\<close>

lemma setdefault_map_of: "map_of (setdefault k v d) x =
    (if x = k then Some (case map_of d k of None \<Rightarrow> v | Some w \<Rightarrow> w) else map_of d x)"
  by (auto simp: setdefault_def split: option.splits)

text \<open>An entry of the configuration file that the manager can work with: it is not renamed, and it
  has exactly one kind of credentials.\<close>

definition good_config :: "string \<times> json \<Rightarrow> bool" where
  "good_config p \<longleftrightarrow> fst p \<noteq> []
     \<and> (fld (snd p) ''name'' = None \<or> fld (snd p) ''name'' = Some (JStr (fst p)))
     \<and> ((fld (snd p) ''password'' \<noteq> None) \<noteq> (fld (snd p) ''key_file_path'' \<noteq> None))"

lemma configured_machine_wf:
  assumes "good_config (name, d)" and "configured_machine name d = Inr a"
  shows "wf_machine name a \<and> is_free a"
proof -
  obtain m where m: "d = JObj m" using assms(2) by (auto simp: configured_machine_def jobj_Inr_iff)
  define m' where "m' = setdefault ''arch'' (JStr ''x86_64'') (setdefault ''name'' (JStr name) m)"
  have get: "map_of m' x = (if x = ''arch'' then Some (case map_of m ''arch'' of None \<Rightarrow> JStr ''x86_64'' | Some w \<Rightarrow> w)
      else if x = ''name'' then Some (case map_of m ''name'' of None \<Rightarrow> JStr name | Some w \<Rightarrow> w) else map_of m x)" for x
    by (simp add: m'_def setdefault_map_of)
  from assms(2) m obtain ip where ip: "map_of m' ''ip'' = Some ip"
    and a: "a = JObj (dict_update m' [(''net_ifaces'', JList [JObj [(''ip'', ip)]]), (''status'', JStr ''available'')])"
    by (auto simp: configured_machine_def m'_def [symmetric] jitem_Inr_iff simp del: jitem_JObj)
  with assms(1) m show ?thesis
    by (auto simp: wf_machine_def good_config_def is_free_def get split: option.splits)
qed

context redis_server
begin

lemma hsetnx_all:
  "\<exists>n'. py_for kds (\<lambda>(k, d). r_hsetnx R h k d) n = (Inr (), n') \<and>
    (\<forall>h' k. hget R (store n') h' k =
       (if h' = h \<and> hget R (store n) h k = None then map_of kds k else hget R (store n) h' k))"
proof (induction kds arbitrary: n)
  case Nil
  then show ?case by (auto simp: py_return_def)
next
  case (Cons p kds)
  obtain k d where p: "p = (k, d)" by (cases p)
  let ?n = "n\<lparr>store := hsetnx R (store n) h k d\<rparr>"
  from Cons.IH [of ?n] obtain n' where run: "py_for kds (\<lambda>(k, d). r_hsetnx R h k d) ?n = (Inr (), n')"
    and eff: "\<forall>h' k'. hget R (store n') h' k' =
       (if h' = h \<and> hget R (store ?n) h k' = None then map_of kds k' else hget R (store ?n) h' k')" by blast
  have "py_for (p # kds) (\<lambda>(k, d). r_hsetnx R h k d) n = (Inr (), n')"
    using run p by (simp add: py_then_def py_bind_def r_hsetnx_def py_modify_def)
  moreover have "hget R (store n') h' k' =
       (if h' = h \<and> hget R (store n) h k' = None then map_of (p # kds) k' else hget R (store n) h' k')" for h' k'
    using eff [rule_format, of h' k'] p
    by (cases "k' = k"; cases "h' = h"; cases "hget R (store n) h k") (simp_all add: hget_hsetnx)
  ultimately show ?case by blast
qed

lemma update_machines_inv:
  assumes wf: "entries R wf_resource n" and good: "\<forall>p \<in> set machines. good_config p"
  shows "entries R wf_resource (snd (update_machines R machines n))
    \<and> (\<forall>k a. hget R (store n) ''resources'' k = Some a \<longrightarrow>
        hget R (store (snd (update_machines R machines n))) ''resources'' k = Some a)"
proof (cases "res_collect machines (\<lambda>(name, d). res_bind (configured_machine name d) (\<lambda>d. Inr (name, d)))")
  case (Inl e)
  with wf show ?thesis by (simp add: update_machines_def py_bind_def py_lift_def)
next
  case (Inr kds)
  have new: "wf_machine k d" if "map_of kds k = Some d" for k d
  proof -
    from res_collect_in [OF Inr map_of_SomeD [OF that]] obtain d' where
      "(k, d') \<in> set machines" "configured_machine k d' = Inr d" by auto
    with good configured_machine_wf show ?thesis by blast
  qed
  obtain n' where "py_for kds (\<lambda>(k, d). r_hsetnx R ''resources'' k d) n = (Inr (), n')"
    and eff: "\<forall>h' k. hget R (store n') h' k =
       (if h' = ''resources'' \<and> hget R (store n) ''resources'' k = None then map_of kds k else hget R (store n) h' k)"
    using hsetnx_all by blast
  with Inr have n': "snd (update_machines R machines n) = n'"
    by (simp add: update_machines_def py_bind_def py_lift_def)
  have "entries R wf_resource n'"
    using wf new eff by (auto simp: entries_def wf_resource_def)
  with n' eff show ?thesis by simp
qed

end

end
