(* ===== verification/Hardvisor_Contract.thy ===== *)
theory Hardvisor_Contract
  imports Rm_Contract Hardvisor_Correct
begin

text \<open>
  The HTTP interface of the physical-machine manager meets the allocate service's contract: a
  machine is held for an allocation when it is in use with that \<open>allocation_id\<close>.
\<close>

definition hv_held :: "'s redis_ops \<Rightarrow> ('s, 'w) node \<Rightarrow> string \<Rightarrow> json option" where
  "hv_held R n k = (case hget R (store n) ''resources'' k of
      None \<Rightarrow> None
    | Some a \<Rightarrow> if is_free a then None else Some (opt (fld a ''allocation_id'')))"

section \<open>The handlers that only look\<close>

lemma py_gather_pure:
  assumes "\<And>x n. snd (f x n) = n"
  shows "snd (py_gather xs f n) = n"
proof (induction xs arbitrary: n)
  case Nil
  then show ?case by (simp add: py_return_def)
next
  case (Cons x xs)
  obtain r where "f x n = (r, n)" using assms [of x n] by (metis prod.collapse)
  moreover obtain rs where "py_gather xs f n = (rs, n)" using Cons.IH [of n] by (metis prod.collapse)
  ultimately show ?case by (simp add: py_bind_def py_return_def split: sum.splits)
qed

lemma hw_check_fulfill_pure: "snd (hw_check_fulfill R b n) = n"
proof -
  have c: "snd (check_allocate R d n') = n'" for d n'
    by (auto simp: check_allocate_def matching_machines_def all_machines_def py_defs split: sum.splits)
  have "snd (py_gather ds (check_allocate R) n) = n" for ds
    by (rule py_gather_pure) (rule c)
  then show ?thesis
    by (auto simp: hw_check_fulfill_def gather_raise_def py_defs Let_def split: sum.splits prod.splits) (metis snd_conv)+
qed

lemma handle_get_allocation_pure: "snd (handle_get_allocation R aid n) = n"
  by (auto simp: handle_get_allocation_def all_machines_def py_defs split: sum.splits)

section \<open>The contract\<close>

lemma hv_held_released: "hget R (store n') ''resources'' k = Some (released m) \<Longrightarrow> hv_held R n' k = None"
  by (simp add: hv_held_def released_def is_free_def)

context redis_server
begin

lemma handle_release_run:
  assumes wf: "entries R wf_resource n" and k: "k \<noteq> []"
  shows "\<exists>n'. handle_release_machine R k n = (Inr (200, JObj [(''status'', JStr ''Success'')]), n')
    \<and> entries R wf_resource n' \<and> hv_held R n' = (hv_held R n)(k := None)"
proof -
  obtain x n' where x: "hw_release R (JStr k) n = (x, n')" by (cases "hw_release R (JStr k) n")
  note rel = hget_hw_release [OF wf k x]
  have "hv_held R n' k' = ((hv_held R n)(k := None)) k'" for k'
  proof (cases "k' = k")
    case False
    with rel show ?thesis by (simp add: hv_held_def)
  next
    case True
    show ?thesis
    proof (cases "hget R (store n) ''resources'' k")
      case None
      with True rel show ?thesis by (simp add: hv_held_def)
    next
      case (Some a)
      with wf have "wf_machine k a" by (simp add: entries_def wf_resource_def)
      then obtain m where "a = JObj m" by (rule wf_machineE)
      with Some True rel show ?thesis by (simp add: hv_held_released)
    qed
  qed
  with rel x show ?thesis
    by (intro exI [of _ n']) (auto simp: handle_release_machine_def py_then_def py_bind_def py_return_def)
qed

lemma granted_name:
  assumes g: "granted R (store n) s' g" and wf: "entries R wf_resource n" and in_g: "(k, m, i) \<in> set g"
  shows "fld i ''name'' = Some (JStr k)"
proof -
  from g in_g have "hget R (store n) ''resources'' k = Some (JObj m)" and i: "\<exists>aid rq. i = reserved aid rq m"
    by (auto simp: granted_def)
  with wf have "wf_machine k (JObj m)" by (simp add: entries_def wf_resource_def)
  with i show ?thesis by (auto simp: wf_machine_def reserved_def)
qed

lemma granted_held:
  assumes g: "granted R (store n) (store n') g" and infos: "infos = map (\<lambda>(k, m, r). r) g"
    and ds: "list_all2 (\<lambda>d i. served d (Some i)) ds infos"
    and id: "\<forall>d \<in> set ds. fld d ''allocation_id'' = Some aid" and wf: "entries R wf_resource n"
  shows "\<forall>i \<in> set infos. \<exists>k. fld i ''name'' = Some (JStr k) \<and> hv_held R n k = None \<and> hv_held R n' k = Some aid"
    and "(\<forall>i \<in> set infos. fld i ''name'' \<noteq> Some (JStr k)) \<Longrightarrow> hv_held R n' k = hv_held R n k"
proof -
  have named: "\<exists>k m. (k, m, i) \<in> set g \<and> fld i ''name'' = Some (JStr k)" if "i \<in> set infos" for i
  proof -
    from that infos obtain k m where "(k, m, i) \<in> set g" by auto
    with granted_name [OF g wf] show ?thesis by blast
  qed
  show "\<forall>i \<in> set infos. \<exists>k. fld i ''name'' = Some (JStr k) \<and> hv_held R n k = None \<and> hv_held R n' k = Some aid"
  proof
    fix i assume i: "i \<in> set infos"
    then obtain k m where in_g: "(k, m, i) \<in> set g" and nm: "fld i ''name'' = Some (JStr k)" using named by blast
    from i obtain j where j: "j < length infos" "i = infos ! j" by (auto simp: in_set_conv_nth)
    from list_all2_nthD2 [OF ds j(1)] list_all2_lengthD [OF ds] j
    obtain d where "d \<in> set ds" "served d (Some i)" by (metis nth_mem)
    with id obtain rq m' where "i = reserved aid rq m'" by (auto simp: served_def opt_def)
    then have i_id: "fld i ''allocation_id'' = Some aid" "\<not> is_free i"
      by (simp_all add: reserved_def is_free_def)
    from g in_g have "hget R (store n) ''resources'' k = Some (JObj m)" "is_free (JObj m)"
      "hget R (store n') ''resources'' k = Some i" by (auto simp: granted_def)
    with nm i_id show "\<exists>k. fld i ''name'' = Some (JStr k) \<and> hv_held R n k = None \<and> hv_held R n' k = Some aid"
      by (intro exI [of _ k]) (simp add: hv_held_def opt_def)
  qed
  show "hv_held R n' k = hv_held R n k" if none: "\<forall>i \<in> set infos. fld i ''name'' \<noteq> Some (JStr k)"
  proof -
    have "k \<notin> fst ` set g"
    proof
      assume "k \<in> fst ` set g"
      then obtain m i where in_g: "(k, m, i) \<in> set g" by force
      with infos have "i \<in> set infos" by force
      with named obtain k' m' where "(k', m', i) \<in> set g" "fld i ''name'' = Some (JStr k')" by blast
      moreover have "fld i ''name'' = Some (JStr k)" by (rule granted_name [OF g wf in_g])
      ultimately show False using none \<open>i \<in> set infos\<close> by blast
    qed
    with g show ?thesis by (simp add: granted_def hv_held_def)
  qed
qed

lemma hw_fulfill_refused_held:
  assumes "\<forall>h k. hget R (store n') h k = hget R (store n) h k
          \<or> (h = ''resources'' \<and> (\<exists>a a'. hget R (store n) h k = Some a \<and> hget R (store n') h k = Some a'
               \<and> is_free a \<and> is_free a' \<and> same_hardware a' a))"
  shows "hv_held R n' = hv_held R n"
proof
  fix k
  from assms [rule_format, of "''resources''" k] show "hv_held R n' k = hv_held R n k"
    by (auto simp: hv_held_def)
qed

lemma hw_fulfill_inv:
  assumes "entries R wf_resource n"
  shows "entries R wf_resource (snd (hw_fulfill R b n))"
proof -
  obtain r n' where run: "hw_fulfill R b n = (r, n')" by (cases "hw_fulfill R b n")
  from hw_fulfill_outcome [OF assms run] assms run show ?thesis by auto
qed

text \<open>The machines of an answer with 200 are held for the request from now on, and were held by nobody.\<close>

lemma fulfilled_held:
  assumes wf: "entries R wf_resource n" and run: "hw_fulfill R b n = (Inr (200, res), n')"
  shows "\<exists>infos. res = JObj [(''status'', JStr ''Success''), (''info'', JList infos)] \<and>
          (\<forall>i \<in> set infos. \<exists>k. fld i ''name'' = Some (JStr k) \<and> hv_held R n k = None \<and> hv_held R n' k = Some (body_id b)) \<and>
          (\<forall>k. (\<forall>i \<in> set infos. fld i ''name'' \<noteq> Some (JStr k)) \<longrightarrow> hv_held R n' k = hv_held R n k)"
proof -
  from hw_fulfill_outcome [OF wf run] obtain ds infos g where
    res: "res = JObj [(''status'', JStr ''Success''), (''info'', JList infos)]"
    and parse: "parse_requirements b = Inr ds" and g: "granted R (store n) (store n') g"
    and infos: "infos = map (\<lambda>(k, m, r). r) g" and ds: "list_all2 (\<lambda>d i. served d (Some i)) ds infos"
    by auto
  have id: "\<forall>d \<in> set ds. fld d ''allocation_id'' = Some (body_id b)"
    using parse_requirements_demands [OF parse]
    by (auto simp: demand_for_def list_all2_conv_all_nth in_set_conv_nth body_id_def opt_def)
  from granted_held [OF g infos ds id wf] res
  show "\<exists>infos. res = JObj [(''status'', JStr ''Success''), (''info'', JList infos)] \<and>
          (\<forall>i \<in> set infos. \<exists>k. fld i ''name'' = Some (JStr k) \<and> hv_held R n k = None \<and> hv_held R n' k = Some (body_id b)) \<and>
          (\<forall>k. (\<forall>i \<in> set infos. fld i ''name'' \<noteq> Some (JStr k)) \<longrightarrow> hv_held R n' k = hv_held R n k)"
    by (intro exI [of _ infos]) auto
qed

theorem hardvisor_contract: "resource_manager (hardvisor_http R ep) ep (entries R wf_resource) (hv_held R)"
proof
  fix n :: "('s, 'b) node" and rq
  assume wf: "entries R wf_resource n"
  have "entries R wf_resource (snd (handle_release_machine R k n))" if "url_segment k" for k
  proof -
    obtain n' where "handle_release_machine R k n = (Inr (200, JObj [(''status'', JStr ''Success'')]), n')"
      "entries R wf_resource n'"
      using handle_release_run [OF wf, of k] \<open>url_segment k\<close> by (auto simp: url_segment_def)
    then show ?thesis by simp
  qed
  then show "entries R wf_resource (snd (hardvisor_http R ep n rq))"
    using wf
    by (simp add: hardvisor_http_def rm_http_def serve_snd hw_check_fulfill_pure hw_fulfill_inv
        handle_get_allocation_pure split: option.split)
next
  fix n :: "('s, 'b) node" and b
  show "hv_held R (snd (hardvisor_http R ep n \<lparr>req_verb = POST, req_url = theoretically_url ep, req_body = b\<rparr>)) = hv_held R n"
    by (simp add: hardvisor_http_def rm_http_def serve_snd hw_check_fulfill_pure)
next
  fix n n' :: "('s, 'b) node" and b res
  assume wf: "entries R wf_resource n"
    and run: "hardvisor_http R ep n \<lparr>req_verb = POST, req_url = now_url ep, req_body = b\<rparr> = (HReply 200 res, n')"
  then have run: "hw_fulfill R b n = (Inr (200, res), n')"
    by (auto simp: hardvisor_http_def urls_differ serve_def split: prod.splits sum.splits)
  from fulfilled_held [OF wf run]
  show "\<exists>infos. fld res ''info'' = Some (JList infos) \<and>
          (\<forall>i \<in> set infos. \<exists>k. fld i ''name'' = Some (JStr k) \<and> hv_held R n k = None \<and> hv_held R n' k = Some (body_id b)) \<and>
          (\<forall>k. (\<forall>i \<in> set infos. fld i ''name'' \<noteq> Some (JStr k)) \<longrightarrow> hv_held R n' k = hv_held R n k)"
    by auto
next
  fix n n' :: "('s, 'b) node" and b r
  assume wf: "entries R wf_resource n"
    and run: "hardvisor_http R ep n \<lparr>req_verb = POST, req_url = now_url ep, req_body = b\<rparr> = (r, n')"
    and no: "\<forall>res. r \<noteq> HReply 200 res"
  obtain x where x: "hw_fulfill R b n = (x, n')" and "\<forall>res. x \<noteq> Inr (200, res)"
    using run no by (cases "hw_fulfill R b n") (auto simp: hardvisor_http_def urls_differ serve_def split: sum.splits)
  from hw_fulfill_outcome [OF wf x] show "hv_held R n' = hv_held R n"
    by (elim disjE exE conjE) (use \<open>\<forall>res. x \<noteq> Inr (200, res)\<close> in \<open>simp_all add: hw_fulfill_refused_held\<close>)
next
  fix n :: "('s, 'b) node" and k
  assume wf: "entries R wf_resource n" and k: "url_segment k"
  from k have "k \<noteq> []" by (simp add: url_segment_def)
  from handle_release_run [OF wf this] k
  show "\<exists>res n'. hardvisor_http R ep n \<lparr>req_verb = DELETE, req_url = deallocate_url ep k, req_body = JNull\<rparr> = (HReply 200 res, n')
          \<and> hv_held R n' = (hv_held R n)(k := None)"
    by (auto simp: hardvisor_http_def serve_def)
qed

end

interpretation hardvisor: resource_manager "hardvisor_http mem_redis ep" ep "entries mem_redis wf_resource"
    "hv_held mem_redis" for ep
  by (rule mem_redis.hardvisor_contract)

end
