(* ===== verification/Allocate_Properties.thy ===== *)
theory Allocate_Properties
  imports Provisioner_Rest Expires_Correct
begin

text \<open>
  The properties of the allocate service and of the heartbeat service, each with a run of the code
  on the in-memory store that meets its hypotheses.
\<close>

section \<open>A store to run on\<close>

definition demo_rm :: "json dict" where
  "demo_rm = [(''alias'', JStr ''rm1''), (''endpoint'', JStr ''rm1:8080'')]"

definition demo_request :: "json dict" where
  "demo_request = [(''allocation_id'', JStr ''a1''), (''requestor'', JStr ''me''),
     (''demands'', JObj [(''host'', JObj [])])]"

definition demo_machine :: json where
  "demo_machine = JObj [(''name'', JStr ''m1''), (''net_ifaces'', JList [JObj [(''ip'', JStr ''10.0.0.7'')]])]"

definition demo_answer :: "http_request \<Rightarrow> http_result" where
  "demo_answer rq =
     (if req_url rq = theoretically_url ''rm1:8080'' then HReply 200 (JObj [(''machines'', JList [JStr ''host''])])
      else if req_url rq = now_url ''rm1:8080'' then HReply 200 (JObj [(''info'', JList [demo_machine])])
      else HReply 404 JNull)"

definition demo_allocation :: "string \<Rightarrow> string \<Rightarrow> rat \<Rightarrow> json" where
  "demo_allocation k st t = JObj [(''allocation_id'', JStr k), (''status'', JStr st), (''expiration'', JNum t),
     (''hardware_details'', JList [JObj [(''vm_id'', JStr ''m1''), (''resource_manager_ep'', JStr ''rm1:8080'')]])]"

lemma wf_demo_allocation:
  "st \<in> set stored_statuses \<Longrightarrow> wf_allocation k (demo_allocation k st t)"
  by (simp add: wf_allocation_def demo_allocation_def)

lemmas demo_defs = demo_rm_def demo_request_def demo_machine_def demo_answer_def demo_allocation_def

section \<open>The stored allocations\<close>

text \<open>Whatever operations the allocate service, its expiry task and the heartbeat service perform,
  in whatever order and however the outside world moves between them and answers in them, every
  stored allocation keeps its identifier as its key, one of the nine stored states and a numeric
  expiration.\<close>

theorem allocations_stay_wellformed:
  assumes "redis_server R" and "(service_step R W)\<^sup>*\<^sup>* n n'" and "entries R wf_entry n"
  shows "entries R wf_entry n'"
  using assms(2,3)
  by (induction rule: rtranclp_induct) (blast intro: redis_server.service_step_inv [OF assms(1)])+

theorem allocations_stay_wellformed_witness:
  "entries mem_redis wf_entry (perform mem_redis (scripted demo_answer) (OpRmHeartbeat (JObj demo_rm))
     (at_time 5 [(''allocations'', [(''a1'', demo_allocation ''a1'' ''success'' 60)])]))"
proof -
  let ?n = "at_time 5 [(''allocations'', [(''a1'', demo_allocation ''a1'' ''success'' 60)])]"
  have wf: "entries mem_redis wf_entry ?n"
    by (auto simp: entries_mem wf_entry_def stored_statuses_def wf_demo_allocation split: if_splits)
  have run: "(service_step mem_redis (scripted demo_answer))\<^sup>*\<^sup>* ?n
      (perform mem_redis (scripted demo_answer) (OpRmHeartbeat (JObj demo_rm)) ?n)"
    using operate [of mem_redis "scripted demo_answer" ?n "OpRmHeartbeat (JObj demo_rm)"]
    by (rule r_into_rtranclp)
  show ?thesis
    by (rule allocations_stay_wellformed [OF mem_redis.redis_server_axioms run wf])
qed

text \<open>C1. A request with a new identifier, when one resource manager is registered, offers as many
  hosts as are demanded and replies with the machines, is answered by the record with status
  success, the details of exactly those machines and an expiration sixty seconds on; the record is
  stored under the request's identifier and no other entry of the store changes.  The manager is
  sent the saved request in the first call and the demands it offered to serve in the second.\<close>

theorem request_served:
  assumes "redis_server R" and "entries R wf_entry n"
    and "map_of m ''allocation_id'' = Some (JStr k)" "k \<noteq> []"
    and "map_of m ''demands'' = Some (JObj demands)"
    and "hget R (store n) ''allocations'' k = None"
    and "hgetall R (store n) ''resource_managers'' = [(rk, JObj rm)]"
    and "map_of rm ''endpoint'' = Some (JStr ep)"
    and "uuid4 W (world n) = (u, w0)"
    and "saved = saved_record m (clock W w0)"
    and "allocating = allocating_record saved (JStr ep)"
    and "http W w0 \<lparr>req_verb = POST, req_url = theoretically_url ep, req_body = JObj saved\<rparr> = (HReply 200 b, w1)"
    and "fld b ''machines'' = Some (JList hosts)" "\<forall>h \<in> set hosts. hashable h"
      "length (remdups hosts) = length demands"
    and "http W w1 \<lparr>req_verb = POST, req_url = now_url ep, req_body = restricted allocating demands hosts\<rparr>
      = (HReply 200 result, w2)"
    and "hardware_of (keyed_rm rk rm) result = Inr details"
  shows "\<exists>n' a. fulfill R W (JObj m) n = (Inr a, n')
    \<and> hget R (store n') ''allocations'' k = Some a
    \<and> a = JObj (dict_update allocating (fulfilled_kw (JStr ep) details result (clock W w2)))
    \<and> (\<forall>h k'. (h, k') \<noteq> (''allocations'', k) \<longrightarrow> hget R (store n') h k' = hget R (store n) h k')
    \<and> world n' = w2"
  using redis_server.fulfill_single [OF assms] by metis

theorem request_served_witness:
  "\<exists>n' a. fulfill mem_redis (scripted demo_answer) (JObj demo_request)
      (at_time 5 [(''resource_managers'', [(''rm1'', JObj demo_rm)])]) = (Inr a, n')
    \<and> fld a ''status'' = Some (JStr ''success'') \<and> fld a ''expiration'' = Some (JNum 65)"
proof -
  let ?n = "at_time 5 [(''resource_managers'', [(''rm1'', JObj demo_rm)])]"
  have "\<exists>n' a. fulfill mem_redis (scripted demo_answer) (JObj demo_request) ?n = (Inr a, n')
    \<and> hget mem_redis (store n') ''allocations'' ''a1'' = Some a
    \<and> a = JObj (dict_update (allocating_record (saved_record demo_request 5) (JStr ''rm1:8080''))
        (fulfilled_kw (JStr ''rm1:8080'') [JObj [(''ip'', JStr ''10.0.0.7''), (''user'', JNull), (''password'', JNull),
           (''pem_key_string'', JNull), (''key_file_path'', JNull), (''resource_manager_ep'', JStr ''rm1:8080''),
           (''vm_id'', JStr ''m1'')]] (JObj [(''info'', JList [demo_machine])]) (clock (scripted demo_answer) 5)))
    \<and> (\<forall>h k'. (h, k') \<noteq> (''allocations'', ''a1'') \<longrightarrow>
        hget mem_redis (store n') h k' = hget mem_redis (store ?n) h k')
    \<and> world n' = 5"
    by (rule request_served [where demands = "[(''host'', JObj [])]" and hosts = "[JStr ''host'']"
          and rk = "''rm1''" and rm = demo_rm and u = "''6f1a''" and ?w0.0 = 5 and ?w1.0 = 5
          and saved = "saved_record demo_request 5"
          and b = "JObj [(''machines'', JList [JStr ''host''])]"])
      (auto simp: mem_redis.redis_server_axioms entries_mem wf_entry_def mem_run demo_defs
        theoretically_url_def now_url_def hardware_of_def hardware_detail_def keyed_rm_def jfirst_def
        res_bind_def split: if_splits)
  then show ?thesis
    by (auto simp: fulfilled_kw_def expiry_in_def)
qed

text \<open>C23. When no resource manager replies 200 with a list of machines, a request with a new
  identifier is answered with status unfulfillable, leaves no allocation behind, and deletes every
  registered resource manager, the ones that merely had no room included; no other entry changes.\<close>

theorem request_refused:
  assumes "redis_server R" and "nobody_accepts W"
    and "map_of m ''allocation_id'' = Some (JStr k)" "k \<noteq> []"
    and "hget R (store n) ''allocations'' k = None"
    and "objects (hgetall R (store n) ''resource_managers'')"
  shows "\<exists>a n'. fulfill R W (JObj m) n = (Inr a, n')
    \<and> fld a ''status'' = Some (JStr ''unfulfillable'')
    \<and> (\<forall>h k'. hget R (store n') h k' =
        (if h = ''resource_managers'' then None else hget R (store n) h k'))"
  by (rule redis_server.fulfill_refused [OF assms])

theorem request_refused_witness:
  "\<exists>a n'. fulfill mem_redis (scripted (\<lambda>_. HReply 406 (JObj [(''status'', JStr ''Unable'')])))
       (JObj demo_request) (at_time 5 [(''resource_managers'', [(''rm1'', JObj demo_rm)])]) = (Inr a, n')
    \<and> fld a ''status'' = Some (JStr ''unfulfillable'')
    \<and> hget mem_redis (store n') ''resource_managers'' ''rm1'' = None"
proof -
  let ?n = "at_time 5 [(''resource_managers'', [(''rm1'', JObj demo_rm)])]"
  have nobody: "nobody_accepts (scripted (\<lambda>_. HReply 406 (JObj [(''status'', JStr ''Unable'')])))"
    by (simp add: nobody_accepts_def accepts_def)
  have id: "map_of demo_request ''allocation_id'' = Some (JStr ''a1'')" by (simp add: demo_defs)
  have new: "hget mem_redis (store ?n) ''allocations'' ''a1'' = None" by (simp add: mem_run)
  have objs: "objects (hgetall mem_redis (store ?n) ''resource_managers'')"
    by (simp add: mem_run objects_def)
  from request_refused [OF mem_redis.redis_server_axioms nobody id _ new objs] show ?thesis by auto
qed

section \<open>Expiry\<close>



text \<open>The expiry task survives everything: any number of rounds of a pass and a pause returns,
  with any store behind it and whatever the peers answer.\<close>

theorem expiry_never_dies: "fst (expire_rounds R W i n) = Inr ()"
  by (rule expire_rounds_returns)

text \<open>An allocation in no regular state whose resource manager cannot be asked, or does not answer
  with status 200, is kept and marked unknown as long as it is less than fifteen minutes past its
  expiration.\<close>

theorem unreachable_manager_keeps_allocation:
  assumes "entries R wf_entry n" and "k \<noteq> []"
    and "hget R (store n) ''allocations'' k = Some a" and "\<not> regular a"
    and "fld a ''rm_endpoint'' = Some (JStr ep)" "ep \<noteq> []"
    and "fld a ''expiration'' = Some (JNum q)" and "clock W (world n) - 15 * 60 \<le> q"
    and "http W (world n) \<lparr>req_verb = GET, req_url = allocations_url ep k, req_body = JNull\<rparr> = (r, w)"
    and "case r of HFail _ \<Rightarrow> True | HReply st _ \<Rightarrow> st \<noteq> 200"
  shows "\<exists>m. a = JObj m \<and> expire_one R W k a n = (Inr (None, Inr ()),
      n\<lparr>world := w, store := hset R (store n) ''allocations'' k (JObj (dict_update m unknown_kw))\<rparr>)"
  by (rule expire_one_asked [OF assms])

definition demo_failed :: json where
  "demo_failed = JObj [(''allocation_id'', JStr ''a1''), (''status'', JStr ''exception''),
     (''expiration'', JNum 60), (''rm_endpoint'', JStr ''rm1:8080'')]"

theorem unreachable_manager_keeps_allocation_witness:
  "\<exists>m. demo_failed = JObj m \<and> expire_one mem_redis (scripted demo_answer) ''a1'' demo_failed
       (at_time 100 [(''allocations'', [(''a1'', demo_failed)])]) = (Inr (None, Inr ()),
     (at_time 100 [(''allocations'', [(''a1'', demo_failed)])])
       \<lparr>world := 100, store := hset mem_redis \<lparr>hashes = [(''allocations'', [(''a1'', demo_failed)])], published = []\<rparr>
          ''allocations'' ''a1'' (JObj (dict_update m unknown_kw))\<rparr>)"
  using unreachable_manager_keeps_allocation [where R = mem_redis and W = "scripted demo_answer"
      and n = "at_time 100 [(''allocations'', [(''a1'', demo_failed)])]" and k = "''a1''"
      and a = demo_failed and ep = "''rm1:8080''" and q = 60 and r = "HReply 404 JNull" and w = 100]
  by (auto simp: entries_mem wf_entry_def wf_allocation_def stored_statuses_def mem_run demo_failed_def
      regular_def regular_statuses_def demo_answer_def allocations_url_def theoretically_url_def
      now_url_def split: if_splits)

section \<open>Splitting the hosts\<close>

text \<open>C20. The loop that takes away hosts several resource managers offer keeps the managers and their
  order, never gives a manager a host it did not offer, and never loses a host: whatever somebody
  offered before, somebody is still asked for.\<close>

theorem hosts_stay_covered:
  assumes "dedupe_loop R aid [0..<length ps] ps n = (Inr qs, n')"
  shows "length qs = length ps \<and> (\<forall>j. set (snd (qs ! j)) \<subseteq> set (snd (ps ! j)))
    \<and> (\<forall>h. (\<exists>j. offers qs h j) \<longleftrightarrow> (\<exists>j. offers ps h j))"
  using dedupe_loop_dedupe [OF assms] by (simp add: dedupe_subset dedupe_offers)

definition demo_potentials :: "(json \<times> json list) list" where
  "demo_potentials = [(JObj [(''endpoint'', JStr ''r1'')], [JStr ''h'']), (JObj [(''endpoint'', JStr ''r2'')], [JStr ''h''])]"

definition demo_split :: "json \<times> json list \<Rightarrow> json \<times> json list" where
  "demo_split p = (if fst p = JObj [(''endpoint'', JStr ''r1'')] then (fst p, []) else p)"

lemma demo_dedupe_loop:
  "\<exists>n'. dedupe_loop mem_redis (JStr ''a1'') [0..<length demo_potentials] demo_potentials
     (at_time 5 [(''allocations'', [(''a1'', demo_allocation ''a1'' ''received'' 60)])])
     = (Inr (map demo_split demo_potentials), n')"
proof -
  have "[0..<length demo_potentials] = [0, 1]"
    by (simp add: demo_potentials_def upt_rec)
  then show ?thesis
    by (simp add: demo_potentials_def demo_split_def py_bind_def py_then_def py_lift_def
        update_status_def allocations_def r_hget_def r_hset_def py_gets_def py_modify_def
        py_return_def mem_run mem_put_def demo_allocation_def dedupe_at_def res_bind_def)
qed

theorem hosts_stay_covered_witness:
  "\<exists>j. offers (map demo_split demo_potentials) (JStr ''h'') j"
proof -
  obtain n' where "dedupe_loop mem_redis (JStr ''a1'') [0..<length demo_potentials] demo_potentials
     (at_time 5 [(''allocations'', [(''a1'', demo_allocation ''a1'' ''received'' 60)])])
     = (Inr (map demo_split demo_potentials), n')"
    using demo_dedupe_loop by blast
  from hosts_stay_covered [OF this] have "(\<exists>j. offers (map demo_split demo_potentials) (JStr ''h'') j)
      \<longleftrightarrow> (\<exists>j. offers demo_potentials (JStr ''h'') j)" by blast
  moreover have "offers demo_potentials (JStr ''h'') 0" by (simp add: offers_def demo_potentials_def)
  ultimately show ?thesis by blast
qed

text \<open>When every resource manager offers at most one host, no host is left with two of them.\<close>

theorem single_offers_are_disjoint:
  assumes "dedupe_loop R aid [0..<length ps] ps n = (Inr qs, n')"
    and "\<forall>p \<in> set ps. length (snd p) \<le> 1"
    and "offers qs h i" and "offers qs h j"
  shows "i = j"
  using dedupe_loop_dedupe [OF assms(1)] dedupe_single [OF assms(2)] assms(3,4) by simp

theorem single_offers_are_disjoint_witness:
  "\<not> (offers (map demo_split demo_potentials) (JStr ''h'') 0 \<and> offers (map demo_split demo_potentials) (JStr ''h'') 1)"
proof -
  obtain n' where "dedupe_loop mem_redis (JStr ''a1'') [0..<length demo_potentials] demo_potentials
     (at_time 5 [(''allocations'', [(''a1'', demo_allocation ''a1'' ''received'' 60)])])
     = (Inr (map demo_split demo_potentials), n')"
    using demo_dedupe_loop by blast
  from single_offers_are_disjoint [OF this, of "JStr ''h''" 0 1] show ?thesis
    by (auto simp: demo_potentials_def)
qed

text \<open>With more hosts the lists are edited while they are walked, so a host can stay with two
  resource managers: of three managers offering x h, y h and x y, the first two are both still
  asked for h.\<close>

theorem shared_host_can_stay:
  "dedupe [(r1, [''x'', ''h'']), (r2, [''y'', ''h'']), (r3, [''x'', ''y''])]
    = [(r1, [''h'']), (r2, [''h'']), (r3, [''x'', ''y''])]"
  by (simp add: dedupe_run)

section \<open>The record\<close>







text \<open>A request whose identifier is already stored is answered with the stored record; nothing is
  asked of anybody and nothing is written.\<close>

theorem known_request_is_answered:
  assumes "map_of m ''allocation_id'' = Some (JStr k)" and "k \<noteq> []"
    and "hget R (store n) ''allocations'' k = Some a" and "truthy a"
  shows "fulfill R W (JObj m) n = (Inr a, n\<lparr>world := snd (uuid4 W (world n))\<rparr>)"
  by (rule fulfill_known_id [OF assms])

theorem known_request_is_answered_witness:
  "fst (fulfill mem_redis (scripted demo_answer) (JObj demo_request)
      (at_time 5 [(''allocations'', [(''a1'', demo_failed)])])) = Inr demo_failed"
  using known_request_is_answered [of demo_request "''a1''" mem_redis
      "at_time 5 [(''allocations'', [(''a1'', demo_failed)])]" demo_failed "scripted demo_answer"]
  by (simp add: demo_request_def demo_failed_def mem_run)

text \<open>A release either fails and leaves the store as it was, or removes the released allocation and
  nothing else.\<close>

theorem release_removes_or_keeps:
  assumes "redis_server R" and "k \<noteq> []" and "entries R wf_entry n" and "release R W (JStr k) n = (r, n')"
  shows "(\<exists>e. r = Inl e \<and> store n' = store n)
    \<or> (r = Inr () \<and> (\<forall>h k'. hget R (store n') h k' =
         (if h = ''allocations'' \<and> k' = k then None else hget R (store n) h k')))"
  by (rule redis_server.release_outcome [OF assms])

theorem release_removes_or_keeps_witness:
  "let n' = snd (release mem_redis (scripted (\<lambda>_. HReply 200 JNull)) (JStr ''a1'')
       (at_time 5 [(''allocations'', [(''a1'', demo_allocation ''a1'' ''success'' 60)])]))
   in hget mem_redis (store n') ''allocations'' ''a1'' = None
    \<or> hget mem_redis (store n') ''allocations'' ''a1'' = Some (demo_allocation ''a1'' ''success'' 60)"
proof -
  let ?n = "at_time 5 [(''allocations'', [(''a1'', demo_allocation ''a1'' ''success'' 60)])]"
  have wf: "entries mem_redis wf_entry ?n"
    by (auto simp: entries_mem wf_entry_def stored_statuses_def wf_demo_allocation split: if_splits)
  obtain r n' where run: "release mem_redis (scripted (\<lambda>_. HReply 200 JNull)) (JStr ''a1'') ?n = (r, n')"
    by fastforce
  from release_removes_or_keeps [OF mem_redis.redis_server_axioms _ wf run] run show ?thesis
    by (auto simp: mem_run)
qed

section \<open>Heartbeats\<close>

text \<open>A heartbeat for a successful allocation is answered with 200 and moves its expiration to sixty
  seconds from now; for an unknown allocation, or one in another state, it is answered with 400 and
  nothing changes.\<close>

theorem heartbeat_outcome:
  "\<exists>b. heartbeat R W (JObj [(''allocation_id'', JStr k)]) n =
    (case hget R (store n) ''allocations'' k of
       Some (JObj m) \<Rightarrow>
         if map_of m ''status'' = Some (JStr ''success'') then
           (Inr (200, status_body 200 []), n\<lparr>store := hset R (store n) ''allocations'' k
             (JObj (AList.update ''expiration'' (JNum (clock W (world n) + 60)) m))\<rparr>)
         else (Inr (400, b), n)
     | _ \<Rightarrow> (Inr (400, b), n))"
proof (cases "\<exists>m. hget R (store n) ''allocations'' k = Some (JObj m) \<and> map_of m ''status'' = Some (JStr ''success'')")
  case True
  then show ?thesis by (auto simp: heartbeat_success)
next
  case False
  then have "case hget R (store n) ''allocations'' k of None \<Rightarrow> True
      | Some a \<Rightarrow> fld a ''status'' \<noteq> Some (JStr ''success'')"
    by (auto simp: fld_def split: option.splits json.splits)
  from heartbeat_refused [of R n k, OF this, of W] False show ?thesis
    by (auto split: option.split json.split)
qed



section \<open>Start-up\<close>

text \<open>The services start only when every required environment variable is set to something; the
  error names exactly the missing ones.\<close>

theorem environment_is_checked:
  "checkenv env = (if \<forall>f \<in> set required_env. \<exists>v. map_of env f = Some v \<and> v \<noteq> [] then Inr ()
     else Inl (Exn OSErr (''The following environment variables are not set: '' @
       join '', '' (filter (\<lambda>f. map_of env f = None \<or> map_of env f = Some []) required_env))))"
  by (rule checkenv_eq)

theorem environment_is_checked_witness:
  "checkenv [(''REDIS_PORT'', ''6379''), (''REDIS_HOST'', ''redis''), (''REDIS_DB'', ''0''), (''REDIS_USER'', [])] =
     Inl (Exn OSErr ''The following environment variables are not set: REDIS_USER, REDIS_PASSWORD'')"
  using environment_is_checked [of "[(''REDIS_PORT'', ''6379''), (''REDIS_HOST'', ''redis''), (''REDIS_DB'', ''0''), (''REDIS_USER'', [])]"]
  by (simp add: required_env_def)

end
