(* ===== verification/Inventory_Properties.thy ===== *)
theory Inventory_Properties
  imports Hardvisor_Contract Allocate_Properties
begin

text \<open>
  The properties of the physical-machine manager, and of the allocate service in front of it, each
  with a run on the in-memory store.
\<close>

section \<open>The manager as a state machine\<close>

inductive hardvisor_step :: "'s redis_ops \<Rightarrow> 'w world_ops \<Rightarrow> string \<Rightarrow> ('s, 'w) node \<Rightarrow> ('s, 'w) node \<Rightarrow> bool"
  for R :: "'s redis_ops" and W :: "'w world_ops" and ep :: string where
  request: "hardvisor_step R W ep n (snd (hardvisor_http R ep n rq))"
| clean: "hardvisor_step R W ep n (snd (do_clean_dangling_hardware R W has_cert prov n))"
| restart: "\<forall>p \<in> set machines. good_config p \<Longrightarrow> hardvisor_step R W ep n (snd (update_machines R machines n))"

context redis_server
begin

lemma do_clean_inv:
  assumes wf: "entries R wf_resource n"
  shows "entries R wf_resource (snd (do_clean_dangling_hardware R W has_cert ep n))"
proof -
  obtain r n0 where ids: "active_allocation_ids W has_cert ep n = (r, n0)" by (cases "active_allocation_ids W has_cert ep n")
  have st: "store n0 = store n" using active_allocation_ids_store [of W has_cert ep n] ids by simp
  show ?thesis
  proof (cases r)
    case (Inl e)
    with ids st wf show ?thesis by (simp add: do_clean_dangling_hardware_def py_bind_def entries_def)
  next
    case (Inr as)
    with ids have "active_allocation_ids W has_cert ep n = (Inr as, n0)" by simp
    from do_clean_outcome [OF wf this st] obtain n' where
      run: "do_clean_dangling_hardware R W has_cert ep n = (Inr (), n')"
      and eff: "\<forall>h k. hget R (store n') h k =
        (case hget R (store n) h k of
           Some (JObj m) \<Rightarrow> Some (if h = ''resources'' \<and> \<not> active_ok as (JObj m) then released m else JObj m)
         | v \<Rightarrow> v)" by blast
    have "wf_machine k a" if a: "hget R (store n') ''resources'' k = Some a" for k a
    proof (cases "hget R (store n) ''resources'' k")
      case None
      with eff [rule_format, of "''resources''" k] a show ?thesis by simp
    next
      case (Some b)
      with wf have b: "wf_machine k b" by (simp add: entries_def wf_resource_def)
      then obtain m where m: "b = JObj m" by (rule wf_machineE)
      with eff [rule_format, of "''resources''" k] a Some b show ?thesis
        by (auto intro: wf_released split: if_splits)
    qed
    with run show ?thesis by (simp add: entries_def wf_resource_def)
  qed
qed

lemma hardvisor_step_inv:
  assumes "hardvisor_step R W ep n n'" and "entries R wf_resource n"
  shows "entries R wf_resource n'"
  using assms(1)
proof (cases rule: hardvisor_step.cases)
  case (request rq)
  from resource_manager.keeps_ok [OF hardvisor_contract assms(2)] request show ?thesis by simp
next
  case (clean has_cert prov)
  with do_clean_inv [OF assms(2)] show ?thesis by simp
next
  case (restart machines)
  with update_machines_inv [OF assms(2)] show ?thesis by simp
qed

end

section \<open>An inventory to run on\<close>

definition demo_hw :: "string \<Rightarrow> json" where
  "demo_hw st = JObj [(''name'', JStr ''m1''), (''arch'', JStr ''x86_64''), (''ip'', JStr ''10.0.0.7''),
     (''password'', JStr ''pw''), (''net_ifaces'', JList []), (''status'', JStr st)]"

definition demo_inventory :: "string \<Rightarrow> (mem, rat) node" where
  "demo_inventory st = at_time 0 [(''resources'', [(''m1'', demo_hw st)])]"

definition demo_demands :: "json dict" where
  "demo_demands = [(''requestor'', JStr ''me''), (''allocation_id'', JStr ''a1''),
     (''demands'', JObj [(''host'', JObj [(''arch'', JStr ''x86_64'')])])]"

lemma demo_inventory_wf:
  "st \<in> {''available'', ''in_use''} \<Longrightarrow> entries mem_redis wf_resource (demo_inventory st)"
  by (auto simp: entries_mem demo_inventory_def wf_resource_def wf_machine_def demo_hw_def split: if_splits)

section \<open>The inventory\<close>

text \<open>However requests, cleaning passes and restarts with a sound configuration follow each other,
  every machine of the inventory keeps its name as its key, its architecture, its address and
  exactly one kind of credentials, and is either available or in use.\<close>

theorem inventory_stays_wellformed:
  assumes "redis_server R" and "(hardvisor_step R W ep)\<^sup>*\<^sup>* n n'" and "entries R wf_resource n"
  shows "entries R wf_resource n'"
  using assms(2,3)
  by (induction rule: rtranclp_induct) (blast intro: redis_server.hardvisor_step_inv [OF assms(1)])+

theorem inventory_stays_wellformed_witness:
  "entries mem_redis wf_resource (snd (hardvisor_http mem_redis ''hv'' (demo_inventory ''available'')
     \<lparr>req_verb = POST, req_url = now_url ''hv'', req_body = JObj demo_demands\<rparr>))"
proof -
  have wf: "entries mem_redis wf_resource (demo_inventory ''available'')" by (simp add: demo_inventory_wf)
  have run: "(hardvisor_step mem_redis (scripted demo_answer) ''hv'')\<^sup>*\<^sup>* (demo_inventory ''available'')
      (snd (hardvisor_http mem_redis ''hv'' (demo_inventory ''available'')
        \<lparr>req_verb = POST, req_url = now_url ''hv'', req_body = JObj demo_demands\<rparr>))"
    using request by (rule r_into_rtranclp)
  show ?thesis
    by (rule inventory_stays_wellformed [OF mem_redis.redis_server_axioms run wf])
qed

text \<open>C13. A request for machines that is answered is all or nothing: with 200 every demand got a
  different machine that was free and has the demanded architecture, the reply lists the machines
  as they are stored now, in use for the request, and nothing else changed; with 503 every entry is
  as it was or a free machine that is free again with the same hardware.\<close>

theorem physical_request_all_or_nothing:
  assumes "redis_server R" and "entries R wf_resource n" and "hw_fulfill R req n = (Inr (st, b), n')"
  shows "(st = 503 \<and> (\<forall>h k. hget R (store n') h k = hget R (store n) h k
          \<or> (h = ''resources'' \<and> (\<exists>a a'. hget R (store n) h k = Some a \<and> hget R (store n') h k = Some a'
               \<and> is_free a \<and> is_free a' \<and> same_hardware a' a))))
    \<or> (st = 200 \<and> (\<exists>ds infos g. b = JObj [(''status'', JStr ''Success''), (''info'', JList infos)]
        \<and> parse_requirements req = Inr ds \<and> granted R (store n) (store n') g
        \<and> infos = map (\<lambda>(k, m, r). r) g \<and> list_all2 (\<lambda>d i. served d (Some i)) ds infos))"
  using redis_server.hw_fulfill_outcome [OF assms] by fastforce

definition demo_hw_taken :: json where
  "demo_hw_taken = JObj [(''name'', JStr ''m1''), (''arch'', JStr ''x86_64''), (''ip'', JStr ''10.0.0.7''),
     (''password'', JStr ''pw''), (''net_ifaces'', JList [JObj [(''ip'', JStr ''10.0.0.7'')]]),
     (''status'', JStr ''in_use''), (''allocation_id'', JStr ''a1''), (''requestor'', JStr ''me'')]"

lemma demo_fulfill_run:
  "hw_fulfill mem_redis (JObj demo_demands) (demo_inventory ''available'') =
    (Inr (200, JObj [(''status'', JStr ''Success''), (''info'', JList [demo_hw_taken])]),
     at_time 0 [(''resources'', [(''m1'', demo_hw_taken)])])"
  by (simp add: hw_fulfill_def parse_requirements_def demo_demands_def parse_machine_def pop_req_def
      gather_raise_def hardvisor_defs demo_inventory_def mem_run mem_put_def fulfills_reqs_def demo_hw_def
      at_time_def demo_hw_taken_def py_defs Let_def)

theorem physical_request_all_or_nothing_witness:
  "\<exists>g. granted mem_redis (store (demo_inventory ''available''))
      \<lparr>hashes = [(''resources'', [(''m1'', demo_hw_taken)])], published = []\<rparr> g \<and> length g = 1"
proof -
  have "entries mem_redis wf_resource (demo_inventory ''available'')" by (simp add: demo_inventory_wf)
  from physical_request_all_or_nothing [OF mem_redis.redis_server_axioms this demo_fulfill_run]
  show ?thesis by (auto dest: arg_cong [of _ _ length])
qed

text \<open>A demand is refused only when no free machine has its architecture, and then nothing changes;
  otherwise one free machine of that architecture is marked in use for the demand's allocation and
  requestor, and nothing else changes.\<close>

theorem demand_takes_a_free_machine:
  assumes "redis_server R" and "entries R wf_resource n" and "fld d ''arch'' = Some arch"
  shows "(hw_allocate R d n = (Inr None, n) \<and>
      (\<forall>k a. hget R (store n) ''resources'' k = Some a \<longrightarrow> suits arch a \<longrightarrow> \<not> is_free a))
    \<or> (\<exists>k m r. hget R (store n) ''resources'' k = Some (JObj m) \<and> suits arch (JObj m) \<and> is_free (JObj m)
        \<and> r = reserved (opt (fld d ''allocation_id'')) (opt (fld d ''requestor'')) m
        \<and> hw_allocate R d n = (Inr (Some r), n\<lparr>store := hset R (store n) ''resources'' k r\<rparr>))"
  by (rule redis_server.hw_allocate_cases [OF assms]) blast+

theorem demand_takes_a_free_machine_witness:
  "\<exists>r n'. hw_allocate mem_redis (JObj [(''arch'', JStr ''x86_64''), (''host'', JStr ''h'')]) (demo_inventory ''available'')
     = (Inr (Some r), n')"
proof -
  have wf: "entries mem_redis wf_resource (demo_inventory ''available'')" by (simp add: demo_inventory_wf)
  have d: "fld (JObj [(''arch'', JStr ''x86_64''), (''host'', JStr ''h'')]) ''arch'' = Some (JStr ''x86_64'')" by simp
  have "hget mem_redis (store (demo_inventory ''available'')) ''resources'' ''m1'' = Some (demo_hw ''available'')"
    "suits (JStr ''x86_64'') (demo_hw ''available'')" "is_free (demo_hw ''available'')"
    by (simp_all add: demo_inventory_def mem_run suits_def demo_hw_def is_free_def)
  with demand_takes_a_free_machine [OF mem_redis.redis_server_axioms wf d] show ?thesis by blast
qed

text \<open>A release of a machine always succeeds: it makes the named machine available and forgets its
  allocation, or finds no such machine; nothing else changes.\<close>

theorem release_frees_the_machine:
  assumes "redis_server R" and "entries R wf_resource n" and "k \<noteq> []"
  shows "hw_release R (JStr k) n =
    (case hget R (store n) ''resources'' k of
       Some (JObj m) \<Rightarrow> (Inr (), n\<lparr>store := hset R (store n) ''resources'' k (released m)\<rparr>)
     | _ \<Rightarrow> (Inr (), n))"
  by (rule redis_server.hw_release_eq [OF assms])

theorem release_frees_the_machine_witness:
  "fst (hw_release mem_redis (JStr ''m1'') (demo_inventory ''in_use'')) = Inr ()"
proof -
  have wf: "entries mem_redis wf_resource (demo_inventory ''in_use'')" by (simp add: demo_inventory_wf)
  from release_frees_the_machine [OF mem_redis.redis_server_axioms wf, of "''m1''"]
  show ?thesis by (simp add: demo_inventory_def mem_run demo_hw_def)
qed

text \<open>C39. A cleaning pass that learns the active allocations releases exactly the machines in use whose
  allocation is not among them, and changes nothing else.\<close>

theorem cleaner_frees_dangling_machines:
  assumes "redis_server R" and "entries R wf_resource n"
    and "active_allocation_ids W has_cert ep n = (Inr ids, n0)"
  shows "\<exists>n'. do_clean_dangling_hardware R W has_cert ep n = (Inr (), n')
    \<and> (\<forall>h k. hget R (store n') h k =
        (case hget R (store n) h k of
           Some (JObj m) \<Rightarrow> Some (if h = ''resources'' \<and> \<not> active_ok ids (JObj m) then released m else JObj m)
         | v \<Rightarrow> v))"
  using redis_server.do_clean_outcome [OF assms] active_allocation_ids_store [of W has_cert ep n] assms(3) by simp

definition demo_jobs :: "http_request \<Rightarrow> http_result" where
  "demo_jobs rq = HReply 200 (JObj [(''status'', JNum 200), (''data'', JList [])])"

theorem cleaner_frees_dangling_machines_witness:
  "\<exists>n'. do_clean_dangling_hardware mem_redis (scripted demo_jobs) True ''prov'' (demo_inventory ''in_use'') = (Inr (), n')
    \<and> (\<exists>a. hget mem_redis (store n') ''resources'' ''m1'' = Some a \<and> is_free a)"
proof -
  have wf: "entries mem_redis wf_resource (demo_inventory ''in_use'')" by (simp add: demo_inventory_wf)
  have ids: "active_allocation_ids (scripted demo_jobs) True ''prov'' (demo_inventory ''in_use'')
      = (Inr [], (demo_inventory ''in_use''))"
    by (simp add: active_allocation_ids_def demo_jobs_def py_defs demo_inventory_def at_time_def)
  have m1: "hget mem_redis (store (demo_inventory ''in_use'')) ''resources'' ''m1'' = Some (demo_hw ''in_use'')"
    by (simp add: demo_inventory_def mem_run)
  from cleaner_frees_dangling_machines [OF mem_redis.redis_server_axioms wf ids] obtain n' where
    run: "do_clean_dangling_hardware mem_redis (scripted demo_jobs) True ''prov'' (demo_inventory ''in_use'') = (Inr (), n')"
    and eff: "\<forall>h k. hget mem_redis (store n') h k =
        (case hget mem_redis (store (demo_inventory ''in_use'')) h k of
           Some (JObj m) \<Rightarrow> Some (if h = ''resources'' \<and> \<not> active_ok [] (JObj m) then released m else JObj m)
         | v \<Rightarrow> v)" by blast
  from eff [rule_format, of "''resources''" "''m1''"] m1 run show ?thesis
    by (simp add: demo_hw_def active_ok_def is_free_def released_def)
qed

text \<open>A hardvisor that is started without a client certificate never frees a dangling machine: its
  cleaner fails in every round before it looks at the inventory.\<close>

theorem cleaner_without_certificate_is_idle:
  "\<exists>e. do_clean_dangling_hardware R W False ep n = (Inl e, n)"
  by (simp add: do_clean_dangling_hardware_def active_allocation_ids_def py_bind_def py_raise_def)

text \<open>Restarting the manager with its configuration keeps every machine that is already in the
  inventory exactly as it is, in particular its reservation.\<close>

theorem restart_keeps_reservations:
  assumes "redis_server R" and "entries R wf_resource n" and "\<forall>p \<in> set machines. good_config p"
  shows "entries R wf_resource (snd (update_machines R machines n))
    \<and> (\<forall>k a. hget R (store n) ''resources'' k = Some a \<longrightarrow>
        hget R (store (snd (update_machines R machines n))) ''resources'' k = Some a)"
  by (rule redis_server.update_machines_inv [OF assms])

theorem restart_keeps_reservations_witness:
  "hget mem_redis (store (snd (update_machines mem_redis
       [(''m1'', JObj [(''ip'', JStr ''10.0.0.7''), (''password'', JStr ''pw'')])] (demo_inventory ''in_use''))))
     ''resources'' ''m1'' = Some (demo_hw ''in_use'')"
proof -
  have wf: "entries mem_redis wf_resource (demo_inventory ''in_use'')" by (simp add: demo_inventory_wf)
  have good: "\<forall>p \<in> set [(''m1'', JObj [(''ip'', JStr ''10.0.0.7''), (''password'', JStr ''pw'')])]. good_config p"
    by (simp add: good_config_def)
  have "hget mem_redis (store (demo_inventory ''in_use'')) ''resources'' ''m1'' = Some (demo_hw ''in_use'')"
    by (simp add: demo_inventory_def mem_run)
  with restart_keeps_reservations [OF mem_redis.redis_server_axioms wf good] show ?thesis by blast
qed

section \<open>The allocate service in front of the manager\<close>

text \<open>The manager as the allocate service's world: its store, behind its HTTP interface.\<close>

definition hardvisor_world :: "'s redis_ops \<Rightarrow> string \<Rightarrow> rat \<Rightarrow> ('s, unit) node world_ops" where
  "hardvisor_world R ep t = \<lparr>http = hardvisor_http R ep, clock = (\<lambda>_. t), uuid4 = (\<lambda>w. (''6f1a'', w)), sleep = (\<lambda>_ w. w)\<rparr>"

definition demo_hv :: "string \<Rightarrow> (mem, unit) node" where
  "demo_hv st = \<lparr>store = \<lparr>hashes = [(''resources'', [(''m1'', demo_hw st)])], published = []\<rparr>, world = ()\<rparr>"

lemma demo_hv_wf: "st \<in> {''available'', ''in_use''} \<Longrightarrow> entries mem_redis wf_resource (demo_hv st)"
  by (auto simp: entries_mem demo_hv_def wf_resource_def wf_machine_def demo_hw_def split: if_splits)

definition demo_node :: "(mem, (mem, unit) node) node" where
  "demo_node = \<lparr>store = \<lparr>hashes = [(''allocations'', [(''a1'', JObj [(''allocation_id'', JStr ''a1''),
     (''status'', JStr ''success''), (''expiration'', JNum 60), (''hardware_details'', JList [JObj [(''vm_id'', JStr ''m1''),
     (''resource_manager_ep'', JStr ''hv'')]])])])], published = []\<rparr>, world = demo_hv ''in_use''\<rparr>"

lemma demo_node_wf: "entries mem_redis wf_entry demo_node"
  by (auto simp: entries_mem demo_node_def wf_entry_def wf_allocation_def stored_statuses_def split: if_splits)

text \<open>C21. Releasing an allocation whose machines are at a physical-machine manager succeeds, gives every
  one of them back, leaves the manager's other reservations alone, and removes the allocation and
  nothing else from the service's store.\<close>

theorem release_gives_machines_back:
  assumes "redis_server R" and "redis_server R'" and "http W = hardvisor_http R' ep"
    and "entries R' wf_resource (world n)" and "entries R wf_entry n" and "k \<noteq> []"
    and "hget R (store n) ''allocations'' k = Some a"
    and "fld a ''hardware_details'' = Some (JList details)" and "names_at ep details ks"
  shows "\<exists>n'. release R W (JStr k) n = (Inr (), n') \<and> entries R' wf_resource (world n')
    \<and> hv_held R' (world n') = without (hv_held R' (world n)) ks
    \<and> (\<forall>h k'. hget R (store n') h k' = (if h = ''allocations'' \<and> k' = k then None else hget R (store n) h k'))"
  by (rule resource_manager.release_frees [OF redis_server.hardvisor_contract [OF assms(2)] assms(1) assms(3-9)])

theorem release_gives_machines_back_witness:
  "\<exists>n'. release mem_redis (hardvisor_world mem_redis ''hv'' 5) (JStr ''a1'') demo_node = (Inr (), n')
    \<and> hv_held mem_redis (world n') ''m1'' = None"
proof -
  have W: "http (hardvisor_world mem_redis ''hv'' 5) = hardvisor_http mem_redis ''hv''"
    by (simp add: hardvisor_world_def)
  have ok: "entries mem_redis wf_resource (world demo_node)" by (simp add: demo_node_def demo_hv_wf)
  have a: "hget mem_redis (store demo_node) ''allocations'' ''a1'' = Some (JObj [(''allocation_id'', JStr ''a1''),
     (''status'', JStr ''success''), (''expiration'', JNum 60), (''hardware_details'', JList [JObj [(''vm_id'', JStr ''m1''),
     (''resource_manager_ep'', JStr ''hv'')]])])" by (simp add: demo_node_def mem_run)
  have ks: "names_at ''hv'' [JObj [(''vm_id'', JStr ''m1''), (''resource_manager_ep'', JStr ''hv'')]] [''m1'']"
    by (simp add: names_at_def url_segment_def)
  from release_gives_machines_back [OF mem_redis.redis_server_axioms mem_redis.redis_server_axioms W ok demo_node_wf _ a _ ks]
  show ?thesis by (auto simp: without_def)
qed

text \<open>The expiry task of an expired allocation at a physical-machine manager cannot fail: it gives
  the machines back and removes the allocation.\<close>

theorem expiry_gives_machines_back:
  assumes "redis_server R" and "redis_server R'" and "http W = hardvisor_http R' ep"
    and "entries R' wf_resource (world n)"
    and "fld a ''hardware_details'' = Some (JList details)" and "names_at ep details ks"
  shows "\<exists>n'. finish_task R W (k, a) n = (Inr (), n') \<and> entries R' wf_resource (world n')
    \<and> hv_held R' (world n') = without (hv_held R' (world n)) ks \<and> hget R (store n') ''allocations'' k = None"
  by (rule resource_manager.finish_task_frees [OF redis_server.hardvisor_contract [OF assms(2)] assms(1) assms(3-6)])

theorem expiry_gives_machines_back_witness:
  "\<exists>n'. finish_task mem_redis (hardvisor_world mem_redis ''hv'' 5) (''a1'', JObj [(''hardware_details'',
       JList [JObj [(''vm_id'', JStr ''m1''), (''resource_manager_ep'', JStr ''hv'')]])]) demo_node = (Inr (), n')
    \<and> hv_held mem_redis (world n') ''m1'' = None \<and> hget mem_redis (store n') ''allocations'' ''a1'' = None"
proof -
  have W: "http (hardvisor_world mem_redis ''hv'' 5) = hardvisor_http mem_redis ''hv''"
    by (simp add: hardvisor_world_def)
  have ok: "entries mem_redis wf_resource (world demo_node)" by (simp add: demo_node_def demo_hv_wf)
  have a: "fld (JObj [(''hardware_details'', JList [JObj [(''vm_id'', JStr ''m1''), (''resource_manager_ep'', JStr ''hv'')]])])
      ''hardware_details'' = Some (JList [JObj [(''vm_id'', JStr ''m1''), (''resource_manager_ep'', JStr ''hv'')]])" by simp
  have ks: "names_at ''hv'' [JObj [(''vm_id'', JStr ''m1''), (''resource_manager_ep'', JStr ''hv'')]] [''m1'']"
    by (simp add: names_at_def url_segment_def)
  from expiry_gives_machines_back [OF mem_redis.redis_server_axioms mem_redis.redis_server_axioms W ok a ks, of "''a1''"]
  show ?thesis by (auto simp: without_def)
qed

end
