(* ===== verification/Interleaved_Properties.thy ===== *)
theory Interleaved_Properties
  imports Interleaved_Correct Inventory_Properties
begin

text \<open>
  Properties of the services when their handlers run interleaved: what stays true in every order of the
  pieces, and what goes wrong in some orders.
\<close>

section \<open>The stored allocations\<close>

text \<open>C4. Whatever handlers of the allocate service, passes of its expiry task and handlers of the heartbeat
  service are started, and however they interleave at their Redis commands and their requests, with the
  outside world moving in between, every stored allocation keeps its identifier as its key, one of the nine
  stored states and a numeric expiration; and the interleavings include every sequence of whole operations.\<close>

theorem interleaved_allocations_stay_wellformed:
  assumes "redis_server R" and "entries R wf_entry n"
  shows "((services R W)\<^sup>*\<^sup>* ([], n) (ts, n') \<longrightarrow> entries R wf_entry n')
    \<and> ((service_step R W)\<^sup>*\<^sup>* n n' \<longrightarrow> (\<exists>ts. (services R W)\<^sup>*\<^sup>* ([], n) (ts, n')))"
proof (intro conjI impI)
  assume "(services R W)\<^sup>*\<^sup>* ([], n) (ts, n')"
  from services_inv [OF assms(1) this assms(2)] show "entries R wf_entry n'" .
next
  assume "(service_step R W)\<^sup>*\<^sup>* n n'"
  then show "\<exists>ts. (services R W)\<^sup>*\<^sup>* ([], n) (ts, n')"
    by (induction rule: rtranclp_induct) (blast dest: service_step_interleaving intro: rtranclp_trans)+
qed

definition store_with :: "string \<Rightarrow> (mem, rat) node" where
  "store_with st = at_time 5 [(''allocations'', [(''a1'', demo_allocation ''a1'' st 60)])]"

theorem interleaved_allocations_stay_wellformed_witness:
  "\<exists>ts. (services mem_redis (scripted demo_answer))\<^sup>*\<^sup>* ([], store_with ''success'')
      (ts, perform mem_redis (scripted demo_answer) OpExpirePass (store_with ''success''))
    \<and> entries mem_redis wf_entry (perform mem_redis (scripted demo_answer) OpExpirePass (store_with ''success''))"
proof -
  have wf: "entries mem_redis wf_entry (store_with ''success'')"
    by (auto simp: store_with_def entries_mem wf_entry_def stored_statuses_def wf_demo_allocation split: if_splits)
  have run: "(service_step mem_redis (scripted demo_answer))\<^sup>*\<^sup>* (store_with ''success'')
      (perform mem_redis (scripted demo_answer) OpExpirePass (store_with ''success''))"
    by (rule r_into_rtranclp, rule operate)
  from interleaved_allocations_stay_wellformed [OF mem_redis.redis_server_axioms wf] run show ?thesis by meson
qed

section \<open>A heartbeat that comes too late\<close>

lemma heartbeat_pieces:
  assumes "hget R (store n) ''allocations'' k = Some (JObj m)" and "map_of m ''status'' = Some (JStr ''success'')"
  shows "\<exists>g1 g2. task_of R W (OpHeartbeat (JObj [(''allocation_id'', JStr k)])) = Await (\<lambda>n. n) g1
    \<and> g1 n = Await (\<lambda>n. n) g2
    \<and> g2 n = Await (\<lambda>s. s\<lparr>store := hset R (store s) ''allocations'' k
        (JObj (AList.update ''expiration'' (JNum (clock W (world n) + 60)) m))\<rparr>) (\<lambda>_. Done (Inr ()))"
  using assms
  by (simp add: t_heartbeat_def t_update_expires_def silent_def t_then_def t_lift_def t_return_def t_raise_def t_atomic_def
      jcontains_def r_hget_def r_hset_def w_time_def py_gets_def py_modify_def)

lemma world_store: "world (n\<lparr>store := s\<rparr>) = world n"
  by simp

lemma release_task_run:
  assumes "release R W (JStr k) n = (Inr (), n')"
  shows "run (task_of R W (OpRelease k)) n = (Inr (), n')"
  using assms by (simp add: silent_def task_run release_job_def py_then_def py_bind_def py_return_def)

text \<open>C5. A heartbeat and the release of the same allocation can interleave so that both are answered with
  success and the record is back after it was deleted: in status success, for another minute, naming machines
  that the physical-machine manager has already taken back.  Whoever holds them when that record is released
  or expires loses them.\<close>

theorem late_heartbeat_revives_allocation:
  assumes R: "redis_server R" and R': "redis_server R'" and W: "http W = hardvisor_http R' ep"
    and "entries R' wf_resource (world n)" and "entries R wf_entry n" and k: "k \<noteq> []"
    and stored: "hget R (store n) ''allocations'' k = Some (JObj m)"
    and success: "map_of m ''status'' = Some (JStr ''success'')"
    and details: "map_of m ''hardware_details'' = Some (JList details)" and ks: "names_at ep details ks"
  shows "\<exists>n'. (services R W)\<^sup>*\<^sup>* ([task_of R W (OpHeartbeat (JObj [(''allocation_id'', JStr k)])), task_of R W (OpRelease k)], n)
        ([Done (Inr ()), Done (Inr ())], n')
    \<and> hget R (store n') ''allocations'' k = Some (JObj (AList.update ''expiration'' (JNum (clock W (world n) + 60)) m))
    \<and> (\<forall>x \<in> set ks. hv_held R' (world n') x = None)
    \<and> (\<forall>n1. entries R wf_entry n1 \<and> entries R' wf_resource (world n1)
        \<and> hget R (store n1) ''allocations'' k = hget R (store n') ''allocations'' k \<longrightarrow>
        (\<exists>n2. release R W (JStr k) n1 = (Inr (), n2) \<and> hv_held R' (world n2) = without (hv_held R' (world n1)) ks))"
proof -
  let ?T = "task_of R W (OpHeartbeat (JObj [(''allocation_id'', JStr k)]))" and ?U = "task_of R W (OpRelease k)"
    and ?m = "AList.update ''expiration'' (JNum (clock W (world n) + 60)) m"
  note frees = resource_manager.release_frees [OF redis_server.hardvisor_contract [OF R'] R W _ _ k _ _ ks]
  obtain g1 g2 where T: "?T = Await (\<lambda>n. n) g1" and g1: "g1 n = Await (\<lambda>n. n) g2"
    and g2: "g2 n = Await (\<lambda>s. s\<lparr>store := hset R (store s) ''allocations'' k (JObj ?m)\<rparr>) (\<lambda>_. Done (Inr ()))"
    using heartbeat_pieces [OF stored success] by blast
  obtain n1 where rel: "release R W (JStr k) n = (Inr (), n1)"
    and held: "hv_held R' (world n1) = without (hv_held R' (world n)) ks"
    using frees [OF assms(4,5) stored] details by auto
  let ?n = "n1\<lparr>store := hset R (store n1) ''allocations'' k (JObj ?m)\<rparr>"
  have "services R W ([?T, ?U], n) ([g1 n, ?U], n)" using advance_first [OF T, of _ _ "[?U]" n] .
  moreover have "services R W ([g1 n, ?U], n) ([g2 n, ?U], n)" using advance_first [OF g1, of _ _ "[?U]" n] .
  moreover have "(services R W)\<^sup>*\<^sup>* ([g2 n, ?U], n) ([g2 n, Done (Inr ())], n1)"
    using pool_run [of 1 "[g2 n, ?U]" ?U "service_task R W" world_moved n] release_task_run [OF rel] by simp
  moreover have "services R W ([g2 n, Done (Inr ())], n1) ([Done (Inr ()), Done (Inr ())], ?n)"
    using advance_first [OF g2, of _ _ "[Done (Inr ())]" n1] .
  ultimately have "(services R W)\<^sup>*\<^sup>* ([?T, ?U], n) ([Done (Inr ()), Done (Inr ())], ?n)"
    by (meson converse_rtranclp_into_rtranclp rtranclp.rtrancl_into_rtrancl)
  moreover have again: "hget R (store ?n) ''allocations'' k = Some (JObj ?m)" by (simp add: redis_server.hget_hset [OF R])
  moreover have "\<forall>x \<in> set ks. hv_held R' (world ?n) x = None" by (simp add: world_store held without_def)
  moreover have "\<exists>n4. release R W (JStr k) n3 = (Inr (), n4) \<and> hv_held R' (world n4) = without (hv_held R' (world n3)) ks"
    if "entries R wf_entry n3" "entries R' wf_resource (world n3)"
      "hget R (store n3) ''allocations'' k = hget R (store ?n) ''allocations'' k" for n3
  proof -
    from that(3) again have "hget R (store n3) ''allocations'' k = Some (JObj ?m)" by simp
    from frees [OF that(2,1) this] details show ?thesis by (auto simp: update_conv')
  qed
  ultimately show ?thesis by blast
qed

theorem late_heartbeat_revives_allocation_witness:
  "\<exists>n'. (services mem_redis (hardvisor_world mem_redis ''hv'' 5))\<^sup>*\<^sup>*
       ([task_of mem_redis (hardvisor_world mem_redis ''hv'' 5) (OpHeartbeat (JObj [(''allocation_id'', JStr ''a1'')])),
         task_of mem_redis (hardvisor_world mem_redis ''hv'' 5) (OpRelease ''a1'')], demo_node)
       ([Done (Inr ()), Done (Inr ())], n')
    \<and> hget mem_redis (store n') ''allocations'' ''a1'' \<noteq> None \<and> hv_held mem_redis (world n') ''m1'' = None"
proof -
  let ?W = "hardvisor_world mem_redis ''hv'' 5 :: (mem, unit) node world_ops"
  have W: "http ?W = hardvisor_http mem_redis ''hv''" by (simp add: hardvisor_world_def)
  have ok: "entries mem_redis wf_resource (world demo_node)" by (simp add: demo_node_def demo_hv_wf)
  let ?m = "[(''allocation_id'', JStr ''a1''), (''status'', JStr ''success''), (''expiration'', JNum 60),
     (''hardware_details'', JList [JObj [(''vm_id'', JStr ''m1''), (''resource_manager_ep'', JStr ''hv'')]])]"
  have a: "hget mem_redis (store demo_node) ''allocations'' ''a1'' = Some (JObj ?m)" by (simp add: demo_node_def mem_run)
  have ks: "names_at ''hv'' [JObj [(''vm_id'', JStr ''m1''), (''resource_manager_ep'', JStr ''hv'')]] [''m1'']"
    by (simp add: names_at_def url_segment_def)
  from late_heartbeat_revives_allocation [OF mem_redis.redis_server_axioms mem_redis.redis_server_axioms W ok demo_node_wf _ a _ _ ks]
  show ?thesis by auto
qed

section \<open>A pass that looked too early\<close>

text \<open>The rest of a pass that has read one allocation, in status success: what it does when the record it
  read is due by now, whatever is stored by now.\<close>

definition pass_rest :: "'s redis_ops \<Rightarrow> 'w world_ops \<Rightarrow> string \<Rightarrow> json dict \<Rightarrow> (('s, 'w) node, unit) task" where
  "pass_rest R W k m = silent (t_try
     (t_bind (t_expire_scan R W [(k, JObj m)] []) (\<lambda>(tasks, r).
      case r of
        Inl e \<Rightarrow> t_then (t_gather tasks (\<lambda>t. t_expire_deallocate W (snd t))) (t_raise e)
      | Inr _ \<Rightarrow> t_for tasks (t_finish_task R W)))
     (\<lambda>_. t_return ()))"

lemma pass_pieces:
  assumes "hgetall R (store n) ''allocations'' = [(k, JObj m)]"
  shows "\<exists>g. task_of R W OpExpirePass = Await (\<lambda>n. n) g \<and> g n = pass_rest R W k m"
  using assms
  by (simp add: pass_rest_def t_expire_pass_def t_allocations_def allocations_def silent_def t_then_def t_lift_def t_atomic_def
      r_hgetall_def py_gets_def py_bind_def py_return_def jobj_def)

lemma heartbeat_task_run:
  assumes "hget R (store n) ''allocations'' k = Some (JObj m)" and "map_of m ''status'' = Some (JStr ''success'')"
  shows "run (task_of R W (OpHeartbeat (JObj [(''allocation_id'', JStr k)]))) n = (Inr (), n\<lparr>store := hset R (store n) ''allocations'' k
      (JObj (AList.update ''expiration'' (JNum (clock W (world n) + 60)) m))\<rparr>)"
  by (simp add: silent_def task_run heartbeat_success [OF assms] py_then_def py_bind_def py_return_def)

lemma pass_rest_run:
  assumes "map_of m ''status'' = Some (JStr ''success'')" and "map_of m ''allocation_id'' = Some (JStr k)"
    and "map_of m ''expiration'' = Some (JNum q)" and "q \<le> clock W (world n)"
    and finish: "finish_task R W (k, JObj (AList.update ''status'' (JStr ''deallocating'') m))
      (n\<lparr>store := hset R (store n) ''allocations'' k (JObj (AList.update ''status'' (JStr ''deallocating'') m))\<rparr>) = (Inr (), n')"
  shows "run (pass_rest R W k m) n = (Inr (), n')"
  using assms
  by (simp add: pass_rest_def silent_def task_run expire_one_def expire_due_def regular_statuses_def jnum_def py_defs)

text \<open>C6. A pass of the expiry task works on the records it read at its beginning: a heartbeat that comes after
  that, before the expiration, is answered with success and stored, and the pass takes the machines of the
  allocation back and deletes it all the same, once the old expiration has passed while it was busy, although
  the minute the heartbeat bought is not over.\<close>

theorem stale_pass_ignores_heartbeat:
  assumes R: "redis_server R" and R': "redis_server R'" and W: "http W = hardvisor_http R' ep"
    and one: "hgetall R (store n) ''allocations'' = [(k, JObj m)]"
    and m: "map_of m ''status'' = Some (JStr ''success'')" "map_of m ''allocation_id'' = Some (JStr k)"
      "map_of m ''expiration'' = Some (JNum q)" "map_of m ''hardware_details'' = Some (JList details)"
    and ks: "names_at ep details ks" and "entries R' wf_resource w"
    and "clock W (world n) < q" and late: "q \<le> clock W w" and "clock W w < clock W (world n) + 60"
  shows "\<exists>n1 n'. (services R W)\<^sup>*\<^sup>* ([task_of R W OpExpirePass, task_of R W (OpHeartbeat (JObj [(''allocation_id'', JStr k)]))], n)
        ([pass_rest R W k m, Done (Inr ())], n1)
    \<and> hget R (store n1) ''allocations'' k = Some (JObj (AList.update ''expiration'' (JNum (clock W (world n) + 60)) m))
    \<and> (services R W)\<^sup>*\<^sup>* ([pass_rest R W k m, Done (Inr ())], n1) ([Done (Inr ()), Done (Inr ())], n')
    \<and> hget R (store n') ''allocations'' k = None
    \<and> hv_held R' (world n') = without (hv_held R' w) ks"
proof -
  let ?P = "task_of R W OpExpirePass" and ?H = "task_of R W (OpHeartbeat (JObj [(''allocation_id'', JStr k)]))"
  let ?m = "AList.update ''expiration'' (JNum (clock W (world n) + 60)) m" and ?d = "AList.update ''status'' (JStr ''deallocating'') m"
  let ?n1 = "n\<lparr>store := hset R (store n) ''allocations'' k (JObj ?m)\<rparr>"
  let ?n2 = "?n1\<lparr>world := w\<rparr>"
  let ?n3 = "?n2\<lparr>store := hset R (store ?n2) ''allocations'' k (JObj ?d)\<rparr>"
  have stored: "hget R (store n) ''allocations'' k = Some (JObj m)"
    using redis_server.hgetall_hget [OF R, of "store n" "''allocations''" k] one by simp
  obtain g where P: "?P = Await (\<lambda>n. n) g" and g: "g n = pass_rest R W k m" using pass_pieces [OF one] by blast
  have w2: "world ?n2 = w" and w3: "world ?n3 = w" by (simp_all add: world_store)
  have d: "fld (JObj ?d) ''hardware_details'' = Some (JList details)" using m(4) by (simp add: update_conv')
  obtain n' where fin: "finish_task R W (k, JObj ?d) ?n3 = (Inr (), n')"
    and held: "hv_held R' (world n') = without (hv_held R' w) ks" and gone: "hget R (store n') ''allocations'' k = None"
    using resource_manager.finish_task_frees [OF redis_server.hardvisor_contract [OF R'] R W, of ?n3 "JObj ?d" details ks k] d ks assms(10)
    unfolding w3 by blast
  have late2: "q \<le> clock W (world ?n2)" unfolding w2 by (rule late)
  have rest: "run (pass_rest R W k m) ?n2 = (Inr (), n')" by (rule pass_rest_run [OF m(1-3) late2 fin])
  have "services R W ([?P, ?H], n) ([pass_rest R W k m, ?H], n)" using advance_first [OF P, of _ _ "[?H]" n] unfolding g .
  moreover have "(services R W)\<^sup>*\<^sup>* ([pass_rest R W k m, ?H], n) ([pass_rest R W k m, Done (Inr ())], ?n1)"
    using pool_run [of 1 "[pass_rest R W k m, ?H]" ?H "service_task R W" world_moved n] heartbeat_task_run [OF stored m(1)] by simp
  ultimately have "(services R W)\<^sup>*\<^sup>* ([?P, ?H], n) ([pass_rest R W k m, Done (Inr ())], ?n1)"
    by (rule converse_rtranclp_into_rtranclp)
  moreover have "services R W ([pass_rest R W k m, Done (Inr ())], ?n1) ([pass_rest R W k m, Done (Inr ())], ?n2)"
    by (intro move) (auto simp: world_moved_def)
  then have "(services R W)\<^sup>*\<^sup>* ([pass_rest R W k m, Done (Inr ())], ?n1) ([Done (Inr ()), Done (Inr ())], n')"
    using pool_run [of 0 "[pass_rest R W k m, Done (Inr ())]" "pass_rest R W k m" "service_task R W" world_moved ?n2] rest
    by (auto intro: converse_rtranclp_into_rtranclp)
  moreover have "hget R (store ?n1) ''allocations'' k = Some (JObj ?m)" by (simp add: redis_server.hget_hset [OF R])
  ultimately show ?thesis using held gone by blast
qed

definition ticking_world :: "(mem, rat) node world_ops" where
  "ticking_world = \<lparr>http = hardvisor_http mem_redis ''hv'', clock = world, uuid4 = (\<lambda>w. (''6f1a'', w)), sleep = (\<lambda>_ w. w)\<rparr>"

definition lab_at :: "rat \<Rightarrow> (mem, rat) node" where
  "lab_at t = at_time t [(''resources'', [(''m1'', demo_hw ''in_use'')])]"

definition demo_lease :: "json dict" where
  "demo_lease = [(''allocation_id'', JStr ''a1''), (''status'', JStr ''success''), (''expiration'', JNum 60),
     (''hardware_details'', JList [JObj [(''vm_id'', JStr ''m1''), (''resource_manager_ep'', JStr ''hv'')]])]"

definition leased_node :: "(mem, (mem, rat) node) node" where
  "leased_node = \<lparr>store = \<lparr>hashes = [(''allocations'', [(''a1'', JObj demo_lease)])], published = []\<rparr>, world = lab_at 50\<rparr>"

theorem stale_pass_ignores_heartbeat_witness:
  "\<exists>n'. (services mem_redis ticking_world)\<^sup>*\<^sup>* ([task_of mem_redis ticking_world OpExpirePass,
        task_of mem_redis ticking_world (OpHeartbeat (JObj [(''allocation_id'', JStr ''a1'')]))], leased_node)
      ([Done (Inr ()), Done (Inr ())], n')
    \<and> hget mem_redis (store n') ''allocations'' ''a1'' = None \<and> hv_held mem_redis (world n') ''m1'' = None"
proof -
  have W: "http ticking_world = hardvisor_http mem_redis ''hv''" by (simp add: ticking_world_def)
  have ok: "entries mem_redis wf_resource (lab_at 65)"
    by (auto simp: entries_mem lab_at_def wf_resource_def wf_machine_def demo_hw_def split: if_splits)
  have one: "hgetall mem_redis (store leased_node) ''allocations'' = [(''a1'', JObj demo_lease)]"
    by (simp add: leased_node_def mem_run)
  have m: "map_of demo_lease ''status'' = Some (JStr ''success'')" "map_of demo_lease ''allocation_id'' = Some (JStr ''a1'')"
    "map_of demo_lease ''expiration'' = Some (JNum 60)"
    "map_of demo_lease ''hardware_details'' = Some (JList [JObj [(''vm_id'', JStr ''m1''), (''resource_manager_ep'', JStr ''hv'')]])"
    by (simp_all add: demo_lease_def)
  have ks: "names_at ''hv'' [JObj [(''vm_id'', JStr ''m1''), (''resource_manager_ep'', JStr ''hv'')]] [''m1'']"
    by (simp add: names_at_def url_segment_def)
  have t: "clock ticking_world (world leased_node) = 50" "clock ticking_world (lab_at 65) = 65"
    by (simp_all add: ticking_world_def leased_node_def lab_at_def)
  have before: "clock ticking_world (world leased_node) < 60" and late: "60 \<le> clock ticking_world (lab_at 65)"
    and within: "clock ticking_world (lab_at 65) < clock ticking_world (world leased_node) + 60" by (simp_all add: t)
  from stale_pass_ignores_heartbeat [OF mem_redis.redis_server_axioms mem_redis.redis_server_axioms W one m ks ok before late within]
  obtain n1 n' where "(services mem_redis ticking_world)\<^sup>*\<^sup>* ([task_of mem_redis ticking_world OpExpirePass,
        task_of mem_redis ticking_world (OpHeartbeat (JObj [(''allocation_id'', JStr ''a1'')]))], leased_node)
      ([pass_rest mem_redis ticking_world ''a1'' demo_lease, Done (Inr ())], n1)"
    and "(services mem_redis ticking_world)\<^sup>*\<^sup>* ([pass_rest mem_redis ticking_world ''a1'' demo_lease, Done (Inr ())], n1)
      ([Done (Inr ()), Done (Inr ())], n')"
    and "hget mem_redis (store n') ''allocations'' ''a1'' = None"
    and "hv_held mem_redis (world n') = without (hv_held mem_redis (lab_at 65)) [''m1'']" by blast
  then show ?thesis by (intro exI [of _ n']) (auto simp: without_def)
qed

end
