(* ===== verification/Rental.thy ===== *)
theory Rental
  imports Inventory_Properties
begin

text \<open>
  The allocate service and the physical-machine manager together, from the request to the release: the
  manager's answers have the form the service reads, so a rental is a round trip.
\<close>

section \<open>The answers of the manager\<close>

text \<open>What the tasks of a gather returned: one result per argument.\<close>

lemma py_gather_results:
  "py_gather xs f n = (Inr rs, n') \<Longrightarrow> list_all2 (\<lambda>x r. \<exists>n n'. f x n = (r, n')) xs rs"
  by (induction xs arbitrary: n rs) (auto simp: py_bind_def py_return_def split: prod.splits sum.splits)

lemma first_error_InrD: "first_error rs = Inr ys \<Longrightarrow> rs = map Inr ys"
  by (induction rs arbitrary: ys rule: first_error.induct) (auto simp: res_bind_def split: sum.splits)

lemma gather_raise_results:
  assumes "gather_raise xs f n = (Inr ys, n')" and "y \<in> set ys"
  shows "\<exists>x \<in> set xs. \<exists>n n'. f x n = (Inr y, n')"
proof -
  from assms(1) obtain rs where "py_gather xs f n = (Inr rs, n')" and "rs = map Inr ys"
    by (auto simp: gather_raise_def py_bind_def py_lift_def dest!: first_error_InrD split: prod.splits sum.splits)
  with assms(2) py_gather_results show ?thesis
    by (fastforce simp: list_all2_conv_all_nth in_set_conv_nth)
qed

lemma check_allocate_host: "check_allocate R d n = (Inr (h, ok), n') \<Longrightarrow> fld d ''host'' = Some h"
  by (auto simp: check_allocate_def py_defs dest!: jitem_InrD split: sum.splits prod.splits)

lemma hw_check_hosts:
  assumes "hw_check_fulfill R req n = (Inr (200, b), n')" and "fld b ''machines'' = Some (JList hosts)"
    and "h \<in> set hosts"
  shows "hashable h"
proof -
  from assms obtain ds possibles n1 where parse: "parse_requirements req = Inr ds"
    and run: "gather_raise ds (check_allocate R) n = (Inr possibles, n1)" and "hosts = map fst (filter snd possibles)"
    by (auto simp: hw_check_fulfill_def py_bind_def py_lift_def py_return_def Let_def split: prod.splits sum.splits if_splits)
  with assms(3) obtain ok where "(h, ok) \<in> set possibles" by auto
  from gather_raise_results [OF run this] obtain d where "d \<in> set ds" "fld d ''host'' = Some h"
    by (auto dest: check_allocate_host)
  with parse_requirements_demands [OF parse] show ?thesis
    by (auto simp: list_all2_conv_all_nth in_set_conv_nth demand_for_def)
qed

lemma reserved_detail:
  assumes "wf_machine k (JObj m)" and "map_of rm ''endpoint'' = Some ep"
  shows "\<exists>d. hardware_detail (keyed_rm rk rm) (reserved aid rq m) = Inr d \<and> fld d ''vm_id'' = Some (JStr k)"
  using assms
  by (auto simp: wf_machine_def hardware_detail_def reserved_def keyed_rm_def jitem_Inr_iff jfirst_def jget_def
      map_of_dict_update update_conv' split: option.splits)

lemma res_collect_ok:
  "\<forall>x \<in> set xs. \<exists>y. f x = Inr y \<Longrightarrow> \<exists>ys. res_collect xs f = Inr ys"
  by (induction xs) auto

context redis_server
begin

lemma fulfilled_details:
  assumes wf: "entries R wf_resource n" and run: "hw_fulfill R req n = (Inr (200, result), n')"
    and ep: "map_of rm ''endpoint'' = Some ep"
  shows "\<exists>details. hardware_of (keyed_rm rk rm) result = Inr details
    \<and> (\<forall>d \<in> set details. \<exists>k. fld d ''vm_id'' = Some (JStr k) \<and> hget R (store n) ''resources'' k \<noteq> None)"
proof -
  from hw_fulfill_outcome [OF wf run] obtain ds infos g where
    res: "result = JObj [(''status'', JStr ''Success''), (''info'', JList infos)]"
    and g: "granted R (store n) (store n') g" and infos: "infos = map (\<lambda>(k, m, r). r) g" by auto
  have each: "\<exists>d k. hardware_detail (keyed_rm rk rm) i = Inr d \<and> fld d ''vm_id'' = Some (JStr k)
      \<and> hget R (store n) ''resources'' k \<noteq> None" if "i \<in> set infos" for i
  proof -
    from that infos obtain k m where "(k, m, i) \<in> set g" by auto
    with g obtain aid rq where i: "i = reserved aid rq m" and "hget R (store n) ''resources'' k = Some (JObj m)"
      by (auto simp: granted_def)
    moreover from this wf have "wf_machine k (JObj m)" by (simp add: entries_def wf_resource_def)
    ultimately show ?thesis using reserved_detail [OF _ ep] by blast
  qed
  then have "\<forall>i \<in> set infos. \<exists>d. hardware_detail (keyed_rm rk rm) i = Inr d" by (meson)
  from res_collect_ok [OF this] obtain details where
    details: "res_collect infos (hardware_detail (keyed_rm rk rm)) = Inr details" by (rule exE)
  moreover have "\<exists>k. fld d ''vm_id'' = Some (JStr k) \<and> hget R (store n) ''resources'' k \<noteq> None" if "d \<in> set details" for d
  proof -
    from res_collect_in [OF details that] obtain i where "i \<in> set infos" "hardware_detail (keyed_rm rk rm) i = Inr d" by blast
    with each [of i] show ?thesis by auto
  qed
  moreover have "hardware_of (keyed_rm rk rm) result = res_collect infos (hardware_detail (keyed_rm rk rm))"
    by (simp add: hardware_of_def res res_bind_def)
  ultimately show ?thesis by auto
qed

end

section \<open>A rental is a round trip\<close>

lemma hardvisor_200:
  "hardvisor_http R ep n \<lparr>req_verb = POST, req_url = theoretically_url ep, req_body = b\<rparr> = (HReply 200 c, n')
    \<Longrightarrow> hw_check_fulfill R b n = (Inr (200, c), n') \<and> n' = n"
  "hardvisor_http R ep n \<lparr>req_verb = POST, req_url = now_url ep, req_body = b\<rparr> = (HReply 200 c, n')
    \<Longrightarrow> hw_fulfill R b n = (Inr (200, c), n')"
  using hw_check_fulfill_pure [of R b n]
  by (auto simp: hardvisor_http_def serve_def split: prod.splits sum.splits)

text \<open>C2. A rental of physical machines is a round trip.  When hardvisor accepts the demands of a new
  request and reserves machines for them, the allocate service answers with a record in status success
  whose details name machines that were held by nobody and are held for the request now; releasing the
  record succeeds and leaves every machine held as it was before the request and the service's store as it
  was.  Names of machines must fit into a segment of a URL.\<close>

theorem rented_machines_come_back:
  assumes "redis_server R" and R': "redis_server R'" and "http W = hardvisor_http R' ep"
    and "entries R' wf_resource w0" and names: "\<forall>x. hget R' (store w0) ''resources'' x \<noteq> None \<longrightarrow> url_segment x"
    and "entries R wf_entry n" and "map_of m ''allocation_id'' = Some (JStr k)" and "k \<noteq> []"
    and "map_of m ''demands'' = Some (JObj demands)" and "hget R (store n) ''allocations'' k = None"
    and "hgetall R (store n) ''resource_managers'' = [(rk, JObj rm)]" and "map_of rm ''endpoint'' = Some (JStr ep)"
    and "uuid4 W (world n) = (u, w0)"
    and "saved = saved_record m (clock W w0)" and "allocating = allocating_record saved (JStr ep)"
    and check: "hardvisor_http R' ep w0 \<lparr>req_verb = POST, req_url = theoretically_url ep, req_body = JObj saved\<rparr> = (HReply 200 b, w1)"
    and hosts: "fld b ''machines'' = Some (JList hosts)" and "length (remdups hosts) = length demands"
    and now: "hardvisor_http R' ep w1 \<lparr>req_verb = POST, req_url = now_url ep, req_body = restricted allocating demands hosts\<rparr>
      = (HReply 200 result, w2)"
  shows "\<exists>a details n1 n2. fulfill R W (JObj m) n = (Inr a, n1) \<and> fld a ''status'' = Some (JStr ''success'')
    \<and> fld a ''hardware_details'' = Some (JList details) \<and> world n1 = w2
    \<and> (\<forall>d \<in> set details. \<exists>x. fld d ''vm_id'' = Some (JStr x) \<and> hv_held R' w0 x = None \<and> hv_held R' w2 x = Some (JStr k))
    \<and> release R W (JStr k) n1 = (Inr (), n2) \<and> hv_held R' (world n2) = hv_held R' w0
    \<and> (\<forall>h k'. hget R (store n2) h k' = hget R (store n) h k')"
proof -
  have chk: "hw_check_fulfill R' (JObj saved) w0 = (Inr (200, b), w1)" and w1: "w1 = w0"
    using hardvisor_200(1) [OF check] by simp_all
  have hash: "\<forall>h \<in> set hosts. hashable h" using hw_check_hosts [OF chk hosts] by blast
  obtain details where details: "hardware_of (keyed_rm rk rm) result = Inr details"
    and known: "\<forall>d \<in> set details. \<exists>x. fld d ''vm_id'' = Some (JStr x) \<and> hget R' (store w0) ''resources'' x \<noteq> None"
    using redis_server.fulfilled_details [OF R' assms(4) hardvisor_200(2) [OF now [unfolded w1]] assms(12)] by blast
  have seg: "\<forall>d \<in> set details. \<forall>x. fld d ''vm_id'' = Some (JStr x) \<longrightarrow> url_segment x"
    using known names by fastforce
  from resource_manager.rental [OF redis_server.hardvisor_contract [OF R'] assms(1,3,4,6-15) check hosts hash assms(18) now details seg]
  show ?thesis by blast
qed

definition rental_node :: "(mem, (mem, unit) node) node" where
  "rental_node = \<lparr>store = \<lparr>hashes = [(''resource_managers'', [(''hv1'', JObj [(''alias'', JStr ''hv1''),
     (''endpoint'', JStr ''hv'')])])], published = []\<rparr>, world = demo_hv ''available''\<rparr>"

lemma rental_node_wf: "entries mem_redis wf_entry rental_node"
  by (auto simp: entries_mem rental_node_def wf_entry_def split: if_splits)

definition rental_saved :: "json dict" where
  "rental_saved = saved_record demo_request 5"

definition rental_taken :: "(mem, unit) node" where
  "rental_taken = \<lparr>store = \<lparr>hashes = [(''resources'', [(''m1'', demo_hw_taken)])], published = []\<rparr>, world = ()\<rparr>"

lemma rental_check_run:
  "hardvisor_http mem_redis ''hv'' (demo_hv ''available'')
     \<lparr>req_verb = POST, req_url = theoretically_url ''hv'', req_body = JObj rental_saved\<rparr>
   = (HReply 200 (JObj [(''status'', JStr ''Success''), (''machines'', JList [JStr ''host''])]), demo_hv ''available'')"
  by (simp add: hardvisor_http_def serve_def hw_check_fulfill_def parse_requirements_def rental_saved_def saved_record_def
      demo_request_def parse_machine_def pop_req_def gather_raise_def check_allocate_def hardvisor_defs demo_hv_def mem_run
      fulfills_reqs_def demo_hw_def py_defs Let_def)

lemma rental_fulfill_run:
  "hardvisor_http mem_redis ''hv'' (demo_hv ''available'') \<lparr>req_verb = POST, req_url = now_url ''hv'',
      req_body = restricted (allocating_record rental_saved (JStr ''hv'')) [(''host'', JObj [])] [JStr ''host'']\<rparr>
   = (HReply 200 (JObj [(''status'', JStr ''Success''), (''info'', JList [demo_hw_taken])]), rental_taken)"
  by (simp add: hardvisor_http_def serve_def hw_fulfill_def parse_requirements_def restricted_def allocating_record_def
      rental_saved_def saved_record_def rental_taken_def
      demo_request_def parse_machine_def pop_req_def gather_raise_def hardvisor_defs demo_hv_def mem_run mem_put_def
      fulfills_reqs_def demo_hw_def demo_hw_taken_def py_defs Let_def)

theorem rented_machines_come_back_witness:
  "\<exists>a details n1 n2. fulfill mem_redis (hardvisor_world mem_redis ''hv'' 5) (JObj demo_request) rental_node = (Inr a, n1)
    \<and> fld a ''hardware_details'' = Some (JList details) \<and> hv_held mem_redis (world n1) ''m1'' = Some (JStr ''a1'')
    \<and> release mem_redis (hardvisor_world mem_redis ''hv'' 5) (JStr ''a1'') n1 = (Inr (), n2)
    \<and> hv_held mem_redis (world n2) ''m1'' = None"
proof -
  let ?W = "hardvisor_world mem_redis ''hv'' 5 :: (mem, unit) node world_ops" and ?w = "demo_hv ''available''"
  note mem = mem_redis.redis_server_axioms
  have W: "http ?W = hardvisor_http mem_redis ''hv''" and u: "uuid4 ?W (world rental_node) = (''6f1a'', ?w)"
    and saved: "rental_saved = saved_record demo_request (clock ?W ?w)"
    by (simp_all add: hardvisor_world_def rental_node_def rental_saved_def)
  have wf: "entries mem_redis wf_resource ?w" by (simp add: demo_hv_wf)
  have names: "\<forall>x. hget mem_redis (store ?w) ''resources'' x \<noteq> None \<longrightarrow> url_segment x"
    by (simp add: demo_hv_def mem_run url_segment_def)
  have req: "map_of demo_request ''allocation_id'' = Some (JStr ''a1'')"
    "map_of demo_request ''demands'' = Some (JObj [(''host'', JObj [])])" by (simp_all add: demo_request_def)
  have new: "hget mem_redis (store rental_node) ''allocations'' ''a1'' = None"
    and rms: "hgetall mem_redis (store rental_node) ''resource_managers''
      = [(''hv1'', JObj [(''alias'', JStr ''hv1''), (''endpoint'', JStr ''hv'')])]"
    by (simp_all add: rental_node_def mem_run)
  have ep: "map_of [(''alias'', JStr ''hv1''), (''endpoint'', JStr ''hv'')] ''endpoint'' = Some (JStr ''hv'')" by simp
  have hosts: "fld (JObj [(''status'', JStr ''Success''), (''machines'', JList [JStr ''host''])]) ''machines'' = Some (JList [JStr ''host''])"
    "length (remdups [JStr ''host'']) = length [(''host'', JObj [])]" by simp_all
  have "hv_held mem_redis rental_taken ''m1'' = Some (JStr ''a1'')" "hv_held mem_redis ?w ''m1'' = None"
    by (simp_all add: hv_held_def rental_taken_def demo_hv_def mem_run demo_hw_def demo_hw_taken_def is_free_def opt_def)
  with rented_machines_come_back [OF mem mem W wf names rental_node_wf req(1) _ req(2) new rms ep u saved refl rental_check_run hosts
      rental_fulfill_run] show ?thesis by fastforce
qed

end
