(* ===== verification/Duplicate_Requests.thy ===== *)
theory Duplicate_Requests
  imports Rental Interleaved_Properties
begin

text \<open>
  Two requests with one identifier, as a client makes them that repeats a request it got no answer for.  A
  request that comes after the other is answered with the stored record; one that looks for the record before
  the other has stored it is served as well, and its record replaces the other's.
\<close>

section \<open>A request in pieces\<close>

lemma moved_world: "store (n\<lparr>world := w\<rparr>) = store n" "world (n\<lparr>world := w\<rparr>) = w"
  by simp_all

abbreviation fulfilments :: "'s redis_ops \<Rightarrow> 'w world_ops \<Rightarrow> (('s, 'w) node, json) task list \<times> ('s, 'w) node \<Rightarrow>
    (('s, 'w) node, json) task list \<times> ('s, 'w) node \<Rightarrow> bool" where
  "fulfilments R W \<equiv> pool_step (\<lambda>t. \<exists>req. t = t_fulfill R W req) world_moved"

lemma fulfill_pieces:
  assumes "map_of m ''allocation_id'' = Some (JStr k)" and "k \<noteq> []" and "hget R (store n) ''allocations'' k = None"
    and "uuid4 W (world n) = (u, w)"
  shows "\<exists>f g1 g2. t_fulfill R W (JObj m) = Await f g1 \<and> f n = n\<lparr>world := w\<rparr> \<and> g1 n = Await (\<lambda>n. n) g2
    \<and> g2 (n\<lparr>world := w\<rparr>) = t_serve_request R W (JStr k) (JObj m)"
  using assms
  by (simp add: t_fulfill_def t_allocations_def allocations_eq t_atomic_def t_lift_def w_uuid4_def allocations_def py_defs)

section \<open>Hardvisor serves a request\<close>

text \<open>Hardvisor accepts the demands of a request that is saved at time \<open>t\<close>, and reserves machines for them.\<close>

definition grants :: "'s redis_ops \<Rightarrow> string \<Rightarrow> json dict \<Rightarrow> json dict \<Rightarrow> rat \<Rightarrow> ('s, 'w) node \<Rightarrow> json \<Rightarrow> ('s, 'w) node \<Rightarrow> bool" where
  "grants R ep m demands t w result w' \<longleftrightarrow> (\<exists>b hosts.
     hardvisor_http R ep w \<lparr>req_verb = POST, req_url = theoretically_url ep, req_body = JObj (saved_record m t)\<rparr> = (HReply 200 b, w)
     \<and> fld b ''machines'' = Some (JList hosts) \<and> length (remdups hosts) = length demands
     \<and> hardvisor_http R ep w \<lparr>req_verb = POST, req_url = now_url ep,
          req_body = restricted (allocating_record (saved_record m t) (JStr ep)) demands hosts\<rparr> = (HReply 200 result, w'))"

lemma granted_keys: "granted R s s' g \<Longrightarrow> hget R s' ''resources'' k = None \<longleftrightarrow> hget R s ''resources'' k = None"
  by (cases "k \<in> fst ` set g") (force simp: granted_def)+

context redis_server
begin

lemma fulfilled_keys:
  assumes "entries R wf_resource n" and "hw_fulfill R req n = (Inr (200, result), n')"
  shows "hget R (store n') ''resources'' k = None \<longleftrightarrow> hget R (store n) ''resources'' k = None"
  using hw_fulfill_outcome [OF assms] granted_keys by fastforce

end

lemma grants_serves:
  fixes n :: "('s, ('t, 'w) node) node"
  assumes R: "redis_server R" and R': "redis_server R'" and W: "http W = hardvisor_http R' ep"
    and wf': "entries R' wf_resource w" and names: "\<forall>x. hget R' (store w) ''resources'' x \<noteq> None \<longrightarrow> url_segment x"
    and wf: "entries R wf_entry n" and k: "map_of m ''allocation_id'' = Some (JStr k)" "k \<noteq> []"
    and demands: "map_of m ''demands'' = Some (JObj demands)"
    and rms: "hgetall R (store n) ''resource_managers'' = [(rk, JObj rm)]" and ep: "map_of rm ''endpoint'' = Some (JStr ep)"
    and w: "world n = w" and grants: "grants R' ep m demands (clock W w) w result w'"
  shows "\<exists>a n1 details ks. serve_request R W (JStr k) (JObj m) n = (Inr a, n1) \<and> fld a ''status'' = Some (JStr ''success'')
    \<and> fld a ''hardware_details'' = Some (JList details) \<and> world n1 = w' \<and> entries R' wf_resource w' \<and> entries R wf_entry n1
    \<and> hget R (store n1) ''allocations'' k = Some a
    \<and> (\<forall>h k'. (h, k') \<noteq> (''allocations'', k) \<longrightarrow> hget R (store n1) h k' = hget R (store n) h k')
    \<and> names_at ep details ks \<and> (\<forall>x \<in> set ks. hv_held R' w x = None \<and> hv_held R' w' x = Some (JStr k))
    \<and> (\<forall>x. x \<notin> set ks \<longrightarrow> hv_held R' w' x = hv_held R' w x)
    \<and> (\<forall>x. hget R' (store w') ''resources'' x \<noteq> None \<longrightarrow> url_segment x)
    \<and> (\<exists>infos. fld result ''info'' = Some (JList infos) \<and> length details = length infos)"
proof -
  from grants obtain b hosts where
    check: "hardvisor_http R' ep w \<lparr>req_verb = POST, req_url = theoretically_url ep, req_body = JObj (saved_record m (clock W w))\<rparr> = (HReply 200 b, w)"
    and hosts: "fld b ''machines'' = Some (JList hosts)" and len: "length (remdups hosts) = length demands"
    and now: "hardvisor_http R' ep w \<lparr>req_verb = POST, req_url = now_url ep,
        req_body = restricted (allocating_record (saved_record m (clock W w)) (JStr ep)) demands hosts\<rparr> = (HReply 200 result, w')"
    by (auto simp: grants_def)
  have hash: "\<forall>h \<in> set hosts. hashable h" using hw_check_hosts [OF conjunct1 [OF hardvisor_200(1) [OF check]] hosts] by blast
  note run = hardvisor_200(2) [OF now]
  obtain details where details: "hardware_of (keyed_rm rk rm) result = Inr details"
    and known: "\<forall>d \<in> set details. \<exists>x. fld d ''vm_id'' = Some (JStr x) \<and> hget R' (store w) ''resources'' x \<noteq> None"
    using redis_server.fulfilled_details [OF R' wf' run ep] by blast
  have seg: "\<forall>d \<in> set details. \<forall>x. fld d ''vm_id'' = Some (JStr x) \<longrightarrow> url_segment x" using known names by fastforce
  have "\<forall>x. hget R' (store w') ''resources'' x \<noteq> None \<longrightarrow> url_segment x"
    using names redis_server.fulfilled_keys [OF R' wf' run] by (metis (no_types))
  moreover have "\<exists>infos. fld result ''info'' = Some (JList infos) \<and> length details = length infos"
    using redis_server.fulfilled_held [OF R' wf' run] details
    by (auto simp: hardware_of_def res_bind_def jitem_Inr_iff dest!: res_collect_length)
  ultimately show ?thesis
    using resource_manager.serve_rental [OF redis_server.hardvisor_contract [OF R'] R W wf' wf k demands rms ep w refl refl check hosts hash len now details seg]
    by (elim exE conjE) (intro exI conjI, assumption+)
qed

section \<open>Both are served\<close>

text \<open>C7. A client that repeats a request with its identifier can get two lots of machines: when the second
  request looks for the record before the first has stored it, hardvisor serves both, both are answered with
  success, and the record that remains names the machines of one of them only.  Releasing the allocation
  removes that record, and the machines of the other answer stay held for an identifier nobody knows.\<close>

theorem duplicate_request_leaks_machines:
  assumes R: "redis_server R" and R': "redis_server R'" and W: "http W = hardvisor_http R' ep"
    and wf': "entries R' wf_resource w0" and names: "\<forall>x. hget R' (store w0) ''resources'' x \<noteq> None \<longrightarrow> url_segment x"
    and wf: "entries R wf_entry n" and k: "map_of m ''allocation_id'' = Some (JStr k)" "k \<noteq> []"
    and demands: "map_of m ''demands'' = Some (JObj demands)" and new: "hget R (store n) ''allocations'' k = None"
    and rms: "hgetall R (store n) ''resource_managers'' = [(rk, JObj rm)]" and ep: "map_of rm ''endpoint'' = Some (JStr ep)"
    and uuids: "uuid4 W (world n) = (u, w)" "uuid4 W w = (u', w0)"
    and first: "grants R' ep m demands (clock W w0) w0 result w1" and second: "grants R' ep m demands (clock W w1) w1 result' w2"
  shows "\<exists>a a' details details' ks ks' n2 n3. (fulfilments R W)\<^sup>*\<^sup>* ([t_fulfill R W (JObj m), t_fulfill R W (JObj m)], n)
        ([Done (Inr a'), Done (Inr a)], n2)
    \<and> fld a ''status'' = Some (JStr ''success'') \<and> fld a ''hardware_details'' = Some (JList details) \<and> names_at ep details ks
    \<and> fld a' ''status'' = Some (JStr ''success'') \<and> fld a' ''hardware_details'' = Some (JList details') \<and> names_at ep details' ks'
    \<and> (\<exists>infos. fld result ''info'' = Some (JList infos) \<and> length ks = length infos)
    \<and> set ks \<inter> set ks' = {} \<and> hget R (store n2) ''allocations'' k = Some a'
    \<and> release R W (JStr k) n2 = (Inr (), n3) \<and> hget R (store n3) ''allocations'' k = None
    \<and> (\<forall>x \<in> set ks. hv_held R' (world n3) x = Some (JStr k))"
proof -
  let ?T = "t_fulfill R W (JObj m)" and ?S = "t_serve_request R W (JStr k) (JObj m)" and ?n = "n\<lparr>world := w\<rparr>" and ?na = "n\<lparr>world := w0\<rparr>"
  obtain f g1 g2 where T: "?T = Await f g1" and f: "f n = ?n" and g1: "g1 n = Await (\<lambda>n. n) g2" and g2: "g2 ?n = ?S"
    using fulfill_pieces [OF k new uuids(1)] by blast
  have n0: "entries R wf_entry ?na" "hgetall R (store ?na) ''resource_managers'' = [(rk, JObj rm)]" "world ?na = w0"
    using wf rms unfolding entries_def moved_world by simp_all
  obtain a n1 details ks where one: "serve_request R W (JStr k) (JObj m) ?na = (Inr a, n1)" "fld a ''status'' = Some (JStr ''success'')"
      "fld a ''hardware_details'' = Some (JList details)" "world n1 = w1" "entries R' wf_resource w1" "entries R wf_entry n1"
    and same: "\<forall>h k'. (h, k') \<noteq> (''allocations'', k) \<longrightarrow> hget R (store n1) h k' = hget R (store ?na) h k'"
    and ks: "names_at ep details ks" "\<forall>x \<in> set ks. hv_held R' w0 x = None \<and> hv_held R' w1 x = Some (JStr k)"
    and size: "\<exists>infos. fld result ''info'' = Some (JList infos) \<and> length details = length infos"
    and names1: "\<forall>x. hget R' (store w1) ''resources'' x \<noteq> None \<longrightarrow> url_segment x"
    using grants_serves [OF R R' W wf' names n0(1) k demands n0(2) ep n0(3) first] by (elim exE conjE) (rule that, (assumption | rule exI conjI)+)
  have rms1: "hgetall R (store n1) ''resource_managers'' = [(rk, JObj rm)]"
    by (rule redis_server.hgetall_singleton [OF R rms]) (use same in \<open>simp add: moved_world del: node.simps\<close>)
  obtain a' n2 details' ks' where two: "serve_request R W (JStr k) (JObj m) n1 = (Inr a', n2)" "fld a' ''status'' = Some (JStr ''success'')"
      "fld a' ''hardware_details'' = Some (JList details')" "world n2 = w2" "entries R' wf_resource w2" "entries R wf_entry n2"
      "hget R (store n2) ''allocations'' k = Some a'"
    and ks': "names_at ep details' ks'" "\<forall>x \<in> set ks'. hv_held R' w1 x = None \<and> hv_held R' w2 x = Some (JStr k)"
      "\<forall>x. x \<notin> set ks' \<longrightarrow> hv_held R' w2 x = hv_held R' w1 x"
    using grants_serves [OF R R' W one(5) names1 one(6) k demands rms1 ep one(4) second] by blast
  have len: "\<exists>infos. fld result ''info'' = Some (JList infos) \<and> length ks = length infos"
    using size list_all2_lengthD [OF ks(1) [unfolded names_at_def]] by simp
  have disjoint: "set ks \<inter> set ks' = {}" using ks(2) ks'(2) by fastforce
  obtain n3 where rel: "release R W (JStr k) n2 = (Inr (), n3)" and held: "hv_held R' (world n3) = without (hv_held R' w2) ks'"
    and gone: "hget R (store n3) ''allocations'' k = None"
    using resource_manager.release_frees [OF redis_server.hardvisor_contract [OF R'] R W _ two(6) k(2) two(7,3) ks'(1)] two(4,5) by auto
  have left: "hv_held R' (world n3) x = Some (JStr k)" if "x \<in> set ks" for x
  proof -
    from that disjoint have "x \<notin> set ks'" by blast
    with that ks(2) ks'(3) show ?thesis by (simp add: held without_def)
  qed
  have "run ?T ?n = (Inr a, n1)"
    using one(1) redis_server.fulfill_new [OF R k, of ?n W u' w0] new uuids(2) by (simp add: run_fulfill moved_world)
  then have run1: "(fulfilments R W)\<^sup>*\<^sup>* ([?S, ?T], ?n) ([?S, Done (Inr a)], n1)"
    using pool_run [of 1 "[?S, ?T]" ?T "\<lambda>t. \<exists>req. t = t_fulfill R W req" world_moved ?n] by simp
  have run2: "(fulfilments R W)\<^sup>*\<^sup>* ([?S, Done (Inr a)], n1) ([Done (Inr a'), Done (Inr a)], n2)"
    using pool_run [of 0 "[?S, Done (Inr a)]" ?S "\<lambda>t. \<exists>req. t = t_fulfill R W req" world_moved n1] two(1) by (simp add: run_serve_request)
  have step1: "fulfilments R W ([?T, ?T], n) ([g1 n, ?T], ?n)" using advance_first [OF T, of _ _ "[?T]" n] unfolding f .
  have step2: "fulfilments R W ([g1 n, ?T], ?n) ([?S, ?T], ?n)" using advance_first [OF g1, of _ _ "[?T]" ?n] unfolding g2 .
  from converse_rtranclp_into_rtranclp [OF step1 converse_rtranclp_into_rtranclp [OF step2 rtranclp_trans [OF run1 run2]]]
    one(2,3) ks(1) two(2,3,7) ks'(1) len disjoint rel gone left
  show ?thesis by blast
qed

section \<open>A run\<close>

definition demo_hw_named :: "string \<Rightarrow> string \<Rightarrow> json" where
  "demo_hw_named name st = JObj [(''name'', JStr name), (''arch'', JStr ''x86_64''), (''ip'', JStr ''10.0.0.7''),
     (''password'', JStr ''pw''), (''net_ifaces'', JList []), (''status'', JStr st)]"

definition demo_taken :: "string \<Rightarrow> json" where
  "demo_taken name = JObj [(''name'', JStr name), (''arch'', JStr ''x86_64''), (''ip'', JStr ''10.0.0.7''),
     (''password'', JStr ''pw''), (''net_ifaces'', JList [JObj [(''ip'', JStr ''10.0.0.7'')]]),
     (''status'', JStr ''in_use''), (''allocation_id'', JStr ''a1''), (''requestor'', JStr ''me'')]"

definition two_machines :: "json \<Rightarrow> json \<Rightarrow> (mem, unit) node" where
  "two_machines a b = \<lparr>store = \<lparr>hashes = [(''resources'', [(''m1'', a), (''m2'', b)])], published = []\<rparr>, world = ()\<rparr>"

abbreviation "demo_free name \<equiv> demo_hw_named name ''available''"

lemma two_machines_wf: "entries mem_redis wf_resource (two_machines (demo_free ''m1'') (demo_free ''m2''))"
  by (auto simp: entries_mem two_machines_def wf_resource_def wf_machine_def demo_hw_named_def split: if_splits)

lemma demo_grants:
  "grants mem_redis ''hv'' demo_request [(''host'', JObj [])] 5 (two_machines (demo_free ''m1'') (demo_free ''m2''))
     (JObj [(''status'', JStr ''Success''), (''info'', JList [demo_taken ''m1''])]) (two_machines (demo_taken ''m1'') (demo_free ''m2''))"
  "grants mem_redis ''hv'' demo_request [(''host'', JObj [])] 5 (two_machines (demo_taken ''m1'') (demo_free ''m2''))
     (JObj [(''status'', JStr ''Success''), (''info'', JList [demo_taken ''m2''])]) (two_machines (demo_taken ''m1'') (demo_taken ''m2''))"
  unfolding grants_def
  by (rule exI [of _ "JObj [(''status'', JStr ''Success''), (''machines'', JList [JStr ''host''])]"], rule exI [of _ "[JStr ''host'']"],
      simp add: hardvisor_http_def serve_def hw_check_fulfill_def hw_fulfill_def parse_requirements_def restricted_def
      allocating_record_def saved_record_def demo_request_def parse_machine_def pop_req_def gather_raise_def check_allocate_def
      hardvisor_defs two_machines_def mem_run mem_put_def fulfills_reqs_def demo_hw_named_def demo_taken_def py_defs Let_def)+

definition two_machine_node :: "(mem, (mem, unit) node) node" where
  "two_machine_node = rental_node\<lparr>world := two_machines (demo_free ''m1'') (demo_free ''m2'')\<rparr>"

theorem duplicate_request_leaks_machines_witness:
  "\<exists>a a' n2 n3 x. (fulfilments mem_redis (hardvisor_world mem_redis ''hv'' 5))\<^sup>*\<^sup>*
       ([t_fulfill mem_redis (hardvisor_world mem_redis ''hv'' 5) (JObj demo_request),
         t_fulfill mem_redis (hardvisor_world mem_redis ''hv'' 5) (JObj demo_request)], two_machine_node)
       ([Done (Inr a'), Done (Inr a)], n2)
    \<and> release mem_redis (hardvisor_world mem_redis ''hv'' 5) (JStr ''a1'') n2 = (Inr (), n3)
    \<and> hget mem_redis (store n3) ''allocations'' ''a1'' = None \<and> hv_held mem_redis (world n3) x = Some (JStr ''a1'')"
proof -
  let ?W = "hardvisor_world mem_redis ''hv'' 5 :: (mem, unit) node world_ops" and ?w = "two_machines (demo_free ''m1'') (demo_free ''m2'')"
  note mem = mem_redis.redis_server_axioms
  have W: "http ?W = hardvisor_http mem_redis ''hv''" and u: "uuid4 ?W (world two_machine_node) = (''6f1a'', ?w)" "uuid4 ?W ?w = (''6f1a'', ?w)"
    by (simp_all add: hardvisor_world_def two_machine_node_def moved_world)
  have c: "clock ?W w = 5" for w by (simp add: hardvisor_world_def)
  have names: "\<forall>x. hget mem_redis (store ?w) ''resources'' x \<noteq> None \<longrightarrow> url_segment x"
    by (simp add: two_machines_def mem_run url_segment_def)
  have wf: "entries mem_redis wf_entry two_machine_node" using rental_node_wf by (auto simp: entries_def two_machine_node_def rental_node_def)
  have req: "map_of demo_request ''allocation_id'' = Some (JStr ''a1'')" "map_of demo_request ''demands'' = Some (JObj [(''host'', JObj [])])"
    by (simp_all add: demo_request_def)
  have new: "hget mem_redis (store two_machine_node) ''allocations'' ''a1'' = None"
    and rms: "hgetall mem_redis (store two_machine_node) ''resource_managers'' = [(''hv1'', JObj [(''alias'', JStr ''hv1''), (''endpoint'', JStr ''hv'')])]"
    by (simp_all add: two_machine_node_def rental_node_def mem_run)
  have ep: "map_of [(''alias'', JStr ''hv1''), (''endpoint'', JStr ''hv'')] ''endpoint'' = Some (JStr ''hv'')" by simp
  have "grants mem_redis ''hv'' demo_request [(''host'', JObj [])] (clock ?W ?w) ?w
      (JObj [(''status'', JStr ''Success''), (''info'', JList [demo_taken ''m1''])]) (two_machines (demo_taken ''m1'') (demo_free ''m2''))"
    and "grants mem_redis ''hv'' demo_request [(''host'', JObj [])] (clock ?W (two_machines (demo_taken ''m1'') (demo_free ''m2'')))
      (two_machines (demo_taken ''m1'') (demo_free ''m2''))
      (JObj [(''status'', JStr ''Success''), (''info'', JList [demo_taken ''m2''])]) (two_machines (demo_taken ''m1'') (demo_taken ''m2''))"
    unfolding c by (rule demo_grants)+
  from duplicate_request_leaks_machines [OF mem mem W two_machines_wf names wf req(1) _ req(2) new rms ep u this]
  obtain a a' n2 n3 ks where run: "(fulfilments mem_redis ?W)\<^sup>*\<^sup>* ([t_fulfill mem_redis ?W (JObj demo_request), t_fulfill mem_redis ?W (JObj demo_request)],
      two_machine_node) ([Done (Inr a'), Done (Inr a)], n2)" "release mem_redis ?W (JStr ''a1'') n2 = (Inr (), n3)"
      "hget mem_redis (store n3) ''allocations'' ''a1'' = None"
    and ks: "length ks = length [demo_taken ''m1'']" "\<forall>x \<in> set ks. hv_held mem_redis (world n3) x = Some (JStr ''a1'')"
    by auto
  from ks obtain x where "hv_held mem_redis (world n3) x = Some (JStr ''a1'')" by (cases ks) auto
  with run show ?thesis by blast
qed

end
