(* ===== verification/Locked_Tasks.thy ===== *)
theory Locked_Tasks
  imports Tasks
begin

text \<open>
  Coroutines that share a lock.  A task of \<open>Tasks\<close> in which some stretches run under \<open>async with lock\<close>: other
  tasks take their pieces in between, but none can enter such a stretch before it is left.  \<open>l_run\<close> runs a
  task in one go, \<open>lock_step\<close> the tasks of a pool in any order.  \<open>guar\<close> is what a task guarantees to the others
  and relies on: a piece outside the lock changes the state as \<open>F\<close> allows, a piece under the lock as \<open>H\<close>
  allows, and what it knows of the state there is stable, since all the others can do meanwhile is \<open>F\<close>.
\<close>

named_theorems l_task_run

section \<open>Tasks with a lock\<close>

datatype ('s, 'a) ltask = Ended "'a res" | Piece "'s \<Rightarrow> 's" "'s \<Rightarrow> ('s, 'a) ltask"
  | Acquire "('s, 'a) ltask" | Unlock "('s, 'a) ltask"

primrec l_of :: "('s, 'a) task \<Rightarrow> ('s, 'a) ltask" where
  "l_of (Done r) = Ended r"
| "l_of (Await f g) = Piece f (\<lambda>s. l_of (g s))"

primrec l_bind :: "('s, 'a) ltask \<Rightarrow> ('a \<Rightarrow> ('s, 'b) ltask) \<Rightarrow> ('s, 'b) ltask" where
  "l_bind (Ended r) k = (case r of Inl e \<Rightarrow> Ended (Inl e) | Inr x \<Rightarrow> k x)"
| "l_bind (Piece f g) k = Piece f (\<lambda>s. l_bind (g s) k)"
| "l_bind (Acquire t) k = Acquire (l_bind t k)"
| "l_bind (Unlock t) k = Unlock (l_bind t k)"

primrec l_attempt :: "('s, 'a) ltask \<Rightarrow> ('s, 'a res) ltask" where
  "l_attempt (Ended r) = Ended (Inr r)"
| "l_attempt (Piece f g) = Piece f (\<lambda>s. l_attempt (g s))"
| "l_attempt (Acquire t) = Acquire (l_attempt t)"
| "l_attempt (Unlock t) = Unlock (l_attempt t)"

fun l_gather :: "'a list \<Rightarrow> ('a \<Rightarrow> ('s, 'b) ltask) \<Rightarrow> ('s, 'b res list) ltask" where
  "l_gather [] f = Ended (Inr [])"
| "l_gather (x # xs) f = l_bind (l_attempt (f x)) (\<lambda>r. l_bind (l_gather xs f) (\<lambda>rs. Ended (Inr (r # rs))))"

text \<open>\<open>async with lock\<close>: the lock is given back at the end of the body, also when it raises.\<close>

primrec unlock_at_end :: "('s, 'a) task \<Rightarrow> ('s, 'a) ltask" where
  "unlock_at_end (Done r) = Unlock (Ended r)"
| "unlock_at_end (Await f g) = Piece f (\<lambda>s. unlock_at_end (g s))"

definition l_locked :: "('s, 'a) task \<Rightarrow> ('s, 'a) ltask" where
  "l_locked t = Acquire (unlock_at_end t)"

section \<open>Running a task in one go\<close>

primrec l_run :: "('s, 'a) ltask \<Rightarrow> ('s, 'a) py" where
  "l_run (Ended r) = (\<lambda>s. (r, s))"
| "l_run (Piece f g) = (\<lambda>s. l_run (g s) (f s))"
| "l_run (Acquire t) = l_run t"
| "l_run (Unlock t) = l_run t"

lemma l_run_of [l_task_run]: "l_run (l_of t) = run t"
  by (induction t) (simp_all add: fun_eq_iff)

lemma l_run_locked [l_task_run]: "l_run (l_locked t) = run t"
proof -
  have "l_run (unlock_at_end t) = run t" by (induction t) (simp_all add: fun_eq_iff)
  then show ?thesis by (simp add: l_locked_def)
qed

lemma l_run_bind [l_task_run]: "l_run (l_bind t k) = py_bind (l_run t) (\<lambda>x. l_run (k x))"
  by (induction t) (auto simp: py_bind_def fun_eq_iff split: sum.splits)

lemma l_run_attempt [l_task_run]: "l_run (l_attempt t) = py_attempt (l_run t)"
  by (induction t) (auto simp: py_attempt_def fun_eq_iff)

lemma l_run_gather [l_task_run]: "l_run (l_gather xs f) = py_gather xs (\<lambda>x. l_run (f x))"
  by (induction xs) (simp_all add: l_task_run py_bind_def py_attempt_def py_return_def fun_eq_iff split: prod.split)

section \<open>Pools of tasks\<close>

text \<open>The lock is held by the task of some index, or by nobody.\<close>

inductive lock_step :: "(('s, 'a) ltask \<Rightarrow> bool) \<Rightarrow> ('s \<Rightarrow> 's \<Rightarrow> bool) \<Rightarrow>
    ('s, 'a) ltask list \<times> nat option \<times> 's \<Rightarrow> ('s, 'a) ltask list \<times> nat option \<times> 's \<Rightarrow> bool"
  for allowed :: "('s, 'a) ltask \<Rightarrow> bool" and moves :: "'s \<Rightarrow> 's \<Rightarrow> bool" where
  l_piece: "i < length ts \<Longrightarrow> ts ! i = Piece f g \<Longrightarrow> lock_step allowed moves (ts, h, s) (ts[i := g s], h, f s)"
| l_acquire: "i < length ts \<Longrightarrow> ts ! i = Acquire t \<Longrightarrow> lock_step allowed moves (ts, None, s) (ts[i := t], Some i, s)"
| l_unlock: "i < length ts \<Longrightarrow> ts ! i = Unlock t \<Longrightarrow> lock_step allowed moves (ts, Some i, s) (ts[i := t], None, s)"
| l_spawn: "allowed t \<Longrightarrow> lock_step allowed moves (ts, h, s) (ts @ [t], h, s)"
| l_move: "moves s s' \<Longrightarrow> lock_step allowed moves (ts, h, s) (ts, h, s')"

section \<open>What tasks guarantee and rely on\<close>

definition stable_under :: "('s \<Rightarrow> bool) \<Rightarrow> ('s \<Rightarrow> 's \<Rightarrow> bool) \<Rightarrow> ('s \<Rightarrow> bool) \<Rightarrow> bool" where
  "stable_under I F P \<longleftrightarrow> (\<forall>s s'. I s \<and> F s s' \<and> P s \<longrightarrow> P s')"

text \<open>The last arguments are what a task knows under the lock (\<open>None\<close> outside), and what it promises of its
  result.\<close>

primrec guar :: "('s \<Rightarrow> bool) \<Rightarrow> ('s \<Rightarrow> 's \<Rightarrow> bool) \<Rightarrow> ('s \<Rightarrow> 's \<Rightarrow> bool) \<Rightarrow> ('s, 'a) ltask \<Rightarrow> ('s \<Rightarrow> bool) option
    \<Rightarrow> ('a \<Rightarrow> bool) \<Rightarrow> bool" where
  "guar I F H (Ended r) K Q \<longleftrightarrow> K = None \<and> (case r of Inl _ \<Rightarrow> True | Inr x \<Rightarrow> Q x)"
| "guar I F H (Piece f g) K Q \<longleftrightarrow> (case K of
     None \<Rightarrow> \<forall>s. I s \<longrightarrow> I (f s) \<and> F s (f s) \<and> guar I F H (g s) None Q
   | Some P \<Rightarrow> \<forall>s. I s \<and> P s \<longrightarrow> I (f s) \<and> H s (f s)
       \<and> (\<exists>P'. P' (f s) \<and> stable_under I F P' \<and> guar I F H (g s) (Some P') Q))"
| "guar I F H (Acquire t) K Q \<longleftrightarrow> K = None \<and> guar I F H t (Some (\<lambda>_. True)) Q"
| "guar I F H (Unlock t) K Q \<longleftrightarrow> K \<noteq> None \<and> guar I F H t None Q"

lemma guar_Piece_None: "guar I F H (Piece f g) None Q \<longleftrightarrow> (\<forall>s. I s \<longrightarrow> I (f s) \<and> F s (f s) \<and> guar I F H (g s) None Q)"
  by simp

lemma guar_Piece_Some: "guar I F H (Piece f g) (Some P) Q \<longleftrightarrow> (\<forall>s. I s \<and> P s \<longrightarrow> I (f s) \<and> H s (f s)
    \<and> (\<exists>P'. P' (f s) \<and> stable_under I F P' \<and> guar I F H (g s) (Some P') Q))"
  by simp

text \<open>A task that differs from another only behind its pieces guarantees the same.\<close>

lemma guar_Piece_mono:
  assumes "guar I F H (Piece f g) K Q" and "\<And>s K. guar I F H (g s) K Q \<Longrightarrow> guar I F H (g' s) K Q'"
  shows "guar I F H (Piece f g') K Q'"
proof (cases K)
  case None
  with assms show ?thesis unfolding None guar_Piece_None by blast
next
  case (Some P)
  with assms show ?thesis unfolding Some guar_Piece_Some by blast
qed

lemma guar_bind:
  assumes "guar I F H t K Q" and "\<And>x. Q x \<Longrightarrow> guar I F H (k x) None Q'"
  shows "guar I F H (l_bind t k) K Q'"
  using assms(1)
proof (induction t arbitrary: K)
  case (Ended r)
  with assms(2) show ?case by (simp split: sum.splits)
next
  case (Piece f g)
  have "guar I F H (Piece f (\<lambda>s. l_bind (g s) k)) K Q'"
    by (rule guar_Piece_mono [OF Piece.prems]) (rule Piece.IH [OF rangeI])
  then show ?case by (simp only: l_bind.simps)
qed simp_all

lemma guar_if: "(b \<Longrightarrow> guar I F H t K Q) \<Longrightarrow> (\<not> b \<Longrightarrow> guar I F H u K Q) \<Longrightarrow> guar I F H (if b then t else u) K Q"
  by simp

text \<open>Of a result that may be an exception.\<close>

definition if_returned :: "('a \<Rightarrow> bool) \<Rightarrow> 'a res \<Rightarrow> bool" where
  "if_returned Q r \<longleftrightarrow> (case r of Inl _ \<Rightarrow> True | Inr x \<Rightarrow> Q x)"

lemma guar_attempt: "guar I F H t K Q \<Longrightarrow> guar I F H (l_attempt t) K (if_returned Q)"
proof (induction t arbitrary: K)
  case (Piece f g)
  have "guar I F H (Piece f (\<lambda>s. l_attempt (g s))) K (if_returned Q)"
    by (rule guar_Piece_mono [OF Piece.prems]) (rule Piece.IH [OF rangeI])
  then show ?case by (simp only: l_attempt.simps)
qed (simp_all add: if_returned_def)

lemma guar_gather:
  "(\<And>x. x \<in> set xs \<Longrightarrow> guar I F H (f x) None Q) \<Longrightarrow> guar I F H (l_gather xs f) None (\<lambda>rs. \<forall>r \<in> set rs. if_returned Q r)"
proof (induction xs)
  case (Cons x xs)
  have "guar I F H (l_gather xs f) None (\<lambda>rs. \<forall>r \<in> set rs. if_returned Q r)" using Cons by simp
  then have "guar I F H (l_bind (l_gather xs f) (\<lambda>rs. Ended (Inr (r # rs)))) None (\<lambda>rs. \<forall>r \<in> set rs. if_returned Q r)"
    if "if_returned Q r" for r
    by (rule guar_bind) (use that in simp)
  with guar_attempt [OF Cons.prems, of x] show ?case by (simp add: guar_bind)
qed simp

lemma first_error_returned: "first_error rs = Inr xs \<Longrightarrow> \<forall>r \<in> set rs. if_returned Q r \<Longrightarrow> \<forall>x \<in> set xs. Q x"
  by (induction rs arbitrary: xs rule: first_error.induct)
    (auto simp: if_returned_def res_bind_def split: sum.splits)

text \<open>Outside the lock a task guarantees \<open>F\<close> when each of its pieces does.\<close>

primrec t_guar :: "('s \<Rightarrow> bool) \<Rightarrow> ('s \<Rightarrow> 's \<Rightarrow> bool) \<Rightarrow> ('s, 'a) task \<Rightarrow> ('a \<Rightarrow> bool) \<Rightarrow> bool" where
  "t_guar I F (Done r) Q \<longleftrightarrow> if_returned Q r"
| "t_guar I F (Await f g) Q \<longleftrightarrow> (\<forall>s. I s \<longrightarrow> I (f s) \<and> F s (f s) \<and> t_guar I F (g s) Q)"

lemma guar_of: "t_guar I F t Q \<Longrightarrow> guar I F H (l_of t) None Q"
  by (induction t) (auto simp: if_returned_def)

lemma t_guar_bind: "t_guar I F t Q \<Longrightarrow> (\<And>x. Q x \<Longrightarrow> t_guar I F (k x) Q') \<Longrightarrow> t_guar I F (t_bind t k) Q'"
  by (induction t) (auto simp: if_returned_def split: sum.splits)

lemma t_guar_then: "t_guar I F t (\<lambda>_. True) \<Longrightarrow> t_guar I F u Q \<Longrightarrow> t_guar I F (t_then t u) Q"
  unfolding t_then_def by (rule t_guar_bind)

lemma t_guar_attempt: "t_guar I F t Q \<Longrightarrow> t_guar I F (t_attempt t) (if_returned Q)"
  by (induction t) (auto simp: if_returned_def)

lemma t_guar_lift: "(\<And>x. r = Inr x \<Longrightarrow> Q x) \<Longrightarrow> t_guar I F (t_lift r) Q"
  by (simp add: t_lift_def if_returned_def split: sum.split)

lemma t_guar_return: "Q x \<Longrightarrow> t_guar I F (t_return x) Q"
  by (simp add: t_return_def if_returned_def)

lemma t_guar_atomic: "(\<And>s. I s \<Longrightarrow> I (snd (m s)) \<and> F s (snd (m s)) \<and> if_returned Q (fst (m s))) \<Longrightarrow> t_guar I F (t_atomic m) Q"
  by (simp add: t_atomic_def)

lemma t_guar_for: "(\<And>x. x \<in> set xs \<Longrightarrow> t_guar I F (f x) (\<lambda>_. True)) \<Longrightarrow> t_guar I F (t_for xs f) (\<lambda>_. True)"
  by (induction xs) (auto intro: t_guar_then simp: t_guar_return)

lemma t_guar_gather:
  "(\<And>x. x \<in> set xs \<Longrightarrow> t_guar I F (f x) Q) \<Longrightarrow> t_guar I F (t_gather xs f) (\<lambda>rs. \<forall>r \<in> set rs. if_returned Q r)"
proof (induction xs)
  case (Cons x xs)
  have "t_guar I F (t_gather xs f) (\<lambda>rs. \<forall>r \<in> set rs. if_returned Q r)" using Cons by simp
  then have "t_guar I F (t_bind (t_gather xs f) (\<lambda>rs. t_return (r # rs))) (\<lambda>rs. \<forall>r \<in> set rs. if_returned Q r)"
    if "if_returned Q r" for r
    by (rule t_guar_bind) (use that in \<open>simp add: t_guar_return\<close>)
  with t_guar_attempt [OF Cons.prems, of x] show ?case by (simp add: t_guar_bind)
qed (simp add: t_guar_return)

lemma t_guar_if: "(b \<Longrightarrow> t_guar I F t Q) \<Longrightarrow> (\<not> b \<Longrightarrow> t_guar I F u Q) \<Longrightarrow> t_guar I F (if b then t else u) Q"
  by simp

section \<open>The invariant of a pool\<close>

definition lock_inv :: "('s \<Rightarrow> bool) \<Rightarrow> ('s \<Rightarrow> 's \<Rightarrow> bool) \<Rightarrow> ('s \<Rightarrow> 's \<Rightarrow> bool) \<Rightarrow>
    ('s, 'a) ltask list \<times> nat option \<times> 's \<Rightarrow> bool" where
  "lock_inv I F H c \<longleftrightarrow> (case c of (ts, h, s) \<Rightarrow> I s
     \<and> (\<forall>i < length ts. h \<noteq> Some i \<longrightarrow> guar I F H (ts ! i) None (\<lambda>_. True))
     \<and> (\<forall>i. h = Some i \<longrightarrow> i < length ts \<and> (\<exists>P. P s \<and> stable_under I F P \<and> guar I F H (ts ! i) (Some P) (\<lambda>_. True))))"

lemma lock_invI:
  assumes "I s" and "\<And>j. j < length ts \<Longrightarrow> h \<noteq> Some j \<Longrightarrow> guar I F H (ts ! j) None (\<lambda>_. True)"
    and "\<And>j. h = Some j \<Longrightarrow> j < length ts \<and> (\<exists>P. P s \<and> stable_under I F P \<and> guar I F H (ts ! j) (Some P) (\<lambda>_. True))"
  shows "lock_inv I F H (ts, h, s)"
  using assms unfolding lock_inv_def by blast

lemma lock_invD:
  assumes "lock_inv I F H (ts, h, s)"
  shows "I s" and "j < length ts \<Longrightarrow> h \<noteq> Some j \<Longrightarrow> guar I F H (ts ! j) None (\<lambda>_. True)"
    and "h = Some j \<Longrightarrow> j < length ts \<and> (\<exists>P. P s \<and> stable_under I F P \<and> guar I F H (ts ! j) (Some P) (\<lambda>_. True))"
  using assms unfolding lock_inv_def by blast+

text \<open>What is known under the lock survives a step of the others.\<close>

lemma lock_inv_other:
  assumes inv: "lock_inv I F H (ts, h, s)" and "I s'" and "F s s'"
  shows "lock_inv I F H (ts, h, s')"
proof (rule lock_invI)
  fix j assume "h = Some j"
  from lock_invD(3) [OF inv this] lock_invD(1) [OF inv] assms(3)
  show "j < length ts \<and> (\<exists>P. P s' \<and> stable_under I F P \<and> guar I F H (ts ! j) (Some P) (\<lambda>_. True))"
    unfolding stable_under_def by blast
qed (use assms(2) lock_invD [OF inv] in blast)+

lemma lock_inv_update:
  assumes inv: "lock_inv I F H (ts, h, s)" and "h \<noteq> Some i" and "guar I F H t None (\<lambda>_. True)"
  shows "lock_inv I F H (ts[i := t], h, s)"
proof (rule lock_invI)
  fix j assume "h = Some j"
  with assms(2) lock_invD(3) [OF inv this] show "j < length (ts[i := t])
      \<and> (\<exists>P. P s \<and> stable_under I F P \<and> guar I F H (ts[i := t] ! j) (Some P) (\<lambda>_. True))" by auto
next
  fix j assume "j < length (ts[i := t])" and "h \<noteq> Some j"
  with assms(3) lock_invD(2) [OF inv, of j] show "guar I F H (ts[i := t] ! j) None (\<lambda>_. True)" by (cases "j = i") simp_all
qed (use lock_invD(1) [OF inv] in simp)

text \<open>A step changes the state as the guarantees allow, and keeps the invariant.\<close>

theorem lock_step_guarantee:
  assumes "lock_step allowed moves (ts, h, s) (ts', h', s')" and inv: "lock_inv I F H (ts, h, s)"
    and allowed: "\<And>t. allowed t \<Longrightarrow> guar I F H t None (\<lambda>_. True)"
    and moves: "\<And>s s'. moves s s' \<Longrightarrow> I s \<Longrightarrow> I s' \<and> F s s'" and refl: "\<And>s. F s s"
  shows "lock_inv I F H (ts', h', s') \<and> (F s s' \<or> H s s')"
  using assms(1)
proof (cases rule: lock_step.cases)
  case (l_piece i f g)
  show ?thesis
  proof (cases "h = Some i")
    case True
    from lock_invD(3) [OF inv True] l_piece(5) obtain P where "P s" "guar I F H (Piece f g) (Some P) (\<lambda>_. True)" by auto
    then have new: "I (f s)" "H s (f s)" "\<exists>P'. P' (f s) \<and> stable_under I F P' \<and> guar I F H (g s) (Some P') (\<lambda>_. True)"
      using lock_invD(1) [OF inv] unfolding guar_Piece_Some by blast+
    have "lock_inv I F H (ts[i := g s], h, f s)"
      by (rule lock_invI) (use new True l_piece(4) lock_invD(2) [OF inv] in \<open>auto simp: nth_list_update\<close>)
    with new l_piece show ?thesis by simp
  next
    case False
    from lock_invD(1) [OF inv] lock_invD(2) [OF inv l_piece(4) False] l_piece(5)
    have new: "I (f s)" "F s (f s)" "guar I F H (g s) None (\<lambda>_. True)" by auto
    from lock_inv_update [OF lock_inv_other [OF inv new(1,2)] False new(3)] l_piece new show ?thesis by simp
  qed
next
  case (l_acquire i t)
  from inv l_acquire have inv': "lock_inv I F H (ts, None, s)" by simp
  from lock_invD(2) [OF inv' l_acquire(5)] l_acquire(6) have t: "guar I F H t (Some (\<lambda>_. True)) (\<lambda>_. True)" by simp
  have "lock_inv I F H (ts[i := t], Some i, s)"
  proof (rule lock_invI)
    fix j assume "Some i = Some j"
    moreover have "stable_under I F (\<lambda>_. True)" by (simp add: stable_under_def)
    ultimately show "j < length (ts[i := t])
        \<and> (\<exists>P. P s \<and> stable_under I F P \<and> guar I F H (ts[i := t] ! j) (Some P) (\<lambda>_. True))"
      using t l_acquire(5) by (intro conjI exI [of _ "\<lambda>_. True"]) simp_all
  next
    fix j assume "j < length (ts[i := t])" and "Some i \<noteq> Some j"
    with lock_invD(2) [OF inv', of j] show "guar I F H (ts[i := t] ! j) None (\<lambda>_. True)" by simp
  qed (use lock_invD(1) [OF inv'] in simp)
  with refl l_acquire show ?thesis by simp
next
  case (l_unlock i t)
  from inv l_unlock have inv': "lock_inv I F H (ts, Some i, s)" by simp
  from lock_invD(3) [OF inv', of i] l_unlock(6) have t: "guar I F H t None (\<lambda>_. True)" by auto
  have "lock_inv I F H (ts[i := t], None, s)"
  proof (rule lock_invI)
    fix j assume "j < length (ts[i := t])" and "None \<noteq> Some j"
    with t lock_invD(2) [OF inv', of j] show "guar I F H (ts[i := t] ! j) None (\<lambda>_. True)" by (cases "j = i") simp_all
  qed (use lock_invD(1) [OF inv'] in simp_all)
  with refl l_unlock show ?thesis by simp
next
  case (l_spawn t)
  have "lock_inv I F H (ts @ [t], h, s)"
    by (rule lock_invI) (use lock_invD [OF inv] allowed [OF l_spawn(4)] in \<open>fastforce simp: nth_append\<close>)+
  with refl l_spawn show ?thesis by simp
next
  case l_move
  from moves [OF l_move(3) lock_invD(1) [OF inv]] have "I s'" "F s s'" by simp_all
  with lock_inv_other [OF inv] l_move show ?thesis by simp
qed

theorem lock_inv_reachable:
  assumes "(lock_step allowed moves)\<^sup>*\<^sup>* c c'" and "lock_inv I F H c"
    and "\<And>t. allowed t \<Longrightarrow> guar I F H t None (\<lambda>_. True)"
    and "\<And>s s'. moves s s' \<Longrightarrow> I s \<Longrightarrow> I s' \<and> F s s'" and "\<And>s. F s s"
  shows "lock_inv I F H c'"
  using assms(1,2)
proof (induction rule: rtranclp_induct)
  case (step c d)
  then show ?case
    by (cases c; cases d) (use lock_step_guarantee [OF _ _ assms(3-5)] in blast)
qed

text \<open>A task can be run to its end without the others while nobody holds the lock.\<close>

lemma lock_pool_run:
  assumes "i < length ts" and "ts ! i = t" and "guar I F H t K (\<lambda>_. True)" and "h = (if K = None then None else Some i)"
    and "I s" and "\<And>P. K = Some P \<Longrightarrow> P s"
  shows "(lock_step allowed moves)\<^sup>*\<^sup>* (ts, h, s) (ts[i := Ended (fst (l_run t s))], None, snd (l_run t s))"
  using assms
proof (induction t arbitrary: ts s h K)
  case (Ended r)
  then show ?case by (metis fst_conv guar.simps(1) l_run.simps(1) list_update_id rtranclp.rtrancl_refl snd_conv)
next
  case (Piece f g)
  let ?ts = "ts[i := g s]"
  have one: "lock_step allowed moves (ts, h, s) (?ts, h, f s)" using Piece.prems(1,2) by (rule l_piece)
  have i: "i < length ?ts" "?ts ! i = g s" using Piece.prems(1) by simp_all
  have rest: "(lock_step allowed moves)\<^sup>*\<^sup>* (?ts, h, f s) (?ts[i := Ended (fst (l_run (g s) (f s)))], None, snd (l_run (g s) (f s)))"
  proof (cases K)
    case None
    with Piece.prems have "guar I F H (g s) None (\<lambda>_. True)" "I (f s)" "h = None" by auto
    with Piece.IH [OF rangeI i, of None h] show ?thesis by simp
  next
    case (Some P)
    with Piece.prems obtain P' where "guar I F H (g s) (Some P') (\<lambda>_. True)" "I (f s)" "P' (f s)" "h = Some i" by auto
    with Piece.IH [OF rangeI i, of "Some P'" h] show ?thesis by simp
  qed
  from converse_rtranclp_into_rtranclp [OF one rest] show ?case by simp
next
  case (Acquire t)
  let ?ts = "ts[i := t]"
  have one: "lock_step allowed moves (ts, h, s) (?ts, Some i, s)" using Acquire.prems by (auto intro: l_acquire)
  have "(lock_step allowed moves)\<^sup>*\<^sup>* (?ts, Some i, s) (?ts[i := Ended (fst (l_run t s))], None, snd (l_run t s))"
    using Acquire.prems by (intro Acquire.IH [where K = "Some (\<lambda>_. True)"]) auto
  from converse_rtranclp_into_rtranclp [OF one this] show ?case by simp
next
  case (Unlock t)
  let ?ts = "ts[i := t]"
  have one: "lock_step allowed moves (ts, h, s) (?ts, None, s)" using Unlock.prems by (auto intro: l_unlock)
  have "(lock_step allowed moves)\<^sup>*\<^sup>* (?ts, None, s) (?ts[i := Ended (fst (l_run t s))], None, snd (l_run t s))"
    using Unlock.prems by (intro Unlock.IH [where K = None]) auto
  from converse_rtranclp_into_rtranclp [OF one this] show ?case by simp
qed

text \<open>From a configuration that keeps the invariant all tasks can be run to their ends: the one that holds the
  lock first, and then one after the other.\<close>

lemma lock_pool_prefix:
  assumes allowed: "\<And>t. allowed t \<Longrightarrow> guar I F H t None (\<lambda>_. True)"
    and moves: "\<And>s s'. moves s s' \<Longrightarrow> I s \<Longrightarrow> I s' \<and> F s s'" and refl: "\<And>s. F s s"
    and "lock_inv I F H (ts, None, s)" and "j \<le> length ts"
  shows "\<exists>ts' s'. (lock_step allowed moves)\<^sup>*\<^sup>* (ts, None, s) (ts', None, s') \<and> length ts' = length ts
    \<and> (\<forall>i < j. \<exists>r. ts' ! i = Ended r)"
  using assms(5)
proof (induction j)
  case 0
  then show ?case by blast
next
  case (Suc j)
  then obtain ts1 s1 where run: "(lock_step allowed moves)\<^sup>*\<^sup>* (ts, None, s) (ts1, None, s1)" and len: "length ts1 = length ts"
    and before: "\<forall>i < j. \<exists>r. ts1 ! i = Ended r" by auto
  have inv: "lock_inv I F H (ts1, None, s1)" using run assms(4) allowed moves refl by (rule lock_inv_reachable)
  have j: "j < length ts1" using Suc.prems len by simp
  let ?ts = "ts1[j := Ended (fst (l_run (ts1 ! j) s1))]"
  have "(lock_step allowed moves)\<^sup>*\<^sup>* (ts1, None, s1) (?ts, None, snd (l_run (ts1 ! j) s1))"
    by (rule lock_pool_run [OF j HOL.refl lock_invD(2) [OF inv j]]) (simp_all add: lock_invD(1) [OF inv])
  with run have "(lock_step allowed moves)\<^sup>*\<^sup>* (ts, None, s) (?ts, None, snd (l_run (ts1 ! j) s1))" by (rule rtranclp_trans)
  moreover have "\<exists>r. ?ts ! i = Ended r" if "i < Suc j" for i
    using that before j by (cases "i = j") auto
  ultimately show ?case using len by (metis length_list_update)
qed

theorem lock_pool_finishes:
  assumes allowed: "\<And>t. allowed t \<Longrightarrow> guar I F H t None (\<lambda>_. True)"
    and moves: "\<And>s s'. moves s s' \<Longrightarrow> I s \<Longrightarrow> I s' \<and> F s s'" and refl: "\<And>s. F s s"
    and inv: "lock_inv I F H (ts, h, s)"
  shows "\<exists>rs s'. length rs = length ts \<and> (lock_step allowed moves)\<^sup>*\<^sup>* (ts, h, s) (map Ended rs, None, s')"
proof -
  obtain ts1 s1 where free: "(lock_step allowed moves)\<^sup>*\<^sup>* (ts, h, s) (ts1, None, s1)" and len: "length ts1 = length ts"
  proof (cases h)
    case None
    with that show ?thesis by blast
  next
    case (Some i)
    with lock_invD(3) [OF inv Some] obtain P where i: "i < length ts" and P: "P s" "guar I F H (ts ! i) (Some P) (\<lambda>_. True)" by blast
    have "(lock_step allowed moves)\<^sup>*\<^sup>* (ts, h, s) (ts[i := Ended (fst (l_run (ts ! i) s))], None, snd (l_run (ts ! i) s))"
      by (rule lock_pool_run [OF i HOL.refl P(2)]) (use Some P(1) lock_invD(1) [OF inv] in simp_all)
    with that show ?thesis by (metis length_list_update)
  qed
  have "lock_inv I F H (ts1, None, s1)" using free inv allowed moves refl by (rule lock_inv_reachable)
  from lock_pool_prefix [of allowed I F H moves ts1 s1 "length ts1", OF allowed moves refl this]
  obtain ts2 s2 where run: "(lock_step allowed moves)\<^sup>*\<^sup>* (ts1, None, s1) (ts2, None, s2)" and len2: "length ts2 = length ts1"
    and all: "\<forall>i < length ts2. \<exists>r. ts2 ! i = Ended r" by auto
  obtain f where "\<forall>i < length ts2. ts2 ! i = Ended (f i)" using all by metis
  then have "ts2 = map Ended (map f [0..<length ts2])" by (auto intro: nth_equalityI)
  with rtranclp_trans [OF free run] len len2 show ?thesis by (metis length_map)
qed

lemma l_piece_first: "t = Piece f g \<Longrightarrow> lock_step allowed moves (t # ts, h, s) (g s # ts, h, f s)"
  using l_piece [of 0 "t # ts" f g] by simp

end
