(* ===== verification/Hardvisor_Interleaved.thy ===== *)
theory Hardvisor_Interleaved
  imports Locked_Tasks Interleaved_Correct Hardvisor_Contract
begin

text \<open>
  The handlers, the cleaner and the start of the physical-machine manager as tasks, cut at every Redis command
  and request, with the body of \<open>allocate\<close> under the lock of the manager; a release does not take the lock.
  Run in one go, each is the computation of \<open>Hardvisor\<close> (the lemmas \<open>run_\<dots>\<close>).  In the task of a
  handler the tasks of a gather run one after another in the order of the list; the pool may start them on their
  own as well.
\<close>

section \<open>The manager\<close>

definition t_reserve_machine :: "'s redis_ops \<Rightarrow> json \<Rightarrow> json \<Rightarrow> (('s, 'w) node, json) task" where
  "t_reserve_machine R machine reqs =
     t_bind (t_lift (res_bind (jitem machine ''ip'') (\<lambda>ip.
       jset machine ''net_ifaces'' (JList [JObj [(''ip'', ip)]])))) (\<lambda>machine.
     t_bind (t_lift (res_bind (jget reqs ''allocation_id'' JNull) (jset machine ''allocation_id''))) (\<lambda>machine.
     t_bind (t_lift (res_bind (jget reqs ''requestor'' JNull) (jset machine ''requestor''))) (\<lambda>machine.
     t_bind (t_lift (jset machine ''status'' (JStr ''in_use''))) (\<lambda>machine.
     t_bind (t_lift (jitem machine ''name'')) (\<lambda>name.
     t_then (t_atomic (update_resource R name machine)) (t_return machine))))))"

text \<open>Between the look at the inventory and the reservation other tasks go on.\<close>

definition l_hw_allocate :: "'s redis_ops \<Rightarrow> json \<Rightarrow> (('s, 'w) node, json option) ltask" where
  "l_hw_allocate R requirements = l_locked (
     t_bind (t_atomic (match_reqs_to_available_machine R requirements)) (\<lambda>machine.
     (case machine of
        Some m \<Rightarrow> if truthy m then
            t_bind (t_reserve_machine R m requirements) (\<lambda>r. t_return (Some r))
          else t_return None
      | None \<Rightarrow> t_return None)))"

definition t_hw_release :: "'s redis_ops \<Rightarrow> json \<Rightarrow> (('s, 'w) node, unit) task" where
  "t_hw_release R machine_name =
     t_bind (t_lift (jkey machine_name)) (\<lambda>name.
     t_bind (t_atomic (machine_status R name)) (\<lambda>machine.
     if \<not> truthy machine then t_return ()
     else
     t_bind (t_lift (remote_executor machine)) (\<lambda>_.
     t_bind (t_lift (jobj machine)) (\<lambda>m.
     t_atomic (update_resource R machine_name
       (JObj (AList.update ''status'' (JStr ''available'') (AList.delete ''allocation_id'' m))))))))"

section \<open>The handlers\<close>

definition t_hw_check_fulfill :: "'s redis_ops \<Rightarrow> json \<Rightarrow> (('s, 'w) node, int \<times> json) task" where
  "t_hw_check_fulfill R requirements =
     t_bind (t_lift (parse_requirements requirements)) (\<lambda>demands.
     t_bind (t_gather demands (\<lambda>d. t_atomic (check_allocate R d))) (\<lambda>rs.
     t_bind (t_lift (first_error rs)) (\<lambda>possibles.
     (let hosts = map fst (filter snd possibles) in
      t_return (if hosts \<noteq> [] then
          (200, JObj [(''status'', JStr ''Success''), (''machines'', JList hosts)])
        else (406, JObj [(''status'', JStr ''Unable'')]))))))"

definition l_hw_fulfill :: "'s redis_ops \<Rightarrow> json \<Rightarrow> (('s, 'w) node, int \<times> json) ltask" where
  "l_hw_fulfill R requirements =
     l_bind (Ended (parse_requirements requirements)) (\<lambda>demands.
     l_bind (l_gather demands (l_hw_allocate R)) (\<lambda>rs.
     l_bind (Ended (first_error rs)) (\<lambda>allocated.
     if \<exists>m \<in> set allocated. m = None then l_of (
       t_bind (t_gather (filter (\<lambda>m. m \<noteq> None) allocated) (\<lambda>m.
           t_bind (t_lift (jitem (the m) ''name'')) (t_hw_release R))) (\<lambda>rs.
       t_then (t_lift (first_error rs))
         (t_return (503, JObj [(''status'', JStr ''Failed''),
           (''error'', JStr ''matching resources busy, try again later'')]))))
     else Ended (Inr (200, JObj [(''status'', JStr ''Success''), (''info'', JList (map the allocated))])))))"

definition t_handle_release_machine :: "'s redis_ops \<Rightarrow> string \<Rightarrow> (('s, 'w) node, int \<times> json) task" where
  "t_handle_release_machine R machine_name =
     t_then (t_hw_release R (JStr machine_name)) (t_return (200, JObj [(''status'', JStr ''Success'')]))"

section \<open>The cleaner and the start\<close>

definition t_release_dangling :: "'s redis_ops \<Rightarrow> json list \<Rightarrow> json \<Rightarrow> (('s, 'w) node, unit) task" where
  "t_release_dangling R active machine =
     t_bind (t_lift (jget machine ''status'' JNull)) (\<lambda>st.
     if st = JStr ''in_use'' then
       t_bind (t_lift (jget machine ''allocation_id'' JNull)) (\<lambda>aid.
       if aid \<notin> set active then
         t_bind (t_lift (jitem machine ''name'')) (t_hw_release R)
       else t_return ())
     else t_return ())"

text \<open>A pass asks for the active allocations, and then looks at the inventory.\<close>

definition t_clean_machines :: "'s redis_ops \<Rightarrow> json list \<Rightarrow> (('s, 'w) node, unit) task" where
  "t_clean_machines R active =
     t_bind (t_atomic (all_machines R)) (\<lambda>machines. t_for (map snd machines) (t_release_dangling R active))"

definition t_do_clean_dangling_hardware ::
    "'s redis_ops \<Rightarrow> 'w world_ops \<Rightarrow> bool \<Rightarrow> string \<Rightarrow> (('s, 'w) node, unit) task" where
  "t_do_clean_dangling_hardware R W has_cert provisioner_ep =
     t_bind (t_atomic (active_allocation_ids W has_cert provisioner_ep)) (t_clean_machines R)"

definition t_update_machines :: "'s redis_ops \<Rightarrow> json dict \<Rightarrow> (('s, 'w) node, unit) task" where
  "t_update_machines R machines =
     t_bind (t_lift (res_collect machines (\<lambda>(name, d).
        res_bind (configured_machine name d) (\<lambda>d. Inr (name, d))))) (\<lambda>machines.
     t_for machines (\<lambda>(machine, d). t_atomic (r_hsetnx R ''resources'' machine d)))"

section \<open>In one go\<close>

lemma run_reserve_machine [task_run]: "run (t_reserve_machine R m d) = reserve_machine R m d"
  by (simp add: t_reserve_machine_def reserve_machine_def task_run)

lemma run_hw_allocate [l_task_run]: "l_run (l_hw_allocate R d) = hw_allocate R d"
  by (simp add: l_hw_allocate_def hw_allocate_def l_task_run task_run cong: if_cong option.case_cong)

lemma run_hw_release [task_run]: "run (t_hw_release R x) = hw_release R x"
  by (simp add: t_hw_release_def hw_release_def task_run cong: if_cong)

lemma run_hw_check_fulfill [task_run]: "run (t_hw_check_fulfill R req) = hw_check_fulfill R req"
  by (simp add: t_hw_check_fulfill_def hw_check_fulfill_def gather_raise_def task_run Let_def py_bind_def fun_eq_iff
      split: prod.split sum.split)

lemma run_release_dangling [task_run]: "run (t_release_dangling R active m) = release_dangling R active m"
  by (simp add: t_release_dangling_def release_dangling_def task_run cong: if_cong)

lemma run_do_clean [task_run]: "run (t_do_clean_dangling_hardware R W c ep) = do_clean_dangling_hardware R W c ep"
  by (simp add: t_do_clean_dangling_hardware_def do_clean_dangling_hardware_def t_clean_machines_def task_run)

lemma run_update_machines [task_run]: "run (t_update_machines R ms) = update_machines R ms"
  by (simp add: t_update_machines_def update_machines_def task_run)

lemma run_handle_release_machine [task_run]: "run (t_handle_release_machine R k) = handle_release_machine R k"
  by (simp add: t_handle_release_machine_def handle_release_machine_def task_run)

lemma l_run_ended [l_task_run]: "l_run (Ended r) = py_lift r"
  by (simp add: py_lift_def)

lemma run_hw_fulfill [l_task_run]: "l_run (l_hw_fulfill R req) = hw_fulfill R req"
  by (simp add: l_hw_fulfill_def hw_fulfill_def gather_raise_def l_task_run task_run py_bind_def py_then_def py_return_def
      py_lift_def fun_eq_iff split: prod.split sum.split)

section \<open>The tasks of the service\<close>

datatype hv_operation = HvCheck json | HvFulfill json | HvRelease string | HvAllocation string | HvList
  | HvStatus string | HvClean bool string | HvStart "json dict" | HvDemand json

text \<open>A demand of a fulfilment may also run as a task of its own (\<open>HvDemand\<close>), so that the tasks of one gather
  interleave with each other.  The answer of a handler; the cleaner and the start have none.\<close>

definition answered :: "(('s, 'w) node, reply) task \<Rightarrow> (('s, 'w) node, reply option) ltask" where
  "answered t = l_of (t_bind t (\<lambda>r. t_return (Some r)))"

definition unanswered :: "(('s, 'w) node, unit) task \<Rightarrow> (('s, 'w) node, reply option) ltask" where
  "unanswered t = l_of (t_then t (t_return None))"

fun hv_task :: "'s redis_ops \<Rightarrow> 'w world_ops \<Rightarrow> hv_operation \<Rightarrow> (('s, 'w) node, reply option) ltask" where
  "hv_task R W (HvCheck req) = answered (t_hw_check_fulfill R req)"
| "hv_task R W (HvFulfill req) = l_bind (l_hw_fulfill R req) (\<lambda>r. Ended (Inr (Some r)))"
| "hv_task R W (HvRelease name) = answered (t_handle_release_machine R name)"
| "hv_task R W (HvAllocation aid) = answered (t_atomic (handle_get_allocation R aid))"
| "hv_task R W HvList = answered (t_atomic (handle_list_machines R))"
| "hv_task R W (HvStatus name) = answered (t_atomic (handle_machine_status R name))"
| "hv_task R W (HvClean has_cert ep) = unanswered (t_do_clean_dangling_hardware R W has_cert ep)"
| "hv_task R W (HvStart machines) = unanswered (t_update_machines R machines)"
| "hv_task R W (HvDemand d) = l_bind (l_hw_allocate R d) (\<lambda>_. Ended (Inr None))"

text \<open>The route of a release does not match an empty name; the manager starts with sound configurations;
  a demand is one that was parsed from a request.\<close>

definition hv_operation_ok :: "hv_operation \<Rightarrow> bool" where
  "hv_operation_ok operation \<longleftrightarrow> (case operation of HvRelease name \<Rightarrow> name \<noteq> []
     | HvStart machines \<Rightarrow> \<forall>p \<in> set machines. good_config p | HvDemand d \<Rightarrow> demand_of d | _ \<Rightarrow> True)"

definition hv_allowed :: "'s redis_ops \<Rightarrow> 'w world_ops \<Rightarrow> (('s, 'w) node, reply option) ltask \<Rightarrow> bool" where
  "hv_allowed R W t \<longleftrightarrow> (\<exists>operation. hv_operation_ok operation \<and> t = hv_task R W operation)"

abbreviation hv_pool :: "'s redis_ops \<Rightarrow> 'w world_ops \<Rightarrow>
    (('s, 'w) node, reply option) ltask list \<times> nat option \<times> ('s, 'w) node \<Rightarrow>
    (('s, 'w) node, reply option) ltask list \<times> nat option \<times> ('s, 'w) node \<Rightarrow> bool" where
  "hv_pool R W \<equiv> lock_step (hv_allowed R W) world_moved"

end
