(* ===== verification/Hardvisor_Locked.thy ===== *)
theory Hardvisor_Locked
  imports Hardvisor_Interleaved
begin

text \<open>
  What the tasks of the physical-machine manager guarantee to each other.  Outside the lock a task may make
  machines free or add new ones (\<open>hv_free_move\<close>); under the lock it may take a machine that is free
  (\<open>hv_take_move\<close>), which it knows because the others can only free machines meanwhile.
\<close>

definition hv_free_move :: "'s redis_ops \<Rightarrow> ('s, 'w) node \<Rightarrow> ('s, 'w) node \<Rightarrow> bool" where
  "hv_free_move R n n' \<longleftrightarrow> (\<forall>k a. hget R (store n) ''resources'' k = Some a \<longrightarrow>
     (\<exists>a'. hget R (store n') ''resources'' k = Some a' \<and> (a' = a \<or> is_free a')))"

definition hv_take_move :: "'s redis_ops \<Rightarrow> ('s, 'w) node \<Rightarrow> ('s, 'w) node \<Rightarrow> bool" where
  "hv_take_move R n n' \<longleftrightarrow> (\<forall>k a. hget R (store n) ''resources'' k = Some a \<longrightarrow>
     (\<exists>a'. hget R (store n') ''resources'' k = Some a' \<and> (a' = a \<or> is_free a)))"

abbreviation hv_guar :: "'s redis_ops \<Rightarrow> (('s, 'w) node, 'a) ltask \<Rightarrow> ('a \<Rightarrow> bool) \<Rightarrow> bool" where
  "hv_guar R t Q \<equiv> guar (entries R wf_resource) (hv_free_move R) (hv_take_move R) t None Q"

abbreviation hv_t_guar :: "'s redis_ops \<Rightarrow> (('s, 'w) node, 'a) task \<Rightarrow> ('a \<Rightarrow> bool) \<Rightarrow> bool" where
  "hv_t_guar R \<equiv> t_guar (entries R wf_resource) (hv_free_move R)"

lemma hv_free_move_refl: "hv_free_move R n n"
  by (auto simp: hv_free_move_def)

lemma hv_free_move_same: "store n' = store n \<Longrightarrow> hv_free_move R n n'"
  by (simp add: hv_free_move_def)

lemma hv_take_move_refl: "hv_take_move R n n"
  by (auto simp: hv_take_move_def)

lemma hv_t_guar_same:
  fixes m :: "('s, 'w, 'a) svc"
  assumes "\<And>n. store (snd (m n)) = store n" and "\<And>n. entries R wf_resource n \<Longrightarrow> if_returned Q (fst (m n))"
  shows "hv_t_guar R (t_atomic m) Q"
proof (rule t_guar_atomic)
  fix n :: "('s, 'w) node" assume "entries R wf_resource n"
  with assms show "entries R wf_resource (snd (m n)) \<and> hv_free_move R n (snd (m n)) \<and> if_returned Q (fst (m n))"
    by (simp add: hv_free_move_same entries_def)
qed

lemma if_returned_True: "if_returned (\<lambda>_. True) r"
  by (simp add: if_returned_def split: sum.split)

text \<open>The record a release writes.\<close>

lemma is_free_released: "is_free (released m)"
  by (simp add: is_free_def released_def)

text \<open>A demand's reservation on a well-formed record.\<close>

lemma t_reserve_machine_wf:
  assumes "wf_machine k (JObj m)" and "demand_of d"
  obtains r where "wf_machine k r"
    and "t_bind (t_reserve_machine R (JObj m) d) (\<lambda>r. t_return (Some r))
      = Await (\<lambda>n. n\<lparr>store := hset R (store n) ''resources'' k r\<rparr>) (\<lambda>_. Done (Inr (Some r)))"
proof -
  from assms(1) obtain ip where m: "k \<noteq> []" "map_of m ''name'' = Some (JStr k)" "map_of m ''ip'' = Some ip"
    by (rule wf_machineE) auto
  obtain dm where d: "d = JObj dm" using assms(2) by (auto simp: demand_of_def)
  let ?r = "reserved (opt (fld d ''allocation_id'')) (opt (fld d ''requestor'')) m"
  have "t_bind (t_reserve_machine R (JObj m) d) (\<lambda>r. t_return (Some r))
      = Await (\<lambda>n. n\<lparr>store := hset R (store n) ''resources'' k ?r\<rparr>) (\<lambda>_. Done (Inr (Some ?r)))"
    using m by (simp add: t_reserve_machine_def t_then_def t_lift_def t_return_def t_atomic_def update_resource_def
        py_defs d reserved_def opt_def update_conv' res_bind_def)
  with wf_reserved [OF assms(1)] that show thesis by blast
qed

lemma parse_requirements_demand_of:
  assumes "parse_requirements req = Inr ds" and "d \<in> set ds"
  shows "demand_of d"
  using parse_requirements_demands [OF assms(1)] assms(2)
  by (auto simp: list_all2_conv_all_nth in_set_conv_nth demand_for_def)

context redis_server
begin

section \<open>Releasing\<close>

lemma machine_status_guar:
  assumes "k \<noteq> []"
  shows "hv_t_guar R (t_atomic (machine_status R k)) (\<lambda>a. truthy a \<longrightarrow> wf_machine k a)"
proof (rule hv_t_guar_same)
  fix n :: "('s, 'w) node"
  show "store (snd (machine_status R k n)) = store n" using assms by (simp add: machine_status_def py_defs)
  assume "entries R wf_resource n"
  with assms show "if_returned (\<lambda>a. truthy a \<longrightarrow> wf_machine k a) (fst (machine_status R k n))"
    by (auto simp: machine_status_def py_defs if_returned_def entries_def wf_resource_def split: option.split)
qed

lemma hw_release_guar:
  assumes "k \<noteq> []"
  shows "hv_t_guar R (t_hw_release R (JStr k)) (\<lambda>_. True)"
  unfolding t_hw_release_def
proof (rule t_guar_bind [where Q = "\<lambda>name. name = k"], rule t_guar_lift, simp,
    rule t_guar_bind [where Q = "\<lambda>a. truthy a \<longrightarrow> wf_machine k a"], simp add: machine_status_guar [OF assms], rule t_guar_if,
    simp add: t_guar_return, rule t_guar_bind, rule t_guar_lift, rule TrueI, rule t_guar_bind [where Q = "\<lambda>m. wf_machine k (JObj m)"])
  fix a assume "truthy a \<longrightarrow> wf_machine k a" and "\<not> \<not> truthy a"
  then show "hv_t_guar R (t_lift (jobj a)) (\<lambda>m. wf_machine k (JObj m))"
    by (intro t_guar_lift) (auto simp: jobj_Inr_iff)
next
  fix m assume m: "wf_machine k (JObj m)"
  show "hv_t_guar R (t_atomic (update_resource R (JStr k)
      (JObj (AList.update ''status'' (JStr ''available'') (AList.delete ''allocation_id'' m))))) (\<lambda>_. True)"
  proof (rule t_guar_atomic)
    fix n :: "('s, 'w) node" assume "entries R wf_resource n"
    with wf_released [OF m] is_free_released [of m] show "entries R wf_resource (snd (update_resource R (JStr k)
        (JObj (AList.update ''status'' (JStr ''available'') (AList.delete ''allocation_id'' m))) n))
      \<and> hv_free_move R n (snd (update_resource R (JStr k)
        (JObj (AList.update ''status'' (JStr ''available'') (AList.delete ''allocation_id'' m))) n))
      \<and> if_returned (\<lambda>_. True) (fst (update_resource R (JStr k)
        (JObj (AList.update ''status'' (JStr ''available'') (AList.delete ''allocation_id'' m))) n))"
      by (auto simp: update_resource_def py_defs released_def [symmetric] entries_def hget_hset wf_resource_def
          hv_free_move_def if_returned_True)
  qed
qed

text \<open>A machine named by its record.\<close>

lemma release_named_guar:
  assumes "wf_machine k a"
  shows "hv_t_guar R (t_bind (t_lift (jitem a ''name'')) (t_hw_release R)) (\<lambda>_. True)"
proof -
  from assms have "k \<noteq> []" and name: "jitem a ''name'' = Inr (JStr k)"
    by (auto simp: wf_machine_def jitem_Inr_iff)
  from hw_release_guar [OF this(1)] show ?thesis
    unfolding name by (simp add: t_lift_def)
qed

lemma all_machines_guar: "hv_t_guar R (t_atomic (all_machines R)) (\<lambda>ms. \<forall>a \<in> set (map snd ms). \<exists>k. wf_machine k a)"
  by (rule hv_t_guar_same)
    (auto simp: all_machines_def py_defs if_returned_def hgetall_SomeD entries_def wf_resource_def, blast)

lemma clean_machines_guar: "hv_t_guar R (t_clean_machines R ids) (\<lambda>_. True)"
  unfolding t_clean_machines_def
proof (rule t_guar_bind [OF all_machines_guar], rule t_guar_for)
  fix ms a assume "\<forall>a \<in> set (map snd ms). \<exists>k. wf_machine k a" and "a \<in> set (map snd ms)"
  then obtain k where "wf_machine k a" by blast
  note rel = release_named_guar [OF this]
  show "hv_t_guar R (t_release_dangling R ids a) (\<lambda>_. True)"
    unfolding t_release_dangling_def
    by (rule t_guar_bind [OF t_guar_lift [OF TrueI]], rule t_guar_if, rule t_guar_bind [OF t_guar_lift [OF TrueI]],
        rule t_guar_if, rule rel) (simp_all add: t_guar_return)
qed

section \<open>Allocating\<close>

lemma match_returned:
  assumes "entries R wf_resource n" and "demand_of d" and "fst (match_reqs_to_available_machine R d n) = Inr (Some a)"
  shows "\<exists>k. wf_machine k a \<and> hget R (store n) ''resources'' k = Some a \<and> is_free a"
proof -
  obtain arch where "fld d ''arch'' = Some arch" using assms(2) by (auto simp: demand_of_def)
  with assms obtain rest where "filter is_free (filter (suits arch) (inventory R (store n))) = a # rest"
    by (auto simp: match_eq simp del: filter_filter split: list.splits)
  then have "a \<in> set (filter is_free (filter (suits arch) (inventory R (store n))))" by (simp only: list.set_intros)
  then have "is_free a" and "a \<in> set (inventory R (store n))" by simp_all
  then obtain k where "hget R (store n) ''resources'' k = Some a" "is_free a" by (auto simp: inventory_iff)
  with assms(1) show ?thesis by (auto simp: entries_def wf_resource_def)
qed

lemma match_pure:
  assumes "entries R wf_resource n" and "demand_of d"
  shows "snd (match_reqs_to_available_machine R d n) = n"
proof -
  obtain arch where "fld d ''arch'' = Some arch" using assms(2) by (auto simp: demand_of_def)
  with assms(1) show ?thesis by (simp add: match_eq)
qed

text \<open>Under the lock the machine that was found stays free.\<close>

definition still_free :: "string \<Rightarrow> ('s, 'w) node \<Rightarrow> bool" where
  "still_free k n \<longleftrightarrow> (\<exists>a. hget R (store n) ''resources'' k = Some a \<and> is_free a)"

lemma still_free_stable: "stable_under (entries R wf_resource) (hv_free_move R) (still_free k)"
  unfolding stable_under_def hv_free_move_def still_free_def by blast

lemma reserve_guar:
  fixes r :: json
  assumes "wf_machine k r"
  shows "guar (entries R wf_resource) (hv_free_move R) (hv_take_move R)
    (Piece (\<lambda>n :: ('s, 'w) node. n\<lparr>store := hset R (store n) ''resources'' k r\<rparr>) (\<lambda>_. Unlock (Ended (Inr (Some r)))))
    (Some (still_free k)) (\<lambda>x. \<forall>a. x = Some a \<longrightarrow> (\<exists>k. wf_machine k a))"
  unfolding guar_Piece_Some
proof (intro allI impI conjI)
  fix n :: "('s, 'w) node" assume n: "entries R wf_resource n \<and> still_free k n"
  with assms show "entries R wf_resource (n\<lparr>store := hset R (store n) ''resources'' k r\<rparr>)"
    by (auto simp: entries_def hget_hset wf_resource_def)
  from n show "hv_take_move R n (n\<lparr>store := hset R (store n) ''resources'' k r\<rparr>)"
    by (auto simp: hv_take_move_def hget_hset still_free_def)
  show "\<exists>P'. P' (n\<lparr>store := hset R (store n) ''resources'' k r\<rparr>) \<and> stable_under (entries R wf_resource) (hv_free_move R) P'
      \<and> guar (entries R wf_resource) (hv_free_move R) (hv_take_move R) (Unlock (Ended (Inr (Some r)))) (Some P')
        (\<lambda>x. \<forall>a. x = Some a \<longrightarrow> (\<exists>k. wf_machine k a))"
    using assms by (intro exI [of _ "\<lambda>_. True"]) (auto simp: stable_under_def)
qed

lemma hw_allocate_guar:
  assumes d: "demand_of d"
  shows "hv_guar R (l_hw_allocate R d) (\<lambda>x. \<forall>a. x = Some a \<longrightarrow> (\<exists>k. wf_machine k a))"
proof -
  let ?I = "entries R wf_resource :: ('s, 'w) node \<Rightarrow> bool" and ?Q = "\<lambda>x. \<forall>a. x = Some a \<longrightarrow> (\<exists>k. wf_machine k a)"
  let ?m = "match_reqs_to_available_machine R d :: ('s, 'w, json option) svc"
  let ?k = "\<lambda>machine. (case machine of
        Some m \<Rightarrow> if truthy m then t_bind (t_reserve_machine R m d) (\<lambda>r. t_return (Some r)) else t_return None
      | None \<Rightarrow> t_return None)"
  have "guar ?I (hv_free_move R) (hv_take_move R)
      (Piece (\<lambda>n. snd (?m n)) (\<lambda>n. unlock_at_end (t_bind (Done (fst (?m n))) ?k))) (Some (\<lambda>_. True)) ?Q"
    unfolding guar_Piece_Some
  proof (intro allI impI conjI)
    fix n :: "('s, 'w) node" assume "?I n \<and> True"
    then have n: "?I n" by simp
    show "?I (snd (?m n))" and "hv_take_move R n (snd (?m n))"
      using n by (simp_all add: match_pure [OF n d] hv_take_move_refl)
    show "\<exists>P'. P' (snd (?m n)) \<and> stable_under ?I (hv_free_move R) P' \<and> guar ?I (hv_free_move R) (hv_take_move R)
        (unlock_at_end (t_bind (Done (fst (?m n))) ?k)) (Some P') ?Q"
    proof (cases "\<exists>a. fst (?m n) = Inr (Some a) \<and> truthy a")
      case False
      then show ?thesis
        by (intro exI [of _ "\<lambda>_. True"]) (auto simp: stable_under_def t_return_def split: sum.split option.split)
    next
      case True
      then obtain a where a: "fst (?m n) = Inr (Some a)" "truthy a" by blast
      from match_returned [OF n d a(1)] obtain k where k: "wf_machine k a" "hget R (store n) ''resources'' k = Some a" "is_free a"
        by blast
      then obtain m where m: "a = JObj m" by (auto elim: wf_machineE)
      obtain r where r: "wf_machine k r" and t: "t_bind (t_reserve_machine R (JObj m) d) (\<lambda>r. t_return (Some r))
          = Await (\<lambda>n :: ('s, 'w) node. n\<lparr>store := hset R (store n) ''resources'' k r\<rparr>) (\<lambda>_. Done (Inr (Some r)))"
        using t_reserve_machine_wf [OF _ d] k(1) unfolding m by blast
      have "unlock_at_end (t_bind (Done (fst (?m n))) ?k)
          = Piece (\<lambda>n :: ('s, 'w) node. n\<lparr>store := hset R (store n) ''resources'' k r\<rparr>) (\<lambda>_. Unlock (Ended (Inr (Some r))))"
        using a(2) unfolding a(1) m by (simp add: t)
      moreover have "still_free k (snd (?m n))" unfolding match_pure [OF n d] still_free_def using k by blast
      ultimately show ?thesis
        using reserve_guar [OF r] still_free_stable by (intro exI [of _ "still_free k"] conjI) (simp_all only:)
    qed
  qed
  then show ?thesis by (simp add: l_hw_allocate_def l_locked_def t_atomic_def)
qed

section \<open>All tasks\<close>

lemma hw_fulfill_guar: "hv_guar R (l_hw_fulfill R req) (\<lambda>_. True)"
  unfolding l_hw_fulfill_def
proof (rule guar_bind [where Q = "\<lambda>ds. \<forall>d \<in> set ds. demand_of d"])
  show "hv_guar R (Ended (parse_requirements req)) (\<lambda>ds. \<forall>d \<in> set ds. demand_of d)"
    by (auto dest: parse_requirements_demand_of split: sum.split)
next
  let ?Q = "\<lambda>x. \<forall>a. x = Some a \<longrightarrow> (\<exists>k. wf_machine k a)"
  let ?rollback = "\<lambda>allocated. t_bind (t_gather (filter (\<lambda>m. m \<noteq> None) allocated) (\<lambda>m.
           t_bind (t_lift (jitem (the m) ''name'')) (t_hw_release R))) (\<lambda>rs.
       t_then (t_lift (first_error rs))
         (t_return (503 :: int, JObj [(''status'', JStr ''Failed''),
           (''error'', JStr ''matching resources busy, try again later'')])))"
  fix ds assume ds: "\<forall>d \<in> set ds. demand_of d"
  have rollback: "hv_t_guar R (?rollback allocated) (\<lambda>_. True)" if ok: "\<forall>x \<in> set allocated. ?Q x" for allocated
  proof (rule t_guar_bind [OF t_guar_gather])
    fix x assume "x \<in> set (filter (\<lambda>m. m \<noteq> None) allocated)"
    with ok obtain k where "wf_machine k (the x)" by force
    then show "hv_t_guar R (t_bind (t_lift (jitem (the x) ''name'')) (t_hw_release R)) (\<lambda>_. True)"
      by (rule release_named_guar)
  qed (intro t_guar_then t_guar_lift t_guar_return TrueI)
  show "hv_guar R (l_bind (l_gather ds (l_hw_allocate R)) (\<lambda>rs. l_bind (Ended (first_error rs)) (\<lambda>allocated.
     if \<exists>m \<in> set allocated. m = None then l_of (?rollback allocated)
     else Ended (Inr (200 :: int, JObj [(''status'', JStr ''Success''), (''info'', JList (map the allocated))]))))) (\<lambda>_. True)"
  proof (rule guar_bind [OF guar_gather])
    fix d assume "d \<in> set ds"
    with ds show "hv_guar R (l_hw_allocate R d) ?Q" by (simp only: hw_allocate_guar)
  next
    fix rs assume "\<forall>r \<in> set rs. if_returned ?Q r"
    then have "hv_guar R (Ended (first_error rs)) (\<lambda>xs. \<forall>x \<in> set xs. ?Q x)"
      using first_error_returned [of rs _ ?Q] by (simp split: sum.split)
    then show "hv_guar R (l_bind (Ended (first_error rs)) (\<lambda>allocated.
       if \<exists>m \<in> set allocated. m = None then l_of (?rollback allocated)
       else Ended (Inr (200 :: int, JObj [(''status'', JStr ''Success''), (''info'', JList (map the allocated))])))) (\<lambda>_. True)"
    proof (rule guar_bind)
      fix allocated assume "\<forall>x \<in> set allocated. ?Q x"
      from guar_of [OF rollback [OF this]]
      show "hv_guar R (if \<exists>m \<in> set allocated. m = None then l_of (?rollback allocated)
         else Ended (Inr (200 :: int, JObj [(''status'', JStr ''Success''), (''info'', JList (map the allocated))]))) (\<lambda>_. True)"
        by (rule guar_if) simp
    qed
  qed
qed

lemma update_machines_guar:
  assumes "\<forall>p \<in> set ms. good_config p"
  shows "hv_t_guar R (t_update_machines R ms) (\<lambda>_. True)"
  unfolding t_update_machines_def
proof (rule t_guar_bind [where Q = "\<lambda>kds. \<forall>(k, d) \<in> set kds. wf_machine k d"], rule t_guar_lift)
  fix kds assume kds: "res_collect ms (\<lambda>(name, d). res_bind (configured_machine name d) (\<lambda>d. Inr (name, d))) = Inr kds"
  have "wf_machine k d" if "(k, d) \<in> set kds" for k d
  proof -
    from res_collect_in [OF kds that] obtain d' where "(k, d') \<in> set ms" "configured_machine k d' = Inr d" by auto
    with assms configured_machine_wf show ?thesis by blast
  qed
  then show "\<forall>(k, d) \<in> set kds. wf_machine k d" by blast
next
  fix kds assume kds: "\<forall>(k, d) \<in> set kds. wf_machine k d"
  show "hv_t_guar R (t_for kds (\<lambda>(k, d). t_atomic (r_hsetnx R ''resources'' k d))) (\<lambda>_. True)"
  proof (rule t_guar_for)
    fix p assume "p \<in> set kds"
    with kds obtain k d where p: "p = (k, d)" and d: "wf_machine k d" by blast
    have "hv_t_guar R (t_atomic (r_hsetnx R ''resources'' k d)) (\<lambda>_. True)"
      using d by (intro t_guar_atomic)
        (auto simp: py_defs entries_def hget_hsetnx wf_resource_def hv_free_move_def if_returned_True)
    then show "hv_t_guar R (case p of (k, d) \<Rightarrow> t_atomic (r_hsetnx R ''resources'' k d)) (\<lambda>_. True)" by (simp add: p)
  qed
qed

lemma looking_guar:
  "(\<And>n. store (snd (m n)) = store n) \<Longrightarrow> hv_t_guar R (t_atomic m) (\<lambda>_. True)"
  by (rule hv_t_guar_same) (simp_all add: if_returned_True)

lemma check_fulfill_guar: "hv_t_guar R (t_hw_check_fulfill R req) (\<lambda>_. True)"
  unfolding t_hw_check_fulfill_def Let_def
proof (rule t_guar_bind [OF t_guar_lift [OF TrueI]], rule t_guar_bind [OF t_guar_gather])
  fix d
  show "hv_t_guar R (t_atomic (check_allocate R d)) (\<lambda>_. True)"
    by (rule looking_guar) (auto simp: check_allocate_def matching_machines_def all_machines_def py_defs split: sum.splits)
qed (intro t_guar_bind [OF t_guar_lift [OF TrueI]] t_guar_return TrueI)

lemma release_handler_guar: "k \<noteq> [] \<Longrightarrow> hv_t_guar R (t_handle_release_machine R k) (\<lambda>_. True)"
  unfolding t_handle_release_machine_def by (intro t_guar_then hw_release_guar t_guar_return TrueI)

lemma do_clean_guar: "hv_t_guar R (t_do_clean_dangling_hardware R W c ep) (\<lambda>_. True)"
  unfolding t_do_clean_dangling_hardware_def
  by (intro t_guar_bind [OF looking_guar] clean_machines_guar active_allocation_ids_store)

lemma look_handlers_guar:
  "hv_t_guar R (t_atomic (handle_get_allocation R aid)) (\<lambda>_. True)"
  "hv_t_guar R (t_atomic (handle_list_machines R)) (\<lambda>_. True)"
  "hv_t_guar R (t_atomic (handle_machine_status R k)) (\<lambda>_. True)"
  by (rule looking_guar, simp add: handle_get_allocation_pure handle_list_machines_def handle_machine_status_def
      machine_status_def all_machines_def py_defs)+

lemma handlers_guar:
  "hv_t_guar R t (\<lambda>_. True) \<Longrightarrow> hv_guar R (answered t) (\<lambda>_. True)"
  "hv_t_guar R u (\<lambda>_. True) \<Longrightarrow> hv_guar R (unanswered u) (\<lambda>_. True)"
  unfolding answered_def unanswered_def
  by (intro guar_of t_guar_bind t_guar_then t_guar_return TrueI; assumption)+

text \<open>Every task of the service keeps to the guarantees.\<close>

lemma hv_task_guar: "hv_operation_ok operation \<Longrightarrow> hv_guar R (hv_task R W operation) (\<lambda>_. True)"
  by (cases operation)
    (simp_all add: handlers_guar check_fulfill_guar release_handler_guar do_clean_guar look_handlers_guar
      update_machines_guar hv_operation_ok_def guar_bind [OF hw_fulfill_guar] guar_bind [OF hw_allocate_guar])

end

end
