(* ===== verification/Hardvisor_Orders.thy ===== *)
theory Hardvisor_Orders
  imports Hardvisor_Locked Inventory_Properties
begin

text \<open>
  Properties of the physical-machine manager when its handlers and its cleaner run interleaved: what the lock
  of \<open>allocate\<close> ensures, and what goes wrong because a release and the cleaner work on what they read before.
\<close>

section \<open>Reaching and running\<close>

lemma hv_pool_inv:
  assumes R: "redis_server R" and "entries R wf_resource n" and run: "(hv_pool R W)\<^sup>*\<^sup>* ([], None, n) c"
  shows "lock_inv (entries R wf_resource) (hv_free_move R) (hv_take_move R) c"
  using run
proof (rule lock_inv_reachable)
  show "lock_inv (entries R wf_resource) (hv_free_move R) (hv_take_move R) ([], None, n)"
    using assms(2) by (simp add: lock_inv_def)
qed (auto simp: hv_allowed_def world_moved_def entries_def hv_free_move_def intro: redis_server.hv_task_guar [OF R])

lemma hv_pool_step:
  assumes R: "redis_server R" and "entries R wf_resource n" and run: "(hv_pool R W)\<^sup>*\<^sup>* ([], None, n) (ts, h, n1)"
    and step: "hv_pool R W (ts, h, n1) (ts', h', n2)"
  shows "hv_free_move R n1 n2 \<or> hv_take_move R n1 n2"
proof -
  have "lock_inv (entries R wf_resource) (hv_free_move R) (hv_take_move R) (ts', h', n2)
      \<and> (hv_free_move R n1 n2 \<or> hv_take_move R n1 n2)"
    using step hv_pool_inv [OF assms(1-3)]
    by (rule lock_step_guarantee)
      (auto simp: hv_allowed_def world_moved_def entries_def hv_free_move_def intro: redis_server.hv_task_guar [OF R])
  then show ?thesis by simp
qed

text \<open>A task runs to its end while nobody holds the lock.\<close>

lemma hv_task_runs:
  assumes "redis_server R" and "hv_operation_ok operation" and "i < length ts" and "ts ! i = hv_task R W operation"
    and "entries R wf_resource n" and "l_run (hv_task R W operation) n = (r, n')"
  shows "(hv_pool R W)\<^sup>*\<^sup>* (ts, None, n) (ts[i := Ended r], None, n')"
  using lock_pool_run [OF assms(3,4) redis_server.hv_task_guar [OF assms(1,2)], of None n "hv_allowed R W" world_moved] assms(5,6)
  by simp

section \<open>What the lock ensures\<close>

text \<open>C8. However fulfilments, releases, passes of the cleaner and all other handlers interleave at their Redis
  commands, no machine ever passes from one holder to another directly, and none disappears: in every step
  a machine keeps its record, or it was free before the step, or it is free after it.\<close>

theorem machines_change_hands_when_free:
  assumes "redis_server R" and "entries R wf_resource n" and "(hv_pool R W)\<^sup>*\<^sup>* ([], None, n) (ts, h, n1)"
    and "hv_pool R W (ts, h, n1) (ts', h', n2)" and "hget R (store n1) ''resources'' k = Some a"
  shows "\<exists>a'. hget R (store n2) ''resources'' k = Some a' \<and> wf_machine k a' \<and> (a' = a \<or> is_free a \<or> is_free a')"
proof -
  from hv_pool_step [OF assms(1-4)] assms(5)
  obtain a' where "hget R (store n2) ''resources'' k = Some a'" "a' = a \<or> is_free a \<or> is_free a'"
    by (auto simp: hv_free_move_def hv_take_move_def)
  moreover have "entries R wf_resource n2"
    using hv_pool_inv [OF assms(1,2) rtranclp.rtrancl_into_rtrancl [OF assms(3,4)]] by (simp add: lock_inv_def)
  ultimately show ?thesis by (auto simp: entries_def wf_resource_def)
qed

text \<open>C9. Nothing waits for ever: from every configuration that hardvisor can reach, whatever its handlers and
  its cleaner have read so far and whoever holds the lock, all started tasks can still be brought to their ends,
  and then the lock is free.\<close>

theorem handlers_can_always_finish:
  assumes "redis_server R" and "entries R wf_resource n" and "(hv_pool R W)\<^sup>*\<^sup>* ([], None, n) (ts, h, n1)"
  shows "\<exists>rs n2. length rs = length ts \<and> (hv_pool R W)\<^sup>*\<^sup>* (ts, h, n1) (map Ended rs, None, n2)"
  by (rule lock_pool_finishes [OF _ _ _ hv_pool_inv [OF assms]])
    (auto simp: hv_allowed_def world_moved_def entries_def hv_free_move_def intro: redis_server.hv_task_guar [OF assms(1)])

section \<open>A release that comes twice\<close>

definition released_reply :: "reply option" where
  "released_reply = Some (200, JObj [(''status'', JStr ''Success'')])"

lemma hv_fulfill_task_run:
  "hw_fulfill R req n = (Inr r, n') \<Longrightarrow> l_run (hv_task R W (HvFulfill req)) n = (Inr (Some r), n')"
  by (simp add: l_task_run py_bind_def py_lift_def)

lemma hv_release_task_run:
  assumes "hw_release R (JStr k) n = (Inr (), n')"
  shows "l_run (hv_task R W (HvRelease k)) n = (Inr released_reply, n')"
  using assms
  by (simp add: answered_def l_task_run task_run released_reply_def handle_release_machine_def py_then_def py_bind_def py_return_def)

text \<open>The pieces of a release: it reads the record, and writes the record it has read.\<close>

lemma release_pieces:
  assumes "redis_server R" and "entries R wf_resource n" and "k \<noteq> []" and "hget R (store n) ''resources'' k = Some (JObj m)"
  shows "\<exists>g. hv_task R W (HvRelease k) = Piece (\<lambda>n. n) g
    \<and> g n = Piece (\<lambda>s. s\<lparr>store := hset R (store s) ''resources'' k (released m)\<rparr>) (\<lambda>_. Ended (Inr released_reply))"
proof -
  from assms(2,4) have "wf_machine k (JObj m)" by (auto simp: entries_def wf_resource_def)
  then have m: "m \<noteq> []" "(map_of m ''password'' \<noteq> None) \<noteq> (map_of m ''key_file_path'' \<noteq> None)"
    by (auto elim: wf_machineE)
  with assms(3,4) show ?thesis
    by (simp add: answered_def t_handle_release_machine_def t_hw_release_def t_then_def t_lift_def t_atomic_def t_return_def
        machine_status_def update_resource_def remote_executor_def py_defs released_def released_reply_def)
qed

text \<open>C10. A release reads the record of the machine and later writes the record it has read.  When a machine
  is released twice, by a user and by the expiry task or the cleaner, a new request can get it between the
  reading and the writing of one of them: all three are answered with success, and the machine is free
  although the new request holds it, so that the next request gets it as well.\<close>

theorem late_release_frees_new_holder:
  assumes R: "redis_server R" and wf: "entries R wf_resource n" and k: "k \<noteq> []"
    and stored: "hget R (store n) ''resources'' k = Some (JObj m)"
    and new: "hw_fulfill R req (n\<lparr>store := hset R (store n) ''resources'' k (released m)\<rparr>) = (Inr (200, b), n2)"
    and got: "hv_held R n2 k \<noteq> None"
  shows "\<exists>n3 infos. (hv_pool R W)\<^sup>*\<^sup>*
        ([hv_task R W (HvRelease k), hv_task R W (HvRelease k), hv_task R W (HvFulfill req)], None, n)
        ([Ended (Inr released_reply), Ended (Inr released_reply), Ended (Inr (Some (200, b)))], None, n3)
    \<and> b = JObj [(''status'', JStr ''Success''), (''info'', JList infos)]
    \<and> (\<exists>i \<in> set infos. fld i ''name'' = Some (JStr k)) \<and> hv_held R n2 k = Some (body_id req)
    \<and> hv_held R n3 = (hv_held R n2)(k := None)"
proof -
  let ?T = "hv_task R W (HvRelease k)" and ?U = "hv_task R W (HvFulfill req)" and ?n1 = "n\<lparr>store := hset R (store n) ''resources'' k (released m)\<rparr>"
  let ?n3 = "n2\<lparr>store := hset R (store n2) ''resources'' k (released m)\<rparr>" and ?r = "Ended (Inr released_reply)"
  let ?u = "Ended (Inr (Some (200, b)))"
  obtain g where T: "?T = Piece (\<lambda>n. n) g"
    and g: "g n = Piece (\<lambda>s. s\<lparr>store := hset R (store s) ''resources'' k (released m)\<rparr>) (\<lambda>_. ?r)"
    using release_pieces [OF R wf k stored] by blast
  have rel: "hw_release R (JStr k) n = (Inr (), ?n1)"
    by (simp add: redis_server.hw_release_eq [OF R wf k] stored)
  have wf1: "entries R wf_resource ?n1"
    using redis_server.hget_hw_release [OF R wf k rel] by simp
  have run1: "(hv_pool R W)\<^sup>*\<^sup>* ([?T, ?T, ?U], None, n) ([g n, ?T, ?U], None, n)"
    by (rule r_into_rtranclp, rule l_piece_first [OF T])
  have run2: "(hv_pool R W)\<^sup>*\<^sup>* ([g n, ?T, ?U], None, n) ([g n, ?r, ?U], None, ?n1)"
    using hv_task_runs [OF R _ _ _ wf hv_release_task_run [OF rel], of 1 "[g n, ?T, ?U]" W] k by (simp add: hv_operation_ok_def)
  have run3: "(hv_pool R W)\<^sup>*\<^sup>* ([g n, ?r, ?U], None, ?n1) ([g n, ?r, ?u], None, n2)"
    using hv_task_runs [OF R _ _ _ wf1 hv_fulfill_task_run [OF new], of 2 "[g n, ?r, ?U]" W] by (simp add: hv_operation_ok_def)
  have run4: "(hv_pool R W)\<^sup>*\<^sup>* ([g n, ?r, ?u], None, n2) ([?r, ?r, ?u], None, ?n3)"
    by (rule r_into_rtranclp, rule l_piece_first [OF g])
  note run = rtranclp_trans [OF rtranclp_trans [OF run1 run2] rtranclp_trans [OF run3 run4]]
  from redis_server.fulfilled_held [OF R wf1 new] obtain infos where
    infos: "b = JObj [(''status'', JStr ''Success''), (''info'', JList infos)]"
    and held: "\<forall>i \<in> set infos. \<exists>k. fld i ''name'' = Some (JStr k) \<and> hv_held R ?n1 k = None \<and> hv_held R n2 k = Some (body_id req)"
    and others: "\<forall>k. (\<forall>i \<in> set infos. fld i ''name'' \<noteq> Some (JStr k)) \<longrightarrow> hv_held R n2 k = hv_held R ?n1 k" by blast
  have free: "hv_held R ?n1 k = None" by (rule hv_held_released [of _ _ _ m]) (simp add: redis_server.hget_hset [OF R])
  with others got obtain i where "i \<in> set infos" "fld i ''name'' = Some (JStr k)" by metis
  moreover with held have "hv_held R n2 k = Some (body_id req)" by force
  moreover have "hv_held R ?n3 = (hv_held R n2)(k := None)"
    using is_free_released [of m] by (auto simp: hv_held_def redis_server.hget_hset [OF R] fun_eq_iff)
  ultimately show ?thesis using run infos by blast
qed

theorem late_release_frees_new_holder_witness:
  "\<exists>b n3. (hv_pool mem_redis (scripted demo_jobs))\<^sup>*\<^sup>*
      ([hv_task mem_redis (scripted demo_jobs) (HvRelease ''m1''), hv_task mem_redis (scripted demo_jobs) (HvRelease ''m1''),
        hv_task mem_redis (scripted demo_jobs) (HvFulfill (JObj demo_demands))], None, demo_inventory ''in_use'')
      ([Ended (Inr released_reply), Ended (Inr released_reply), Ended (Inr (Some (200, b)))], None, n3)
    \<and> hv_held mem_redis n3 ''m1'' = None"
proof -
  have wf: "entries mem_redis wf_resource (demo_inventory ''in_use'')" by (simp add: demo_inventory_wf)
  let ?m = "[(''name'', JStr ''m1''), (''arch'', JStr ''x86_64''), (''ip'', JStr ''10.0.0.7''),
     (''password'', JStr ''pw''), (''net_ifaces'', JList []), (''status'', JStr ''in_use'')]"
  have m: "hget mem_redis (store (demo_inventory ''in_use'')) ''resources'' ''m1'' = Some (JObj ?m)"
    by (simp add: demo_inventory_def mem_run demo_hw_def)
  have "(demo_inventory ''in_use'')\<lparr>store := hset mem_redis (store (demo_inventory ''in_use'')) ''resources'' ''m1'' (released ?m)\<rparr>
      = demo_inventory ''available''"
    by (simp add: demo_inventory_def mem_run demo_hw_def mem_put_def released_def at_time_def)
  with demo_fulfill_run have new: "hw_fulfill mem_redis (JObj demo_demands) ((demo_inventory ''in_use'')\<lparr>store :=
      hset mem_redis (store (demo_inventory ''in_use'')) ''resources'' ''m1'' (released ?m)\<rparr>) =
    (Inr (200, JObj [(''status'', JStr ''Success''), (''info'', JList [demo_hw_taken])]),
     at_time 0 [(''resources'', [(''m1'', demo_hw_taken)])])" by simp
  have got: "hv_held mem_redis (at_time 0 [(''resources'', [(''m1'', demo_hw_taken)])] :: (mem, rat) node) ''m1'' \<noteq> None"
    by (simp add: hv_held_def at_time_def mem_run demo_hw_taken_def is_free_def)
  from late_release_frees_new_holder [OF mem_redis.redis_server_axioms wf _ m new got, of "scripted demo_jobs"]
  obtain b n3 where "(hv_pool mem_redis (scripted demo_jobs))\<^sup>*\<^sup>*
      ([hv_task mem_redis (scripted demo_jobs) (HvRelease ''m1''), hv_task mem_redis (scripted demo_jobs) (HvRelease ''m1''),
        hv_task mem_redis (scripted demo_jobs) (HvFulfill (JObj demo_demands))], None, demo_inventory ''in_use'')
      ([Ended (Inr released_reply), Ended (Inr released_reply), Ended (Inr (Some (200, b)))], None, n3)"
    and "hv_held mem_redis n3 = (hv_held mem_redis (at_time 0 [(''resources'', [(''m1'', demo_hw_taken)])] :: (mem, rat) node))(''m1'' := None)"
    by blast
  then show ?thesis by (intro exI conjI) (assumption, simp)
qed

section \<open>A cleaner that looked too early\<close>

text \<open>C11. A pass of the cleaner asks for the active allocations first and reads the inventory later.  When a
  request whose allocation is not among them is served in between, the pass takes all its machines away,
  although the request was answered with success.\<close>

theorem early_cleaner_frees_fresh_machines:
  assumes R: "redis_server R" and wf: "entries R wf_resource n"
    and ids: "active_allocation_ids W has_cert ep n = (Inr ids, n0)" and fresh: "body_id req \<notin> set ids"
    and new: "hw_fulfill R req n0 = (Inr (200, b), n2)"
  shows "\<exists>n3 infos. (hv_pool R W)\<^sup>*\<^sup>*
        ([hv_task R W (HvClean has_cert ep), hv_task R W (HvFulfill req)], None, n)
        ([Ended (Inr None), Ended (Inr (Some (200, b)))], None, n3)
    \<and> b = JObj [(''status'', JStr ''Success''), (''info'', JList infos)]
    \<and> (\<forall>i \<in> set infos. \<exists>k. fld i ''name'' = Some (JStr k) \<and> hv_held R n2 k = Some (body_id req) \<and> hv_held R n3 k = None)"
proof -
  let ?C = "hv_task R W (HvClean has_cert ep)" and ?U = "hv_task R W (HvFulfill req)" and ?u = "Ended (Inr (Some (200, b)))"
  let ?D = "unanswered (t_clean_machines R ids)"
  have "store n0 = store n" using active_allocation_ids_store [of W has_cert ep n] ids by simp
  then have wf0: "entries R wf_resource n0" using wf by (simp add: entries_def)
  have wf2: "entries R wf_resource n2" using redis_server.hw_fulfill_inv [OF R wf0, of req] new by simp
  have C: "?C = Piece (\<lambda>n. snd (active_allocation_ids W has_cert ep n))
      (\<lambda>n. l_of (t_then (t_bind (Done (fst (active_allocation_ids W has_cert ep n))) (t_clean_machines R)) (t_return None)))"
    by (simp add: unanswered_def t_do_clean_dangling_hardware_def t_atomic_def t_then_def)
  have "hv_pool R W ([?C, ?U], None, n) ([?D, ?U], None, n0)"
    using l_piece_first [OF C, of "hv_allowed R W" world_moved "[?U]" None n] by (simp add: ids unanswered_def)
  moreover have "(hv_pool R W)\<^sup>*\<^sup>* ([?D, ?U], None, n0) ([?D, ?u], None, n2)"
    using hv_task_runs [OF R _ _ _ wf0 hv_fulfill_task_run [OF new], of 1 "[?D, ?U]" W] by (simp add: hv_operation_ok_def)
  moreover obtain n3 where rest: "py_bind (all_machines R) (\<lambda>machines. py_for (map snd machines) (release_dangling R ids)) n2 = (Inr (), n3)"
    and eff: "\<forall>h k. hget R (store n3) h k = (case hget R (store n2) h k of
           Some (JObj m) \<Rightarrow> Some (if h = ''resources'' \<and> \<not> active_ok ids (JObj m) then released m else JObj m)
         | v \<Rightarrow> v)"
    using redis_server.clean_machines_outcome [OF R wf2] by blast
  have D: "l_run ?D n2 = (Inr None, n3)"
    using rest by (simp add: unanswered_def t_clean_machines_def l_task_run task_run py_then_def py_bind_def py_return_def
        split: prod.splits sum.splits)
  have guar_D: "guar (entries R wf_resource) (hv_free_move R) (hv_take_move R) ?D None (\<lambda>_. True)"
    by (rule redis_server.handlers_guar(2) [OF R]) (rule redis_server.clean_machines_guar [OF R])
  have "(hv_pool R W)\<^sup>*\<^sup>* ([?D, ?u], None, n2) ([Ended (Inr None), ?u], None, n3)"
    using lock_pool_run [OF _ _ guar_D, of 0 "[?D, ?u]" None n2 "hv_allowed R W" world_moved] wf2 D by simp
  ultimately have run: "(hv_pool R W)\<^sup>*\<^sup>* ([?C, ?U], None, n) ([Ended (Inr None), ?u], None, n3)"
    by (meson converse_rtranclp_into_rtranclp rtranclp_trans)
  from redis_server.fulfilled_held [OF R wf0 new] obtain infos where
    infos: "b = JObj [(''status'', JStr ''Success''), (''info'', JList infos)]"
    and held: "\<forall>i \<in> set infos. \<exists>k. fld i ''name'' = Some (JStr k) \<and> hv_held R n0 k = None \<and> hv_held R n2 k = Some (body_id req)"
    by blast
  have "hv_held R n3 k = None" if "hv_held R n2 k = Some (body_id req)" for k
  proof -
    from that obtain a where a: "hget R (store n2) ''resources'' k = Some a" "\<not> is_free a" "opt (fld a ''allocation_id'') = body_id req"
      by (auto simp: hv_held_def split: option.splits if_splits)
    with wf2 have "wf_machine k a" by (simp add: entries_def wf_resource_def)
    then obtain m where "a = JObj m" by (rule wf_machineE)
    with a fresh eff [rule_format, of "''resources''" k] have "hget R (store n3) ''resources'' k = Some (released m)"
      by (simp add: active_ok_def)
    then show ?thesis by (rule hv_held_released)
  qed
  with run infos held show ?thesis by blast
qed

theorem early_cleaner_frees_fresh_machines_witness:
  "\<exists>b n3. (hv_pool mem_redis (scripted demo_jobs))\<^sup>*\<^sup>*
      ([hv_task mem_redis (scripted demo_jobs) (HvClean True ''prov''),
        hv_task mem_redis (scripted demo_jobs) (HvFulfill (JObj demo_demands))], None, demo_inventory ''available'')
      ([Ended (Inr None), Ended (Inr (Some (200, b)))], None, n3)
    \<and> b = JObj [(''status'', JStr ''Success''), (''info'', JList [demo_hw_taken])] \<and> hv_held mem_redis n3 ''m1'' = None"
proof -
  have wf: "entries mem_redis wf_resource (demo_inventory ''available'')" by (simp add: demo_inventory_wf)
  have ids: "active_allocation_ids (scripted demo_jobs) True ''prov'' (demo_inventory ''available'')
      = (Inr [], demo_inventory ''available'')"
    by (simp add: active_allocation_ids_def demo_jobs_def py_defs demo_inventory_def at_time_def)
  from early_cleaner_frees_fresh_machines [OF mem_redis.redis_server_axioms wf ids _ demo_fulfill_run]
  obtain n3 where run: "(hv_pool mem_redis (scripted demo_jobs))\<^sup>*\<^sup>*
      ([hv_task mem_redis (scripted demo_jobs) (HvClean True ''prov''),
        hv_task mem_redis (scripted demo_jobs) (HvFulfill (JObj demo_demands))], None, demo_inventory ''available'')
      ([Ended (Inr None), Ended (Inr (Some (200, JObj [(''status'', JStr ''Success''), (''info'', JList [demo_hw_taken])])))], None, n3)"
    and gone: "\<exists>k. fld demo_hw_taken ''name'' = Some (JStr k) \<and> hv_held mem_redis n3 k = None"
    by (simp del: hv_task.simps) blast
  from gone have "hv_held mem_redis n3 ''m1'' = None" by (simp add: demo_hw_taken_def)
  with run show ?thesis by blast
qed

section \<open>A run to look at\<close>

theorem machines_change_hands_when_free_witness:
  "\<exists>ts ts' n1 n2. (hv_pool mem_redis (scripted demo_jobs))\<^sup>*\<^sup>* ([], None, demo_inventory ''in_use'') (ts, None, n1)
    \<and> hv_pool mem_redis (scripted demo_jobs) (ts, None, n1) (ts', None, n2)
    \<and> hv_held mem_redis n1 ''m1'' \<noteq> None
    \<and> (\<exists>a. hget mem_redis (store n2) ''resources'' ''m1'' = Some a \<and> wf_machine ''m1'' a \<and> is_free a)"
proof -
  let ?n = "demo_inventory ''in_use''" and ?W = "scripted demo_jobs" and ?T = "hv_task mem_redis (scripted demo_jobs) (HvRelease ''m1'')"
  let ?m = "[(''name'', JStr ''m1''), (''arch'', JStr ''x86_64''), (''ip'', JStr ''10.0.0.7''),
     (''password'', JStr ''pw''), (''net_ifaces'', JList []), (''status'', JStr ''in_use'')]"
  have wf: "entries mem_redis wf_resource ?n" by (simp add: demo_inventory_wf)
  have m: "hget mem_redis (store ?n) ''resources'' ''m1'' = Some (JObj ?m)"
    by (simp add: demo_inventory_def mem_run demo_hw_def)
  obtain g where T: "?T = Piece (\<lambda>n. n) g"
    and g: "g ?n = Piece (\<lambda>s. s\<lparr>store := hset mem_redis (store s) ''resources'' ''m1'' (released ?m)\<rparr>) (\<lambda>_. Ended (Inr released_reply))"
    using release_pieces [OF mem_redis.redis_server_axioms wf _ m, of ?W] by blast
  have "hv_pool mem_redis ?W ([], None, ?n) ([] @ [?T], None, ?n)"
    by (rule l_spawn) (auto simp: hv_allowed_def hv_operation_ok_def simp del: hv_task.simps intro!: exI [of _ "HvRelease ''m1''"])
  then have "(hv_pool mem_redis ?W)\<^sup>*\<^sup>* ([], None, ?n) ([?T], None, ?n)" by auto
  then have run: "(hv_pool mem_redis ?W)\<^sup>*\<^sup>* ([], None, ?n) ([g ?n], None, ?n)"
    by (rule rtranclp.rtrancl_into_rtrancl) (rule l_piece_first [OF T])
  let ?n2 = "?n\<lparr>store := hset mem_redis (store ?n) ''resources'' ''m1'' (released ?m)\<rparr>"
  have step: "hv_pool mem_redis ?W ([g ?n], None, ?n) ([Ended (Inr released_reply)], None, ?n2)"
    by (rule l_piece_first [OF g])
  have "hv_held mem_redis ?n ''m1'' \<noteq> None" by (simp add: hv_held_def m is_free_def)
  moreover from machines_change_hands_when_free [OF mem_redis.redis_server_axioms wf run step m]
  have "\<exists>a. hget mem_redis (store ?n2) ''resources'' ''m1'' = Some a \<and> wf_machine ''m1'' a \<and> is_free a"
    by (auto simp: mem_redis.hget_hset is_free_released)
  ultimately show ?thesis using run step by blast
qed

theorem handlers_can_always_finish_witness:
  "\<exists>ts r n2. (hv_pool mem_redis (scripted demo_jobs))\<^sup>*\<^sup>* ([], None, demo_inventory ''available'') (ts, Some 0, demo_inventory ''available'')
    \<and> (hv_pool mem_redis (scripted demo_jobs))\<^sup>*\<^sup>* (ts, Some 0, demo_inventory ''available'') ([Ended r], None, n2)"
proof -
  let ?n = "demo_inventory ''available''" and ?W = "scripted demo_jobs"
  let ?d = "JObj [(''arch'', JStr ''x86_64''), (''host'', JStr ''host'')]"
  let ?T = "hv_task mem_redis ?W (HvDemand ?d)"
  have wf: "entries mem_redis wf_resource ?n" by (simp add: demo_inventory_wf)
  obtain t where T: "?T = Acquire t" by (simp add: l_hw_allocate_def l_locked_def)
  have "hv_allowed mem_redis ?W ?T"
    unfolding hv_allowed_def by (rule exI [of _ "HvDemand ?d"]) (simp add: hv_operation_ok_def demand_of_def)
  then have "hv_pool mem_redis ?W ([], None, ?n) ([] @ [?T], None, ?n)" by (rule l_spawn)
  moreover have "hv_pool mem_redis ?W ([] @ [?T], None, ?n) ([t], Some 0, ?n)"
    using l_acquire [of 0 "[?T]" t] T by simp
  ultimately have run: "(hv_pool mem_redis ?W)\<^sup>*\<^sup>* ([], None, ?n) ([t], Some 0, ?n)"
    by (meson converse_rtranclp_into_rtranclp r_into_rtranclp)
  from handlers_can_always_finish [OF mem_redis.redis_server_axioms wf run] obtain rs n2
    where "length rs = 1" "(hv_pool mem_redis ?W)\<^sup>*\<^sup>* ([t], Some 0, ?n) (map Ended rs, None, n2)" by auto
  moreover then obtain r where "rs = [r]" by (auto simp: length_Suc_conv)
  ultimately show ?thesis using run by auto
qed

end
