(* ===== verification/Machine.thy ===== *)
theory Machine
  imports Prelude
begin

text \<open>
  The virtual machine objects of the hypervisor (\<open>resource_managers/common/vm.py\<close> and
  \<open>hypervisor/vms/physical_vm.py\<close>) and the PCI devices they are given (\<open>utils/pci.py\<close>).
\<close>

section \<open>PCI devices\<close>

record pci =
  pci_domain :: string
  pci_bus :: string
  pci_slot :: string
  pci_function :: string
  pci_info :: "string dict"

definition full_address :: "pci \<Rightarrow> string" where
  "full_address p = pci_domain p @ '':'' @ pci_bus p @ '':'' @ pci_slot p @ ''.'' @ pci_function p"

definition is_hex :: "char \<Rightarrow> bool" where
  "is_hex c \<longleftrightarrow> c \<in> set ''0123456789abcdef''"

text \<open>The regular expression of the lspci lines: four, two and two hexadecimal digits, any character, one
  more digit (\<open>re.match\<close> is not anchored at the end).\<close>

definition lspci_match :: "string \<Rightarrow> (string \<times> string \<times> string \<times> string \<times> string) option" where
  "lspci_match s =
     (if length s \<ge> 12 \<and> (\<forall>i \<in> {0, 1, 2, 3, 5, 6, 8, 9, 11}. is_hex (s ! i)) \<and> s ! 4 = CHR '':'' \<and> s ! 7 = CHR '':''
         \<and> s ! 10 \<noteq> CHR 0x0A
      then Some (take 12 s, take 4 s, take 2 (drop 5 s), take 2 (drop 8 s), take 1 (drop 11 s))
      else None)"

definition lower_char :: "char \<Rightarrow> char" where
  "lower_char c = (if 65 \<le> (of_char c :: nat) \<and> (of_char c :: nat) \<le> 90 then char_of ((of_char c :: nat) + 32) else c)"

definition is_gpu_line :: "string \<Rightarrow> bool" where
  "is_gpu_line line \<longleftrightarrow> infix_of ''nvidia'' line \<and> \<not> infix_of ''audio'' line"

section \<open>Virtual machines\<close>

text \<open>A network interface: its address is set when DHCP has given one.  Disks are the dictionaries of
  the request, completed by the manager.\<close>

record net_iface =
  net_mac :: string
  net_mode :: string
  net_source :: string
  net_ip :: "string option"

type_synonym disk = "json dict"

text \<open>\<open>vm_oid\<close> is the identity of the object: two machines that have had the same name are different
  objects.\<close>

record vm =
  vm_oid :: nat
  vm_name :: string
  num_cpus :: json
  memsize :: json
  base_image :: json
  base_image_size :: json
  net_ifaces :: "net_iface list"
  pcis :: "pci list"
  disks :: "disk list"
  sol_port :: json
  vm_image :: "string option"
  cloud_init_iso :: "string option"
  vm_uuid :: string
  vm_allocation_id :: json
  vm_requestor :: json
  vm_user :: string
  vm_password :: string

definition opt_str :: "string option \<Rightarrow> json" where
  "opt_str s = (case s of None \<Rightarrow> JNull | Some x \<Rightarrow> JStr x)"

definition net_json :: "net_iface \<Rightarrow> json" where
  "net_json n = JObj ([(''macaddress'', JStr (net_mac n)), (''mode'', JStr (net_mode n)),
     (''source'', JStr (net_source n))] @ (case net_ip n of None \<Rightarrow> [] | Some i \<Rightarrow> [(''ip'', JStr i)]))"

text \<open>\<open>common.vm.VM.json\<close>, and the update that \<open>physical_vm.VM.json\<close> makes.\<close>

definition base_vm_json :: "vm \<Rightarrow> json dict" where
  "base_vm_json v =
     [(''net_ifaces'', JList (map net_json (net_ifaces v))),
      (''name'', JStr (vm_name v)),
      (''num_cpus'', num_cpus v),
      (''memsize'', memsize v),
      (''base_image'', base_image v),
      (''api_version'', JStr ''v1''),
      (''image'', opt_str (vm_image v)),
      (''uuid'', JStr (vm_uuid v)),
      (''allocation_id'', vm_allocation_id v),
      (''requestor'', vm_requestor v)]"

definition vm_json :: "vm \<Rightarrow> json" where
  "vm_json v = JObj (dict_update (base_vm_json v)
     [(''net_ifaces'', JList (map net_json (net_ifaces v))),
      (''pcis'', JList (map (\<lambda>p. JStr (full_address p)) (pcis v))),
      (''disks'', JList (map JObj (disks v))),
      (''sol_port'', sol_port v),
      (''cloud_init_iso'', opt_str (cloud_init_iso v)),
      (''base_image_size'', base_image_size v),
      (''user'', JStr (vm_user v)),
      (''password'', JStr (vm_password v))])"

section \<open>Addresses\<close>

text \<open>What \<open>full_address\<close> prints of a device that was read from lspci, \<open>from_full_address\<close> reads.\<close>

definition wf_pci :: "pci \<Rightarrow> bool" where
  "wf_pci p \<longleftrightarrow> length (pci_domain p) = 4 \<and> length (pci_bus p) = 2 \<and> length (pci_slot p) = 2
     \<and> length (pci_function p) = 1
     \<and> (\<forall>c \<in> set (pci_domain p @ pci_bus p @ pci_slot p @ pci_function p). is_hex c)"

lemma length4: "length xs = 4 \<Longrightarrow> \<exists>a b c d. xs = [a, b, c, d]"
  by (auto simp: length_Suc_conv eval_nat_numeral)

lemma length2: "length xs = 2 \<Longrightarrow> \<exists>a b. xs = [a, b]"
  by (auto simp: length_Suc_conv eval_nat_numeral)

lemma length1: "length xs = 1 \<Longrightarrow> \<exists>a. xs = [a]"
  by (auto simp: length_Suc_conv)

lemma lspci_match_full_address:
  assumes "wf_pci p"
  shows "lspci_match (full_address p) =
    Some (full_address p, pci_domain p, pci_bus p, pci_slot p, pci_function p)"
proof -
  from assms obtain d1 d2 d3 d4 b1 b2 s1 s2 f where
    "pci_domain p = [d1, d2, d3, d4]" "pci_bus p = [b1, b2]" "pci_slot p = [s1, s2]" "pci_function p = [f]"
    unfolding wf_pci_def using length4 length2 length1 by metis
  with assms show ?thesis
    by (simp add: lspci_match_def full_address_def wf_pci_def)
qed

lemma full_address_inj:
  "wf_pci p \<Longrightarrow> wf_pci q \<Longrightarrow> full_address p = full_address q \<Longrightarrow> pci_info p = pci_info q \<Longrightarrow> p = q"
  using lspci_match_full_address [of p] lspci_match_full_address [of q] by (auto intro: pci.equality)

end
