(* ===== verification/Host_System.thy ===== *)
theory Host_System
  imports Machine
begin

text \<open>
  What the hypervisor uses of the machine it runs on, as parameters: processes, files, the clock and
  \<open>uuid4\<close>; the path functions of \<open>os.path\<close>; the helpers \<open>utils/shell.py\<close>, \<open>utils/waiter.py\<close> and
  \<open>utils/pci.py\<close> that are built on them; the file systems of \<open>utils/filesystem.py\<close>.
\<close>

record 'w sys =
  check_output :: "string list \<Rightarrow> ('w, string) py"
  sub_exec :: "string list \<Rightarrow> ('w, int \<times> string) py"
  file_exists :: "string \<Rightarrow> ('w, bool) py"
  list_dir :: "string \<Rightarrow> ('w, string list) py"
  remove_file :: "string \<Rightarrow> ('w, unit) py"
  read_file :: "string \<Rightarrow> ('w, string) py"
  read_link :: "string \<Rightarrow> ('w, string) py"
  glob_files :: "string \<Rightarrow> ('w, string list) py"
  now :: "('w, rat) py"
  pause :: "rat \<Rightarrow> ('w, unit) py"
  new_uuid :: "('w, string) py"
  cwd :: string
  float_str :: "rat \<Rightarrow> string"
  json_loads :: "string \<Rightarrow> json res"
  temp_dir :: "('w, string) py"
  remove_tree :: "string \<Rightarrow> ('w, unit) py"
  write_file :: "string \<Rightarrow> string \<Rightarrow> ('w, unit) py"
  yaml_dump :: "json \<Rightarrow> string"

section \<open>Paths\<close>

definition path_join :: "string \<Rightarrow> string \<Rightarrow> string" where
  "path_join a b =
     (case b of CHR ''/'' # _ \<Rightarrow> b
      | _ \<Rightarrow> if a = [] \<or> last a = CHR ''/'' then a @ b else a @ ''/'' @ b)"

fun norm_parts :: "bool \<Rightarrow> string list \<Rightarrow> string list \<Rightarrow> string list" where
  "norm_parts absolute acc [] = rev acc"
| "norm_parts absolute acc (c # cs) =
     (if c = [] \<or> c = ''.'' then norm_parts absolute acc cs
      else if c \<noteq> ''..'' \<or> (\<not> absolute \<and> acc = []) \<or> (acc \<noteq> [] \<and> hd acc = ''..'') then norm_parts absolute (c # acc) cs
      else norm_parts absolute (tl acc) cs)"

definition norm_path :: "string \<Rightarrow> string" where
  "norm_path p =
     (let absolute = (p \<noteq> [] \<and> hd p = CHR ''/'');
          body = join ''/'' (norm_parts absolute [] (split_on (\<lambda>c. c = CHR ''/'') p));
          slashes = (if absolute then (if take 2 p = ''//'' \<and> take 3 p \<noteq> ''///'' then ''//'' else ''/'') else [])
      in if slashes @ body = [] then ''.'' else slashes @ body)"

definition abs_path :: "string \<Rightarrow> string \<Rightarrow> string" where
  "abs_path here p = norm_path (path_join here p)"

text \<open>\<open>os.path.basename(p)\<close>, and \<open>os.path.splitext(f)[0]\<close> of a file name.\<close>

definition base_name :: "string \<Rightarrow> string" where
  "base_name p = last (split_on (\<lambda>c. c = CHR ''/'') p)"

definition root_name :: "string \<Rightarrow> string" where
  "root_name f =
     (let parts = split_on (\<lambda>c. c = CHR ''.'') f; root = join ''.'' (butlast parts)
      in if length parts \<le> 1 \<or> (\<forall>c \<in> set root. c = CHR ''.'') then f else root)"

section \<open>Shell commands\<close>

text \<open>A command is a list of words, a string that is split into its words, or (with \<open>shell=True\<close>) a line that
  the shell is given.\<close>

datatype command = Words "string list" | Line string | Shell string

definition run_cmd :: "'w sys \<Rightarrow> command \<Rightarrow> ('w, string) py" where
  "run_cmd S cmd =
     py_bind (check_output S (case cmd of Words ws \<Rightarrow> ws | Line l \<Rightarrow> split_ws l | Shell l \<Rightarrow> [''/bin/sh'', ''-c'', l])) (\<lambda>out. py_return (strip out))"

section \<open>Waiting for a predicate\<close>

text \<open>One turn of \<open>while True\<close>: a result that is true ends the loop; an exception of the given class is
  noted; then the loop ends when more than the timeout has passed, and sleeps otherwise.  The loop is
  given more turns than a clock that never goes back leaves it (\<open>wait_fuel\<close>).\<close>

definition wait_more :: "'w sys \<Rightarrow> rat \<Rightarrow> rat \<Rightarrow> rat \<Rightarrow> string \<Rightarrow> ('w, 'a) py \<Rightarrow> ('w, 'a) py" where
  "wait_more S before timeout interval noted again =
     py_bind (now S) (\<lambda>t.
     if t - before > timeout then
       py_raise (Exn TimeoutErr (''Predicate timed out, during the time we caught theses exceptions: '' @ [CHR 0x0A] @ noted))
     else py_then (pause S interval) again)"

fun wait_rounds ::
    "'w sys \<Rightarrow> ('w, 'a) py \<Rightarrow> ('a \<Rightarrow> bool) \<Rightarrow> (exn \<Rightarrow> bool) \<Rightarrow> rat \<Rightarrow> rat \<Rightarrow> rat \<Rightarrow> nat \<Rightarrow> string \<Rightarrow> ('w, 'a) py" where
  "wait_rounds S predicate holds caught before timeout interval 0 noted =
     py_raise (Exn AssertionErr ''no turns left'')"
| "wait_rounds S predicate holds caught before timeout interval (Suc fuel) noted =
     py_bind (py_attempt predicate) (\<lambda>r.
     case r of
       Inr x \<Rightarrow> (if holds x then py_return x
         else wait_more S before timeout interval noted
           (wait_rounds S predicate holds caught before timeout interval fuel noted))
     | Inl e \<Rightarrow> (if caught e then
         (let noted' = noted @ exn_msg e @ [CHR 0x0A]
          in wait_more S before timeout interval noted'
               (wait_rounds S predicate holds caught before timeout interval fuel noted'))
         else py_raise e))"

definition wait_fuel :: "rat \<Rightarrow> rat \<Rightarrow> nat" where
  "wait_fuel timeout interval = nat \<lceil>timeout / interval\<rceil> + 2"

definition wait_for_predicate_nothrow ::
    "'w sys \<Rightarrow> ('w, 'a) py \<Rightarrow> ('a \<Rightarrow> bool) \<Rightarrow> rat \<Rightarrow> rat \<Rightarrow> (exn \<Rightarrow> bool) \<Rightarrow> ('w, 'a) py" where
  "wait_for_predicate_nothrow S predicate holds timeout interval caught =
     py_bind (now S) (\<lambda>before.
       wait_rounds S predicate holds caught before timeout interval (wait_fuel timeout interval) [])"

text \<open>The variant that takes any result.\<close>

definition wait_nothrow :: "'w sys \<Rightarrow> ('w, 'a) py \<Rightarrow> rat \<Rightarrow> rat \<Rightarrow> ('w, 'a) py" where
  "wait_nothrow S operation timeout interval =
     wait_for_predicate_nothrow S operation (\<lambda>_. True) timeout interval (\<lambda>_. True)"

fun changing_rounds :: "'w sys \<Rightarrow> ('w, 'a) py \<Rightarrow> rat \<Rightarrow> nat \<Rightarrow> 'a \<Rightarrow> ('w, 'a option) py" where
  "changing_rounds S predicate interval 0 prev_res = py_return None"
| "changing_rounds S predicate interval (Suc tries) prev_res =
     py_then (pause S interval)
     (py_bind predicate (\<lambda>res.
      if res = prev_res then py_return (Some res) else changing_rounds S predicate interval tries res))"

definition await_changing_result :: "'w sys \<Rightarrow> ('w, 'a) py \<Rightarrow> rat \<Rightarrow> nat \<Rightarrow> ('w, 'a option) py" where
  "await_changing_result S predicate interval tries =
     py_bind predicate (changing_rounds S predicate interval tries)"

section \<open>PCI devices of the machine\<close>

definition info_files :: "string list" where
  "info_files = [''current_link_speed'', ''max_link_speed'', ''max_link_width'', ''current_link_width'', ''local_cpulist'']"

definition device_info :: "'w sys \<Rightarrow> string \<Rightarrow> ('w, string dict) py" where
  "device_info S pci_address =
     py_collect info_files (\<lambda>info_name.
     py_bind (read_file S (''/sys/bus/pci/devices/'' @ pci_address @ ''/'' @ info_name)) (\<lambda>content.
       py_return (info_name, strip content)))"

definition pci_device :: "string \<times> string \<times> string \<times> string \<Rightarrow> string dict \<Rightarrow> pci" where
  "pci_device = (\<lambda>(dmn, bus, slot, fn) info.
     \<lparr>pci_domain = dmn, pci_bus = bus, pci_slot = slot, pci_function = fn, pci_info = info\<rparr>)"

definition from_full_address :: "'w sys \<Rightarrow> string \<Rightarrow> ('w, pci) py" where
  "from_full_address S address =
     (case lspci_match address of
        None \<Rightarrow> py_raise (Exn PlainException (''Address '' @ address @ '' is not a pci address''))
      | Some (_, parts) \<Rightarrow> py_bind (device_info S address) (\<lambda>info. py_return (pci_device parts info)))"

fun parse_nvidia_lspci_output :: "'w sys \<Rightarrow> string list \<Rightarrow> pci dict \<Rightarrow> ('w, pci dict) py" where
  "parse_nvidia_lspci_output S [] devices = py_return devices"
| "parse_nvidia_lspci_output S (line # lines) devices =
     (let low = map lower_char line in
      if is_gpu_line low then
        (case lspci_match low of
           None \<Rightarrow> parse_nvidia_lspci_output S lines devices
         | Some (addr, parts) \<Rightarrow>
             py_bind (device_info S addr) (\<lambda>info.
               parse_nvidia_lspci_output S lines (AList.update addr (pci_device parts info) devices)))
      else parse_nvidia_lspci_output S lines devices)"

definition local_nvidia :: "'w sys \<Rightarrow> ('w, pci dict) py" where
  "local_nvidia S =
     py_bind (run_cmd S (Line ''sudo lspci -D'')) (\<lambda>output.
       parse_nvidia_lspci_output S (split_on (\<lambda>c. c = CHR 0x0A) output) [])"

definition device_driver :: "'w sys \<Rightarrow> pci \<Rightarrow> ('w, string option) py" where
  "device_driver S device =
     py_try
       (py_bind (read_link S (''/sys/bus/pci/devices/'' @ full_address device @ ''/driver'')) (\<lambda>path.
          py_return (Some (base_name path))))
       (\<lambda>e. if exn_kind e = OSErr then py_return None else py_raise e)"

definition enable_count :: "'w sys \<Rightarrow> pci \<Rightarrow> ('w, int) py" where
  "enable_count S device =
     py_bind (read_file S (''/sys/bus/pci/devices/'' @ full_address device @ ''/enable'')) (\<lambda>content.
       py_lift (py_int (JStr content)))"

definition vfio_bind_pci_device :: "'w sys \<Rightarrow> pci \<Rightarrow> ('w, unit) py" where
  "vfio_bind_pci_device S device =
     py_then (run_cmd S (Words [''/usr/local/bin/vfio-pci-bind.sh'', full_address device])) (py_return ())"

definition pci_vfio_bind_devices :: "'w sys \<Rightarrow> pci list \<Rightarrow> ('w, unit) py" where
  "pci_vfio_bind_devices S devices = py_for devices (vfio_bind_pci_device S)"

text \<open>At start-up (\<open>hypervisor/__main__.py\<close>): a device that vfio already holds and that is in use is left
  alone, every other one is bound.\<close>

definition vfio_bind_one :: "'w sys \<Rightarrow> pci \<Rightarrow> ('w, unit) py" where
  "vfio_bind_one S device =
     py_bind (device_driver S device) (\<lambda>driver.
     py_bind (if driver = Some ''vfio-pci'' then py_bind (enable_count S device) (\<lambda>n. py_return (n > 0))
              else py_return False) (\<lambda>in_use.
     if in_use then py_return ()
     else py_try (vfio_bind_pci_device S device)
       (\<lambda>_. py_raise (Exn PlainException (''Failed to bind device '' @ full_address device @ '' verify'')))))"

definition vfio_bind_pci_devices :: "'w sys \<Rightarrow> pci list \<Rightarrow> ('w, unit) py" where
  "vfio_bind_pci_devices S devices = py_for devices (vfio_bind_one S)"

definition check_network_interface_up :: "'w sys \<Rightarrow> string \<Rightarrow> ('w, unit) py" where
  "check_network_interface_up S net_iface =
     py_bind (read_file S (''/sys/class/net/'' @ net_iface @ ''/operstate'')) (\<lambda>content.
     if strip content \<noteq> ''up'' then
       py_raise (Exn PlainException (''Network infterface '' @ net_iface @ '' is not operational''))
     else py_return ())"

definition load_config :: "'w sys \<Rightarrow> (string \<Rightarrow> json res) \<Rightarrow> string \<Rightarrow> ('w, pci list \<times> json) py" where
  "load_config S yaml_load file_name =
     py_bind (read_file S file_name) (\<lambda>content.
     py_bind (py_lift (yaml_load content)) (\<lambda>config_yaml.
     py_bind (py_lift (jget config_yaml ''pcis'' JNull)) (\<lambda>pcis.
     py_bind (if pcis \<noteq> JNull then
          py_bind (py_lift (jiter pcis)) (\<lambda>confs.
          py_collect confs (\<lambda>pci_conf.
            py_bind (py_lift (res_bind (jitem pci_conf ''pci'') jkey)) (\<lambda>address.
              from_full_address S address)))
        else py_return []) (\<lambda>devices.
     py_bind (py_lift (jitem config_yaml ''macs'')) (\<lambda>macs. py_return (devices, macs))))))"

section \<open>File systems\<close>

definition mkfs_ext4 :: "string \<Rightarrow> string \<Rightarrow> string" where
  "mkfs_ext4 device disk_uuid =
     ''mkfs.ext4 '' @ (if disk_uuid \<noteq> [] then '' -U '' @ disk_uuid else []) @ '' -F '' @ device"

definition mkfs_xfs :: "string \<Rightarrow> string \<Rightarrow> string" where
  "mkfs_xfs device disk_uuid =
     ''mkfs.xfs '' @ (if disk_uuid \<noteq> [] then '' -m uuid='' @ disk_uuid else []) @ '' -f '' @ device"

definition unhashable :: "json \<Rightarrow> bool" where
  "unhashable v = (case v of JList _ \<Rightarrow> True | JObj _ \<Rightarrow> True | _ \<Rightarrow> False)"

definition mkfs_command :: "string \<Rightarrow> json \<Rightarrow> string \<Rightarrow> string res" where
  "mkfs_command device fstype disk_uuid =
     (if unhashable fstype then Inl (Exn TypeErr ''unhashable type'')
      else if fstype = JStr ''xfs'' then Inr (mkfs_xfs device disk_uuid)
      else if fstype = JStr ''ext4'' then Inr (mkfs_ext4 device disk_uuid)
      else Inl (Exn ValueErr (''Filesystem '' @ py_str fstype @ '' is not supported'')))"

end
