(* ===== verification/Image_Store.thy ===== *)
theory Image_Store
  imports Host_System
begin

text \<open>
  Disk images: the qcow files of \<open>hypervisor/vms/image_store.py\<close> and the file systems that
  \<open>hypervisor/vms/storage.py\<close> puts on them through the network block devices.
\<close>

section \<open>The image store\<close>

record qcow_store =
  base_qcow_path :: string
  run_qcow_path :: string
  ssd_path :: string
  hdd_path :: string

definition run_qcow_path_from_name :: "'w sys \<Rightarrow> qcow_store \<Rightarrow> string \<Rightarrow> ('w, string) py" where
  "run_qcow_path_from_name S st name =
     py_bind (now S) (\<lambda>t.
       py_return (abs_path (cwd S) (path_join (run_qcow_path st) (name @ ''_'' @ float_str S t @ ''.qcow2''))))"

definition storage_path :: "'w sys \<Rightarrow> qcow_store \<Rightarrow> json \<Rightarrow> string \<Rightarrow> json \<Rightarrow> string" where
  "storage_path S st storage_type name serial_num =
     (let base_path = (if storage_type = JStr ''ssd'' then ssd_path st else hdd_path st);
          file_name = name @ ''_'' @ py_str storage_type @ ''_'' @ py_str serial_num @ ''.qcow2''
      in abs_path (cwd S) (path_join base_path file_name))"

definition base_qcow_path_from_name :: "'w sys \<Rightarrow> qcow_store \<Rightarrow> json \<Rightarrow> string" where
  "base_qcow_path_from_name S st image_label =
     abs_path (cwd S) (path_join (base_qcow_path st) (py_str image_label @ ''.qcow2''))"

definition list_images :: "'w sys \<Rightarrow> qcow_store \<Rightarrow> ('w, string list) py" where
  "list_images S st =
     py_bind (list_dir S (abs_path (cwd S) (base_qcow_path st))) (\<lambda>files. py_return (map root_name files))"

definition clone_args :: "string \<Rightarrow> string \<Rightarrow> json \<Rightarrow> string list" where
  "clone_args backing_file path image_size =
     [''qemu-img'', ''create'', ''-f'', ''qcow2'', ''-o'', ''backing_file='' @ backing_file, path]
     @ (if image_size \<noteq> JNull then [py_str image_size @ ''G''] else [])"

definition clone_qcow :: "'w sys \<Rightarrow> qcow_store \<Rightarrow> json \<Rightarrow> string \<Rightarrow> json \<Rightarrow> ('w, string) py" where
  "clone_qcow S st base_qcow_image_name image_name image_size =
     (let backing_file = base_qcow_path_from_name S st base_qcow_image_name in
      py_bind (file_exists S backing_file) (\<lambda>exists.
      if \<not> exists then py_raise (Exn QcowErr (''Image '' @ backing_file @ '' does not exists''))
      else
      py_bind (run_qcow_path_from_name S st image_name) (\<lambda>path.
      py_bind (sub_exec S (clone_args backing_file path image_size)) (\<lambda>(returncode, out).
      if returncode \<noteq> 0 then py_raise (Exn QcowErr (''Failed clone qcow for label '' @ py_str base_qcow_image_name))
      else py_return path))))"

definition create_args :: "string \<Rightarrow> int \<Rightarrow> string list" where
  "create_args path gb = [''qemu-img'', ''create'', ''-f'', ''qcow2'', path, int_str gb @ ''G'']"

definition create_qcow :: "'w sys \<Rightarrow> qcow_store \<Rightarrow> string \<Rightarrow> json \<Rightarrow> json \<Rightarrow> json \<Rightarrow> ('w, string) py" where
  "create_qcow S st name storage_type size_gb serial_num =
     (let path = storage_path S st storage_type name serial_num in
      py_bind (py_lift (py_int size_gb)) (\<lambda>gb.
      py_bind (sub_exec S (create_args path gb)) (\<lambda>(returncode, out).
      if returncode \<noteq> 0 then py_raise (Exn QcowErr (''Failed create qcow for file '' @ path))
      else py_return path)))"

definition qcow_info :: "'w sys \<Rightarrow> json \<Rightarrow> ('w, json) py" where
  "qcow_info S image_path =
     py_bind (py_lift (jkey image_path)) (\<lambda>path.
     py_bind (sub_exec S [''qemu-img'', ''info'', ''-U'', ''--output=json'', path]) (\<lambda>(_, out).
       py_lift (json_loads S out)))"

definition delete_qcow :: "'w sys \<Rightarrow> json \<Rightarrow> ('w, unit) py" where
  "delete_qcow S image_path = py_bind (py_lift (jkey image_path)) (remove_file S)"

section \<open>Network block devices\<close>

definition list_devices :: "'w sys \<Rightarrow> ('w, string list) py" where
  "list_devices S = glob_files S ''/dev/nbd*''"

definition is_used :: "'w sys \<Rightarrow> string \<Rightarrow> ('w, bool) py" where
  "is_used S device_path =
     py_bind (read_file S (''/sys/class/block/'' @ base_name device_path @ ''/size'')) (\<lambda>content.
       py_return (strip content \<noteq> ''0''))"

fun first_free :: "'w sys \<Rightarrow> string list \<Rightarrow> ('w, string option) py" where
  "first_free S [] = py_return None"
| "first_free S (device_path # paths) =
     py_bind (is_used S device_path) (\<lambda>used.
     if \<not> used then py_return (Some device_path) else first_free S paths)"

definition find_free_device :: "'w sys \<Rightarrow> ('w, string option) py" where
  "find_free_device S = py_bind (list_devices S) (first_free S)"

definition connect_device :: "'w sys \<Rightarrow> string \<Rightarrow> string \<Rightarrow> ('w, unit) py" where
  "connect_device S device_path image_path =
     py_then (run_cmd S (Words [''qemu-nbd'', ''--connect'', device_path, image_path])) (py_return ())"

definition disconnect_device :: "'w sys \<Rightarrow> string \<Rightarrow> ('w, unit) py" where
  "disconnect_device S device_path =
     py_then (run_cmd S (Words [''qemu-nbd'', ''--disconnect'', device_path])) (py_return ())"

definition allocate_and_connect :: "'w sys \<Rightarrow> string \<Rightarrow> ('w, string) py" where
  "allocate_and_connect S image_path =
     py_bind (find_free_device S) (\<lambda>device.
     case device of
       None \<Rightarrow> py_raise (Exn PlainException ''No free device'')
     | Some d \<Rightarrow> py_then (connect_device S d image_path) (py_return d))"

text \<open>\<open>except Exception\<close> takes everything but the cancellation of the task.\<close>

definition is_exception :: "exn \<Rightarrow> bool" where
  "is_exception e \<longleftrightarrow> exn_kind e \<noteq> CancelledErr"

definition ndb_mount :: "'w sys \<Rightarrow> string \<Rightarrow> (string \<Rightarrow> ('w, 'a) py) \<Rightarrow> ('w, 'a) py" where
  "ndb_mount S image_path body =
     py_bind (wait_for_predicate_nothrow S (allocate_and_connect S image_path) (\<lambda>d. d \<noteq> []) 10 1 is_exception)
       (\<lambda>device. py_finally (body device) (disconnect_device S device))"

definition provision_disk :: "'w sys \<Rightarrow> string \<Rightarrow> json \<Rightarrow> string \<Rightarrow> ('w, unit) py" where
  "provision_disk S image_path fstype disk_uuid =
     ndb_mount S image_path (\<lambda>device.
       py_bind (py_lift (mkfs_command device fstype disk_uuid)) (\<lambda>cmd.
         py_then (run_cmd S (Line cmd)) (py_return ())))"

definition free_nbd_devices :: "'w sys \<Rightarrow> ('w, unit) py" where
  "free_nbd_devices S = py_bind (list_devices S) (\<lambda>paths. py_for paths (disconnect_device S))"

definition nbd_initialize :: "'w sys \<Rightarrow> ('w, unit) py" where
  "nbd_initialize S =
     py_then (run_cmd S (Line ''modprobe nbd max_part=8'')) (free_nbd_devices S)"

end
