(* ===== verification/Cloud_Init.thy ===== *)
theory Cloud_Init
  imports Host_System
begin

text \<open>
  The boot configuration of a machine (\<open>hypervisor/vms/cloud_init.py\<close>): an ISO image with the
  meta data and the user data cloud-init reads.
\<close>

definition metadata :: "vm \<Rightarrow> string" where
  "metadata v = ''instance-id: '' @ vm_name v @ [CHR 0x0A] @ ''local-hostname: '' @ vm_name v @ [CHR 0x0A]"

definition write_metadata :: "'w sys \<Rightarrow> vm \<Rightarrow> string \<Rightarrow> ('w, unit) py" where
  "write_metadata S v filepath = write_file S filepath (metadata v)"

definition disk_get :: "disk \<Rightarrow> string \<Rightarrow> json" where
  "disk_get d k = (case map_of d k of None \<Rightarrow> JNull | Some v \<Rightarrow> v)"

text \<open>A disk with a mount point needs a file system and an identity.\<close>

fun mounts_of :: "disk list \<Rightarrow> json list res" where
  "mounts_of [] = Inr []"
| "mounts_of (d # ds) =
     (let disk_uuid = disk_get d ''serial''; mount_point = disk_get d ''mount''; fs = disk_get d ''fs'' in
      if mount_point \<noteq> JNull then
        (if disk_uuid = JNull \<or> fs = JNull then
           Inl (Exn ValueErr ''invalid disk parameters, uuid and fs must be specified'')
         else res_bind (mounts_of ds) (\<lambda>ms.
           Inr (JList [JStr (''UUID='' @ py_str disk_uuid), mount_point, fs, JStr ''defaults'', JStr ''0'', JStr ''0''] # ms)))
      else mounts_of ds)"

definition userdata :: "vm \<Rightarrow> json list \<Rightarrow> json" where
  "userdata v mounts = JObj [(''preserve_hostname'', JBool False),
     (''hostname'', JStr (vm_name v)),
     (''output'', JObj [(''all'', JStr ''>> /var/log/cloud-init.log'')]),
     (''mounts'', JList mounts)]"

definition write_userdata :: "'w sys \<Rightarrow> vm \<Rightarrow> string \<Rightarrow> ('w, unit) py" where
  "write_userdata S v filepath =
     py_bind (py_lift (mounts_of (disks v))) (\<lambda>mounts.
       write_file S filepath (''#cloud-config'' @ [CHR 0x0A] @ yaml_dump S (userdata v mounts)))"

definition iso_path :: "string \<Rightarrow> string \<Rightarrow> string \<Rightarrow> string" where
  "iso_path iso_base_path name uuid = path_join iso_base_path (name @ ''_'' @ uuid @ ''.iso'')"

definition generate_iso :: "'w sys \<Rightarrow> string \<Rightarrow> vm \<Rightarrow> ('w, string) py" where
  "generate_iso S iso_base_path v =
     (let iso = iso_path iso_base_path (vm_name v) (vm_uuid v) in
      py_bind (temp_dir S) (\<lambda>tmpdir.
      py_finally
        (let user_data = path_join tmpdir ''user-data''; meta_data = path_join tmpdir ''meta-data'' in
         py_then (write_metadata S v meta_data)
         (py_then (write_userdata S v user_data)
         (py_then (run_cmd S (Line (''mkisofs -o '' @ iso @ '' -V cidata -J -r '' @ user_data @ '' '' @ meta_data)))
           (py_return iso))))
        (remove_tree S tmpdir)))"

definition delete_iso :: "'w sys \<Rightarrow> string \<Rightarrow> string \<Rightarrow> string \<Rightarrow> ('w, unit) py" where
  "delete_iso S iso_base_path name uuid = remove_file S (iso_path iso_base_path name uuid)"

end
