(* ===== verification/Libvirt_Wrapper.thy ===== *)
theory Libvirt_Wrapper
  imports Machine
begin

text \<open>
  The hypervisor's access to libvirt (\<open>hypervisor/vms/libvirt_wrapper.py\<close>).  The library, the XML
  converter and the two address libraries are parameters; every operation opens a connection of its
  own and closes it on every path.
\<close>

datatype net_command = AddLast | Modify | Delete

record 'w virt =
  v_open :: "('w, unit) py"
  v_close :: "('w, unit) py"
  v_define :: "string \<Rightarrow> ('w, unit) py"
  v_lookup :: "string \<Rightarrow> ('w, unit) py"
  v_create :: "string \<Rightarrow> ('w, unit) py"
  v_destroy :: "string \<Rightarrow> ('w, unit) py"
  v_undefine :: "string \<Rightarrow> ('w, unit) py"
  v_is_active :: "string \<Rightarrow> ('w, bool) py"
  v_state :: "string \<Rightarrow> ('w, nat) py"
  v_leases :: "string \<Rightarrow> ('w, json dict) py"
  v_domains :: "('w, string list) py"
  v_metadata :: "string \<Rightarrow> ('w, string) py"
  v_net_lookup :: "string \<Rightarrow> ('w, unit) py"
  v_net_update :: "string \<Rightarrow> net_command \<Rightarrow> string \<Rightarrow> ('w, unit) py"
  v_net_xml :: "string \<Rightarrow> ('w, string) py"
  v_net_active :: "string \<Rightarrow> ('w, int) py"
  v_net_create :: "string \<Rightarrow> ('w, unit) py"
  unparse :: "json \<Rightarrow> string"
  parse_xml :: "string list \<Rightarrow> string \<Rightarrow> json res"
  parse_hosts :: "json \<Rightarrow> json \<Rightarrow> string list res"
  parse_net :: "json \<Rightarrow> json \<Rightarrow> string res"

section \<open>Connections\<close>

definition with_connection :: "'w virt \<Rightarrow> ('w, 'a) py \<Rightarrow> ('w, 'a) py" where
  "with_connection V body = py_then (v_open V) (py_finally body (v_close V))"

section \<open>Domains\<close>

text \<open>The description of a machine that is kept in the domain's metadata.\<close>

definition machine_metadata_xml :: "'w virt \<Rightarrow> json \<Rightarrow> string res" where
  "machine_metadata_xml V vm =
     res_bind (jset vm ''@xmlns:vm'' (JStr ''anyvision'')) (\<lambda>data.
       Inr (unparse V (JObj [(''vm:instance'', data)])))"

definition machine_metadata_xml_to_metadata :: "'w virt \<Rightarrow> string \<Rightarrow> json res" where
  "machine_metadata_xml_to_metadata V xml =
     res_bind (parse_xml V [''net_ifaces'', ''pcis'', ''disks''] xml) (\<lambda>vm_data.
     res_bind (jitem vm_data ''instance'') (\<lambda>d. res_bind (jobj d) (\<lambda>m. Inr (JObj m))))"

definition define_vm :: "'w virt \<Rightarrow> (vm \<Rightarrow> string \<Rightarrow> string) \<Rightarrow> vm \<Rightarrow> ('w, unit) py" where
  "define_vm V generate_xml machine_info =
     with_connection V
       (py_bind (py_lift (machine_metadata_xml V (vm_json machine_info))) (\<lambda>metadata.
          v_define V (generate_xml machine_info metadata)))"

definition start_vm :: "'w virt \<Rightarrow> string \<Rightarrow> ('w, unit) py" where
  "start_vm V name = with_connection V (py_then (v_lookup V name) (v_create V name))"

definition poweroff_vm :: "'w virt \<Rightarrow> string \<Rightarrow> ('w, unit) py" where
  "poweroff_vm V name = with_connection V (py_then (v_lookup V name) (v_destroy V name))"

text \<open>The states by libvirt's numbers: no state, running, blocked, paused, shutdown, shut off, crashed,
  suspended.\<close>

definition state_names :: "(nat \<times> string) list" where
  "state_names = [(0, ''unknown''), (1, ''on''), (2, ''fail''), (3, ''on''), (4, ''off''), (5, ''off''),
     (6, ''fail''), (7, ''on'')]"

definition vm_state :: "'w virt \<Rightarrow> string \<Rightarrow> ('w, string) py" where
  "vm_state V name =
     with_connection V
       (py_then (v_lookup V name)
       (py_bind (v_state V name) (\<lambda>state.
          case map_of state_names state of
            None \<Rightarrow> py_raise (Exn KeyErr (dec state)) | Some s \<Rightarrow> py_return s)))"

text \<open>A domain that is not there is not an error; one that is active is stopped first.\<close>

definition kill_by_name :: "'w virt \<Rightarrow> string \<Rightarrow> ('w, unit) py" where
  "kill_by_name V name =
     with_connection V
       (py_bind (py_attempt (v_lookup V name)) (\<lambda>found.
        case found of
          Inl e \<Rightarrow> if exn_kind e = LibvirtErr then py_return () else py_raise e
        | Inr _ \<Rightarrow>
            py_bind (v_is_active V name) (\<lambda>active.
            py_then (if active then v_destroy V name else py_return ()) (v_undefine V name))))"

definition dhcp_lease_info :: "'w virt \<Rightarrow> string \<Rightarrow> ('w, json) py" where
  "dhcp_lease_info V name =
     py_bind (with_connection V (py_then (v_lookup V name) (v_leases V name))) (\<lambda>nets.
     py_bind (py_lift (res_collect (map snd nets) (\<lambda>net_info.
        res_bind (res_bind (jitem net_info ''hwaddr'') jkey) (\<lambda>hwaddr.
        res_bind (res_bind (jitem net_info ''addrs'') jiter) (\<lambda>addrs.
        res_bind (res_collect addrs (\<lambda>net. jitem net ''addr'')) (\<lambda>as.
          Inr (hwaddr, JList as))))))) (\<lambda>entries.
     py_return (JObj (dict_update [] entries))))"

text \<open>Domains without our metadata belong to somebody else.\<close>

fun load_domains :: "'w virt \<Rightarrow> string list \<Rightarrow> ('w, json list) py" where
  "load_domains V [] = py_return []"
| "load_domains V (domain # domains) =
     py_bind (py_attempt (v_metadata V domain)) (\<lambda>r.
     case r of
       Inl e \<Rightarrow> if exn_kind e = LibvirtErr then load_domains V domains else py_raise e
     | Inr vm_xml \<Rightarrow>
         py_bind (py_lift (machine_metadata_xml_to_metadata V vm_xml)) (\<lambda>data.
         py_bind (load_domains V domains) (\<lambda>vms. py_return (data # vms))))"

definition load_lab_vms :: "'w virt \<Rightarrow> ('w, json list) py" where
  "load_lab_vms V = with_connection V (py_bind (v_domains V) (load_domains V))"

section \<open>Networks\<close>

definition host_entry :: "string \<Rightarrow> string \<Rightarrow> string" where
  "host_entry mac ip = ''<host mac='' @ [CHR 0x27] @ mac @ [CHR 0x27] @ '' ip='' @ [CHR 0x27] @ ip @ [CHR 0x27] @ ''/>''"

definition add_dhcp_entry :: "'w virt \<Rightarrow> string \<Rightarrow> string \<Rightarrow> string \<Rightarrow> ('w, unit) py" where
  "add_dhcp_entry V network_name ip mac =
     with_connection V
       (py_then (v_net_lookup V network_name)
       (py_try (v_net_update V network_name AddLast (host_entry mac ip))
         (\<lambda>e. if exn_kind e = LibvirtErr then v_net_update V network_name Modify (host_entry mac ip)
              else py_raise e)))"

definition remove_dhcp_entry :: "'w virt \<Rightarrow> string \<Rightarrow> string \<Rightarrow> ('w, unit) py" where
  "remove_dhcp_entry V network_name mac =
     with_connection V
       (py_then (v_net_lookup V network_name)
         (v_net_update V network_name Delete (''<host mac='' @ [CHR 0x27] @ mac @ [CHR 0x27] @ ''/>'')))"

definition network_info :: "'w virt \<Rightarrow> string \<Rightarrow> ('w, json) py" where
  "network_info V network_name =
     py_bind (with_connection V (py_then (v_net_lookup V network_name) (v_net_xml V network_name))) (\<lambda>xml.
       py_lift (parse_xml V [''host''] xml))"

text \<open>The addresses of a range that no host entry reserves; \<open>IPSet.remove\<close> of an address that is not
  in the set does nothing.\<close>

definition get_network_dhcp_info :: "'w virt \<Rightarrow> string \<Rightarrow> ('w, string \<times> string list \<times> (json \<times> json) list) py" where
  "get_network_dhcp_info V network_name =
     py_bind (network_info V network_name) (\<lambda>net_info.
     py_bind (py_lift (res_bind (jitem net_info ''network'') (\<lambda>n. jitem n ''ip''))) (\<lambda>ipnet_info.
     py_bind (py_lift (jitem ipnet_info ''@address'')) (\<lambda>address.
     py_bind (py_lift (jitem ipnet_info ''@netmask'')) (\<lambda>netmask.
     py_bind (py_lift (parse_net V address netmask)) (\<lambda>ipnet.
     py_bind (py_lift (jitem ipnet_info ''dhcp'')) (\<lambda>dhcp.
     py_bind (py_lift (jitem dhcp ''range'')) (\<lambda>dhcp_range.
     py_bind (py_lift (res_bind (jget dhcp ''host'' (JList [])) jiter)) (\<lambda>reserved_hosts.
     py_bind (py_lift (res_bind (jitem dhcp_range ''@start'') (\<lambda>a.
        res_bind (jitem dhcp_range ''@end'') (\<lambda>b. parse_hosts V a b)))) (\<lambda>permitted_range.
     py_bind (py_lift (res_collect reserved_hosts (\<lambda>h. jitem h ''@ip''))) (\<lambda>taken.
     py_bind (py_lift (res_collect reserved_hosts (\<lambda>h. res_bind (jitem h ''@ip'') (\<lambda>ip.
        res_bind (jitem h ''@mac'') (\<lambda>mac. Inr (ip, mac)))))) (\<lambda>reserved.
     py_return (ipnet, filter (\<lambda>ip. JStr ip \<notin> set taken) permitted_range, reserved))))))))))))"

definition activate_network :: "'w virt \<Rightarrow> string \<Rightarrow> ('w, unit) py" where
  "activate_network V network_name =
     with_connection V
       (py_then (v_net_lookup V network_name)
       (py_bind (v_net_active V network_name) (\<lambda>active.
          if active \<noteq> 1 then v_net_create V network_name else py_return ())))"

definition is_network_active :: "'w virt \<Rightarrow> string \<Rightarrow> ('w, bool) py" where
  "is_network_active V network_name =
     with_connection V
       (py_then (v_net_lookup V network_name)
       (py_bind (v_net_active V network_name) (\<lambda>active. py_return (active = 1))))"

definition check_libvirt_network_is_up :: "'w virt \<Rightarrow> string \<Rightarrow> ('w, unit) py" where
  "check_libvirt_network_is_up V net_name =
     py_try (activate_network V net_name)
       (\<lambda>_. py_raise (Exn PlainException (''Network '' @ net_name @ '' is not operational'')))"

end
