(* ===== verification/Dhcp.thy ===== *)
theory Dhcp
  imports Host_System Libvirt_Wrapper
begin

text \<open>
  The addresses of the machines' interfaces (\<open>hypervisor/vms/dhcp_handlers.py\<close>).  On a bridged network
  the hypervisor asks the network's own DHCP server in the machine's name; on the private one it picks
  an address of libvirt's range and reserves it.  The packet library is a parameter: sending a packet
  and waiting for one answer, and the names of the message types.
\<close>

section \<open>Packets\<close>

text \<open>An option of a DHCP packet is a pair, or a word like \<open>end\<close>.\<close>

datatype dhcp_option = Opt string json | Word string

record packet =
  eth_src :: string
  chaddr :: "nat list"
  xid :: "json option"
  dhcp_options :: "dhcp_option list"

record reply =
  yiaddr :: string
  reply_xid :: json
  reply_options :: "dhcp_option list"

record 'w requestor =
  real_mac :: string
  srp1 :: "packet \<Rightarrow> rat \<Rightarrow> ('w, reply option) py"
  dhcp_types :: "json \<Rightarrow> string res"
  dhcp_timeout_sec :: rat

definition hex_value :: "char \<Rightarrow> nat option" where
  "hex_value c = (let n = (of_char c :: nat) in
     if 48 \<le> n \<and> n \<le> 57 then Some (n - 48)
     else if 97 \<le> n \<and> n \<le> 102 then Some (n - 87)
     else if 65 \<le> n \<and> n \<le> 70 then Some (n - 55) else None)"

fun unhex :: "string \<Rightarrow> nat list res" where
  "unhex [] = Inr []"
| "unhex [c] = Inl (Exn ValueErr ''Odd-length string'')"
| "unhex (a # b # cs) = (case (hex_value a, hex_value b) of
      (Some m, Some n) \<Rightarrow> res_bind (unhex cs) (\<lambda>bs. Inr ((16 * m + n) # bs))
    | _ \<Rightarrow> Inl (Exn ValueErr ''Non-hexadecimal digit found''))"

definition mac_raw :: "string \<Rightarrow> nat list res" where
  "mac_raw mac_address = unhex (filter (\<lambda>c. c \<noteq> CHR '':'') mac_address)"

section \<open>Bridged networks\<close>

fun option_pairs :: "dhcp_option list \<Rightarrow> json dict" where
  "option_pairs [] = []"
| "option_pairs (Opt k v # os) = (k, v) # option_pairs os"
| "option_pairs (Word s # os) = option_pairs os"

definition dhcp_reply_info :: "reply \<Rightarrow> json dict" where
  "dhcp_reply_info dhcp_reply =
     dict_update [(''ip'', JStr (yiaddr dhcp_reply))] (option_pairs (reply_options dhcp_reply))"

definition dhcp_request ::
    "'w requestor \<Rightarrow> nat list \<Rightarrow> string \<Rightarrow> json \<Rightarrow> json option \<Rightarrow> rat \<Rightarrow> ('w, json dict) py" where
  "dhcp_request D raw requested_ip xid_cookie server_id timeout_sec =
     (let options = [Opt ''message-type'' (JStr ''request'')]
            @ (case server_id of None \<Rightarrow> [] | Some s \<Rightarrow> [Opt ''server_id'' s])
            @ [Opt ''requested_addr'' (JStr requested_ip), Opt ''param_req_list'' (JNum 0), Word ''end'']
      in py_bind (srp1 D \<lparr>eth_src = real_mac D, chaddr = raw, xid = Some xid_cookie, dhcp_options = options\<rparr> timeout_sec)
      (\<lambda>dhcp_reply.
      case dhcp_reply of
        None \<Rightarrow> py_raise (Exn TimeoutErr ''DHCP request timeout on net'')
      | Some r \<Rightarrow>
          (let info = dhcp_reply_info r in
           py_bind (py_lift (res_bind (jitem (JObj info) ''message-type'') (dhcp_types D))) (\<lambda>ty.
           if ty \<noteq> ''ack'' then py_raise (Exn PlainException ''Failed to get ack'')
           else py_return info))))"

text \<open>The last option is the word \<open>end\<close>; a word among the others is taken for a pair of characters.\<close>

definition option_entry :: "dhcp_option \<Rightarrow> (string \<times> json) res" where
  "option_entry opt = (case opt of
      Opt k v \<Rightarrow> Inr (k, v)
    | Word (a # b # _) \<Rightarrow> Inr ([a], JStr [b])
    | Word _ \<Rightarrow> Inl (Exn IndexErr ''string index out of range''))"

definition server_id_from_offer :: "reply \<Rightarrow> json res" where
  "server_id_from_offer dhcp_reply =
     res_bind (res_collect (butlast (reply_options dhcp_reply)) option_entry) (\<lambda>entries.
       jitem (JObj (dict_update [] entries)) ''server_id'')"

definition do_request_lease :: "'w requestor \<Rightarrow> string \<Rightarrow> string option \<Rightarrow> rat \<Rightarrow> ('w, json dict) py" where
  "do_request_lease D mac_address ip timeout_sec =
     py_bind (py_lift (mac_raw mac_address)) (\<lambda>raw.
     case ip of
       None \<Rightarrow>
         py_bind (srp1 D \<lparr>eth_src = real_mac D, chaddr = raw, xid = None,
             dhcp_options = [Opt ''message-type'' (JStr ''discover''), Word ''end'']\<rparr> timeout_sec) (\<lambda>dhcp_offer.
         case dhcp_offer of
           None \<Rightarrow> py_raise (Exn TimeoutErr (''Timeout. failed to get offer for mac '' @ mac_address))
         | Some offer \<Rightarrow>
             py_bind (py_lift (server_id_from_offer offer)) (\<lambda>server_id.
               dhcp_request D raw (yiaddr offer) (reply_xid offer) (Some server_id) timeout_sec))
     | Some i \<Rightarrow> dhcp_request D raw i (JNum 0) None timeout_sec)"

definition is_timeout :: "exn \<Rightarrow> bool" where
  "is_timeout e \<longleftrightarrow> exn_kind e = TimeoutErr"

text \<open>Only timeouts are tried again.\<close>

definition request_lease :: "'w sys \<Rightarrow> 'w requestor \<Rightarrow> string \<Rightarrow> string option \<Rightarrow> ('w, string) py" where
  "request_lease S D mac ip =
     py_bind (wait_for_predicate_nothrow S (do_request_lease D mac ip 3) (\<lambda>d. d \<noteq> []) (dhcp_timeout_sec D) 1 is_timeout)
       (\<lambda>lease_info. py_lift (res_bind (jitem (JObj lease_info) ''ip'') jkey))"

section \<open>The private network\<close>

definition allocate_ip_sync :: "'w virt \<Rightarrow> string \<Rightarrow> string \<Rightarrow> string option \<Rightarrow> ('w, string) py" where
  "allocate_ip_sync V net_name mac ip =
     py_bind (get_network_dhcp_info V net_name) (\<lambda>(_, hosts, _).
     if hosts = [] then py_raise (Exn PlainException (''IP range for network '' @ net_name @ '' is empty''))
     else
     py_bind (case ip of
         Some i \<Rightarrow> if i \<notin> set hosts then py_raise (Exn PlainException (''Requested ip '' @ i @ '' not in dhcp range''))
                   else py_return i
       | None \<Rightarrow> py_return (last hosts)) (\<lambda>ip_candidate.
     py_then (add_dhcp_entry V net_name ip_candidate mac) (py_return ip_candidate)))"

section \<open>The operations of the handlers\<close>

definition libvirt_request_lease :: "'w virt \<Rightarrow> string \<Rightarrow> string \<Rightarrow> string option \<Rightarrow> ('w, string) py" where
  [simp]: "libvirt_request_lease V net_name mac ip = allocate_ip_sync V net_name mac ip"

definition libvirt_release_lease :: "'w virt \<Rightarrow> string \<Rightarrow> string \<Rightarrow> ('w, unit) py" where
  [simp]: "libvirt_release_lease V net_name mac = remove_dhcp_entry V net_name mac"

definition release_lease :: "'w requestor \<Rightarrow> string \<Rightarrow> ('w, unit) py" where
  [simp]: "release_lease D mac = py_return ()"

section \<open>The manager\<close>

datatype 'w handler = Bridged "'w requestor" | Private "'w virt" string

text \<open>The handler of each mode; \<open>hypervisor/__main__.py\<close> has one for \<open>bridge\<close> and one for \<open>isolated\<close>.\<close>

type_synonym 'w handlers = "(string \<times> 'w handler) list"

definition handler_of :: "'w handlers \<Rightarrow> json \<Rightarrow> 'w handler res" where
  "handler_of H mode = (case mode of
      JStr m \<Rightarrow> (case map_of H m of None \<Rightarrow> Inl (Exn KeyErr m) | Some h \<Rightarrow> Inr h)
    | _ \<Rightarrow> Inl (Exn KeyErr []))"

definition allocate_ip :: "'w sys \<Rightarrow> 'w handlers \<Rightarrow> json \<Rightarrow> ('w, string) py" where
  "allocate_ip S H net_info =
     py_bind (py_lift (jitem net_info ''mode'')) (\<lambda>net_type.
     py_bind (py_lift (res_bind (jitem net_info ''macaddress'') jkey)) (\<lambda>mac.
     py_bind (py_lift (jget net_info ''ip'' JNull)) (\<lambda>ip.
     py_bind (py_lift (handler_of H net_type)) (\<lambda>handler.
     (let wanted = (case ip of JStr i \<Rightarrow> Some i | _ \<Rightarrow> None) in
      case handler of
        Bridged D \<Rightarrow> request_lease S D mac wanted
      | Private V net_name \<Rightarrow> libvirt_request_lease V net_name mac wanted)))))"

definition deallocate_ip :: "'w handlers \<Rightarrow> json \<Rightarrow> ('w, unit) py" where
  "deallocate_ip H net_info =
     py_bind (py_lift (jitem net_info ''mode'')) (\<lambda>net_type.
     py_bind (py_lift (res_bind (jitem net_info ''macaddress'') jkey)) (\<lambda>mac.
     py_bind (py_lift (handler_of H net_type)) (\<lambda>handler.
      case handler of
        Bridged D \<Rightarrow> release_lease D mac
      | Private V net_name \<Rightarrow> libvirt_release_lease V net_name mac)))"

definition reallocate_ip :: "'w sys \<Rightarrow> 'w handlers \<Rightarrow> json \<Rightarrow> ('w, unit) py" where
  "reallocate_ip S H net_info =
     py_then (py_try (deallocate_ip H net_info) (\<lambda>_. py_return ()))
     (py_then (allocate_ip S H net_info) (py_return ()))"

end
