(* ===== verification/Vm_Template.thy ===== *)
theory Vm_Template
  imports Machine
begin

text \<open>
  The description of a machine that libvirt is given (\<open>hypervisor/vms/vm_template.py\<close>), by the lines
  the template renders.  A block tag leaves its own line behind, with the white space around it, as the
  template engine does by default; an attribute that is not there renders as nothing.
\<close>

definition quoted :: "string \<Rightarrow> string" where
  "quoted s = [CHR 0x27] @ s @ [CHR 0x27]"

definition rendered :: "disk \<Rightarrow> string \<Rightarrow> string" where
  "rendered d k = (case map_of d k of None \<Rightarrow> [] | Some x \<Rightarrow> py_str x)"

text \<open>The rest of the line a block tag stands on.\<close>

definition tag_line :: string where
  "tag_line = ''    ''"

section \<open>The parts of the template\<close>

definition head_lines :: "vm \<Rightarrow> string \<Rightarrow> string list" where
  "head_lines v metadata =
     [[],
      ''<domain type='kvm' id='3' xmlns:qemu='http://libvirt.org/schemas/domain/qemu/1.0'>'',
      ''  <name>'' @ vm_name v @ ''</name>'',
      ''  <memory unit='GiB'>'' @ py_str (memsize v) @ ''</memory>'',
      ''  <currentMemory unit='GiB'>'' @ py_str (memsize v) @ ''</currentMemory>'',
      ''  <vcpu placement='static'>'' @ py_str (num_cpus v) @ ''</vcpu>'',
      ''  <uuid>'' @ vm_uuid v @ ''</uuid>'',
      [],
      ''  <metadata>'' @ metadata @ ''</metadata>'',
      [],
      ''  <resource>'',
      ''    <partition>/machine</partition>'',
      ''  </resource>'',
      ''  <os>'',
      ''    <type arch='x86_64' machine='pc-i440fx-wily'>hvm</type>'',
      ''    <boot dev='hd'/>'',
      ''  </os>'',
      ''  <features>'',
      ''    <acpi/>'',
      ''    <apic/>'',
      ''     <vmport state='off'/>'',
      ''    <kvm>'',
      ''    <hidden state='on'/>'',
      ''    </kvm>'',
      ''  </features>'',
      ''  <cpu mode='host-model'>'',
      ''    <model fallback='allow'/>'',
      ''  </cpu>'',
      ''  <clock offset='utc'>'',
      ''    <timer name='rtc' tickpolicy='catchup'/>'',
      ''    <timer name='pit' tickpolicy='delay'/>'',
      ''    <timer name='hpet' present='no'/>'',
      ''  </clock>'',
      ''  <on_poweroff>destroy</on_poweroff>'',
      ''  <on_reboot>restart</on_reboot>'',
      ''  <on_crash>restart</on_crash>'',
      ''  <pm>'',
      ''    <suspend-to-mem enabled='no'/>'',
      ''    <suspend-to-disk enabled='no'/>'',
      ''  </pm>'',
      ''  <devices>'',
      ''    <emulator>/usr/bin/kvm-spice</emulator>'',
      ''    <disk type='file' device='disk'>'',
      ''      <driver name='qemu' type='qcow2'/>'',
      ''      <source file='' @ quoted (py_str (opt_str (vm_image v))) @ ''/>'',
      ''      <backingStore/>'',
      ''      <target dev='sda' bus='virtio'/>'',
      ''      <alias name='virtio-disk0'/>'',
      ''      <address type='pci' domain='0x0000' bus='0x00' slot='0x08' function='0x0'/>'',
      ''    </disk>'',
      []]"

definition disk_lines :: "disk \<Rightarrow> string list" where
  "disk_lines d =
     [''    <disk type='file' device='disk'>'',
      ''      <driver name='qemu' type='qcow2'/>'',
      ''      <source file='' @ quoted (rendered d ''image'') @ ''/>'',
      ''      <target dev='' @ quoted (rendered d ''device_name'') @ '' bus='virtio'/>'',
      ''      <serial>'' @ rendered d ''serial'' @ ''</serial>'',
      ''      <alias name='' @ quoted (''virtio-disk-'' @ rendered d ''type'') @ ''/>'',
      ''    </disk>'']"

definition cloud_init_lines :: "string \<Rightarrow> string list" where
  "cloud_init_lines img =
     [''    <disk type='file' device='cdrom'>'',
      ''      <driver name='qemu' type='raw'/>'',
      ''      <source file='' @ quoted img @ ''/>'',
      ''      <target dev='hda' bus='ide'/>'',
      ''      <readonly/>'',
      ''    </disk>'']"

definition controller_lines :: "string list" where
  "controller_lines =
     [[],
      ''    <controller type='pci' index='0' model='pci-root'>'',
      ''      <alias name='pci.0'/>'',
      ''    </controller>'',
      ''    <controller type='ide' index='0'>'',
      ''      <alias name='ide'/>'',
      ''      <address type='pci' domain='0x0000' bus='0x00' slot='0x01' function='0x1'/>'',
      ''    </controller>'',
      ''    <controller type='virtio-serial' index='0'>'',
      ''      <alias name='virtio-serial0'/>'',
      ''      <address type='pci' domain='0x0000' bus='0x00' slot='0x05' function='0x0'/>'',
      ''    </controller>'',
      []]"

definition isolated_lines :: "net_iface \<Rightarrow> string list" where
  "isolated_lines n =
     [''    <interface type='network' trustGuestRxFilters='yes'>'',
      ''      <mac address='' @ quoted (net_mac n) @ ''/>'',
      ''      <source network='' @ quoted (net_source n) @ ''/>'',
      ''      <model type='virtio'/>'',
      ''    </interface>'']"

definition bridged_lines :: "net_iface \<Rightarrow> string list" where
  "bridged_lines n =
     [''    <interface type='direct' trustGuestRxFilters='yes'>'',
      ''      <mac address='' @ quoted (net_mac n) @ ''/>'',
      ''      <source dev='' @ quoted (net_source n) @ '' mode='bridge'/>'',
      ''      <model type='virtio'/>'',
      ''      <driver>'',
      ''        <host csum='off' gso='off' tso4='off' tso6='off' ecn='off' ufo='off' mrg_rxbuf='off'/>'',
      ''        <guest csum='off' tso4='off' tso6='off' ecn='off' ufo='off'/>'',
      ''      </driver>'',
      ''    </interface>'']"

definition iface_lines :: "net_iface \<Rightarrow> string list" where
  "iface_lines n = (if net_mode n = ''isolated'' then isolated_lines n else bridged_lines n)"

definition serial_lines :: "vm \<Rightarrow> string list" where
  "serial_lines v =
     [''    <serial type=\"tcp\">'',
      ''      <source mode=\"bind\" host=\"0.0.0.0\" service='' @ quoted (py_str (sol_port v)) @ ''/>'',
      ''      <protocol type=\"raw\"/>'',
      ''      <target port=\"0\"/>'',
      ''      <alias name='serial0'/>'',
      ''    </serial>'']"

definition console_lines :: "string list" where
  "console_lines =
     [[],
      ''    <channel type='spicevmc'>'',
      ''      <target type='virtio' name='com.redhat.spice.0' state='disconnected'/>'',
      ''      <alias name='channel0'/>'',
      ''      <address type='virtio-serial' controller='0' bus='0' port='1'/>'',
      ''    </channel>'',
      [],
      ''    <input type='mouse' bus='ps2'/>'',
      ''    <input type='keyboard' bus='ps2'/>'',
      [],
      ''    <graphics type='vnc' autoport='yes' listen='0.0.0.0'>'',
      ''      <listen type='address' address='0.0.0.0'/>'',
      ''    </graphics>'',
      [],
      ''    <video>'',
      ''      <model type='cirrus' vram='16384' heads='1'/>'',
      ''      <alias name='video0'/>'',
      ''      <address type='pci' domain='0x0000' bus='0x00' slot='0x02' function='0x0'/>'',
      ''    </video>'',
      []]"

definition hostdev_lines :: "pci \<Rightarrow> string list" where
  "hostdev_lines p =
     [''    <hostdev mode='subsystem' type='pci' managed='no'>'',
      ''      <source>'',
      ''        <address domain='' @ quoted (''0x'' @ pci_domain p) @ '' bus='' @ quoted (''0x'' @ pci_bus p) @ '' slot='' @ quoted (''0x'' @ pci_slot p) @ '' function='' @ quoted (''0x'' @ pci_function p) @ ''/>'',
      ''      </source>'',
      ''    </hostdev>'']"

definition tail_lines :: "string list" where
  "tail_lines =
     [[],
      ''    <memballoon model='virtio'>'',
      ''      <alias name='balloon0'/>'',
      ''      <address type='pci' domain='0x0000' bus='0x00' slot='0x07' function='0x0'/>'',
      ''    </memballoon>'',
      [],
      ''  </devices>'',
      ''</domain>'']"

section \<open>The whole document\<close>

definition xml_lines :: "vm \<Rightarrow> string \<Rightarrow> string list" where
  "xml_lines v metadata =
     head_lines v metadata
     @ [tag_line] @ concat (map (\<lambda>d. disk_lines d @ [tag_line]) (disks v)) @ [[]]
     @ [tag_line] @ (case cloud_init_iso v of
          None \<Rightarrow> [] | Some img \<Rightarrow> if img = [] then [] else cloud_init_lines img @ [tag_line])
     @ controller_lines
     @ [tag_line] @ concat (map (\<lambda>n. [tag_line] @ iface_lines n @ [tag_line, tag_line]) (net_ifaces v)) @ [[], []]
     @ [tag_line] @ (if truthy (sol_port v) then serial_lines v @ [tag_line] else [])
     @ console_lines
     @ [tag_line] @ concat (map (\<lambda>p. hostdev_lines p @ [tag_line]) (pcis v))
     @ tail_lines"

definition generate_xml :: "vm \<Rightarrow> string \<Rightarrow> string" where
  "generate_xml v metadata = join [CHR 0x0A] (xml_lines v metadata)"

end
