(* ===== verification/Allocator.thy ===== *)
theory Allocator
  imports Machine Rm_Requestor
begin

text \<open>
  The hypervisor's allocator (\<open>resource_managers/hypervisor/vms/allocator.py\<close>): the pools of MAC
  addresses, GPUs and console ports, and the machines that hold parts of them.

  Nothing is awaited between the entry of \<open>allocate_vm\<close> and the call of the machine manager, so
  that part is one atomic step (\<open>allocate_begin\<close>); the manager's call takes time, and the rest is a
  second step (\<open>allocate_finish\<close>).  \<open>destroy_vm\<close> looks the machine up, waits for the machine's lock,
  looks whether the name still exists, and ends when the manager's call ends: three steps.  The
  operating system's answer to \<open>bind\<close>, the identifiers of \<open>uuid4\<close> and the machine manager are
  parameters here; the manager itself is modelled in \<open>Vm_Manager\<close>.
\<close>

section \<open>State\<close>

record hyp =
  mac_addresses :: "string list"
  total_mac_addresses :: nat
  gpus_list :: "pci list"
  total_gpus :: nat
  vms :: "vm dict"
  server_name :: string
  max_vms :: int
  paravirt_net_device :: string
  private_network :: string
  sol_base_port :: int
  sol_used_ports :: "json list"
  next_oid :: nat

definition new_allocator ::
    "string list \<Rightarrow> pci list \<Rightarrow> string \<Rightarrow> int \<Rightarrow> int \<Rightarrow> string \<Rightarrow> string \<Rightarrow> hyp" where
  "new_allocator macs gpus server maxv base_port paravirt private =
     \<lparr>mac_addresses = macs, total_mac_addresses = length macs, gpus_list = gpus, total_gpus = length gpus,
      vms = [], server_name = server, max_vms = maxv, paravirt_net_device = paravirt,
      private_network = private, sol_base_port = base_port, sol_used_ports = [], next_oid = 0\<rparr>"

text \<open>The keyword arguments of \<open>allocate_vm\<close> and \<open>check_allocate\<close>.\<close>

record vm_params =
  p_base_image :: json
  p_base_image_size :: json
  p_memory_gb :: json
  p_networks :: json
  p_num_gpus :: int
  p_num_cpus :: json
  p_disks :: "disk list"
  p_allocation_id :: json
  p_requestor :: json

definition as_list :: "json \<Rightarrow> json list" where
  "as_list v = (case v of JList xs \<Rightarrow> xs | _ \<Rightarrow> [v])"

section \<open>Reserving and freeing\<close>

datatype bind_result = BindOk | BindInUse | BindError exn

fun find_port :: "(int \<Rightarrow> bind_result) \<Rightarrow> json list \<Rightarrow> nat \<Rightarrow> int \<Rightarrow> int res" where
  "find_port bind used 0 port = Inl (Exn OSErr ''Could not find any free ports'')"
| "find_port bind used (Suc attempts) port =
     (if JNum (of_int port) \<notin> set used then
        (case bind port of
           BindOk \<Rightarrow> Inr port
         | BindError e \<Rightarrow> Inl e
         | BindInUse \<Rightarrow> find_port bind used attempts (port + 1))
      else find_port bind used attempts (port + 1))"

definition reserve_free_port :: "(int \<Rightarrow> bind_result) \<Rightarrow> int \<Rightarrow> (hyp, json) py" where
  "reserve_free_port bind port =
     py_bind (py_gets sol_used_ports) (\<lambda>used.
     py_bind (py_lift (find_port bind used 500 port)) (\<lambda>port.
     py_then (py_modify (\<lambda>h. h\<lparr>sol_used_ports := sol_used_ports h @ [JNum (of_int port)]\<rparr>))
       (py_return (JNum (of_int port)))))"

definition reserve_gpus :: "int \<Rightarrow> (hyp, pci list) py" where
  "reserve_gpus num_gpus =
     py_bind (py_gets gpus_list) (\<lambda>gpus.
     py_then (py_modify (\<lambda>h. h\<lparr>gpus_list := slice_from gpus num_gpus\<rparr>))
       (py_return (slice_to gpus num_gpus)))"

definition reserve_macs :: "string list \<Rightarrow> (hyp, string list) py" where
  "reserve_macs num_macs =
     py_bind (py_gets mac_addresses) (\<lambda>macs.
     py_then (py_modify (\<lambda>h. h\<lparr>mac_addresses := drop (length num_macs) macs\<rparr>))
       (py_return (take (length num_macs) macs)))"

definition iface_for :: "hyp \<Rightarrow> string \<times> string \<Rightarrow> net_iface" where
  "iface_for h = (\<lambda>(mac, network_type).
     \<lparr>net_mac = mac, net_mode = network_type,
      net_source = (if network_type = ''bridge'' then paravirt_net_device h else private_network h), net_ip = None\<rparr>)"

definition reserve_networks :: "string list \<Rightarrow> (hyp, net_iface list) py" where
  "reserve_networks networks =
     py_bind (reserve_macs networks) (\<lambda>required_macs.
     py_gets (\<lambda>h. map (iface_for h) (zip required_macs networks)))"

definition free_vm_resources :: "pci list \<Rightarrow> net_iface list \<Rightarrow> json \<Rightarrow> (hyp, unit) py" where
  "free_vm_resources gpus networks port =
     py_then (py_modify (\<lambda>h. h\<lparr>gpus_list := gpus_list h @ gpus,
         mac_addresses := mac_addresses h @ map net_mac networks\<rparr>))
     (py_bind (py_gets sol_used_ports) (\<lambda>used.
      if port \<in> set used then py_modify (\<lambda>h. h\<lparr>sol_used_ports := remove1 port used\<rparr>)
      else py_raise (Exn ValueErr ''list.remove(x): x not in list'')))"

text \<open>The names of valid networks.\<close>

fun validate_networks_params :: "json list \<Rightarrow> string list res" where
  "validate_networks_params [] = Inr []"
| "validate_networks_params (net # nets) =
     (if net = JStr ''bridge'' \<or> net = JStr ''isolated'' then
        res_bind (validate_networks_params nets) (\<lambda>ns. Inr (py_str net # ns))
      else Inl (Exn ValueErr ''Invalid network parameter''))"

definition check_allocate_vm :: "hyp \<Rightarrow> vm_params \<Rightarrow> bool" where
  "check_allocate_vm h p =
     (let networks = as_list (p_networks p) in
      if length networks > total_mac_addresses h then False
      else if p_num_gpus p > int (total_gpus h) then False
      else (case validate_networks_params networks of Inl _ \<Rightarrow> False | Inr _ \<Rightarrow> True))"

section \<open>Allocating\<close>

definition numbered :: "string \<Rightarrow> nat \<Rightarrow> string" where
  "numbered server i = server @ ''-vm-'' @ dec i"

lemma numbered_inj: "numbered s i = numbered s j \<Longrightarrow> i = j"
  by (simp add: numbered_def dec_inj)

lemma finite_numbered: "finite {j. i \<le> j \<and> map_of d (numbered s j) \<noteq> None}"
proof -
  have "finite (numbered s -` dom (map_of d))"
    by (rule finite_vimageI) (auto simp: finite_dom_map_of inj_def dest: numbered_inj)
  then show ?thesis by (rule rev_finite_subset) auto
qed

function free_index :: "string \<Rightarrow> vm dict \<Rightarrow> nat \<Rightarrow> nat" where
  "free_index server d i =
     (if map_of d (numbered server i) \<noteq> None then free_index server d (Suc i) else i)"
  by pat_completeness auto
termination
proof (relation "measure (\<lambda>(s, d, i). card {j. i \<le> j \<and> map_of d (numbered s j) \<noteq> None})")
  fix s and d :: "vm dict" and i
  assume taken: "map_of d (numbered s i) \<noteq> None"
  have "{j. Suc i \<le> j \<and> map_of d (numbered s j) \<noteq> None} \<subset> {j. i \<le> j \<and> map_of d (numbered s j) \<noteq> None}"
    using taken by (auto simp: psubset_eq set_eq_iff intro!: exI [of _ i])
  from psubset_card_mono [OF finite_numbered this]
  show "((s, d, Suc i), s, d, i) \<in> measure (\<lambda>(s, d, i). card {j. i \<le> j \<and> map_of d (numbered s j) \<noteq> None})"
    by simp
qed simp

declare free_index.simps [simp del]

definition register_vm :: "vm_params \<Rightarrow> string \<Rightarrow> pci list \<Rightarrow> net_iface list \<Rightarrow> json \<Rightarrow> (hyp, vm) py" where
  "register_vm p uuid gpus networks port =
     py_bind (py_gets id) (\<lambda>h.
     (let name = numbered (server_name h) (free_index (server_name h) (vms h) (length (vms h)));
          machine = \<lparr>vm_oid = next_oid h, vm_name = name, num_cpus = p_num_cpus p, memsize = p_memory_gb p,
            base_image = p_base_image p, base_image_size = p_base_image_size p, net_ifaces = networks,
            pcis = gpus, disks = p_disks p, sol_port = port, vm_image = None, cloud_init_iso = None,
            vm_uuid = uuid, vm_allocation_id = p_allocation_id p, vm_requestor = p_requestor p,
            vm_user = ''root'', vm_password = ''root''\<rparr>
      in py_then (py_modify (\<lambda>h. h\<lparr>vms := AList.update name machine (vms h), next_oid := Suc (next_oid h)\<rparr>))
        (py_return machine)))"

definition allocate_begin :: "(int \<Rightarrow> bind_result) \<Rightarrow> string \<Rightarrow> vm_params \<Rightarrow> (hyp, vm) py" where
  "allocate_begin bind uuid p =
     py_bind (py_gets id) (\<lambda>h.
     (let networks = as_list (p_networks p) in
      if length networks > length (mac_addresses h) then
        py_raise (Exn NotEnoughResourceErr ''Not nrough mac addresses in pool'')
      else if p_num_gpus p > int (length (gpus_list h)) then
        py_raise (Exn NotEnoughResourceErr ''Not enough gpus requested'')
      else
      py_bind (py_lift (validate_networks_params networks)) (\<lambda>networks.
      if max_vms h = int (length (vms h)) then
        py_raise (Exn NotEnoughResourceErr ''Cannot allocate more vms'')
      else
      py_bind (reserve_gpus (p_num_gpus p)) (\<lambda>gpus.
      py_bind (reserve_networks networks) (\<lambda>networks.
      py_bind (reserve_free_port bind (sol_base_port h + int (length (vms h)))) (\<lambda>port.
        register_vm p uuid gpus networks port))))))"

text \<open>The machine manager changes the machine object; whoever still refers to the object sees it.\<close>

definition touch_vm :: "vm \<Rightarrow> hyp \<Rightarrow> hyp" where
  "touch_vm v h = h\<lparr>vms := map (\<lambda>(k, w). (k, if vm_oid w = vm_oid v then v else w)) (vms h)\<rparr>"

definition del_vm :: "string \<Rightarrow> (hyp, unit) py" where
  "del_vm name = py_bind (py_gets vms) (\<lambda>d.
     if map_of d name \<noteq> None then py_modify (\<lambda>h. h\<lparr>vms := AList.delete name (vms h)\<rparr>)
     else py_raise (Exn KeyErr name))"

definition allocate_finish :: "vm \<Rightarrow> vm \<times> unit res \<Rightarrow> (hyp, vm) py" where
  "allocate_finish machine = (\<lambda>(machine', r).
     py_then (py_modify (touch_vm machine'))
     (case r of
        Inl e \<Rightarrow>
          py_then (free_vm_resources (pcis machine) (net_ifaces machine) (sol_port machine))
          (py_then (del_vm (vm_name machine)) (py_raise e))
      | Inr _ \<Rightarrow> py_return machine'))"

section \<open>Destroying\<close>

definition destroy_lookup :: "string \<Rightarrow> (hyp, vm) py" where
  "destroy_lookup name = py_bind (py_gets vms) (\<lambda>d.
     (case map_of d name of None \<Rightarrow> py_raise (Exn KeyErr []) | Some v \<Rightarrow> py_return v))"

definition destroy_check :: "string \<Rightarrow> (hyp, unit) py" where
  "destroy_check name = py_bind (py_gets vms) (\<lambda>d.
     if map_of d name = None then py_raise (Exn KeyErr []) else py_return ())"

definition destroy_finish :: "string \<Rightarrow> vm \<Rightarrow> unit res \<Rightarrow> (hyp, unit) py" where
  "destroy_finish name v r = (case r of
      Inl e \<Rightarrow> py_raise e
    | Inr _ \<Rightarrow> py_then (del_vm name) (free_vm_resources (pcis v) (net_ifaces v) (sol_port v)))"

section \<open>Whole operations\<close>

text \<open>What the allocator is given: the operating system's \<open>bind\<close>, \<open>uuid4\<close> and the machine manager.
  A machine is handed to \<open>m_destroy\<close> by its attributes, which for a live machine are those of
  \<open>vm.json\<close> and for a machine that is only known to libvirt the restored dictionary.\<close>

record 'w vm_ops =
  m_bind :: "'w \<Rightarrow> int \<Rightarrow> bind_result"
  m_uuid :: "'w \<Rightarrow> string \<times> 'w"
  m_allocate :: "vm \<Rightarrow> 'w \<Rightarrow> (vm \<times> unit res) \<times> 'w"
  m_destroy :: "json \<Rightarrow> 'w \<Rightarrow> unit res \<times> 'w"
  m_load :: "'w \<Rightarrow> json list \<times> 'w"
  m_verify :: "json \<Rightarrow> 'w \<Rightarrow> bool \<times> 'w"
  m_reallocate :: "json \<Rightarrow> 'w \<Rightarrow> unit res \<times> 'w"

record 'w host =
  hyp :: hyp
  env :: 'w

definition on_hyp :: "(hyp, 'a) py \<Rightarrow> ('w host, 'a) py" where
  "on_hyp m = (\<lambda>n. case m (hyp n) of (r, h) \<Rightarrow> (r, n\<lparr>hyp := h\<rparr>))"

definition on_env :: "('w \<Rightarrow> 'a \<times> 'w) \<Rightarrow> ('w host, 'a) py" where
  "on_env f = (\<lambda>n. case f (env n) of (x, w) \<Rightarrow> (Inr x, n\<lparr>env := w\<rparr>))"

definition env_call :: "('w \<Rightarrow> 'a res \<times> 'w) \<Rightarrow> ('w host, 'a) py" where
  "env_call f = (\<lambda>n. case f (env n) of (r, w) \<Rightarrow> (r, n\<lparr>env := w\<rparr>))"

definition allocate_vm :: "'w vm_ops \<Rightarrow> vm_params \<Rightarrow> ('w host, vm) py" where
  "allocate_vm M p =
     py_bind (on_env (m_uuid M)) (\<lambda>uuid.
     py_bind (py_gets env) (\<lambda>w.
     py_bind (on_hyp (allocate_begin (m_bind M w) uuid p)) (\<lambda>machine.
     py_bind (on_env (m_allocate M machine)) (\<lambda>r.
       on_hyp (allocate_finish machine r)))))"

definition destroy_vm :: "'w vm_ops \<Rightarrow> string \<Rightarrow> ('w host, unit) py" where
  "destroy_vm M name =
     py_bind (on_hyp (destroy_lookup name)) (\<lambda>v.
     py_bind (on_hyp (destroy_check name)) (\<lambda>_.
     py_bind (on_env (m_destroy M (vm_json v))) (\<lambda>r.
       on_hyp (destroy_finish name v r))))"

section \<open>Restoring the machines libvirt knows\<close>

text \<open>Ten tries; a timeout is tried again, any other exception ends the loop.\<close>

fun try_restore_ip :: "'w vm_ops \<Rightarrow> json \<Rightarrow> nat \<Rightarrow> exn \<Rightarrow> ('w host, unit) py" where
  "try_restore_ip M net_iface 0 last_error = py_raise last_error"
| "try_restore_ip M net_iface (Suc retries) last_error =
     py_bind (on_env (m_reallocate M net_iface)) (\<lambda>r.
     (case r of
        Inr _ \<Rightarrow> py_return ()
      | Inl e \<Rightarrow> if exn_kind e = TimeoutErr then try_restore_ip M net_iface retries e else py_raise e))"

definition iface_of_json :: "json \<Rightarrow> net_iface res" where
  "iface_of_json n =
     res_bind (res_bind (jitem n ''macaddress'') jkey) (\<lambda>mac.
     res_bind (res_bind (jitem n ''mode'') jkey) (\<lambda>mode.
     res_bind (res_bind (jitem n ''source'') jkey) (\<lambda>source.
     res_bind (jget n ''ip'' JNull) (\<lambda>ip.
       Inr \<lparr>net_mac = mac, net_mode = mode, net_source = source,
         net_ip = (case ip of JStr s \<Rightarrow> Some s | _ \<Rightarrow> None)\<rparr>))))"

text \<open>One interface: its device must exist and its address be free; then its IP address is requested
  again, and only a timeout of that is forgiven.  The exceptions built with four arguments, where the
  constructor takes two, are \<open>TypeError\<close>s.\<close>

definition restore_iface :: "'w vm_ops \<Rightarrow> json \<Rightarrow> ('w host, net_iface) py" where
  "restore_iface M net_iface =
     py_bind (py_gets hyp) (\<lambda>h.
     py_bind (py_lift (jitem net_iface ''source'')) (\<lambda>source.
     if source \<noteq> JStr (paravirt_net_device h) \<and> source \<noteq> JStr (private_network h) then
       py_raise (Exn PlainException ''Network device no longer exists'')
     else
     py_bind (py_lift (jitem net_iface ''macaddress'')) (\<lambda>mac.
     if mac \<notin> JStr ` set (mac_addresses h) then py_raise (Exn TypeErr ''VMRestoreException'')
     else
     py_bind (py_try (try_restore_ip M net_iface 10 (Exn TypeErr ''exceptions must derive from BaseException''))
        (\<lambda>e. if exn_kind e = TimeoutErr then py_return ()
             else py_raise (Exn VMRestoreErr ''Failed to init networks''))) (\<lambda>_.
       py_lift (iface_of_json net_iface)))))"

fun matching_gpus :: "pci list \<Rightarrow> json list \<Rightarrow> pci list res" where
  "matching_gpus gpus [] = Inr []"
| "matching_gpus gpus (addr # addrs) =
     (case filter (\<lambda>g. JStr (full_address g) = addr) gpus of
        [] \<Rightarrow> Inl (Exn TypeErr ''VMRestoreException'')
      | g # _ \<Rightarrow> res_bind (matching_gpus gpus addrs) (\<lambda>gs. Inr (g # gs)))"

text \<open>\<open>for x in xs: pool.remove(x)\<close>: what was removed stays removed when one is missing.\<close>

fun remove_each :: "'a list \<Rightarrow> 'a list \<Rightarrow> 'a list \<times> unit res" where
  "remove_each [] pool = (pool, Inr ())"
| "remove_each (x # xs) pool =
     (if x \<in> set pool then remove_each xs (remove1 x pool)
      else (pool, Inl (Exn ValueErr ''list.remove(x): x not in list'')))"

definition take_macs :: "string list \<Rightarrow> (hyp, unit) py" where
  "take_macs macs = (\<lambda>h. case remove_each macs (mac_addresses h) of (pool, r) \<Rightarrow> (r, h\<lparr>mac_addresses := pool\<rparr>))"

definition take_gpus :: "pci list \<Rightarrow> (hyp, unit) py" where
  "take_gpus gpus = (\<lambda>h. case remove_each gpus (gpus_list h) of (pool, r) \<Rightarrow> (r, h\<lparr>gpus_list := pool\<rparr>))"

text \<open>\<open>VM(**vm_data)\<close> on the restored dictionary.\<close>

definition data_get :: "json dict \<Rightarrow> string \<Rightarrow> json \<Rightarrow> json" where
  "data_get d k dflt = (case map_of d k of None \<Rightarrow> dflt | Some v \<Rightarrow> v)"

definition data_str :: "json dict \<Rightarrow> string \<Rightarrow> string option" where
  "data_str d k = (case map_of d k of Some (JStr s) \<Rightarrow> Some s | _ \<Rightarrow> None)"

definition str_or :: "string option \<Rightarrow> string \<Rightarrow> string" where
  "str_or s dflt = (case s of Some x \<Rightarrow> x | None \<Rightarrow> dflt)"

definition vm_of_data :: "string \<Rightarrow> nat \<Rightarrow> pci list \<Rightarrow> net_iface list \<Rightarrow> json dict \<Rightarrow> vm res" where
  "vm_of_data uuid oid gpus nets d =
     (case (data_str d ''name'', map_of d ''num_cpus'', map_of d ''memsize'', map_of d ''base_image'') of
        (Some name, Some cpus, Some mem, Some base) \<Rightarrow>
          res_bind (res_bind (jlist (data_get d ''disks'' (JList []))) (\<lambda>ds. res_collect ds jobj)) (\<lambda>ds.
          Inr \<lparr>vm_oid = oid, vm_name = name, num_cpus = cpus, memsize = mem, base_image = base,
            base_image_size = data_get d ''base_image_size'' JNull, net_ifaces = nets, pcis = gpus, disks = ds,
            sol_port = data_get d ''sol_port'' JNull, vm_image = data_str d ''image'',
            cloud_init_iso = data_str d ''cloud_init_iso'', vm_uuid = str_or (data_str d ''uuid'') uuid,
            vm_allocation_id = data_get d ''allocation_id'' JNull,
            vm_requestor = data_get d ''requestor'' (JObj []),
            vm_user = str_or (data_str d ''user'') ''root'',
            vm_password = str_or (data_str d ''password'') ''root''\<rparr>)
      | _ \<Rightarrow> Inl (Exn TypeErr ''missing required positional argument''))"

text \<open>\<open>vm_data.setdefault('disks', [])\<close>: the caller's dictionary has it afterwards.\<close>

definition with_disks :: "json \<Rightarrow> json" where
  "with_disks vm_data = (case vm_data of
      JObj d \<Rightarrow> JObj (if map_of d ''disks'' = None then AList.update ''disks'' (JList []) d else d)
    | v \<Rightarrow> v)"

definition try_restore_vm :: "'w vm_ops \<Rightarrow> json \<Rightarrow> ('w host, unit) py" where
  "try_restore_vm M vm_data =
     py_bind (py_lift (jget vm_data ''pcis'' (JList []))) (\<lambda>pcis_info.
     py_bind (py_lift (jget vm_data ''sol_port'' JNull)) (\<lambda>port.
     py_bind (py_lift (jobj (with_disks vm_data))) (\<lambda>d.
     py_bind (on_env (m_verify M (JObj d))) (\<lambda>valid.
     if \<not> valid then py_raise (Exn VMRestoreErr ''Storage is not valid'')
     else
     py_bind (py_lift (res_bind (jget (JObj d) ''net_ifaces'' JNull) jiter)) (\<lambda>vm_nets.
     py_bind (py_collect vm_nets (restore_iface M)) (\<lambda>nets.
     py_bind (py_gets hyp) (\<lambda>h.
     py_bind (py_lift (res_bind (jiter pcis_info) (matching_gpus (gpus_list h)))) (\<lambda>gpus.
     py_bind (on_hyp (take_macs (map net_mac nets))) (\<lambda>_.
     py_bind (on_hyp (take_gpus gpus)) (\<lambda>_.
     py_bind (on_hyp (py_modify (\<lambda>h. h\<lparr>sol_used_ports := sol_used_ports h @ [port]\<rparr>))) (\<lambda>_.
     py_bind (on_env (m_uuid M)) (\<lambda>uuid.
     py_bind (py_lift (vm_of_data uuid (next_oid h) gpus nets d)) (\<lambda>machine.
       on_hyp (py_modify (\<lambda>h. h\<lparr>vms := AList.update (vm_name machine) machine (vms h),
         next_oid := Suc (next_oid h)\<rparr>)))))))))))))))"

definition restore_vms :: "'w vm_ops \<Rightarrow> ('w host, unit) py" where
  "restore_vms M =
     py_bind (on_env (m_load M)) (\<lambda>vms_data.
     py_for vms_data (\<lambda>vm_data.
       py_try (try_restore_vm M vm_data) (\<lambda>_.
         env_call (m_destroy M (with_disks vm_data)))))"

text \<open>The key that is dropped is \<open>pci\<close>; the restored dictionaries have \<open>pcis\<close>.\<close>

definition delete_all_dangling_vms :: "'w vm_ops \<Rightarrow> ('w host, unit) py" where
  "delete_all_dangling_vms M =
     py_bind (on_env (m_load M)) (\<lambda>vms_data.
     py_for vms_data (\<lambda>vm_data.
       py_bind (py_lift (jobj vm_data)) (\<lambda>d.
       (let d = AList.delete ''pci'' d in
        if map_of d ''name'' = None \<or> map_of d ''num_cpus'' = None \<or> map_of d ''memsize'' = None
          \<or> map_of d ''base_image'' = None then py_raise (Exn TypeErr ''missing required positional argument'')
        else env_call (m_destroy M (JObj d))))))"

end
