(* ===== verification/Vm_Manager.thy ===== *)
theory Vm_Manager
  imports Image_Store Cloud_Init Dhcp Vm_Template Allocator
begin

text \<open>
  The manager of the virtual machines (\<open>hypervisor/vms/vm_manager.py\<close>), composed of the image store,
  the block devices, cloud-init, the DHCP handlers and libvirt.  A live machine object is part of the
  state (\<open>'w \<times> vm\<close>); a machine that is only read is passed by its attributes.  The tasks of a gather run
  one after another.
\<close>

record 'w manager =
  sys :: "'w sys"
  virt :: "'w virt"
  store_paths :: qcow_store
  iso_base :: string
  handlers :: "'w handlers"

section \<open>Computations on a machine object\<close>

type_synonym ('w, 'a) on_vm = "('w \<times> vm, 'a) py"

definition in_world :: "('w, 'a) py \<Rightarrow> ('w, 'a) on_vm" where
  "in_world m = (\<lambda>(w, v). case m w of (r, w') \<Rightarrow> (r, w', v))"

definition the_vm :: "('w, vm) on_vm" where
  "the_vm = (\<lambda>(w, v). (Inr v, w, v))"

definition set_vm :: "(vm \<Rightarrow> vm) \<Rightarrow> ('w, unit) on_vm" where
  "set_vm f = (\<lambda>(w, v). (Inr (), w, f v))"

definition set_disk :: "nat \<Rightarrow> string \<Rightarrow> json \<Rightarrow> ('w, unit) on_vm" where
  "set_disk i k x = set_vm (\<lambda>v. v\<lparr>disks := (disks v)[i := AList.update k x (disks v ! i)]\<rparr>)"

text \<open>\<open>disk[k]\<close>\<close>

definition disk_item :: "nat \<Rightarrow> string \<Rightarrow> ('w, json) on_vm" where
  "disk_item i k = py_bind the_vm (\<lambda>v. py_lift (jitem (JObj (disks v ! i)) k))"

section \<open>Storage\<close>

text \<open>\<open>sda\<close> is the boot disk; the other disks are named \<open>sdb\<close> to \<open>sdz\<close>.\<close>

definition vol_names :: "string list" where
  "vol_names = map (\<lambda>letter. ''sd'' @ [letter]) ''bcdefghijklmnopqrstuvwxyz''"

definition create_disk :: "'w manager \<Rightarrow> nat \<Rightarrow> ('w, unit) on_vm" where
  "create_disk G i =
     py_bind the_vm (\<lambda>v.
     py_bind (disk_item i ''type'') (\<lambda>ty.
     py_bind (disk_item i ''size'') (\<lambda>gb.
     py_bind (disk_item i ''serial'') (\<lambda>serial.
     py_bind (in_world (create_qcow (sys G) (store_paths G) (vm_name v) ty gb serial)) (\<lambda>path.
     py_bind (set_disk i ''image'' (JStr path)) (\<lambda>_.
     py_bind (disk_item i ''fs'') (\<lambda>fs.
       in_world (provision_disk (sys G) path fs (py_str serial)))))))))"

definition create_vm_boot_disk :: "'w manager \<Rightarrow> ('w, unit) on_vm" where
  "create_vm_boot_disk G =
     py_bind the_vm (\<lambda>v.
     py_bind (in_world (clone_qcow (sys G) (store_paths G) (base_image v) (vm_name v) (base_image_size v))) (\<lambda>path.
       set_vm (\<lambda>v. v\<lparr>vm_image := Some path\<rparr>)))"

definition generate_cloud_init_iso :: "'w manager \<Rightarrow> ('w, unit) on_vm" where
  "generate_cloud_init_iso G =
     py_bind the_vm (\<lambda>v.
     py_bind (in_world (generate_iso (sys G) (iso_base G) v)) (\<lambda>path.
       set_vm (\<lambda>v. v\<lparr>cloud_init_iso := Some path\<rparr>)))"

text \<open>The loop that names the disks ends before any task has run when there are more disks than names.\<close>

fun name_disks :: "'w manager \<Rightarrow> nat \<Rightarrow> nat \<Rightarrow> ('w, unit) on_vm" where
  "name_disks G i 0 = py_return ()"
| "name_disks G i (Suc n) =
     py_bind (in_world (new_uuid (sys G))) (\<lambda>serial.
     py_bind (set_disk i ''serial'' (JStr serial)) (\<lambda>_.
     if i < length vol_names then
       py_bind (set_disk i ''device_name'' (JStr (vol_names ! i))) (\<lambda>_. name_disks G (Suc i) n)
     else py_raise (Exn IndexErr ''list index out of range'')))"

definition create_storage :: "'w manager \<Rightarrow> ('w, unit) on_vm" where
  "create_storage G =
     py_bind the_vm (\<lambda>v.
     py_bind (name_disks G 0 (length (disks v))) (\<lambda>_.
       py_gather_first ([create_vm_boot_disk G, generate_cloud_init_iso G]
         @ map (create_disk G) [0..<length (disks v)])))"

definition jattr :: "json \<Rightarrow> string \<Rightarrow> json res" where
  "jattr v k = (case fld v k of None \<Rightarrow> Inl (Exn AttributeErr k) | Some x \<Rightarrow> Inr x)"

definition verify_storage_valid :: "'w manager \<Rightarrow> json \<Rightarrow> ('w, bool) py" where
  "verify_storage_valid G vm =
     py_try
       (py_bind (py_lift (jattr vm ''image'')) (\<lambda>image.
        py_bind (qcow_info (sys G) image) (\<lambda>_.
        py_bind (py_lift (res_bind (jattr vm ''disks'') jiter)) (\<lambda>ds.
        py_bind (py_for ds (\<lambda>disk. py_bind (py_lift (jitem disk ''image'')) (\<lambda>i.
           py_then (qcow_info (sys G) i) (py_return ())))) (\<lambda>_. py_return True)))))
       (\<lambda>_. py_return False)"

definition delete_qcow_no_exception :: "'w manager \<Rightarrow> json \<Rightarrow> ('w, unit) py" where
  "delete_qcow_no_exception G image_path = py_try (delete_qcow (sys G) image_path) (\<lambda>_. py_return ())"

definition remove_cloud_init_iso :: "'w manager \<Rightarrow> json \<Rightarrow> ('w, unit) py" where
  "remove_cloud_init_iso G vm =
     py_try
       (py_bind (py_lift (jattr vm ''name'')) (\<lambda>name.
        py_bind (py_lift (jattr vm ''uuid'')) (\<lambda>uuid.
          delete_iso (sys G) (iso_base G) (py_str name) (py_str uuid))))
       (\<lambda>_. py_return ())"

text \<open>\<open>'image' in disk\<close> for a dictionary; a disk of a restored description may be anything.\<close>

definition has_image :: "json \<Rightarrow> bool res" where
  "has_image disk = (case disk of
      JObj d \<Rightarrow> Inr (map_of d ''image'' \<noteq> None)
    | JStr s \<Rightarrow> Inr (infix_of ''image'' s)
    | JList xs \<Rightarrow> Inr (JStr ''image'' \<in> set xs)
    | _ \<Rightarrow> Inl (Exn TypeErr ''argument is not iterable''))"

definition delete_storage :: "'w manager \<Rightarrow> json \<Rightarrow> ('w, unit) py" where
  "delete_storage G vm =
     py_bind (py_lift (jattr vm ''image'')) (\<lambda>image.
     py_bind (if image \<noteq> JNull then delete_qcow_no_exception G image else py_return ()) (\<lambda>_.
     py_bind (py_lift (res_bind (jattr vm ''disks'') jiter)) (\<lambda>ds.
     py_bind (py_for ds (\<lambda>disk.
        py_bind (py_lift (has_image disk)) (\<lambda>has.
        if has then py_bind (py_lift (jitem disk ''image'')) (delete_qcow_no_exception G)
        else py_return ()))) (\<lambda>_.
     remove_cloud_init_iso G vm))))"

section \<open>Networks\<close>

definition set_ip :: "nat \<Rightarrow> string \<Rightarrow> ('w, unit) on_vm" where
  "set_ip i ip = set_vm (\<lambda>v. v\<lparr>net_ifaces := (net_ifaces v)[i := (net_ifaces v ! i)\<lparr>net_ip := Some ip\<rparr>]\<rparr>)"

definition init_networks :: "'w manager \<Rightarrow> ('w, unit) on_vm" where
  "init_networks G =
     py_bind the_vm (\<lambda>v.
     py_for [0..<length (net_ifaces v)] (\<lambda>i.
       py_bind the_vm (\<lambda>v.
       py_bind (in_world (allocate_ip (sys G) (handlers G) (net_json (net_ifaces v ! i)))) (\<lambda>ip. set_ip i ip))))"

definition deinit_networks_no_exception :: "'w manager \<Rightarrow> json \<Rightarrow> ('w, unit) py" where
  "deinit_networks_no_exception G vm =
     py_bind (py_lift (res_bind (jattr vm ''net_ifaces'') jiter)) (\<lambda>nets.
     py_for nets (\<lambda>net. py_try (deallocate_ip (handlers G) net) (\<lambda>_. py_return ())))"

section \<open>Machines\<close>

definition manager_start_vm :: "'w manager \<Rightarrow> string \<Rightarrow> ('w, unit) py" where
  "manager_start_vm G name = start_vm (virt G) name"

definition manager_stop_vm :: "'w manager \<Rightarrow> string \<Rightarrow> ('w, unit) py" where
  "manager_stop_vm G name = poweroff_vm (virt G) name"

definition manager_destroy_vm :: "'w manager \<Rightarrow> json \<Rightarrow> ('w, unit) py" where
  "manager_destroy_vm G vm =
     py_bind (py_lift (jattr vm ''name'')) (\<lambda>name.
     py_then (kill_by_name (virt G) (py_str name))
       (py_gather_first [delete_storage G vm, deinit_networks_no_exception G vm]))"

text \<open>A failure undoes what there is, and is raised whatever the undoing does.\<close>

definition create_machine :: "'w manager \<Rightarrow> ('w, unit) on_vm" where
  "create_machine G =
     py_then (py_gather_first [create_storage G, init_networks G])
     (py_bind the_vm (\<lambda>v.
      py_then (in_world (define_vm (virt G) generate_xml v))
        (in_world (manager_start_vm G (vm_name v)))))"

definition undo_machine :: "'w manager \<Rightarrow> ('w, unit) on_vm" where
  "undo_machine G =
     py_try
       (py_bind the_vm (\<lambda>v.
          in_world (py_then (manager_destroy_vm G (vm_json v)) (delete_storage G (vm_json v)))))
       (\<lambda>_. py_return ())"

definition manager_allocate_vm :: "'w manager \<Rightarrow> ('w, unit) on_vm" where
  "manager_allocate_vm G =
     py_try (create_machine G)
       (\<lambda>e. if is_exception e then py_then (undo_machine G) (py_raise e) else py_raise e)"

definition result_or_default :: "('w, 'a) py \<Rightarrow> 'a \<Rightarrow> ('w, 'a) py" where
  "result_or_default func dflt = py_try func (\<lambda>_. py_return dflt)"

definition vm_status :: "'w manager \<Rightarrow> string \<Rightarrow> ('w, string) py" where
  "vm_status G name = result_or_default (vm_state (virt G) name) ''Fail''"

definition vm_info :: "'w manager \<Rightarrow> vm \<Rightarrow> ('w, json) py" where
  "vm_info G v =
     py_bind (result_or_default (dhcp_lease_info (virt G) (vm_name v)) (JObj [])) (\<lambda>net_info.
     py_bind (result_or_default (vm_state (virt G) (vm_name v)) ''Fail'') (\<lambda>status.
     py_bind (py_lift (res_collect (disks v) (\<lambda>d.
        res_bind (jitem (JObj d) ''type'') (\<lambda>t.
        res_bind (jitem (JObj d) ''size'') (\<lambda>gb.
        res_bind (jitem (JObj d) ''serial'') (\<lambda>s.
          Inr (JObj [(''type'', t), (''size'', gb), (''serial'', s)]))))))) (\<lambda>ds.
     py_return (JObj [(''name'', JStr (vm_name v)), (''disks'', JList ds), (''status'', JStr status), (''dhcp'', net_info)]))))"

definition load_vms_data :: "'w manager \<Rightarrow> ('w, json list) py" where
  "load_vms_data G = result_or_default (load_lab_vms (virt G)) []"

section \<open>What the allocator is given\<close>

text \<open>The operating system's answer to \<open>bind\<close> and the identifiers stay parameters.  Where an operation
  cannot raise, its value is taken.\<close>

definition value_of :: "'a \<Rightarrow> 'a res \<times> 'w \<Rightarrow> 'a \<times> 'w" where
  "value_of dflt = (\<lambda>(r, w). (case r of Inl _ \<Rightarrow> dflt | Inr x \<Rightarrow> x, w))"

definition manager_ops :: "'w manager \<Rightarrow> ('w \<Rightarrow> int \<Rightarrow> bind_result) \<Rightarrow> 'w vm_ops" where
  "manager_ops G bind =
     \<lparr>m_bind = bind,
      m_uuid = (\<lambda>w. value_of [] (new_uuid (sys G) w)),
      m_allocate = (\<lambda>v w. case manager_allocate_vm G (w, v) of (r, w', v') \<Rightarrow> ((v', r), w')),
      m_destroy = manager_destroy_vm G,
      m_load = (\<lambda>w. value_of [] (load_vms_data G w)),
      m_verify = (\<lambda>vm w. value_of False (verify_storage_valid G vm w)),
      m_reallocate = reallocate_ip (sys G) (handlers G)\<rparr>"

end
