(* ===== verification/Hypervisor_Rest.thy ===== *)
theory Hypervisor_Rest
  imports Vm_Manager
begin

text \<open>
  The HTTP handlers of the hypervisor (\<open>hypervisor/vms/rest.py\<close>), over the allocator and the machine
  manager.  A handler ends in a reply or in an exception, which aiohttp answers with 500.  The tasks
  of a gather run one after another, and \<open>fulfill\<close> lists the machines in the order of the request.
\<close>

section \<open>Requests\<close>

text \<open>\<open>disks or []\<close>; the disks of a request are objects.\<close>

definition disks_of :: "json \<Rightarrow> disk list res" where
  "disks_of v = (if \<not> truthy v then Inr [] else res_bind (jlist v) (\<lambda>ds. res_collect ds jobj))"

definition vm_args :: "json \<Rightarrow> json \<Rightarrow> json \<Rightarrow> vm_params res" where
  "vm_args allocation_id requestor reqs =
     res_bind (jget reqs ''networks'' (JList [JStr ''bridge''])) (\<lambda>networks.
     res_bind (res_bind (jget reqs ''cpus'' (JNum 10)) py_int) (\<lambda>num_cpus.
     res_bind (res_bind (jget reqs ''gpus'' (JNum 1)) py_int) (\<lambda>num_gpus.
     res_bind (jget reqs ''image'' (JStr ''ubuntu-compose_v2'')) (\<lambda>base_image.
     res_bind (jget reqs ''size'' (JNum 150)) (\<lambda>base_image_size.
     res_bind (res_bind (jget reqs ''ram'' (JNum 20)) py_int) (\<lambda>memory_gb.
     res_bind (res_bind (jget reqs ''disks'' JNull) disks_of) (\<lambda>ds.
       Inr \<lparr>p_base_image = base_image, p_base_image_size = base_image_size, p_memory_gb = JNum (of_int memory_gb),
         p_networks = networks, p_num_gpus = num_gpus, p_num_cpus = JNum (of_int num_cpus), p_disks = ds,
         p_allocation_id = allocation_id, p_requestor = requestor\<rparr>)))))))"

definition translate_to_vm_params :: "json \<Rightarrow> vm_params list res" where
  "translate_to_vm_params request =
     res_bind (res_bind (jitem request ''demands'') jobj) (\<lambda>demands.
     res_bind (jget request ''allocation_id'' JNull) (\<lambda>allocation_id.
     res_bind (jget request ''requestor'' JNull) (\<lambda>requestor.
       res_collect (map snd demands) (vm_args allocation_id requestor))))"

section \<open>The resource manager's interface\<close>

definition vm_check_fulfill :: "json \<Rightarrow> ('w host, int \<times> json) py" where
  "vm_check_fulfill data =
     py_bind (py_lift (translate_to_vm_params data)) (\<lambda>vm_requests.
     py_bind (py_gets hyp) (\<lambda>h.
     py_return (if \<forall>p \<in> set vm_requests. check_allocate_vm h p
       then (200, JObj [(''status'', JStr ''Success'')])
       else (406, JObj [(''status'', JStr ''Unable'')]))))"

definition vm_fulfill :: "'w vm_ops \<Rightarrow> json \<Rightarrow> ('w host, int \<times> json) py" where
  "vm_fulfill M data =
     py_bind (py_lift (translate_to_vm_params data)) (\<lambda>vm_requests.
     py_bind (py_gather vm_requests (allocate_vm M)) (\<lambda>results.
     if \<exists>r \<in> set results. isl r then
       py_then (py_gather_first (map (\<lambda>v. destroy_vm M (vm_name v)) (completed results)))
         (py_return (500, JObj [(''status'', JStr ''Failed''), (''error'', JStr ''error creating'')]))
     else py_return (200, JObj [(''status'', JStr ''Success''),
       (''info'', JList (map vm_json (completed results)))])))"

definition handle_allocate_vm :: "'w vm_ops \<Rightarrow> json \<Rightarrow> ('w host, int \<times> json) py" where
  "handle_allocate_vm M data =
     py_bind (py_lift (jitem data ''networks'')) (\<lambda>networks.
     py_bind (py_lift (res_bind (jget data ''num_cpus'' (JNum 1)) py_int)) (\<lambda>num_cpus.
     py_bind (py_lift (res_bind (jget data ''num_gpus'' (JNum 0)) py_int)) (\<lambda>num_gpus.
     py_bind (py_lift (jitem data ''base_image'')) (\<lambda>base_image.
     py_bind (py_lift (jget data ''base_image_size'' JNull)) (\<lambda>base_image_size.
     py_bind (py_lift (res_bind (jitem data ''ram'') py_int)) (\<lambda>memory_gb.
     py_bind (py_lift (res_bind (jitem data ''disks'') disks_of)) (\<lambda>ds.
     py_bind (py_lift (jget data ''allocation_id'' JNull)) (\<lambda>allocation_id.
     py_bind (py_attempt (allocate_vm M \<lparr>p_base_image = base_image, p_base_image_size = base_image_size,
         p_memory_gb = JNum (of_int memory_gb), p_networks = networks, p_num_gpus = num_gpus,
         p_num_cpus = JNum (of_int num_cpus), p_disks = ds, p_allocation_id = allocation_id, p_requestor = JNull\<rparr>)) (\<lambda>r.
     py_return (case r of
         Inr v \<Rightarrow> (200, JObj [(''status'', JStr ''Success''), (''name'', JStr (vm_name v)), (''info'', vm_json v)])
       | Inl e \<Rightarrow> if exn_kind e = CancelledErr then (200, JObj [(''status'', JStr ''Cancelled'')])
           else (500, JObj [(''status'', JStr ''Failed''), (''error'', JStr (exn_msg e))])))))))))))"

text \<open>\<open>traceback.format_exc(e)\<close> takes its argument for a limit and raises \<open>TypeError\<close>.\<close>

definition handle_destroy_vm :: "'w vm_ops \<Rightarrow> string \<Rightarrow> ('w host, int \<times> json) py" where
  "handle_destroy_vm M name =
     py_bind (py_attempt (destroy_vm M name)) (\<lambda>r.
     case r of
       Inr _ \<Rightarrow> py_return (200, JObj [(''status'', JStr ''Success'')])
     | Inl e \<Rightarrow>
         if exn_kind e = KeyErr then py_return (404, JObj [(''error'', JStr (''vm '' @ name @ '' doesnt exist''))])
         else if exn_kind e = CancelledErr then py_return (200, JObj [(''status'', JStr ''Success'')])
         else py_raise (Exn TypeErr ''format_exc''))"

definition vm_get_allocation :: "string \<Rightarrow> ('w host, int \<times> json) py" where
  "vm_get_allocation allocation_id =
     py_bind (py_gets hyp) (\<lambda>h.
     py_return (200, JObj [(''status'', JStr ''Success''),
       (''info'', JList (map vm_json (filter (\<lambda>v. vm_allocation_id v = JStr allocation_id) (map snd (vms h)))))]))"

section \<open>The other handlers\<close>

definition lift_env :: "('w, 'a) py \<Rightarrow> ('w host, 'a) py" where
  "lift_env m = env_call m"

definition list_one :: "'w manager \<Rightarrow> string \<times> json dict \<Rightarrow> ('w host, json option) py" where
  "list_one G = (\<lambda>(name, info).
     py_bind (py_gets hyp) (\<lambda>h.
     if map_of (vms h) name = None then py_return None
     else py_bind (lift_env (vm_status G name)) (\<lambda>status.
       py_return (Some (JObj (AList.update ''status'' (JStr status) info))))))"

definition vm_dict :: "vm \<Rightarrow> json dict" where
  "vm_dict v = (case vm_json v of JObj d \<Rightarrow> d | _ \<Rightarrow> [])"

definition handle_list_vms :: "'w manager \<Rightarrow> ('w host, int \<times> json) py" where
  "handle_list_vms G =
     py_bind (py_gets hyp) (\<lambda>h.
     py_bind (py_collect (map (\<lambda>v. (vm_name v, vm_dict v)) (map snd (vms h))) (list_one G)) (\<lambda>result.
     py_return (200, JObj [(''vms'', JList (map the (filter (\<lambda>x. x \<noteq> None) result)))])))"

definition handle_list_images :: "'w manager \<Rightarrow> ('w host, int \<times> json) py" where
  "handle_list_images G =
     py_bind (lift_env (list_images (sys G) (store_paths G))) (\<lambda>images.
     py_return (200, JObj [(''images'', JList (map JStr images))]))"

definition not_found :: "string \<Rightarrow> json" where
  "not_found name = JObj [(''error'', JStr (''couldnt find vm '' @ name))]"

text \<open>The machine's lock is free in a sequential run; the name is looked up again once it is held.\<close>

definition handle_vm_update :: "'w manager \<Rightarrow> string \<Rightarrow> json \<Rightarrow> ('w host, int \<times> json) py" where
  "handle_vm_update G name data =
     py_bind (py_gets hyp) (\<lambda>h.
     case map_of (vms h) name of
       None \<Rightarrow> py_return (404, not_found name)
     | Some v \<Rightarrow>
         py_bind (py_lift (jitem data ''power'')) (\<lambda>power_status.
         py_bind (py_gets hyp) (\<lambda>h.
         if map_of (vms h) name = None then py_return (404, not_found (name @ '' after lock''))
         else
         py_then (if power_status = JStr ''on'' then lift_env (manager_start_vm G (vm_name v))
                  else if power_status = JStr ''off'' then lift_env (manager_stop_vm G (vm_name v))
                  else py_return ())
           (py_return (200, JObj [(''status'', JStr ''Success'')])))))"

definition handle_vm_status :: "'w manager \<Rightarrow> string \<Rightarrow> ('w host, int \<times> json) py" where
  "handle_vm_status G name =
     py_bind (py_gets hyp) (\<lambda>h.
     case map_of (vms h) name of
       None \<Rightarrow> py_return (404, not_found name)
     | Some v \<Rightarrow>
         py_bind (py_gets hyp) (\<lambda>h.
         if map_of (vms h) name = None then py_return (404, not_found (name @ '' after lock''))
         else py_bind (lift_env (vm_info G v)) (\<lambda>info. py_return (200, JObj [(''info'', info)]))))"

definition pci_json :: "pci \<Rightarrow> json" where
  "pci_json p = JObj [(''domain'', JStr (pci_domain p)), (''bus'', JStr (pci_bus p)), (''slot'', JStr (pci_slot p)),
     (''function'', JStr (pci_function p)), (''info'', JObj (map (\<lambda>(k, v). (k, JStr v)) (pci_info p)))]"

definition handle_resources :: "('w host, int \<times> json) py" where
  "handle_resources =
     py_bind (py_gets hyp) (\<lambda>h.
     py_return (200, JObj [(''gpus'', JList (map pci_json (gpus_list h))),
       (''macs'', JList (map JStr (mac_addresses h))), (''sol_used_ports'', JList (sol_used_ports h))]))"

section \<open>The routes the allocate service uses\<close>

definition hypervisor_http :: "'w vm_ops \<Rightarrow> string \<Rightarrow> 'w host \<Rightarrow> http_request \<Rightarrow> http_result \<times> 'w host" where
  "hypervisor_http M ep = rm_http ep vm_check_fulfill (vm_fulfill M) (handle_destroy_vm M) vm_get_allocation"

end
