(* ===== verification/Allocator_Correct.thy ===== *)
theory Allocator_Correct
  imports Allocator
begin

text \<open>
  The accounting of the hypervisor's allocator: what the two steps of an allocation and the last
  step of a destruction do to the pools and to the machines, and the invariant of all interleavings
  of requests.
\<close>

section \<open>The first step of an allocation\<close>

lemma find_port_ok:
  "find_port bind used n port = Inr q \<Longrightarrow>
    JNum (of_int q) \<notin> set used \<and> bind q = BindOk \<and> port \<le> q \<and> q < port + int n"
  by (induction bind used n port rule: find_port.induct) (auto split: if_splits bind_result.splits)

lemma find_port_error:
  "find_port bind used n port = Inl e \<Longrightarrow>
    e = Exn OSErr ''Could not find any free ports'' \<or> (\<exists>q. bind q = BindError e)"
  by (induction bind used n port rule: find_port.induct) (auto split: if_splits bind_result.splits)

lemma free_index_free: "map_of d (numbered s (free_index s d i)) = None"
  by (induction s d i rule: free_index.induct) (subst (1) free_index.simps, auto simp: free_index.simps)

lemma free_index_ge: "i \<le> free_index s d i"
  by (induction s d i rule: free_index.induct) (subst free_index.simps, auto)

lemma validate_length: "validate_networks_params ns = Inr ms \<Longrightarrow> length ms = length ns"
  by (induction ns arbitrary: ms) (auto split: if_splits)

lemma validate_valid: "validate_networks_params ns = Inr ms \<Longrightarrow> set ms \<subseteq> {''bridge'', ''isolated''}"
  by (induction ns arbitrary: ms) (auto split: if_splits)

text \<open>What an accepted request takes.\<close>

definition begun :: "hyp \<Rightarrow> vm \<Rightarrow> hyp \<Rightarrow> bool" where
  "begun h v h' \<longleftrightarrow> vms h' = vms h @ [(vm_name v, v)] \<and> map_of (vms h) (vm_name v) = None
     \<and> vm_oid v = next_oid h \<and> next_oid h' = Suc (next_oid h)
     \<and> gpus_list h = pcis v @ gpus_list h'
     \<and> mac_addresses h = map net_mac (net_ifaces v) @ mac_addresses h'
     \<and> sol_used_ports h' = sol_used_ports h @ [sol_port v] \<and> sol_port v \<notin> set (sol_used_ports h)
     \<and> max_vms h' = max_vms h \<and> int (length (vms h)) \<noteq> max_vms h"

lemma map_net_mac_zip:
  "length macs = length modes \<Longrightarrow> map net_mac (map (iface_for h) (zip macs modes)) = macs"
  by (induction macs modes rule: list_induct2) (auto simp: iface_for_def)

lemma allocate_begin_run:
  "allocate_begin bind uuid p h =
    (let networks = as_list (p_networks p) in
     if length networks > length (mac_addresses h) then
       (Inl (Exn NotEnoughResourceErr ''Not nrough mac addresses in pool''), h)
     else if p_num_gpus p > int (length (gpus_list h)) then
       (Inl (Exn NotEnoughResourceErr ''Not enough gpus requested''), h)
     else case validate_networks_params networks of
       Inl e \<Rightarrow> (Inl e, h)
     | Inr modes \<Rightarrow>
         if max_vms h = int (length (vms h)) then
           (Inl (Exn NotEnoughResourceErr ''Cannot allocate more vms''), h)
         else
           (let h1 = h\<lparr>gpus_list := slice_from (gpus_list h) (p_num_gpus p),
                       mac_addresses := drop (length modes) (mac_addresses h)\<rparr> in
            case find_port bind (sol_used_ports h) 500 (sol_base_port h + int (length (vms h))) of
              Inl e \<Rightarrow> (Inl e, h1)
            | Inr q \<Rightarrow> register_vm p uuid (slice_to (gpus_list h) (p_num_gpus p))
                (map (iface_for h) (zip (take (length modes) (mac_addresses h)) modes)) (JNum (of_int q))
                (h1\<lparr>sol_used_ports := sol_used_ports h @ [JNum (of_int q)]\<rparr>)))"
proof -
  have iface: "iface_for (h\<lparr>gpus_list := a, mac_addresses := b\<rparr>) = iface_for h" for a b
    by (simp add: iface_for_def fun_eq_iff)
  show ?thesis
    by (simp add: allocate_begin_def Let_def reserve_gpus_def reserve_networks_def reserve_macs_def
        reserve_free_port_def py_defs iface split: sum.split)
qed

lemma allocate_begin_ok:
  assumes run: "allocate_begin bind uuid p h = (Inr v, h')"
  shows "begun h v h'"
proof -
  from run obtain modes q where modes: "validate_networks_params (as_list (p_networks p)) = Inr modes"
    and q: "find_port bind (sol_used_ports h) 500 (sol_base_port h + int (length (vms h))) = Inr q"
    and le: "length (as_list (p_networks p)) \<le> length (mac_addresses h)"
    and mx: "max_vms h \<noteq> int (length (vms h))"
    and reg: "register_vm p uuid (slice_to (gpus_list h) (p_num_gpus p))
                (map (iface_for h) (zip (take (length modes) (mac_addresses h)) modes)) (JNum (of_int q))
                (h\<lparr>gpus_list := slice_from (gpus_list h) (p_num_gpus p),
                   mac_addresses := drop (length modes) (mac_addresses h),
                   sol_used_ports := sol_used_ports h @ [JNum (of_int q)]\<rparr>) = (Inr v, h')"
    by (auto simp: allocate_begin_run Let_def split: if_splits sum.splits)
  have len: "length (take (length modes) (mac_addresses h)) = length modes"
    using validate_length [OF modes] le by simp
  have fresh: "map_of (vms h) (numbered (server_name h) (free_index (server_name h) (vms h) (length (vms h)))) = None"
    by (rule free_index_free)
  then have "numbered (server_name h) (free_index (server_name h) (vms h) (length (vms h))) \<notin> fst ` set (vms h)"
    by (simp add: map_of_eq_None_iff)
  from update_fresh [OF this] fresh reg find_port_ok [OF q] mx map_net_mac_zip [OF len]
  show ?thesis
    by (auto simp: register_vm_def py_defs Let_def begun_def)
qed

text \<open>What the machine is made of.\<close>

lemma allocate_begin_gets:
  assumes run: "allocate_begin bind uuid p h = (Inr v, h')"
  shows "vm_allocation_id v = p_allocation_id p" and "vm_requestor v = p_requestor p"
    and "length (net_ifaces v) = length (as_list (p_networks p))"
    and "0 \<le> p_num_gpus p \<Longrightarrow> length (pcis v) = nat (p_num_gpus p)"
    and "\<exists>q. sol_port v = JNum (of_int q) \<and> bind q = BindOk \<and> sol_base_port h + int (length (vms h)) \<le> q
      \<and> q < sol_base_port h + int (length (vms h)) + 500"
proof -
  from run obtain modes q where modes: "validate_networks_params (as_list (p_networks p)) = Inr modes"
    and q: "find_port bind (sol_used_ports h) 500 (sol_base_port h + int (length (vms h))) = Inr q"
    and le: "length (as_list (p_networks p)) \<le> length (mac_addresses h)"
    and gpus: "p_num_gpus p \<le> int (length (gpus_list h))"
    and reg: "register_vm p uuid (slice_to (gpus_list h) (p_num_gpus p))
                (map (iface_for h) (zip (take (length modes) (mac_addresses h)) modes)) (JNum (of_int q))
                (h\<lparr>gpus_list := slice_from (gpus_list h) (p_num_gpus p),
                   mac_addresses := drop (length modes) (mac_addresses h),
                   sol_used_ports := sol_used_ports h @ [JNum (of_int q)]\<rparr>) = (Inr v, h')"
    by (auto simp: allocate_begin_run Let_def split: if_splits sum.splits)
  from reg have v: "vm_allocation_id v = p_allocation_id p \<and> vm_requestor v = p_requestor p
      \<and> net_ifaces v = map (iface_for h) (zip (take (length modes) (mac_addresses h)) modes)
      \<and> pcis v = slice_to (gpus_list h) (p_num_gpus p) \<and> sol_port v = JNum (of_int q)"
    by (auto simp: register_vm_def py_defs Let_def)
  then show "vm_allocation_id v = p_allocation_id p" "vm_requestor v = p_requestor p" by simp_all
  show "length (net_ifaces v) = length (as_list (p_networks p))"
    using v validate_length [OF modes] le by simp
  show "length (pcis v) = nat (p_num_gpus p)" if "0 \<le> p_num_gpus p"
    using v gpus that by (simp add: length_slice_to)
  show "\<exists>q. sol_port v = JNum (of_int q) \<and> bind q = BindOk \<and> sol_base_port h + int (length (vms h)) \<le> q
      \<and> q < sol_base_port h + int (length (vms h)) + 500"
    using v find_port_ok [OF q] by auto
qed

text \<open>A refused request leaves everything as it was, unless it is refused for want of a port.\<close>

lemma allocate_begin_error:
  assumes run: "allocate_begin bind uuid p h = (Inl e, h')"
  shows "h' = h \<or> ((e = Exn OSErr ''Could not find any free ports'' \<or> (\<exists>q. bind q = BindError e))
    \<and> (\<exists>gs ms. gpus_list h = gs @ gpus_list h' \<and> mac_addresses h = ms @ mac_addresses h'
        \<and> vms h' = vms h \<and> next_oid h' = next_oid h \<and> sol_used_ports h' = sol_used_ports h \<and> max_vms h' = max_vms h))"
proof -
  have reg: "register_vm p uuid a b c d = (Inl e', d') \<longleftrightarrow> False" for a b c d e' d'
    by (simp add: register_vm_def py_defs Let_def)
  show ?thesis
  proof (cases "h' = h")
    case False
    with run have "\<exists>modes. find_port bind (sol_used_ports h) 500 (sol_base_port h + int (length (vms h))) = Inl e
        \<and> h' = h\<lparr>gpus_list := slice_from (gpus_list h) (p_num_gpus p),
                   mac_addresses := drop (length (modes :: string list)) (mac_addresses h)\<rparr>"
      by (auto simp: allocate_begin_run Let_def reg split: if_splits sum.splits)
    then obtain modes :: "string list" where
      port: "find_port bind (sol_used_ports h) 500 (sol_base_port h + int (length (vms h))) = Inl e"
      and h': "h' = h\<lparr>gpus_list := slice_from (gpus_list h) (p_num_gpus p),
                   mac_addresses := drop (length modes) (mac_addresses h)\<rparr>" by blast
    have "\<exists>gs. gpus_list h = gs @ gpus_list h'" "\<exists>ms. mac_addresses h = ms @ mac_addresses h'"
      unfolding h' by (simp, metis slice_partition) (simp, metis append_take_drop_id)
    with find_port_error [OF port] h' show ?thesis by fastforce
  qed simp
qed

text \<open>With a port to be had, a refused request leaves everything as it was.\<close>

definition has_port :: "(int \<Rightarrow> bind_result) \<Rightarrow> hyp \<Rightarrow> bool" where
  "has_port bind h \<longleftrightarrow> isl (find_port bind (sol_used_ports h) 500 (sol_base_port h + int (length (vms h)))) = False"

lemma allocate_begin_refused:
  assumes run: "allocate_begin bind uuid p h = (Inl e, h')" and port: "has_port bind h"
  shows "h' = h"
proof -
  have reg: "register_vm p uuid a b c d = (Inl e', d') \<longleftrightarrow> False" for a b c d e' d'
    by (simp add: register_vm_def py_defs Let_def)
  from port obtain q where "find_port bind (sol_used_ports h) 500 (sol_base_port h + int (length (vms h))) = Inr q"
    by (auto simp: has_port_def isl_def split: sum.splits) (metis sum.exhaust)
  with run show ?thesis
    by (auto simp: allocate_begin_run Let_def reg split: if_splits sum.splits)
qed

text \<open>There is one while fewer than five hundred are in use.\<close>

lemma find_port_error_used:
  "find_port bind used n port = Inl e \<Longrightarrow> \<forall>q. bind q = BindOk \<Longrightarrow> i < n \<Longrightarrow> JNum (of_int (port + int i)) \<in> set used"
proof (induction bind used n port arbitrary: i rule: find_port.induct)
  case (1 bind used port)
  then show ?case by simp
next
  case (2 bind used attempts port)
  show ?case
  proof (cases i)
    case 0
    with 2 show ?thesis by (auto split: if_splits)
  next
    case (Suc j)
    with 2 have "JNum (of_int (port + 1 + int j)) \<in> set used"
      by (cases "JNum (of_int port) \<notin> set used") auto
    with Suc show ?thesis by (simp add: ac_simps)
  qed
qed

lemma has_portI:
  assumes "\<forall>q. bind q = BindOk" and "length (sol_used_ports h) < 500"
  shows "has_port bind h"
proof (rule ccontr)
  assume "\<not> has_port bind h"
  then obtain e where e: "find_port bind (sol_used_ports h) 500 (sol_base_port h + int (length (vms h))) = Inl e"
    by (auto simp: has_port_def isl_def)
  let ?f = "\<lambda>i. JNum (of_int (sol_base_port h + int (length (vms h)) + int i))"
  have "inj_on ?f {..<500}" by (auto simp: inj_on_def)
  then have "card {..<500 :: nat} = card (?f ` {..<500})" by (rule card_image [symmetric])
  also have "\<dots> \<le> card (set (sol_used_ports h))"
    using find_port_error_used [OF e assms(1)] by (intro card_mono) auto
  also have "\<dots> \<le> length (sol_used_ports h)" by (rule card_length)
  finally show False using assms(2) by simp
qed

section \<open>The other steps\<close>

text \<open>Two states of one machine object: what the manager writes into it are image, addresses and disks.\<close>

definition same_machine :: "vm \<Rightarrow> vm \<Rightarrow> bool" where
  "same_machine v w \<longleftrightarrow> vm_oid v = vm_oid w \<and> vm_name v = vm_name w \<and> pcis v = pcis w
     \<and> map net_mac (net_ifaces v) = map net_mac (net_ifaces w) \<and> sol_port v = sol_port w
     \<and> vm_allocation_id v = vm_allocation_id w"

lemma same_machine_refl [simp]: "same_machine v v"
  by (simp add: same_machine_def)

lemma same_machine_sym: "same_machine v w \<Longrightarrow> same_machine w v"
  by (simp add: same_machine_def)

lemma same_machine_trans: "same_machine u v \<Longrightarrow> same_machine v w \<Longrightarrow> same_machine u w"
  by (simp add: same_machine_def)

definition owns :: "hyp \<Rightarrow> string \<Rightarrow> vm \<Rightarrow> bool" where
  "owns h name v \<longleftrightarrow> (\<exists>w. map_of (vms h) name = Some w \<and> same_machine v w)"

text \<open>The registered machines: each under its own name, with an identity of its own, and its port
  accounted for.\<close>

definition wf_hyp :: "hyp \<Rightarrow> bool" where
  "wf_hyp h \<longleftrightarrow> distinct (map fst (vms h)) \<and> (\<forall>(k, v) \<in> set (vms h). k = vm_name v \<and> vm_oid v < next_oid h)
     \<and> distinct (map (vm_oid \<circ> snd) (vms h))
     \<and> mset (map (sol_port \<circ> snd) (vms h)) \<subseteq># mset (sol_used_ports h)"

lemma wf_hyp_new: "wf_hyp (new_allocator macs gpus server maxv base_port paravirt private)"
  by (simp add: wf_hyp_def new_allocator_def)

lemma wf_hyp_begin:
  assumes wf: "wf_hyp h" and b: "begun h v h'"
  shows "wf_hyp h'"
proof -
  have "vm_name v \<notin> fst ` set (vms h)" using b by (simp add: begun_def map_of_eq_None_iff)
  moreover have "\<forall>(k, w) \<in> set (vms h). vm_oid w < vm_oid v"
    using wf b by (auto simp: wf_hyp_def begun_def)
  ultimately show ?thesis
    using wf b by (fastforce simp: wf_hyp_def begun_def)
qed

lemma wf_hyp_pools: "wf_hyp h \<Longrightarrow> vms h' = vms h \<Longrightarrow> next_oid h' = next_oid h \<Longrightarrow>
    sol_used_ports h' = sol_used_ports h \<Longrightarrow> wf_hyp h'"
  by (simp add: wf_hyp_def)

text \<open>Writing into a machine object.\<close>

lemma touch_vms:
  assumes wf: "wf_hyp h" and o: "owns h (vm_name v) v" and s: "same_machine v v'"
  shows "map_of (vms (touch_vm v' h)) k = (if k = vm_name v then Some v' else map_of (vms h) k)"
    and "wf_hyp (touch_vm v' h)"
    and "map (pcis \<circ> snd) (vms (touch_vm v' h)) = map (pcis \<circ> snd) (vms h)"
    and "map (map net_mac \<circ> net_ifaces \<circ> snd) (vms (touch_vm v' h)) = map (map net_mac \<circ> net_ifaces \<circ> snd) (vms h)"
    and "map (sol_port \<circ> snd) (vms (touch_vm v' h)) = map (sol_port \<circ> snd) (vms h)"
proof -
  obtain w where w: "map_of (vms h) (vm_name v) = Some w" and vw: "same_machine v w"
    using o by (auto simp: owns_def)
  have one: "same_machine u v'" "k = vm_name v" if "(k, u) \<in> set (vms h)" "vm_oid u = vm_oid v'" for k u
  proof -
    have "(vm_name v, w) \<in> set (vms h)" using w by (rule map_of_SomeD)
    moreover have "vm_oid w = vm_oid u" using that(2) vw s by (simp add: same_machine_def)
    moreover have inj: "inj_on (vm_oid \<circ> snd) (set (vms h))" using wf by (simp add: wf_hyp_def distinct_map)
    ultimately have "(k, u) = (vm_name v, w)"
      using inj_onD [OF inj, of "(k, u)" "(vm_name v, w)"] that(1) by simp
    with vw s show "same_machine u v'" "k = vm_name v"
      using same_machine_sym same_machine_trans by blast+
  qed
  have upd: "vms (touch_vm v' h) = map (\<lambda>(k, u). (k, if vm_oid u = vm_oid v' then v' else u)) (vms h)"
    by (simp add: touch_vm_def)
  show "map (pcis \<circ> snd) (vms (touch_vm v' h)) = map (pcis \<circ> snd) (vms h)"
    "map (map net_mac \<circ> net_ifaces \<circ> snd) (vms (touch_vm v' h)) = map (map net_mac \<circ> net_ifaces \<circ> snd) (vms h)"
    unfolding upd map_map
    by (rule map_cong [OF refl], use one(1) in \<open>fastforce simp: same_machine_def split: if_splits\<close>)+
  have names: "map fst (vms (touch_vm v' h)) = map fst (vms h)"
    "map (vm_oid \<circ> snd) (vms (touch_vm v' h)) = map (vm_oid \<circ> snd) (vms h)"
    "map (sol_port \<circ> snd) (vms (touch_vm v' h)) = map (sol_port \<circ> snd) (vms h)"
    unfolding upd map_map
    by (rule map_cong [OF refl], use one(1) in \<open>fastforce simp: same_machine_def split: if_splits\<close>)+
  show "map (sol_port \<circ> snd) (vms (touch_vm v' h)) = map (sol_port \<circ> snd) (vms h)" by (rule names(3))
  have "k = vm_name u \<and> vm_oid u < next_oid h" if "(k, u) \<in> set (vms (touch_vm v' h))" for k u
    using that wf one unfolding upd by (fastforce simp: wf_hyp_def same_machine_def split: if_splits)
  moreover have "next_oid (touch_vm v' h) = next_oid h" "sol_used_ports (touch_vm v' h) = sol_used_ports h"
    by (simp_all add: touch_vm_def)
  ultimately show "wf_hyp (touch_vm v' h)"
    using wf unfolding wf_hyp_def names by auto
  have oid: "vm_oid u = vm_oid v' \<longleftrightarrow> k = vm_name v" if "map_of (vms h) k = Some u" for k u
    using one [OF map_of_SomeD [OF that]] w vw s that by (auto simp: same_machine_def)
  show "map_of (vms (touch_vm v' h)) k = (if k = vm_name v then Some v' else map_of (vms h) k)"
    using oid [of k] w
    by (cases "map_of (vms h) k") (auto simp: upd map_of_map [where f = "\<lambda>u. if vm_oid u = vm_oid v' then v' else u"])
qed

text \<open>Taking a machine out and giving its resources back.\<close>

definition without_vm :: "string \<Rightarrow> vm \<Rightarrow> hyp \<Rightarrow> hyp" where
  "without_vm name v h = h\<lparr>vms := AList.delete name (vms h), gpus_list := gpus_list h @ pcis v,
     mac_addresses := mac_addresses h @ map net_mac (net_ifaces v),
     sol_used_ports := remove1 (sol_port v) (sol_used_ports h)\<rparr>"

lemma owns_entry:
  assumes "owns h name v" and "wf_hyp h"
  obtains w where "map_of (vms h) name = Some w" and "same_machine v w"
    and "mset (vms h) = add_mset (name, w) (mset (AList.delete name (vms h)))" and "name = vm_name v"
proof -
  obtain w where w: "map_of (vms h) name = Some w" "same_machine v w" using assms(1) by (auto simp: owns_def)
  moreover have "distinct (map fst (vms h))" using assms(2) by (simp add: wf_hyp_def)
  moreover have "name = vm_name v"
    using map_of_SomeD [OF w(1)] w(2) assms(2) by (auto simp: wf_hyp_def same_machine_def)
  ultimately show thesis using mset_delete [of "vms h" name w] that by blast
qed

lemma owned_port:
  assumes "owns h name v" and wf: "wf_hyp h"
  shows "sol_port v \<in> set (sol_used_ports h)"
proof -
  obtain w where "mset (vms h) = add_mset (name, w) (mset (AList.delete name (vms h)))" "same_machine v w"
    using assms by (rule owns_entry)
  then have "sol_port v \<in># mset (map (sol_port \<circ> snd) (vms h))"
    by (simp add: same_machine_def)
  with wf have "sol_port v \<in># mset (sol_used_ports h)" unfolding wf_hyp_def by (meson mset_subset_eqD)
  then show ?thesis by simp
qed

lemma take_out:
  assumes o: "owns h name v" and wf: "wf_hyp h"
  shows "py_then (del_vm name) (free_vm_resources (pcis v) (net_ifaces v) (sol_port v)) h = (Inr (), without_vm name v h)"
    and "py_then (free_vm_resources (pcis v) (net_ifaces v) (sol_port v)) (py_then (del_vm name) (py_raise e)) h
      = (Inl e, without_vm name v h)"
  using owned_port [OF o wf] o
  by (auto simp: del_vm_def free_vm_resources_def without_vm_def owns_def py_defs)

lemma wf_without_vm:
  assumes o: "owns h name v" and wf: "wf_hyp h"
  shows "wf_hyp (without_vm name v h)"
proof -
  obtain w where entry: "mset (vms h) = add_mset (name, w) (mset (AList.delete name (vms h)))" and vw: "same_machine v w"
    using o wf by (rule owns_entry)
  have sub: "set (AList.delete name (vms h)) \<subseteq> set (vms h)"
    by (auto simp: AList.delete_eq)
  have "distinct (map fst (AList.delete name (vms h)))"
    using wf by (simp add: wf_hyp_def distinct_delete)
  moreover have "distinct (map (vm_oid \<circ> snd) (AList.delete name (vms h)))"
    using wf by (auto simp: wf_hyp_def AList.delete_eq distinct_map_filter)
  moreover have "mset (map (sol_port \<circ> snd) (AList.delete name (vms h))) \<subseteq># mset (remove1 (sol_port v) (sol_used_ports h))"
  proof -
    have "mset (map (sol_port \<circ> snd) (vms h)) =
        add_mset (sol_port v) (mset (map (sol_port \<circ> snd) (AList.delete name (vms h))))"
      using arg_cong [OF entry, of "image_mset (sol_port \<circ> snd)"] vw by (simp add: same_machine_def)
    with wf have "add_mset (sol_port v) (mset (map (sol_port \<circ> snd) (AList.delete name (vms h)))) \<subseteq># mset (sol_used_ports h)"
      by (simp add: wf_hyp_def)
    then show ?thesis by (simp add: insert_subset_eq_iff)
  qed
  ultimately show ?thesis
    using wf sub by (fastforce simp: wf_hyp_def without_vm_def)
qed

section \<open>Pools\<close>

text \<open>What the allocator hands out, GPUs and MAC addresses alike: the free ones, and the ones a
  machine holds.  \<open>total\<close> is everything there is.\<close>

definition holding :: "(vm \<Rightarrow> 'r list) \<Rightarrow> hyp \<Rightarrow> 'r multiset" where
  "holding held h = (\<Sum>p \<in># mset (vms h). mset (held (snd p)))"

definition total :: "(hyp \<Rightarrow> 'r list) \<Rightarrow> (vm \<Rightarrow> 'r list) \<Rightarrow> hyp \<Rightarrow> 'r multiset" where
  "total free held h = mset (free h) + holding held h"

locale pool =
  fixes free :: "hyp \<Rightarrow> 'r list" and held :: "vm \<Rightarrow> 'r list"
  assumes begin_takes: "begun h v h' \<Longrightarrow> mset (free h) = mset (held v) + mset (free h')"
    and refuse_takes: "allocate_begin bind uuid p h = (Inl e, h') \<Longrightarrow> mset (free h') \<subseteq># mset (free h)"
    and removal_returns: "free (without_vm name v h) = free h @ held v"
    and touch_keeps: "free (touch_vm v h) = free h"
    and held_same: "same_machine v w \<Longrightarrow> held v = held w"
begin

lemma total_begin: "begun h v h' \<Longrightarrow> total free held h' = total free held h"
  using begin_takes [of h v h'] by (simp add: total_def holding_def begun_def ac_simps)

lemma total_refuse:
  assumes "allocate_begin bind uuid p h = (Inl e, h')"
  shows "total free held h' \<subseteq># total free held h"
proof -
  have "vms h' = vms h" using allocate_begin_error [OF assms] by auto
  with refuse_takes [OF assms] show ?thesis by (simp add: total_def holding_def)
qed

lemma total_touch:
  assumes "wf_hyp h" and "owns h (vm_name v) v" and "same_machine v v'"
  shows "total free held (touch_vm v' h) = total free held h"
proof -
  obtain w where w: "map_of (vms h) (vm_name v) = Some w" "same_machine v w"
    and entry: "mset (vms h) = add_mset (vm_name v, w) (mset (AList.delete (vm_name v) (vms h)))"
    using assms(2,1) by (rule owns_entry)
  have "map_of (vms (touch_vm v' h)) (vm_name v) = Some v'" using touch_vms(1) [OF assms] by simp
  moreover have "distinct (map fst (vms (touch_vm v' h)))" using touch_vms(2) [OF assms] by (simp add: wf_hyp_def)
  ultimately have entry': "mset (vms (touch_vm v' h)) = add_mset (vm_name v, v') (mset (AList.delete (vm_name v) (vms (touch_vm v' h))))"
    by (metis mset_delete)
  have "u \<in># mset (AList.delete (vm_name v) (vms h)) \<Longrightarrow> vm_oid (snd u) \<noteq> vm_oid v'" for u
  proof
    assume u: "u \<in># mset (AList.delete (vm_name v) (vms h))" and eq: "vm_oid (snd u) = vm_oid v'"
    then have "u \<in> set (vms h)" "fst u \<noteq> vm_name v" by (auto simp: AList.delete_eq)
    moreover have inj: "inj_on (vm_oid \<circ> snd) (set (vms h))" using assms(1) by (simp add: wf_hyp_def distinct_map)
    moreover have "vm_oid w = vm_oid v'" using w(2) assms(3) by (simp add: same_machine_def)
    ultimately show False
      using inj_onD [OF inj, of u "(vm_name v, w)"] map_of_SomeD [OF w(1)] eq by force
  qed
  then have "AList.delete (vm_name v) (vms (touch_vm v' h)) = AList.delete (vm_name v) (vms h)"
    by (auto simp: touch_vm_def AList.delete_eq filter_map comp_def split_def intro!: map_idI)
  with entry entry' w(2) assms(3) held_same [of v w] held_same [of v v'] show ?thesis
    by (simp add: total_def holding_def touch_keeps)
qed

lemma total_without:
  assumes "owns h name v" and "wf_hyp h"
  shows "total free held (without_vm name v h) = total free held h"
proof -
  obtain w where "same_machine v w" and entry: "mset (vms h) = add_mset (name, w) (mset (AList.delete name (vms h)))"
    using assms by (rule owns_entry)
  then show ?thesis
    using held_same [of v w] by (simp add: total_def holding_def removal_returns) (simp add: without_vm_def)
qed

lemma exclusive:
  assumes dist: "\<forall>r. count (total free held h) r \<le> 1" and "p \<in> set (vms h)" "r \<in> set (held (snd p))"
  shows "r \<notin> set (free h)" and "q \<in> set (vms h) \<Longrightarrow> q \<noteq> p \<Longrightarrow> r \<notin> set (held (snd q))"
proof -
  obtain M where M: "mset (vms h) = add_mset p M" using assms(2) by (metis mset_add set_mset_mset)
  then have t: "total free held h = mset (free h) + mset (held (snd p)) + (\<Sum>p \<in># M. mset (held (snd p)))"
    by (simp add: total_def holding_def)
  have pos: "0 < count (mset xs) r" if "r \<in> set xs" for xs :: "'r list"
    using that by (subst count_greater_zero_iff) simp
  have one: "0 < count (mset (held (snd p))) r" using pos assms(3) by blast
  show "r \<notin> set (free h)"
  proof
    assume "r \<in> set (free h)"
    with pos have "0 < count (mset (free h)) r" by blast
    moreover have "count (total free held h) r = count (mset (free h)) r + count (mset (held (snd p))) r
        + count (\<Sum>p \<in># M. mset (held (snd p))) r" by (simp only: t count_union)
    ultimately show False using one dist [rule_format, of r] by linarith
  qed
  show "r \<notin> set (held (snd q))" if q: "q \<in> set (vms h)" "q \<noteq> p"
  proof
    assume r: "r \<in> set (held (snd q))"
    have "q \<in># add_mset p M" using q(1) M [symmetric] by simp
    with q(2) have "q \<in># M" by simp
    then obtain M' where "M = add_mset q M'" by (metis mset_add)
    then have "count (total free held h) r = count (mset (free h)) r + count (mset (held (snd p))) r
        + (count (mset (held (snd q))) r + count (\<Sum>p \<in># M'. mset (held (snd p))) r)"
      by (simp add: t)
    with pos [OF r] one dist [rule_format, of r] show False by linarith
  qed
qed

end

interpretation gpu_pool: pool gpus_list pcis
proof
  fix bind uuid p h e h'
  assume "allocate_begin bind uuid p h = (Inl e, h')"
  from allocate_begin_error [OF this] show "mset (gpus_list h') \<subseteq># mset (gpus_list h)"
    by auto
qed (auto simp: begun_def without_vm_def touch_vm_def same_machine_def)

interpretation mac_pool: pool mac_addresses "\<lambda>v. map net_mac (net_ifaces v)"
proof
  fix bind uuid p h e h'
  assume "allocate_begin bind uuid p h = (Inl e, h')"
  from allocate_begin_error [OF this] show "mset (mac_addresses h') \<subseteq># mset (mac_addresses h)"
    by auto
qed (auto simp: begun_def without_vm_def touch_vm_def same_machine_def)

end
