(* ===== verification/Allocator_Steps.thy ===== *)
theory Allocator_Steps
  imports Allocator_Correct
begin

text \<open>
  The requests the hypervisor serves at the same time, as a state machine over the allocator and the
  tasks in flight: an allocation whose machine the manager is creating, a destruction that waits for
  the machine's lock, a destruction the manager is carrying out.  A machine is locked while a task
  of the first or third kind works on it.  The manager's outcome, the operating system's answers and
  the order are arbitrary.
\<close>

datatype task = Allocating vm | Waiting string vm | Destroying string vm

fun task_vm :: "task \<Rightarrow> vm" where
  "task_vm (Allocating v) = v"
| "task_vm (Waiting n v) = v"
| "task_vm (Destroying n v) = v"

fun task_name :: "task \<Rightarrow> string" where
  "task_name (Allocating v) = vm_name v"
| "task_name (Waiting n v) = n"
| "task_name (Destroying n v) = n"

fun working :: "task \<Rightarrow> bool" where
  "working (Waiting n v) = False"
| "working _ = True"

definition locked :: "nat \<Rightarrow> task multiset \<Rightarrow> bool" where
  "locked oid ts \<longleftrightarrow> (\<exists>t \<in># ts. working t \<and> vm_oid (task_vm t) = oid)"

text \<open>With \<open>safe\<close>, a destruction begins only on the machine it looked up; without, the double check of
  the code, which looks at the name only, is all there is.\<close>

inductive hyp_step :: "bool \<Rightarrow> hyp \<times> task multiset \<Rightarrow> hyp \<times> task multiset \<Rightarrow> bool"
  for safe :: bool where
  begins: "allocate_begin bind uuid p h = (Inr v, h') \<Longrightarrow>
    hyp_step safe (h, ts) (h', add_mset (Allocating v) ts)"
| refused: "allocate_begin bind uuid p h = (Inl e, h') \<Longrightarrow> hyp_step safe (h, ts) (h', ts)"
| finishes: "allocate_finish v (v', r) h = (x, h') \<Longrightarrow> same_machine v v' \<Longrightarrow>
    hyp_step safe (h, add_mset (Allocating v) ts) (h', ts)"
| asks: "destroy_lookup name h = (Inr v, h') \<Longrightarrow> hyp_step safe (h, ts) (h', add_mset (Waiting name v) ts)"
| misses: "destroy_check name h = (Inl e, h') \<Longrightarrow> \<not> locked (vm_oid v) ts \<Longrightarrow>
    hyp_step safe (h, add_mset (Waiting name v) ts) (h', ts)"
| starts: "destroy_check name h = (Inr (), h') \<Longrightarrow> \<not> locked (vm_oid v) ts \<Longrightarrow> (safe \<longrightarrow> owns h name v) \<Longrightarrow>
    hyp_step safe (h, add_mset (Waiting name v) ts) (h', add_mset (Destroying name v) ts)"
| ends: "destroy_finish name v r h = (x, h') \<Longrightarrow>
    hyp_step safe (h, add_mset (Destroying name v) ts) (h', ts)"

inductive_cases hyp_stepE: "hyp_step safe s s'"

section \<open>The invariant\<close>

definition busy_oids :: "task multiset \<Rightarrow> nat multiset" where
  "busy_oids ts = image_mset (vm_oid \<circ> task_vm) (filter_mset working ts)"

definition steps_inv :: "hyp \<times> task multiset \<Rightarrow> bool" where
  "steps_inv = (\<lambda>(h, ts). wf_hyp h \<and> (\<forall>t \<in># ts. working t \<longrightarrow> owns h (task_name t) (task_vm t))
     \<and> (\<forall>oid. count (busy_oids ts) oid \<le> 1))"

lemma steps_invD:
  assumes "steps_inv (h, ts)"
  shows "wf_hyp h" and "t \<in># ts \<Longrightarrow> working t \<Longrightarrow> owns h (task_name t) (task_vm t)"
    and "count (busy_oids ts) oid \<le> 1"
  using assms by (auto simp: steps_inv_def)

lemma busy_add [simp]: "busy_oids (add_mset t ts) =
    (if working t then add_mset (vm_oid (task_vm t)) (busy_oids ts) else busy_oids ts)"
  by (simp add: busy_oids_def)

lemma not_locked: "\<not> locked oid ts \<longleftrightarrow> count (busy_oids ts) oid = 0"
  by (auto simp: locked_def busy_oids_def count_eq_zero_iff)

text \<open>While a task works on a machine, the other tasks work on other names.\<close>

lemma other_name:
  assumes inv: "steps_inv (h, add_mset t ts)" and t: "working t" and u: "u \<in># ts" "working u"
  shows "task_name u \<noteq> task_name t"
proof
  assume eq: "task_name u = task_name t"
  have "owns h (task_name t) (task_vm t)" using steps_invD(2) [OF inv, of t] t by simp
  moreover have "owns h (task_name u) (task_vm u)" using steps_invD(2) [OF inv, of u] u by simp
  ultimately have "vm_oid (task_vm u) = vm_oid (task_vm t)"
    using eq by (auto simp: owns_def same_machine_def)
  moreover have "vm_oid (task_vm u) \<in># busy_oids ts"
    using u by (auto simp: busy_oids_def)
  moreover have "Suc (count (busy_oids ts) (vm_oid (task_vm t))) \<le> 1"
    using steps_invD(3) [OF inv, of "vm_oid (task_vm t)"] t by simp
  ultimately show False by (simp add: not_in_iff [symmetric])
qed

lemma steps_inv_drop: "steps_inv (h, add_mset t ts) \<Longrightarrow> steps_inv (h, ts)"
proof -
  assume inv: "steps_inv (h, add_mset t ts)"
  have "count (busy_oids ts) oid \<le> 1" for oid
  proof -
    have "count (busy_oids ts) oid \<le> count (busy_oids (add_mset t ts)) oid" by simp
    also have "\<dots> \<le> 1" by (rule steps_invD(3) [OF inv])
    finally show ?thesis .
  qed
  with inv show "steps_inv (h, ts)" by (simp add: steps_inv_def)
qed

lemma owns_begin: "begun h v h' \<Longrightarrow> owns h n u \<Longrightarrow> owns h' n u"
  by (auto simp: owns_def begun_def map_add_def)

lemma owns_without: "owns h n u \<Longrightarrow> n \<noteq> name \<Longrightarrow> owns (without_vm name v h) n u"
  by (auto simp: owns_def without_vm_def delete_conv')

lemma owns_touch:
  assumes "wf_hyp h" and "owns h (vm_name v) v" and "same_machine v v'" and u: "owns h n u"
  shows "owns (touch_vm v' h) n u"
proof (cases "n = vm_name v")
  case True
  obtain w where "map_of (vms h) (vm_name v) = Some w" "same_machine v w" using assms(2) by (auto simp: owns_def)
  with True u have "same_machine u v"
    by (auto simp: owns_def intro: same_machine_trans same_machine_sym)
  then have "same_machine u v'" using assms(3) by (rule same_machine_trans)
  with touch_vms(1) [OF assms(1-3)] True show ?thesis by (simp add: owns_def)
next
  case False
  with touch_vms(1) [OF assms(1-3)] u show ?thesis by (simp add: owns_def)
qed

lemma allocate_finish_run:
  assumes wf: "wf_hyp h" and o: "owns h (vm_name v) v" and s: "same_machine v v'"
  shows "allocate_finish v (v', r) h = (case r of
      Inl e \<Rightarrow> (Inl e, without_vm (vm_name v) v (touch_vm v' h))
    | Inr _ \<Rightarrow> (Inr v', touch_vm v' h))"
proof -
  have "owns (touch_vm v' h) (vm_name v) v" by (rule owns_touch [OF wf o s o])
  note out = take_out(2) [OF this touch_vms(2) [OF wf o s]]
  show ?thesis
    by (cases r) (simp_all add: allocate_finish_def py_then_modify
        out py_return_def)
qed

lemma destroy_finish_run:
  assumes "wf_hyp h" and "owns h name v"
  shows "destroy_finish name v r h = (case r of Inl e \<Rightarrow> (Inl e, h) | Inr _ \<Rightarrow> (Inr (), without_vm name v h))"
  by (cases r) (simp_all add: destroy_finish_def py_raise_def take_out(1) [OF assms(2,1)])

lemma lookup_same: "destroy_lookup name h = (r, h') \<Longrightarrow> h' = h"
  by (auto simp: destroy_lookup_def py_defs split: option.splits)

lemma check_same: "destroy_check name h = (r, h') \<Longrightarrow> h' = h"
  by (auto simp: destroy_check_def py_defs split: if_splits)

lemma steps_inv_without:
  assumes inv: "steps_inv (h, add_mset t ts)" and t: "working t"
  shows "steps_inv (without_vm (task_name t) (task_vm t) h, ts)"
proof -
  have o: "owns h (task_name t) (task_vm t)" using steps_invD(2) [OF inv, of t] t by simp
  have "owns (without_vm (task_name t) (task_vm t) h) (task_name u) (task_vm u)" if u: "u \<in># ts" "working u" for u
    using steps_invD(2) [OF inv, of u] u other_name [OF inv t u] by (intro owns_without) auto
  moreover have "wf_hyp (without_vm (task_name t) (task_vm t) h)"
    by (rule wf_without_vm [OF o steps_invD(1) [OF inv]])
  moreover have "count (busy_oids ts) oid \<le> 1" for oid
    using steps_invD(3) [OF steps_inv_drop [OF inv]] .
  ultimately show ?thesis by (simp add: steps_inv_def)
qed

lemma steps_inv_touch:
  assumes inv: "steps_inv (h, ts)" and o: "owns h (vm_name v) v" and s: "same_machine v v'"
  shows "steps_inv (touch_vm v' h, ts)"
  using inv touch_vms(2) [OF steps_invD(1) [OF inv] o s] owns_touch [OF steps_invD(1) [OF inv] o s]
  by (simp add: steps_inv_def)

lemma hyp_step_inv:
  assumes "hyp_step True s s'" and "steps_inv s"
  shows "steps_inv s'"
  using assms
proof (induction rule: hyp_step.induct)
  case (begins bind uuid p h v h' ts)
  note b = allocate_begin_ok [OF begins(1)]
  have wf: "wf_hyp h" using steps_invD(1) [OF begins(2)] .
  have small: "vm_oid (task_vm t) < vm_oid v" if t: "t \<in># ts" "working t" for t
  proof -
    obtain w where "map_of (vms h) (task_name t) = Some w" "vm_oid (task_vm t) = vm_oid w"
      using steps_invD(2) [OF begins(2) t] by (auto simp: owns_def same_machine_def)
    with map_of_SomeD wf b show ?thesis by (fastforce simp: wf_hyp_def begun_def)
  qed
  then have "count (busy_oids ts) (vm_oid v) = 0"
    unfolding count_eq_zero_iff by (fastforce simp: busy_oids_def)
  moreover have "owns h' (vm_name v) v"
    using b by (auto simp: owns_def begun_def map_add_def)
  ultimately show ?case
    using begins(2) wf_hyp_begin [OF wf b] owns_begin [OF b] by (auto simp: steps_inv_def)
next
  case (refused bind uuid p h e h' ts)
  have "vms h' = vms h" "next_oid h' = next_oid h" "sol_used_ports h' = sol_used_ports h"
    using allocate_begin_error [OF refused(1)] by auto
  with refused(2) show ?case by (auto simp: steps_inv_def owns_def intro: wf_hyp_pools)
next
  case (finishes v v' r h x h' ts)
  have o: "owns h (vm_name v) v" using steps_invD(2) [OF finishes(3), of "Allocating v"] by simp
  note run = allocate_finish_run [OF steps_invD(1) [OF finishes(3)] o finishes(2)]
  note t = steps_inv_touch [OF finishes(3) o finishes(2)]
  show ?case
  proof (cases r)
    case (Inl e)
    with run finishes(1) have "h' = without_vm (vm_name v) v (touch_vm v' h)" by simp
    with steps_inv_without [OF t] show ?thesis by simp
  next
    case (Inr u)
    with run finishes(1) steps_inv_drop [OF t] show ?thesis by simp
  qed
next
  case (asks name h v h' ts)
  with lookup_same [OF asks(1)] show ?case by (auto simp: steps_inv_def)
next
  case (misses name h e h' v ts)
  with check_same [OF misses(1)] show ?case by (auto simp: steps_inv_def)
next
  case (starts name h h' v ts)
  with check_same [OF starts(1)] not_locked [of "vm_oid v" ts] show ?case
    by (auto simp: steps_inv_def)
next
  case (ends name v r h x h' ts)
  have o: "owns h name v" using steps_invD(2) [OF ends(2), of "Destroying name v"] by simp
  note run = destroy_finish_run [OF steps_invD(1) [OF ends(2)] o, of r]
  show ?case
  proof (cases r)
    case (Inl e)
    with run ends(1) steps_inv_drop [OF ends(2)] show ?thesis by simp
  next
    case (Inr u)
    with run ends(1) steps_inv_without [OF ends(2)] show ?thesis by simp
  qed
qed

text \<open>What there is of a pool never grows.\<close>

context pool
begin

lemma total_step:
  assumes "hyp_step True (h, ts) (h', ts')" and inv: "steps_inv (h, ts)"
  shows "total free held h' \<subseteq># total free held h"
  using assms(1)
proof (cases rule: hyp_step.cases)
  case (begins bind uuid p v)
  then show ?thesis using total_begin [OF allocate_begin_ok] by simp
next
  case (refused bind uuid p e)
  then show ?thesis using total_refuse by simp
next
  case (finishes v v' r x)
  have o: "owns h (vm_name v) v" using steps_invD(2) [OF inv, of "Allocating v"] finishes by simp
  note wf = steps_invD(1) [OF inv]
  note run = allocate_finish_run [OF wf o finishes(3)]
  have o': "owns (touch_vm v' h) (vm_name v) v" by (rule owns_touch [OF wf o finishes(3) o])
  note total = total_touch [OF wf o finishes(3)] total_without [OF o' touch_vms(2) [OF wf o finishes(3)]]
  show ?thesis using run total finishes(2) by (cases r) auto
next
  case (asks name v)
  then show ?thesis using lookup_same by fastforce
next
  case (misses name e v)
  then show ?thesis using check_same by fastforce
next
  case (starts name v)
  then show ?thesis using check_same by fastforce
next
  case (ends name v r x)
  have o: "owns h name v" using steps_invD(2) [OF inv, of "Destroying name v"] ends by simp
  note run = destroy_finish_run [OF steps_invD(1) [OF inv] o, of r]
  show ?thesis using run total_without [OF o steps_invD(1) [OF inv]] ends(2) by (cases r) auto
qed

lemma total_reachable:
  assumes "(hyp_step True)\<^sup>*\<^sup>* s s'" and "steps_inv s"
  shows "steps_inv s' \<and> total free held (fst s') \<subseteq># total free held (fst s)"
  using assms(1)
proof (induction rule: rtranclp_induct)
  case base
  with assms(2) show ?case by simp
next
  case (step s1 s2)
  obtain h1 ts1 h2 ts2 where s: "s1 = (h1, ts1)" "s2 = (h2, ts2)" by (cases s1; cases s2)
  with step total_step [of h1 ts1 h2 ts2] hyp_step_inv [of s1 s2] show ?case
    by (auto intro: subset_mset.order_trans)
qed

end

section \<open>The limit on machines\<close>

lemma allocate_finish_length: "length (vms (snd (allocate_finish v r h))) \<le> length (vms h) \<and>
    max_vms (snd (allocate_finish v r h)) = max_vms h"
proof -
  obtain v' x where "r = (v', x)" by (cases r)
  then show ?thesis
    by (cases x) (auto simp: allocate_finish_def touch_vm_def free_vm_resources_def del_vm_def py_defs
        intro: order_trans [OF length_delete_le])
qed

lemma destroy_finish_length: "length (vms (snd (destroy_finish name v r h))) \<le> length (vms h) \<and>
    max_vms (snd (destroy_finish name v r h)) = max_vms h"
  by (cases r) (auto simp: destroy_finish_def free_vm_resources_def del_vm_def py_defs
      intro: order_trans [OF length_delete_le])

lemma limit_step:
  assumes "hyp_step safe (h, ts) (h', ts')" and "int (length (vms h)) \<le> max_vms h"
  shows "int (length (vms h')) \<le> max_vms h' \<and> max_vms h' = max_vms h"
  using assms(1)
proof (cases rule: hyp_step.cases)
  case (begins bind uuid p v)
  then show ?thesis using allocate_begin_ok [of bind uuid p h v h'] assms(2) by (auto simp: begun_def)
next
  case (refused bind uuid p e)
  then show ?thesis using allocate_begin_error [of bind uuid p h e h'] assms(2) by auto
next
  case (finishes v v' r x)
  then show ?thesis using allocate_finish_length [of v "(v', r)" h] assms(2) by auto
next
  case (asks name v)
  then show ?thesis using lookup_same assms(2) by fastforce
next
  case (misses name e v)
  then show ?thesis using check_same assms(2) by fastforce
next
  case (starts name v)
  then show ?thesis using check_same assms(2) by fastforce
next
  case (ends name v r x)
  then show ?thesis using destroy_finish_length [of name v r h] assms(2) by auto
qed

end
