(* ===== verification/Allocator_Restore.thy ===== *)
theory Allocator_Restore
  imports Allocator_Steps
begin

text \<open>
  Start-up of the hypervisor: restoring the machines libvirt still knows takes their resources out of
  the pools and never puts anything into them, so the invariant of the requests holds from the start.
\<close>

definition accounted :: "pci multiset \<Rightarrow> string multiset \<Rightarrow> hyp \<Rightarrow> bool" where
  "accounted G A h \<longleftrightarrow> wf_hyp h \<and> total gpus_list pcis h \<subseteq># G
     \<and> total mac_addresses (\<lambda>v. map net_mac (net_ifaces v)) h \<subseteq># A"

lemma remove_each_mset: "remove_each xs ps = (ps', r) \<Longrightarrow>
    mset ps' \<subseteq># mset ps \<and> (\<forall>u. r = Inr u \<longrightarrow> mset ps = mset xs + mset ps')"
proof (induction xs ps rule: remove_each.induct)
  case (1 ps)
  then show ?case by simp
next
  case (2 x xs ps)
  show ?case
  proof (cases "x \<in> set ps")
    case True
    then have "mset ps = add_mset x (mset (remove1 x ps))" by simp
    moreover have "mset ps' \<subseteq># mset (remove1 x ps) \<and> (\<forall>u. r = Inr u \<longrightarrow> mset (remove1 x ps) = mset xs + mset ps')"
      using 2 True by simp
    ultimately show ?thesis by (metis add_mset_add_single mset.simps(2) mset_subset_eq_add_left
        subset_mset.order_trans union_mset_add_mset_left)
  next
    case False
    with 2 show ?thesis by auto
  qed
qed

lemma holding_mono: "mset (vms h') \<subseteq># mset (vms h) \<Longrightarrow> holding held h' \<subseteq># holding held h"
  unfolding holding_def by (metis image_mset_union mset_subset_eq_add_left subset_mset.add_diff_inverse sum_mset.union)

text \<open>A machine comes into the dictionary, in place of one of that name if there is one.\<close>

lemma mset_update:
  assumes "distinct (map fst d)"
  shows "mset (AList.update k v d) = add_mset (k, v) (mset (AList.delete k d))"
  using assms
proof (induction d)
  case Nil
  then show ?case by simp
next
  case (Cons p d)
  obtain a b where p: "p = (a, b)" by (cases p)
  show ?case
  proof (cases "a = k")
    case True
    with Cons.prems p have "AList.delete k d = d" by (simp add: delete_idem)
    with True p show ?thesis by simp
  next
    case False
    with Cons p show ?thesis by simp
  qed
qed

lemma mset_delete_sub: "mset (AList.delete k d) \<subseteq># mset d"
  by (simp add: AList.delete_eq multiset_filter_subset)

definition restored :: "vm \<Rightarrow> hyp \<Rightarrow> hyp" where
  "restored v h = h\<lparr>vms := AList.update (vm_name v) v (vms h), next_oid := Suc (next_oid h)\<rparr>"

lemma holding_restored:
  assumes "wf_hyp h"
  shows "holding held (restored v h) \<subseteq># mset (held v) + holding held h"
proof -
  have "distinct (map fst (vms h))" using assms by (simp add: wf_hyp_def)
  from mset_update [OF this] have "holding held (restored v h) =
      mset (held v) + (\<Sum>p \<in># mset (AList.delete (vm_name v) (vms h)). mset (held (snd p)))"
    by (simp add: holding_def restored_def)
  moreover have "(\<Sum>p \<in># mset (AList.delete (vm_name v) (vms h)). mset (held (snd p))) \<subseteq># holding held h"
    using holding_mono [of "h\<lparr>vms := AList.delete (vm_name v) (vms h)\<rparr>" h held] mset_delete_sub [of "vm_name v" "vms h"]
    by (simp add: holding_def)
  ultimately show ?thesis by simp
qed

lemma wf_restored:
  assumes wf: "wf_hyp h" and "vm_oid v = next_oid h"
    and ports: "mset (map (sol_port \<circ> snd) (vms h)) + {#sol_port v#} \<subseteq># mset (sol_used_ports h)"
  shows "wf_hyp (restored v h)"
proof -
  have d: "distinct (map fst (vms h))" using wf by (simp add: wf_hyp_def)
  note m = mset_update [OF d, of "vm_name v" v]
  have sub: "set (AList.delete (vm_name v) (vms h)) \<subseteq> set (vms h)" by (auto simp: AList.delete_eq)
  have set: "set (AList.update (vm_name v) v (vms h)) \<subseteq> insert (vm_name v, v) (set (vms h))"
    using arg_cong [OF m, of set_mset] sub by auto
  have "vm_oid v \<notin> (vm_oid \<circ> snd) ` set (vms h)" using wf assms(2) by (fastforce simp: wf_hyp_def)
  moreover have "distinct (map (vm_oid \<circ> snd) (AList.delete (vm_name v) (vms h)))"
    using wf by (auto simp: wf_hyp_def AList.delete_eq distinct_map_filter)
  ultimately have "distinct ((vm_oid v) # map (vm_oid \<circ> snd) (AList.delete (vm_name v) (vms h)))"
    using sub by auto
  moreover have "mset (map (vm_oid \<circ> snd) (AList.update (vm_name v) v (vms h)))
      = mset ((vm_oid v) # map (vm_oid \<circ> snd) (AList.delete (vm_name v) (vms h)))"
    using m by simp
  ultimately have oids: "distinct (map (vm_oid \<circ> snd) (AList.update (vm_name v) v (vms h)))"
    using mset_eq_imp_distinct_iff by blast
  have "mset (map (sol_port \<circ> snd) (AList.update (vm_name v) v (vms h)))
      = add_mset (sol_port v) (mset (map (sol_port \<circ> snd) (AList.delete (vm_name v) (vms h))))"
    using m by simp
  also have "\<dots> \<subseteq># mset (map (sol_port \<circ> snd) (vms h)) + {#sol_port v#}"
    using mset_delete_sub [of "vm_name v" "vms h"] by (simp add: image_mset_subseteq_mono)
  finally have "mset (map (sol_port \<circ> snd) (AList.update (vm_name v) v (vms h))) \<subseteq># mset (sol_used_ports h)"
    using ports subset_mset.order_trans by blast
  with wf set assms(2) oids d show ?thesis
    by (fastforce simp: wf_hyp_def restored_def distinct_update)
qed

section \<open>The operations\<close>

lemma on_env_inv [py_inv_intro]: "py_inv (\<lambda>n. I (hyp n)) (on_env f)"
  by (auto simp: py_inv_def on_env_def split: prod.splits)

lemma env_call_inv [py_inv_intro]: "py_inv (\<lambda>n. I (hyp n)) (env_call f)"
  by (auto simp: py_inv_def env_call_def split: prod.splits)

lemma try_restore_ip_inv [py_inv_intro]: "py_inv (\<lambda>n. I (hyp n)) (try_restore_ip M ni k e)"
  by (induction k arbitrary: e) (auto intro!: py_inv_intro)

lemma restore_iface_inv [py_inv_intro]: "py_inv (\<lambda>n. I (hyp n)) (restore_iface M ni)"
  unfolding restore_iface_def by (intro py_inv_intro)

lemma take_macs_run: "take_macs ms h = (r, h') \<Longrightarrow> \<exists>ps. h' = h\<lparr>mac_addresses := ps\<rparr> \<and>
    mset ps \<subseteq># mset (mac_addresses h) \<and> (\<forall>u. r = Inr u \<longrightarrow> mset (mac_addresses h) = mset ms + mset ps)"
  using remove_each_mset [of ms "mac_addresses h"] by (auto simp: take_macs_def split: prod.splits)

lemma take_gpus_run: "take_gpus gs h = (r, h') \<Longrightarrow> \<exists>ps. h' = h\<lparr>gpus_list := ps\<rparr> \<and>
    mset ps \<subseteq># mset (gpus_list h) \<and> (\<forall>u. r = Inr u \<longrightarrow> mset (gpus_list h) = mset gs + mset ps)"
  using remove_each_mset [of gs "gpus_list h"] by (auto simp: take_gpus_def split: prod.splits)

lemma vm_of_data_run:
  assumes "vm_of_data uuid oid gpus nets d = Inr v"
  shows "vm_oid v = oid \<and> pcis v = gpus \<and> net_ifaces v = nets
    \<and> sol_port v = data_get d ''sol_port'' JNull"
  using assms by (auto simp: vm_of_data_def split: option.splits)

definition register_restored ::
    "'w vm_ops \<Rightarrow> pci list \<Rightarrow> net_iface list \<Rightarrow> json dict \<Rightarrow> hyp \<Rightarrow> ('w host, unit) py" where
  "register_restored M gpus nets d h =
     py_bind (on_hyp (take_macs (map net_mac nets))) (\<lambda>_.
     py_bind (on_hyp (take_gpus gpus)) (\<lambda>_.
     py_bind (on_hyp (py_modify (\<lambda>h. h\<lparr>sol_used_ports := sol_used_ports h
         @ [data_get d ''sol_port'' JNull]\<rparr>))) (\<lambda>_.
     py_bind (on_env (m_uuid M)) (\<lambda>uuid.
     py_bind (py_lift (vm_of_data uuid (next_oid h) gpus nets d)) (\<lambda>machine.
       on_hyp (py_modify (restored machine)))))))"

lemma accounted_pools:
  assumes "accounted G A h" and "mset gs \<subseteq># mset (gpus_list h)" and "mset ms \<subseteq># mset (mac_addresses h)"
    and "mset (sol_used_ports h) \<subseteq># mset ps"
  shows "accounted G A (h\<lparr>gpus_list := gs, mac_addresses := ms, sol_used_ports := ps\<rparr>)"
proof -
  have "wf_hyp (h\<lparr>gpus_list := gs, mac_addresses := ms, sol_used_ports := ps\<rparr>)"
    using assms subset_mset.order_trans by (fastforce simp: accounted_def wf_hyp_def)
  moreover have "total gpus_list pcis (h\<lparr>gpus_list := gs, mac_addresses := ms, sol_used_ports := ps\<rparr>)
      \<subseteq># total gpus_list pcis h"
    using assms(2) by (simp add: total_def holding_def)
  moreover have "total mac_addresses (\<lambda>v. map net_mac (net_ifaces v))
      (h\<lparr>gpus_list := gs, mac_addresses := ms, sol_used_ports := ps\<rparr>)
      \<subseteq># total mac_addresses (\<lambda>v. map net_mac (net_ifaces v)) h"
    using assms(3) by (simp add: total_def holding_def)
  ultimately show ?thesis using assms(1) subset_mset.order_trans by (fastforce simp: accounted_def)
qed

lemma accounted_restored:
  assumes acc: "accounted G A h" and g: "mset (gpus_list h) = mset (pcis v) + mset gs"
    and m: "mset (mac_addresses h) = mset (map net_mac (net_ifaces v)) + mset ms" and oid: "vm_oid v = next_oid h"
  shows "accounted G A (restored v (h\<lparr>gpus_list := gs, mac_addresses := ms,
    sol_used_ports := sol_used_ports h @ [sol_port v]\<rparr>))"
proof -
  let ?h = "h\<lparr>gpus_list := gs, mac_addresses := ms, sol_used_ports := sol_used_ports h @ [sol_port v]\<rparr>"
  have wf: "wf_hyp h" and ports: "mset (map (sol_port \<circ> snd) (vms h)) \<subseteq># mset (sol_used_ports h)"
    using acc by (simp_all add: accounted_def wf_hyp_def)
  have wf': "wf_hyp ?h"
    using wf ports by (fastforce simp: wf_hyp_def intro: subset_mset.order_trans)
  have "wf_hyp (restored v ?h)"
    by (rule wf_restored [OF wf']) (use oid ports in auto)
  moreover have "total gpus_list pcis (restored v ?h) \<subseteq># total gpus_list pcis h"
    using holding_restored [OF wf', of pcis v] g by (simp add: total_def holding_def) (simp add: restored_def)
  moreover have "total mac_addresses (\<lambda>v. map net_mac (net_ifaces v)) (restored v ?h)
      \<subseteq># total mac_addresses (\<lambda>v. map net_mac (net_ifaces v)) h"
    using holding_restored [OF wf', of "\<lambda>v. map net_mac (net_ifaces v)" v] m
    by (simp add: total_def holding_def) (simp add: restored_def)
  ultimately show ?thesis using acc subset_mset.order_trans by (fastforce simp: accounted_def)
qed

lemma register_restored_inv:
  assumes acc: "accounted G A (hyp n)" and h: "h = hyp n"
  shows "accounted G A (hyp (snd (register_restored M gpus nets d h n)))"
proof -
  obtain r1 h1 where 1: "take_macs (map net_mac nets) h = (r1, h1)" by (cases "take_macs (map net_mac nets) h")
  from take_macs_run [OF this] obtain ms where h1: "h1 = h\<lparr>mac_addresses := ms\<rparr>"
    and ms: "mset ms \<subseteq># mset (mac_addresses h)"
    and ms_ok: "\<And>u. r1 = Inr u \<Longrightarrow> mset (mac_addresses h) = mset (map net_mac nets) + mset ms" by blast
  obtain r2 h2 where 2: "take_gpus gpus h1 = (r2, h2)" by (cases "take_gpus gpus h1")
  from take_gpus_run [OF this] obtain gs where h2: "h2 = h1\<lparr>gpus_list := gs\<rparr>"
    and gs: "mset gs \<subseteq># mset (gpus_list h)"
    and gs_ok: "\<And>u. r2 = Inr u \<Longrightarrow> mset (gpus_list h) = mset gpus + mset gs"
    unfolding h1 by auto
  have h2': "h2 = h\<lparr>gpus_list := gs, mac_addresses := ms\<rparr>" by (cases h) (simp add: h1 h2)
  have pools: "accounted G A (h\<lparr>gpus_list := gs', mac_addresses := ms', sol_used_ports := ps'\<rparr>)"
    if "mset gs' \<subseteq># mset (gpus_list h)" "mset ms' \<subseteq># mset (mac_addresses h)" "mset (sol_used_ports h) \<subseteq># mset ps'" for gs' ms' ps'
    by (rule accounted_pools [OF acc [folded h] that])
  have a1: "accounted G A h1"
    using pools [of "gpus_list h" ms "sol_used_ports h"] ms by (simp add: h1)
  have a2: "accounted G A h2"
    using pools [of gs ms "sol_used_ports h"] ms gs by (simp add: h2')
  let ?p = "data_get d ''sol_port'' JNull"
  have a3: "accounted G A (h2\<lparr>sol_used_ports := sol_used_ports h2 @ [?p]\<rparr>)"
    using pools [of gs ms "sol_used_ports h @ [?p]"] ms gs by (simp add: h2')
  have a4: "accounted G A (restored v (h2\<lparr>sol_used_ports := sol_used_ports h2 @ [?p]\<rparr>))"
    if v: "vm_of_data uuid (next_oid h) gpus nets d = Inr v" and ok: "r1 = Inr u" "r2 = Inr u'" for v uuid u u'
    using accounted_restored [of G A h v gs ms] acc h vm_of_data_run [OF v] ms_ok gs_ok ok by (simp add: h2')
  show ?thesis
    unfolding register_restored_def
    using 1 2 a1 a2 a3 a4 h
    by (cases r1; cases r2) (auto simp: py_defs on_hyp_def on_env_def split: sum.splits prod.splits)
qed

lemma try_restore_vm_alt: "try_restore_vm (M :: 'w vm_ops) vm_data =
     py_bind (py_lift (jget vm_data ''pcis'' (JList []))) (\<lambda>pcis_info.
     py_bind (py_lift (jobj (with_disks vm_data))) (\<lambda>d.
     py_bind (on_env (m_verify M (JObj d))) (\<lambda>valid.
     if \<not> valid then py_raise (Exn VMRestoreErr ''Storage is not valid'')
     else
     py_bind (py_lift (res_bind (jget (JObj d) ''net_ifaces'' JNull) jiter)) (\<lambda>vm_nets.
     py_bind (py_collect vm_nets (restore_iface M)) (\<lambda>nets.
     py_bind (py_gets hyp) (\<lambda>h.
     py_bind (py_lift (res_bind (jiter pcis_info) (matching_gpus (gpus_list h)))) (\<lambda>gpus.
       register_restored M gpus nets d h)))))))"
proof -
  have port: "jget vm_data ''sol_port'' JNull = Inr (data_get d ''sol_port'' JNull)"
    if "jobj (with_disks vm_data) = Inr d" for d
    using that by (cases vm_data) (auto simp: with_disks_def data_get_def jobj_def split: if_splits option.splits)
  show ?thesis
  proof (cases "jobj (with_disks vm_data)")
    case (Inl e)
    then have "\<exists>e. jget vm_data ''pcis'' (JList []) = Inl e"
      by (cases vm_data) (auto simp: with_disks_def jobj_def jget_def split: if_splits)
    then show ?thesis by (auto simp: try_restore_vm_def py_defs)
  next
    case (Inr d)
    have "py_bind (py_lift (Inr d)) f = f d" for f :: "json dict \<Rightarrow> ('w host, unit) py"
      by (simp add: py_bind_def py_lift_def)
    moreover have "py_bind (py_lift (Inr x)) f = f x" for x and f :: "json \<Rightarrow> ('w host, unit) py"
      by (simp add: py_bind_def py_lift_def)
    ultimately show ?thesis
      unfolding try_restore_vm_def register_restored_def restored_def Inr port [OF Inr] by simp
  qed
qed

lemma try_restore_vm_inv: "py_inv (\<lambda>n. accounted G A (hyp n)) (try_restore_vm M vm_data)"
proof -
  have reg: "py_inv (\<lambda>n. accounted G A (hyp n)) (py_bind (py_gets hyp) (\<lambda>h.
     py_bind (py_lift (f h)) (\<lambda>gpus. register_restored M gpus nets d h)))" for f nets d
    by (auto simp: py_inv_def py_bind_def py_gets_def py_lift_def register_restored_inv split: sum.splits)
  show ?thesis unfolding try_restore_vm_alt by (intro py_inv_intro reg)
qed

lemma restore_vms_inv: "py_inv (\<lambda>n. accounted G A (hyp n)) (restore_vms M)"
  unfolding restore_vms_def by (intro py_inv_intro try_restore_vm_inv)

lemma accounted_new: "accounted (mset gpus) (mset macs) (new_allocator macs gpus server maxv base paravirt priv)"
  using wf_hyp_new by (simp add: accounted_def total_def holding_def) (simp add: new_allocator_def)

end
