(* ===== verification/Manager_Contract.thy ===== *)
theory Manager_Contract
  imports Allocator_Restore
begin

text \<open>
  What the allocator relies on in the machine manager, as an interface, and what it then promises to
  its own callers: a failed allocation gives everything back, a successful one followed by a
  destruction too.  The interpretation on the model of the manager is in \<open>Vm_Manager_Correct\<close>.
\<close>

definition same_pools :: "hyp \<Rightarrow> hyp \<Rightarrow> bool" where
  "same_pools h h' \<longleftrightarrow> vms h' = vms h \<and> mset (gpus_list h') = mset (gpus_list h)
     \<and> mset (mac_addresses h') = mset (mac_addresses h) \<and> mset (sol_used_ports h') = mset (sol_used_ports h)"

lemma owns_begun: "begun h v h' \<Longrightarrow> owns h' (vm_name v) v"
  by (auto simp: owns_def begun_def map_add_def)

lemma touch_begun:
  assumes wf: "wf_hyp h" and b: "begun h v h'" and s: "same_machine v v'"
  shows "vms (touch_vm v' h') = vms h @ [(vm_name v, v')]"
proof -
  have "(k, w) \<in> set (vms h) \<Longrightarrow> vm_oid w \<noteq> vm_oid v'" for k w
    using wf b s by (fastforce simp: wf_hyp_def begun_def same_machine_def)
  then have "map (\<lambda>(k, w). (k, if vm_oid w = vm_oid v' then v' else w)) (vms h) = vms h"
    by (intro map_idI) auto
  with b s show ?thesis by (simp add: touch_vm_def begun_def same_machine_def)
qed

lemma without_begun:
  assumes wf: "wf_hyp h" and b: "begun h v h'" and s: "same_machine v v'" and vv: "same_machine v u"
  shows "same_pools h (without_vm (vm_name v) u (touch_vm v' h'))"
proof -
  have "vm_name v \<notin> fst ` set (vms h)" using b by (simp add: begun_def map_of_eq_None_iff)
  then have "AList.delete (vm_name v) (vms h @ [(vm_name v, v')]) = vms h"
    unfolding AList.delete_eq by simp (force intro!: filter_True)
  with touch_begun [OF wf b s] b vv show ?thesis
    by (simp add: same_pools_def without_vm_def touch_vm_def begun_def same_machine_def)
qed

lemma without_begun_touched:
  "wf_hyp h \<Longrightarrow> begun h v h' \<Longrightarrow> same_machine v v' \<Longrightarrow>
    same_pools h (without_vm (vm_name v) v' (touch_vm v' h'))"
  by (rule without_begun)

lemma on_hyp_run: "m (hyp n) = (r, h) \<Longrightarrow> on_hyp m n = (r, n\<lparr>hyp := h\<rparr>)"
  by (simp add: on_hyp_def)

text \<open>The books of the allocator: everything there is of GPUs and MAC addresses, and the console ports that
  no registered machine has.\<close>

definition same_books :: "hyp \<Rightarrow> hyp \<Rightarrow> bool" where
  "same_books h h' \<longleftrightarrow> total gpus_list pcis h' = total gpus_list pcis h
     \<and> total mac_addresses (\<lambda>v. map net_mac (net_ifaces v)) h' = total mac_addresses (\<lambda>v. map net_mac (net_ifaces v)) h
     \<and> mset (sol_used_ports h') - mset (map (sol_port \<circ> snd) (vms h'))
       = mset (sol_used_ports h) - mset (map (sol_port \<circ> snd) (vms h))"

lemma same_books_refl [simp]: "same_books h h"
  by (simp add: same_books_def)

lemma same_books_trans [trans]: "same_books h h' \<Longrightarrow> same_books h' h'' \<Longrightarrow> same_books h h''"
  by (simp add: same_books_def)

lemma same_pools_books: "same_pools h h' \<Longrightarrow> same_books h h'"
  by (simp add: same_pools_def same_books_def total_def holding_def)

lemma books_same_pools:
  assumes "same_books h h'" and vms: "vms h' = vms h" and "wf_hyp h" "wf_hyp h'"
  shows "same_pools h h'"
proof -
  have "mset (map (sol_port \<circ> snd) (vms h)) \<subseteq># mset (sol_used_ports h)"
    "mset (map (sol_port \<circ> snd) (vms h)) \<subseteq># mset (sol_used_ports h')"
    using assms by (simp_all add: wf_hyp_def)
  with assms(1) vms have "mset (sol_used_ports h') = mset (sol_used_ports h)"
    unfolding same_books_def by (metis subset_mset.diff_add)
  moreover have "mset (gpus_list h') = mset (gpus_list h)" "mset (mac_addresses h') = mset (mac_addresses h)"
    using assms(1) vms by (simp_all add: same_books_def total_def holding_def)
  ultimately show ?thesis using vms by (simp add: same_pools_def)
qed

lemma books_begin: "wf_hyp h \<Longrightarrow> begun h v h' \<Longrightarrow> same_books h h'"
  using gpu_pool.total_begin [of h v h'] mac_pool.total_begin [of h v h']
  by (auto simp: same_books_def begun_def)

lemma books_touch:
  assumes "wf_hyp h" and "owns h (vm_name v) v" and s: "same_machine v v'"
  shows "same_books h (touch_vm v' h)"
  using gpu_pool.total_touch [OF assms] mac_pool.total_touch [OF assms] touch_vms(5) [OF assms]
  by (simp add: same_books_def) (simp add: touch_vm_def)

lemma books_without:
  assumes o: "owns h name v" and wf: "wf_hyp h"
  shows "same_books h (without_vm name v h)"
proof -
  obtain w where entry: "mset (vms h) = add_mset (name, w) (mset (AList.delete name (vms h)))" and vw: "same_machine v w"
    using o wf by (rule owns_entry)
  have ports: "mset (map (sol_port \<circ> snd) (vms h)) =
        add_mset (sol_port v) (mset (map (sol_port \<circ> snd) (AList.delete name (vms h))))"
    using arg_cong [OF entry, of "image_mset (sol_port \<circ> snd)"] vw by (simp add: same_machine_def)
  have "mset (sol_used_ports h) - mset (map (sol_port \<circ> snd) (vms h))
      = mset (sol_used_ports (without_vm name v h)) - mset (map (sol_port \<circ> snd) (vms (without_vm name v h)))"
    unfolding ports by (simp add: without_vm_def)
  then show ?thesis
    using gpu_pool.total_without [OF o wf] mac_pool.total_without [OF o wf] by (simp add: same_books_def)
qed

lemma same_pools_wf: "wf_hyp h \<Longrightarrow> same_pools h h' \<Longrightarrow> next_oid h \<le> next_oid h' \<Longrightarrow> wf_hyp h'"
  by (fastforce simp: wf_hyp_def same_pools_def)

locale machine_manager =
  fixes M :: "'w vm_ops"
  assumes allocate_same: "m_allocate M v w = ((v', r), w') \<Longrightarrow> same_machine v v'"
begin

lemma allocate_vm_run:
  assumes wf: "wf_hyp (hyp n)" and run: "allocate_vm M p n = (r, n')"
  shows "(\<exists>e w. r = Inl e \<and> allocate_begin (m_bind M w) (fst (m_uuid M (env n))) p (hyp n) = (Inl e, hyp n'))
    \<or> (\<exists>v v' w h x w'. allocate_begin (m_bind M w) (fst (m_uuid M (env n))) p (hyp n) = (Inr v, h)
          \<and> m_allocate M v w = ((v', x), w') \<and> begun (hyp n) v h \<and> same_machine v v'
          \<and> (case x of Inl e \<Rightarrow> r = Inl e \<and> hyp n' = without_vm (vm_name v) v (touch_vm v' h)
             | Inr _ \<Rightarrow> r = Inr v' \<and> hyp n' = touch_vm v' h))"
proof -
  obtain uuid w where u: "m_uuid M (env n) = (uuid, w)" by (cases "m_uuid M (env n)")
  obtain r1 h where b: "allocate_begin (m_bind M w) uuid p (hyp n) = (r1, h)"
    by (cases "allocate_begin (m_bind M w) uuid p (hyp n)")
  show ?thesis
  proof (cases r1)
    case (Inl e)
    with u b run have "r = Inl e \<and> hyp n' = h"
      by (auto simp: allocate_vm_def on_env_def on_hyp_def py_defs)
    with Inl b u show ?thesis by auto
  next
    case (Inr v)
    obtain v' x w' where m: "m_allocate M v w = ((v', x), w')" by (cases "m_allocate M v w") auto
    note s = allocate_same [OF m]
    from b Inr have b': "begun (hyp n) v h" by (simp add: allocate_begin_ok)
    note fin = allocate_finish_run [OF wf_hyp_begin [OF wf b'] owns_begun [OF b'] s, of x]
    have "r = fst (allocate_finish v (v', x) h) \<and> hyp n' = snd (allocate_finish v (v', x) h)"
      using u b Inr m run by (auto simp: allocate_vm_def on_env_def on_hyp_def py_defs split: prod.splits)
    with fin have "case x of Inl e \<Rightarrow> r = Inl e \<and> hyp n' = without_vm (vm_name v) v (touch_vm v' h)
             | Inr _ \<Rightarrow> r = Inr v' \<and> hyp n' = touch_vm v' h" by (cases x) auto
    moreover from b Inr have "allocate_begin (m_bind M w) uuid p (hyp n) = (Inr v, h)" by simp
    ultimately show ?thesis unfolding u fst_conv using m b' s by (intro disjI2 exI conjI)
  qed
qed

lemma allocate_vm_failure:
  assumes wf: "wf_hyp (hyp n)" and run: "allocate_vm M p n = (Inl e, n')" and port: "\<forall>w. has_port (m_bind M w) (hyp n)"
  shows "same_pools (hyp n) (hyp n')"
  using allocate_vm_run [OF wf run]
proof (elim disjE exE conjE)
  fix e' w
  assume "Inl e = Inl e'" and b: "allocate_begin (m_bind M w) (fst (m_uuid M (env n))) p (hyp n) = (Inl e', hyp n')"
  from allocate_begin_refused [OF b] port have "hyp n' = hyp n" by simp
  then show ?thesis by (simp add: same_pools_def)
next
  fix v v' w h x w'
  assume b: "begun (hyp n) v h" "same_machine v v'"
    and x: "case x of Inl e' \<Rightarrow> Inl e = Inl e' \<and> hyp n' = without_vm (vm_name v) v (touch_vm v' h)
             | Inr _ \<Rightarrow> Inl e = Inr v' \<and> hyp n' = touch_vm v' h"
  then have "hyp n' = without_vm (vm_name v) v (touch_vm v' h)" by (auto split: sum.splits)
  with without_begun [OF wf b] show ?thesis by simp
qed

lemma allocate_vm_success:
  assumes wf: "wf_hyp (hyp n)" and run: "allocate_vm M p n = (Inr v, n')"
  obtains u h w where "begun (hyp n) u h" and "same_machine u v" and "hyp n' = touch_vm v h"
    and "allocate_begin (m_bind M w) (fst (m_uuid M (env n))) p (hyp n) = (Inr u, h)"
  using allocate_vm_run [OF wf run] by (fastforce split: sum.splits)

lemma allocate_vm_registers:
  assumes wf: "wf_hyp (hyp n)" and run: "allocate_vm M p n = (Inr v, n')"
  shows "vms (hyp n') = vms (hyp n) @ [(vm_name v, v)]" and "map_of (vms (hyp n)) (vm_name v) = None"
    and "wf_hyp (hyp n')"
proof -
  obtain u h w where b: "begun (hyp n) u h" and s: "same_machine u v" and h: "hyp n' = touch_vm v h"
    using wf run by (rule allocate_vm_success)
  have name: "vm_name u = vm_name v" using s by (simp add: same_machine_def)
  show "vms (hyp n') = vms (hyp n) @ [(vm_name v, v)]"
    using touch_begun [OF wf b s] name by (simp add: h)
  show "map_of (vms (hyp n)) (vm_name v) = None" using b name by (simp add: begun_def)
  show "wf_hyp (hyp n')"
    using touch_vms(2) [OF wf_hyp_begin [OF wf b] owns_begun [OF b] s] by (simp add: h)
qed

lemma allocate_vm_wf:
  assumes wf: "wf_hyp (hyp n)" and run: "allocate_vm M p n = (r, n')"
  shows "wf_hyp (hyp n')"
  using allocate_vm_run [OF wf run]
proof (elim disjE exE conjE)
  fix e w
  assume "allocate_begin (m_bind M w) (fst (m_uuid M (env n))) p (hyp n) = (Inl e, hyp n')"
  from allocate_begin_error [OF this] show ?thesis using wf by (auto intro: wf_hyp_pools)
next
  fix v v' w h x w'
  assume b: "begun (hyp n) v h" and s: "same_machine v v'"
    and x: "case x of Inl e \<Rightarrow> r = Inl e \<and> hyp n' = without_vm (vm_name v) v (touch_vm v' h)
             | Inr _ \<Rightarrow> r = Inr v' \<and> hyp n' = touch_vm v' h"
  note wf' = wf_hyp_begin [OF wf b] and o = owns_begun [OF b]
  have "wf_hyp (touch_vm v' h)" by (rule touch_vms(2) [OF wf' o s])
  moreover have "wf_hyp (without_vm (vm_name v) v (touch_vm v' h))"
    by (rule wf_without_vm [OF owns_touch [OF wf' o s o] calculation])
  ultimately show ?thesis using x by (auto split: sum.splits)
qed

text \<open>Allocating and destroying: if the manager can destroy the machine, all is as before.\<close>

lemma destroy_vm_run:
  assumes wf: "wf_hyp (hyp n)" and v: "map_of (vms (hyp n)) name = Some v"
    and d: "m_destroy M (vm_json v) (env n) = (x, w)"
  shows "destroy_vm M name n =
    (case x of Inl e \<Rightarrow> (Inl e, n\<lparr>env := w\<rparr>) | Inr _ \<Rightarrow> (Inr (), n\<lparr>hyp := without_vm name v (hyp n), env := w\<rparr>))"
proof -
  have o: "owns (hyp n) name v" using v by (auto simp: owns_def)
  have "destroy_lookup name (hyp n) = (Inr v, hyp n)" "destroy_check name (hyp n) = (Inr (), hyp n)"
    using v by (simp_all add: destroy_lookup_def destroy_check_def py_defs)
  with d destroy_finish_run [OF wf o, of x] show ?thesis
    by (cases x; cases n) (simp_all add: destroy_vm_def on_hyp_def on_env_def py_bind_def)
qed

lemma allocate_destroy:
  assumes wf: "wf_hyp (hyp n)" and run: "allocate_vm M p n = (Inr v, n')"
    and d: "m_destroy M (vm_json v) (env n') = (Inr (), w)"
  shows "fst (destroy_vm M (vm_name v) n') = Inr ()
    \<and> same_pools (hyp n) (hyp (snd (destroy_vm M (vm_name v) n')))"
proof -
  obtain u h b where b: "begun (hyp n) u h" and s: "same_machine u v" and h: "hyp n' = touch_vm v h"
    using wf run by (rule allocate_vm_success)
  note reg = allocate_vm_registers [OF wf run]
  have "map_of (vms (hyp n')) (vm_name v) = Some v" using reg(1,2) by (simp add: map_add_def)
  from destroy_vm_run [OF reg(3) this d] show ?thesis
    using without_begun [OF wf b s s] s h by (simp add: same_machine_def)
qed

text \<open>Several machines: what the requests of one fulfilment do to the books.\<close>

lemma allocate_vm_books:
  assumes wf: "wf_hyp (hyp n)" and run: "allocate_vm M p n = (r, n')"
    and port: "\<forall>w. has_port (m_bind M w) (hyp n)"
  shows "same_books (hyp n) (hyp n') \<and> wf_hyp (hyp n')
    \<and> vms (hyp n') = vms (hyp n) @ (case r of Inl e \<Rightarrow> [] | Inr v \<Rightarrow> [(vm_name v, v)])
    \<and> (\<forall>v. r = Inr v \<longrightarrow> vm_allocation_id v = p_allocation_id p)"
proof (cases r)
  case (Inl e)
  then have "same_pools (hyp n) (hyp n')"
    using allocate_vm_failure [OF wf, of p e n'] run port by simp
  moreover have "wf_hyp (hyp n')" by (rule allocate_vm_wf [OF wf run])
  ultimately show ?thesis using Inl by (simp add: same_pools_books same_pools_def)
next
  case (Inr v)
  with run have run: "allocate_vm M p n = (Inr v, n')" by simp
  obtain u h w where b: "begun (hyp n) u h" and s: "same_machine u v" and h: "hyp n' = touch_vm v h"
    and beg: "allocate_begin (m_bind M w) (fst (m_uuid M (env n))) p (hyp n) = (Inr u, h)"
    using wf run by (rule allocate_vm_success)
  have "same_books (hyp n) h" by (rule books_begin [OF wf b])
  moreover have "same_books h (hyp n')"
    unfolding h by (rule books_touch [OF wf_hyp_begin [OF wf b] owns_begun [OF b] s])
  ultimately have "same_books (hyp n) (hyp n')" by (simp add: same_books_def)
  moreover have "vm_allocation_id v = p_allocation_id p"
    using allocate_begin_gets(1) [OF beg] s by (simp add: same_machine_def)
  ultimately show ?thesis using allocate_vm_registers [OF wf run] Inr by simp
qed

lemma allocate_vm_ports:
  assumes wf: "wf_hyp (hyp n)" and run: "allocate_vm M p n = (r, n')"
  shows "length (sol_used_ports (hyp n')) \<le> Suc (length (sol_used_ports (hyp n)))"
  using allocate_vm_run [OF wf run]
proof (elim disjE exE conjE)
  fix e w
  assume "allocate_begin (m_bind M w) (fst (m_uuid M (env n))) p (hyp n) = (Inl e, hyp n')"
  from allocate_begin_error [OF this] show ?thesis by auto
next
  fix v v' w h x w'
  assume b: "begun (hyp n) v h"
    and x: "case x of Inl e \<Rightarrow> r = Inl e \<and> hyp n' = without_vm (vm_name v) v (touch_vm v' h)
             | Inr _ \<Rightarrow> r = Inr v' \<and> hyp n' = touch_vm v' h"
  have "length (sol_used_ports (hyp n')) \<le> length (sol_used_ports h)"
    using x by (auto simp: touch_vm_def without_vm_def length_remove1 split: sum.splits)
  with b show ?thesis by (simp add: begun_def)
qed

lemma gather_allocations:
  assumes "wf_hyp (hyp n)" and bind: "\<forall>w q. m_bind M w q = BindOk"
    and "length (sol_used_ports (hyp n)) + length ps \<le> 500"
  shows "\<exists>rs n'. py_gather ps (allocate_vm M) n = (Inr rs, n') \<and> wf_hyp (hyp n') \<and> same_books (hyp n) (hyp n')
        \<and> vms (hyp n') = vms (hyp n) @ map (\<lambda>v. (vm_name v, v)) (completed rs)
        \<and> list_all2 (\<lambda>p r. \<forall>v. r = Inr v \<longrightarrow> vm_allocation_id v = p_allocation_id p) ps rs"
  using assms(1,3)
proof (induction ps arbitrary: n)
  case Nil
  then show ?case by (simp add: py_return_def)
next
  case (Cons p ps)
  obtain r n1 where one: "allocate_vm M p n = (r, n1)" by (cases "allocate_vm M p n")
  have "\<forall>w. has_port (m_bind M w) (hyp n)" using bind Cons.prems(2) by (auto intro: has_portI)
  note first = allocate_vm_books [OF Cons.prems(1) one this]
  have "length (sol_used_ports (hyp n1)) + length ps \<le> 500"
    using allocate_vm_ports [OF Cons.prems(1) one] Cons.prems(2) by simp
  then obtain rs n' where "py_gather ps (allocate_vm M) n1 = (Inr rs, n')" "wf_hyp (hyp n')"
      "same_books (hyp n1) (hyp n')" "vms (hyp n') = vms (hyp n1) @ map (\<lambda>v. (vm_name v, v)) (completed rs)"
      "list_all2 (\<lambda>p r. \<forall>v. r = Inr v \<longrightarrow> vm_allocation_id v = p_allocation_id p) ps rs"
    using Cons.IH [of n1] first by blast
  with one first show ?case
    by (intro exI [of _ "r # rs"] exI [of _ n'])
      (cases r; auto simp: py_bind_def py_return_def intro: same_books_trans)
qed

lemma destroy_all_run:
  assumes "wf_hyp (hyp n)" and "vms (hyp n) = ws @ map (\<lambda>v. (vm_name v, v)) vs"
    and can: "\<And>v w. v \<in> set vs \<Longrightarrow> \<exists>w'. m_destroy M (vm_json v) w = (Inr (), w')"
  shows "\<exists>n'. py_gather_first (map (\<lambda>v. destroy_vm M (vm_name v)) vs) n = (Inr (), n')
    \<and> vms (hyp n') = ws \<and> same_books (hyp n) (hyp n') \<and> wf_hyp (hyp n')"
  using assms
proof (induction vs arbitrary: n)
  case Nil
  then show ?case by (simp add: py_return_def same_books_def)
next
  case (Cons v vs)
  have dist: "distinct (map fst (vms (hyp n)))" using Cons.prems(1) by (simp add: wf_hyp_def)
  with Cons.prems(2) have v: "map_of (vms (hyp n)) (vm_name v) = Some v"
    by (intro map_of_is_SomeI) auto
  obtain w where w: "m_destroy M (vm_json v) (env n) = (Inr (), w)" using Cons.prems(3) by auto
  have run: "destroy_vm M (vm_name v) n = (Inr (), n\<lparr>hyp := without_vm (vm_name v) v (hyp n), env := w\<rparr>)"
    using destroy_vm_run [OF Cons.prems(1) v w] by simp
  let ?n = "n\<lparr>hyp := without_vm (vm_name v) v (hyp n), env := w\<rparr>"
  have o: "owns (hyp n) (vm_name v) v" using v by (auto simp: owns_def)
  have "AList.delete (vm_name v) (vms (hyp n)) = ws @ map (\<lambda>v. (vm_name v, v)) vs"
  proof -
    have "filter (\<lambda>(k, _). vm_name v \<noteq> k) ws = ws" "filter (\<lambda>(k, _). vm_name v \<noteq> k) (map (\<lambda>v. (vm_name v, v)) vs)
        = map (\<lambda>v. (vm_name v, v)) vs"
      using dist Cons.prems(2) by (force intro!: filter_True)+
    with Cons.prems(2) show ?thesis unfolding AList.delete_eq by simp
  qed
  then have "vms (hyp ?n) = ws @ map (\<lambda>v. (vm_name v, v)) vs" by (simp add: without_vm_def)
  moreover have "wf_hyp (hyp ?n)" using wf_without_vm [OF o Cons.prems(1)] by simp
  ultimately obtain n' where "py_gather_first (map (\<lambda>v. destroy_vm M (vm_name v)) vs) ?n = (Inr (), n')"
    "vms (hyp n') = ws" "same_books (hyp ?n) (hyp n')" "wf_hyp (hyp n')"
    using Cons.IH [of ?n] Cons.prems(3) by auto
  moreover have "same_books (hyp n) (hyp ?n)" using books_without [OF o Cons.prems(1)] by simp
  ultimately show ?case using run by (auto intro: same_books_trans)
qed

end

end
