(* ===== verification/Vm_Manager_Correct.thy ===== *)
theory Vm_Manager_Correct
  imports Vm_Manager Manager_Contract
begin

text \<open>
  The machine manager meets the allocator's contract: whatever happens while it creates a machine, it
  writes images, addresses and disks into the object and nothing else.  The rest is what the manager
  promises by itself: connections to libvirt are closed, block devices disconnected, the disks are
  named before anything is created.
\<close>

section \<open>The machine object\<close>

lemma in_world_inv [py_inv_intro]: "py_inv (\<lambda>s. I (snd s)) (in_world m)"
  by (auto simp: py_inv_def in_world_def split: prod.splits)

lemma the_vm_inv [py_inv_intro]: "py_inv (\<lambda>s. I (snd s)) the_vm"
  by (auto simp: py_inv_def the_vm_def)

lemma set_vm_inv:
  assumes "\<And>v. same_machine v (f v)"
  shows "py_inv (\<lambda>s. same_machine u (snd s)) (set_vm f)"
  using assms by (auto simp: py_inv_def set_vm_def intro: same_machine_trans)

lemma set_disk_inv [py_inv_intro]: "py_inv (\<lambda>s. same_machine u (snd s)) (set_disk i k x)"
  unfolding set_disk_def by (rule set_vm_inv) (simp add: same_machine_def)

lemma disk_item_inv [py_inv_intro]: "py_inv (\<lambda>s. I (snd s)) (disk_item i k)"
  unfolding disk_item_def by (intro py_inv_intro)

lemma set_ip_inv [py_inv_intro]: "py_inv (\<lambda>s. same_machine u (snd s)) (set_ip i ip)"
  unfolding set_ip_def
proof (rule set_vm_inv)
  fix v :: vm
  have "map net_mac ((net_ifaces v)[i := (net_ifaces v ! i)\<lparr>net_ip := Some ip\<rparr>]) = map net_mac (net_ifaces v)"
    by (cases "i < length (net_ifaces v)")
      (simp_all add: map_update list_update_same_conv [THEN iffD2] list_update_beyond)
  then show "same_machine v (v\<lparr>net_ifaces := (net_ifaces v)[i := (net_ifaces v ! i)\<lparr>net_ip := Some ip\<rparr>]\<rparr>)"
    by (simp add: same_machine_def)
qed

lemma name_disks_inv [py_inv_intro]: "py_inv (\<lambda>s. same_machine u (snd s)) (name_disks G i n)"
  by (induction n arbitrary: i) (auto intro!: py_inv_intro)

lemma create_disk_inv: "py_inv (\<lambda>s. same_machine u (snd s)) (create_disk G i)"
  unfolding create_disk_def by (intro py_inv_intro)

lemma boot_disk_inv: "py_inv (\<lambda>s. same_machine u (snd s)) (create_vm_boot_disk G)"
  unfolding create_vm_boot_disk_def by (intro py_inv_intro set_vm_inv) (simp add: same_machine_def)

lemma iso_inv: "py_inv (\<lambda>s. same_machine u (snd s)) (generate_cloud_init_iso G)"
  unfolding generate_cloud_init_iso_def by (intro py_inv_intro set_vm_inv) (simp add: same_machine_def)

lemma create_storage_inv: "py_inv (\<lambda>s. same_machine u (snd s)) (create_storage G)"
  unfolding create_storage_def
  by (intro py_inv_intro) (auto intro: create_disk_inv boot_disk_inv iso_inv)

lemma init_networks_inv: "py_inv (\<lambda>s. same_machine u (snd s)) (init_networks G)"
  unfolding init_networks_def by (intro py_inv_intro)

lemma manager_allocate_inv: "py_inv (\<lambda>s. same_machine u (snd s)) (manager_allocate_vm G)"
proof -
  have "py_inv (\<lambda>s. same_machine u (snd s)) (create_machine G)"
    unfolding create_machine_def
    by (intro py_inv_intro) (auto intro: create_storage_inv init_networks_inv)
  moreover have "py_inv (\<lambda>s. same_machine u (snd s)) (undo_machine G)"
    unfolding undo_machine_def by (intro py_inv_intro)
  ultimately show ?thesis unfolding manager_allocate_vm_def by (intro py_inv_intro)
qed

interpretation manager: machine_manager "manager_ops G bind" for G bind
proof
  fix v v' w r w'
  assume run: "m_allocate (manager_ops G bind) v w = ((v', r), w')"
  have "same_machine v (snd (snd (manager_allocate_vm G (w, v))))"
    using py_invD [OF manager_allocate_inv [of v G], of "(w, v)"] by simp
  with run show "same_machine v v'"
    by (auto simp: manager_ops_def split: prod.splits)
qed

section \<open>The names of the disks\<close>

lemma vol_names: "length vol_names = 25" "distinct vol_names" "''sda'' \<notin> set vol_names"
  by (simp_all add: vol_names_def)

definition draws_uuids :: "'w sys \<Rightarrow> bool" where
  "draws_uuids S \<longleftrightarrow> (\<forall>w. \<exists>u w'. new_uuid S w = (Inr u, w'))"

lemma set_disk_run: "set_disk i k x (w, v) = (Inr (), w, v\<lparr>disks := (disks v)[i := AList.update k x (disks v ! i)]\<rparr>)"
  by (simp add: set_disk_def set_vm_def)

lemma name_disks_run:
  assumes S: "draws_uuids (sys G)" and "i + n = length (disks v)"
  shows "\<exists>r w' v'. name_disks G i n (w, v) = (r, w', v') \<and> vm_image v' = vm_image v
    \<and> (if i + n \<le> 25 then r = Inr () \<and> length (disks v') = length (disks v)
          \<and> (\<forall>j < length (disks v). if j < i then disks v' ! j = disks v ! j
               else map_of (disks v' ! j) ''device_name'' = Some (JStr (vol_names ! j)))
        else i \<le> 25 \<longrightarrow> r = Inl (Exn IndexErr ''list index out of range''))"
  using assms(2)
proof (induction n arbitrary: i w v)
  case 0
  then show ?case by (simp add: py_return_def)
next
  case (Suc n)
  from S have "\<exists>u w1. new_uuid (sys G) w = (Inr u, w1)" unfolding draws_uuids_def by (rule spec)
  then obtain u w1 where u: "new_uuid (sys G) w = (Inr u, w1)" by blast
  define v1 where "v1 = v\<lparr>disks := (disks v)[i := AList.update ''serial'' (JStr u) (disks v ! i)]\<rparr>"
  have ser: "py_bind (in_world (new_uuid (sys G))) (\<lambda>serial. py_bind (set_disk i ''serial'' (JStr serial)) f) (w, v) = f () (w1, v1)" for f :: "unit \<Rightarrow> ('a, unit) on_vm"
    using u by (simp add: py_bind_def in_world_def set_disk_run v1_def)
  show ?case
  proof (cases "i < 25")
    case False
    with ser show ?thesis
      by (simp add: vol_names py_raise_def v1_def)
  next
    case True
    define v2 where "v2 = v1\<lparr>disks := (disks v1)[i := AList.update ''device_name'' (JStr (vol_names ! i)) (disks v1 ! i)]\<rparr>"
    have step: "name_disks G i (Suc n) (w, v) = name_disks G (Suc i) n (w1, v2)"
      using True by (simp add: ser vol_names) (simp add: py_bind_def set_disk_run v2_def)
    have len: "length (disks v2) = length (disks v)" and img: "vm_image v2 = vm_image v"
      by (simp_all add: v1_def v2_def)
    have i: "i < length (disks v)" using Suc.prems by simp
    have at: "map_of (disks v2 ! i) ''device_name'' = Some (JStr (vol_names ! i))"
      using i by (simp add: v1_def v2_def)
    have others: "j \<noteq> i \<Longrightarrow> disks v2 ! j = disks v ! j" for j by (simp add: v1_def v2_def)
    from Suc.IH [of "Suc i" v2 w1] Suc.prems len obtain r w' v' where
      run: "name_disks G (Suc i) n (w1, v2) = (r, w', v')" "vm_image v' = vm_image v2"
      and res: "if Suc i + n \<le> 25 then r = Inr () \<and> length (disks v') = length (disks v2)
          \<and> (\<forall>j < length (disks v2). if j < Suc i then disks v' ! j = disks v2 ! j
               else map_of (disks v' ! j) ''device_name'' = Some (JStr (vol_names ! j)))
        else Suc i \<le> 25 \<longrightarrow> r = Inl (Exn IndexErr ''list index out of range'')" by auto
    have "map_of (disks v' ! j) ''device_name'' = Some (JStr (vol_names ! j))"
      if "Suc i + n \<le> 25" "j < length (disks v)" "\<not> j < i" for j
      using res that at len by (cases "j = i") (auto simp: not_less_eq)
    moreover have "disks v' ! j = disks v ! j" if "Suc i + n \<le> 25" "j < length (disks v)" "j < i" for j
      using res that others [of j] len by (auto simp: less_Suc_eq)
    ultimately show ?thesis
      unfolding step using run res img len True by (cases "Suc i + n \<le> 25") auto
  qed
qed

lemma create_storage_too_many:
  assumes "draws_uuids (sys G)" and "25 < length (disks v)"
  shows "\<exists>w' v'. create_storage G (w, v) = (Inl (Exn IndexErr ''list index out of range''), w', v') \<and> vm_image v' = vm_image v"
proof -
  have "\<exists>r w' v'. name_disks G 0 (length (disks v)) (w, v) = (r, w', v') \<and> vm_image v' = vm_image v
      \<and> r = Inl (Exn IndexErr ''list index out of range'')"
    using name_disks_run [OF assms(1), of 0 "length (disks v)" v w] assms(2) by auto
  then show ?thesis by (auto simp: create_storage_def the_vm_def py_bind_def)
qed

end
