(* ===== verification/Allocator_Spec.thy ===== *)
theory Allocator_Spec
  imports Allocator_Restore
begin

text \<open>
  What the allocator promises, without its dictionaries and tasks: a leasing office that has a stock
  and leases parts of it out under names.  Every step of the allocator, in any interleaving in which
  a destruction works on the machine it looked up, is a step of the office or none at all.
\<close>

record 'r office =
  stock :: "'r multiset"
  leases :: "string \<Rightarrow> 'r multiset option"

text \<open>\<open>loses\<close> is the fate of what was reserved for a machine that then got no console port.\<close>

inductive office_step :: "'r office \<Rightarrow> 'r office \<Rightarrow> bool" where
  leases_out: "leases s name = None \<Longrightarrow> R \<subseteq># stock s \<Longrightarrow>
    office_step s (s\<lparr>stock := stock s - R, leases := (leases s)(name := Some R)\<rparr>)"
| takes_back: "leases s name = Some R \<Longrightarrow>
    office_step s (s\<lparr>stock := stock s + R, leases := (leases s)(name := None)\<rparr>)"
| loses: "R \<subseteq># stock s \<Longrightarrow> office_step s (s\<lparr>stock := stock s - R\<rparr>)"

inductive_cases office_stepE: "office_step s s'"

definition holding_of :: "(vm \<Rightarrow> 'r list) \<Rightarrow> hyp \<Rightarrow> string \<Rightarrow> 'r multiset option" where
  "holding_of held h n = map_option (\<lambda>v. mset (held v)) (map_of (vms h) n)"

definition office_of :: "(hyp \<Rightarrow> 'r list) \<Rightarrow> (vm \<Rightarrow> 'r list) \<Rightarrow> hyp \<Rightarrow> 'r office" where
  "office_of free held h = \<lparr>stock = mset (free h), leases = holding_of held h\<rparr>"

context pool
begin

lemma office_begin:
  assumes b: "begun h v h'"
  shows "office_step (office_of free held h) (office_of free held h')"
proof -
  have take: "mset (free h) = mset (held v) + mset (free h')" by (rule begin_takes [OF b])
  have new: "holding_of held h' = (holding_of held h)(vm_name v := Some (mset (held v)))"
    using b by (auto simp: holding_of_def begun_def map_add_def fun_eq_iff split: option.splits)
  have "office_of free held h' = (office_of free held h)\<lparr>stock := stock (office_of free held h) - mset (held v),
      leases := (leases (office_of free held h))(vm_name v := Some (mset (held v)))\<rparr>"
    by (simp add: office_of_def take new)
  moreover have "leases (office_of free held h) (vm_name v) = None"
    using b by (simp add: office_of_def holding_of_def begun_def)
  moreover have "mset (held v) \<subseteq># stock (office_of free held h)" by (simp add: office_of_def take)
  ultimately show ?thesis by (metis leases_out)
qed

lemma office_refuse:
  assumes "allocate_begin bind uuid p h = (Inl e, h')"
  shows "office_step (office_of free held h) (office_of free held h')"
proof -
  have "vms h' = vms h" using allocate_begin_error [OF assms] by auto
  moreover have sub: "mset (free h') \<subseteq># mset (free h)" by (rule refuse_takes [OF assms])
  ultimately have "office_of free held h' = (office_of free held h)\<lparr>stock := stock (office_of free held h) - (mset (free h) - mset (free h'))\<rparr>"
    by (simp add: office_of_def holding_of_def fun_eq_iff subset_mset.diff_diff_right)
  moreover have "mset (free h) - mset (free h') \<subseteq># stock (office_of free held h)" by (simp add: office_of_def)
  ultimately show ?thesis by (metis loses)
qed

lemma office_touch:
  assumes wf: "wf_hyp h" and o: "owns h (vm_name v) v" and s: "same_machine v v'"
  shows "office_of free held (touch_vm v' h) = office_of free held h"
proof -
  obtain w where w: "map_of (vms h) (vm_name v) = Some w" "same_machine v w" using o by (auto simp: owns_def)
  have "held v' = held w" using held_same [OF s] held_same [OF w(2)] by simp
  with w touch_vms(1) [OF wf o s] show ?thesis
    by (auto simp: office_of_def holding_of_def touch_keeps fun_eq_iff)
qed

lemma office_without:
  assumes o: "owns h name v"
  shows "office_step (office_of free held h) (office_of free held (without_vm name v h))"
proof -
  obtain w where w: "map_of (vms h) name = Some w" "same_machine v w" using o by (auto simp: owns_def)
  have "office_of free held (without_vm name v h) = (office_of free held h)
      \<lparr>stock := stock (office_of free held h) + mset (held v), leases := (leases (office_of free held h))(name := None)\<rparr>"
    by (simp add: office_of_def removal_returns holding_of_def fun_eq_iff)
      (simp add: without_vm_def delete_conv')
  moreover have "leases (office_of free held h) name = Some (mset (held v))"
    using w held_same [OF w(2)] by (simp add: office_of_def holding_of_def)
  ultimately show ?thesis by (metis takes_back)
qed

lemma simulates:
  assumes step: "hyp_step True (h, ts) (h', ts')" and inv: "steps_inv (h, ts)"
  shows "office_of free held h' = office_of free held h \<or> office_step (office_of free held h) (office_of free held h')"
  using step
proof (cases rule: hyp_step.cases)
  case (begins bind uuid p v)
  then show ?thesis using office_begin [OF allocate_begin_ok] by blast
next
  case (refused bind uuid p e)
  then show ?thesis using office_refuse by blast
next
  case (finishes v v' r x)
  have o: "owns h (vm_name v) v" using steps_invD(2) [OF inv, of "Allocating v"] finishes by simp
  note wf = steps_invD(1) [OF inv]
  note run = allocate_finish_run [OF wf o finishes(3)]
  have "owns (touch_vm v' h) (vm_name v) v" by (rule owns_touch [OF wf o finishes(3) o])
  note t = office_touch [OF wf o finishes(3)] office_without [OF this]
  show ?thesis using run t finishes(2) by (cases r) auto
next
  case (asks name v)
  then show ?thesis using lookup_same by blast
next
  case (misses name e v)
  then show ?thesis using check_same by blast
next
  case (starts name v)
  then show ?thesis using check_same by blast
next
  case (ends name v r x)
  have o: "owns h name v" using steps_invD(2) [OF inv, of "Destroying name v"] ends by simp
  note run = destroy_finish_run [OF steps_invD(1) [OF inv] o, of r]
  show ?thesis using run office_without [OF o] ends(2) by (cases r) auto
qed

lemma simulates_all:
  assumes "(hyp_step True)\<^sup>*\<^sup>* s s'" and "steps_inv s"
  shows "steps_inv s' \<and> office_step\<^sup>*\<^sup>* (office_of free held (fst s)) (office_of free held (fst s'))"
  using assms
proof (induction rule: rtranclp_induct)
  case base
  then show ?case by simp
next
  case (step s1 s2)
  obtain h1 ts1 h2 ts2 where s: "s1 = (h1, ts1)" "s2 = (h2, ts2)" by (cases s1; cases s2)
  with step have "office_step\<^sup>*\<^sup>* (office_of free held (fst s)) (office_of free held h1)" "steps_inv (h1, ts1)" by auto
  moreover have "office_of free held h2 = office_of free held h1 \<or> office_step (office_of free held h1) (office_of free held h2)"
    using simulates [of h1 ts1 h2 ts2] step s by auto
  ultimately show ?case using hyp_step_inv [of s1 s2] step s by (auto intro: rtranclp.rtrancl_into_rtrancl)
qed

lemma total_list: "total free held h = mset (free h @ concat (map (held \<circ> snd) (vms h)))"
proof -
  have "(\<Sum>p \<in># mset ps. mset (held (snd p))) = mset (concat (map (held \<circ> snd) ps))" for ps :: "vm dict"
    by (induction ps) auto
  then show ?thesis by (simp add: total_def holding_def)
qed

lemma total_distinct: "total free held h \<subseteq># mset xs \<Longrightarrow> distinct xs \<Longrightarrow>
    distinct (free h @ concat (map (held \<circ> snd) (vms h)))"
  unfolding total_list by (metis distinct_append mset_append mset_eq_imp_distinct_iff mset_subset_eq_exists_conv ex_mset)

end

end
