(* ===== verification/Hypervisor_Correct.thy ===== *)
theory Hypervisor_Correct
  imports Hypervisor_Rest Vm_Manager_Correct Allocator_Spec Fulfiller_Correct
begin

text \<open>
  The hypervisor's requests as wholes: a fulfilment is all or nothing, the theoretical check agrees
  with the allocator, and destroying a machine fails only where libvirt fails.
\<close>

section \<open>Destroying a machine\<close>

lemma fst_run: "fst p = r \<Longrightarrow> \<exists>w. p = (r, w)"
  by (cases p) simp

lemma never_raises:
  "fst (delete_qcow_no_exception G i w) = Inr ()" "fst (remove_cloud_init_iso G vm w) = Inr ()"
  by (auto simp: delete_qcow_no_exception_def remove_cloud_init_iso_def py_try_def py_return_def split: prod.splits sum.splits)

lemma py_for_never_raises:
  assumes "\<And>x w. x \<in> set xs \<Longrightarrow> fst (f x w) = Inr ()"
  shows "fst (py_for xs f w) = Inr ()"
  using assms
proof (induction xs arbitrary: w)
  case Nil
  then show ?case by (simp add: py_return_def)
next
  case (Cons x xs)
  obtain w' where "f x w = (Inr (), w')" using Cons.prems [of x w] by (metis list.set_intros(1) prod.collapse)
  with Cons show ?case by (simp add: py_then_def py_bind_def)
qed

lemma jattr_vm_json:
  "jattr (vm_json v) ''name'' = Inr (JStr (vm_name v))"
  "jattr (vm_json v) ''image'' = Inr (opt_str (vm_image v))"
  "jattr (vm_json v) ''disks'' = Inr (JList (map JObj (disks v)))"
  "jattr (vm_json v) ''net_ifaces'' = Inr (JList (map net_json (net_ifaces v)))"
  "fld (vm_json v) ''name'' = Some (JStr (vm_name v))"
  "fld (vm_json v) ''allocation_id'' = Some (vm_allocation_id v)"
  by (simp_all add: jattr_def vm_json_def base_vm_json_def)

lemma delete_storage_never_raises: "fst (delete_storage (G :: 'a manager) (vm_json v) w) = Inr ()"
proof -
  let ?m = "if opt_str (vm_image v) \<noteq> JNull then delete_qcow_no_exception G (opt_str (vm_image v)) else py_return ()"
  obtain w1 where 1: "?m w = (Inr (), w1)"
  proof -
    have "fst (?m w) = Inr ()" by (simp add: py_return_def never_raises)
    then show ?thesis using that by (metis prod.collapse)
  qed
  let ?f = "\<lambda>disk. py_bind (py_lift (has_image disk)) (\<lambda>has.
        if has then py_bind (py_lift (jitem disk ''image'')) (delete_qcow_no_exception G)
        else py_return ())"
  have "fst (py_for (map JObj (disks v)) ?f w1) = Inr ()"
  proof (rule py_for_never_raises)
    fix x w'
    assume "x \<in> set (map JObj (disks v))"
    then obtain d where "x = JObj d" by auto
    then have img: "has_image x = Inr (map_of d ''image'' \<noteq> None)" by (simp add: has_image_def)
    show "fst (?f x w') = Inr ()"
    proof (cases "map_of d ''image''")
      case None
      with img show ?thesis by (simp add: py_bind_def py_lift_def py_return_def)
    next
      case (Some i)
      with \<open>x = JObj d\<close> have "?f x w' = delete_qcow_no_exception G i w'"
        using img by (simp add: py_bind_def py_lift_def)
      then show ?thesis by (simp add: never_raises(1))
    qed
  qed
  from fst_run [OF this] obtain w2 where 2: "py_for (map JObj (disks v)) ?f w1 = (Inr (), w2)" by (elim exE) (rule that)
  have "py_bind (py_lift (Inr i)) f = f i" for i and f :: "json \<Rightarrow> ('a, unit) py"
    by (simp add: py_bind_def py_lift_def)
  moreover have "py_bind (py_lift (Inr ds)) f = f ds" for ds and f :: "json list \<Rightarrow> ('a, unit) py"
    by (simp add: py_bind_def py_lift_def)
  ultimately have "delete_storage G (vm_json v) = py_bind ?m (\<lambda>_.
      py_bind (py_for (map JObj (disks v)) ?f) (\<lambda>_. remove_cloud_init_iso G (vm_json v)))"
    unfolding delete_storage_def jattr_vm_json by (simp add: res_bind_def)
  then have "delete_storage G (vm_json v) w = remove_cloud_init_iso G (vm_json v) w2"
    by (simp only: py_bind_run [of ?m w, OF 1] py_bind_run [of "py_for (map JObj (disks v)) ?f" w1, OF 2])
  then show ?thesis by (simp only: never_raises(2))
qed

lemma deinit_never_raises: "fst (deinit_networks_no_exception G (vm_json v) w) = Inr ()"
proof -
  have "fst (py_for (map net_json (net_ifaces v)) (\<lambda>net. py_try (deallocate_ip (handlers G) net) (\<lambda>_. py_return ())) w) = Inr ()"
    by (rule py_for_never_raises) (auto simp: py_try_def py_return_def split: prod.splits sum.splits)
  then show ?thesis
    by (simp add: deinit_networks_no_exception_def jattr_vm_json py_bind_def py_lift_def res_bind_def)
qed

lemma manager_destroy_run:
  "fst (manager_destroy_vm G (vm_json v) w) = (case fst (kill_by_name (virt G) (vm_name v) w) of
     Inl e \<Rightarrow> Inl e | Inr _ \<Rightarrow> Inr ())"
proof (cases "fst (kill_by_name (virt G) (vm_name v) w)")
  case (Inl e)
  then show ?thesis
    by (auto simp: manager_destroy_vm_def jattr_vm_json py_defs split: prod.splits)
next
  case (Inr u)
  then obtain w1 where kill: "kill_by_name (virt G) (vm_name v) w = (Inr (), w1)" by (metis prod.collapse unit.exhaust)
  obtain w2 where d: "delete_storage G (vm_json v) w1 = (Inr (), w2)"
    using delete_storage_never_raises [of G v w1] by (metis prod.collapse)
  obtain w3 where n: "deinit_networks_no_exception G (vm_json v) w2 = (Inr (), w3)"
    using deinit_never_raises [of G v w2] by (metis prod.collapse)
  show ?thesis
    using kill d n by (simp add: manager_destroy_vm_def jattr_vm_json py_bind_def py_then_def py_lift_def py_return_def)
qed

definition libvirt_kills :: "'w virt \<Rightarrow> bool" where
  "libvirt_kills V \<longleftrightarrow> (\<forall>name w. \<exists>w'. kill_by_name V name w = (Inr (), w'))"

lemma manager_destroys:
  assumes "libvirt_kills (virt G)"
  shows "\<exists>w'. m_destroy (manager_ops G bind) (vm_json v) w = (Inr (), w')"
proof -
  have "fst (kill_by_name (virt G) (vm_name v) w) = Inr ()"
    using assms by (metis fst_conv libvirt_kills_def)
  then have "fst (manager_destroy_vm G (vm_json v) w) = Inr ()" by (simp add: manager_destroy_run)
  then show ?thesis by (simp add: manager_ops_def) (metis prod.collapse)
qed

section \<open>Fulfilment\<close>

lemma translate_ids:
  assumes "translate_to_vm_params b = Inr ps"
  shows "\<forall>p \<in> set ps. p_allocation_id p = (case fld b ''allocation_id'' of None \<Rightarrow> JNull | Some a \<Rightarrow> a)"
proof -
  from assms obtain ds :: "json dict" and aid rq where ps: "res_collect (map snd ds) (vm_args aid rq) = Inr ps"
    and aid: "jget b ''allocation_id'' JNull = Inr aid"
    unfolding translate_to_vm_params_def by (simp, elim exE conjE) (rule that)
  have "p_allocation_id p = aid" if "p \<in> set ps" for p
    using res_collect_in [OF ps that] by (auto simp: vm_args_def)
  moreover have "aid = (case fld b ''allocation_id'' of None \<Rightarrow> JNull | Some a \<Rightarrow> a)"
    using aid by (auto simp: jget_def fld_def split: json.splits option.splits)
  ultimately show ?thesis by simp
qed

lemma completed_all:
  assumes "list_all2 (\<lambda>p r. \<forall>v. r = Inr v \<longrightarrow> P p v) ps rs" and "\<forall>r \<in> set rs. \<not> isl r"
  shows "list_all2 P ps (completed rs)"
  using assms
proof (induction ps rs rule: list_all2_induct)
  case Nil
  then show ?case by simp
next
  case (Cons p ps r rs)
  then show ?case by (cases r) auto
qed

context machine_manager
begin

lemma vm_fulfill_outcome:
  assumes wf: "wf_hyp (hyp n)" and bind: "\<forall>w q. m_bind M w q = BindOk"
    and parse: "translate_to_vm_params b = Inr ps" and room: "length (sol_used_ports (hyp n)) + length ps \<le> 500"
    and can: "\<And>v w. \<exists>w'. m_destroy M (vm_json v) w = (Inr (), w')"
    and run: "vm_fulfill M b n = (r, n')"
  shows "(\<exists>vs. r = Inr (200, JObj [(''status'', JStr ''Success''), (''info'', JList (map vm_json vs))])
        \<and> list_all2 (\<lambda>p v. vm_allocation_id v = p_allocation_id p) ps vs
        \<and> vms (hyp n') = vms (hyp n) @ map (\<lambda>v. (vm_name v, v)) vs)
    \<or> (\<exists>e. r = Inr (500, e)) \<and> same_pools (hyp n) (hyp n')"
proof -
  obtain rs n1 where g: "py_gather ps (allocate_vm M) n = (Inr rs, n1)" and wf1: "wf_hyp (hyp n1)"
    and books: "same_books (hyp n) (hyp n1)" and vms1: "vms (hyp n1) = vms (hyp n) @ map (\<lambda>v. (vm_name v, v)) (completed rs)"
    and ids: "list_all2 (\<lambda>p r. \<forall>v. r = Inr v \<longrightarrow> vm_allocation_id v = p_allocation_id p) ps rs"
    using gather_allocations [OF wf bind room] by blast
  show ?thesis
  proof (cases "\<exists>r \<in> set rs. isl r")
    case False
    with g parse run vms1 completed_all [OF ids] show ?thesis
      by (auto simp: vm_fulfill_def py_defs)
  next
    case True
    obtain n2 where d: "py_gather_first (map (\<lambda>v. destroy_vm M (vm_name v)) (completed rs)) n1 = (Inr (), n2)"
      and vms2: "vms (hyp n2) = vms (hyp n)" and "same_books (hyp n1) (hyp n2)" "wf_hyp (hyp n2)"
      using destroy_all_run [OF wf1 vms1 can] by blast
    with books_same_pools [OF same_books_trans [OF books] vms2 wf] have "same_pools (hyp n) (hyp n2)" by blast
    with True g parse run d show ?thesis
      by (auto simp: vm_fulfill_def py_bind_def py_lift_def py_then_def py_return_def)
  qed
qed

end

end
