(* ===== verification/Hypervisor_Demo.thy ===== *)
theory Hypervisor_Demo
  imports Hypervisor_Correct
begin

text \<open>
  A small machine room the witnesses of the hypervisor's properties run on: a host with a clock, block
  devices and libvirt connections that are counted, on which every command succeeds.
\<close>

record lab =
  lab_time :: rat
  attached :: "string list"
  connections :: nat

definition ok_unit :: "(lab, unit) py" where
  "ok_unit = py_return ()"

definition lab_run :: "string list \<Rightarrow> (lab, string) py" where
  "lab_run ws = (\<lambda>w.
     if take 2 ws = [''qemu-nbd'', ''--connect''] then
       (if ws ! 2 = ''/dev/nbd0'' then (Inr [], w\<lparr>attached := ''/dev/nbd0'' # attached w\<rparr>)
        else (Inl (Exn OSErr ''No such device''), w))
     else if take 2 ws = [''qemu-nbd'', ''--disconnect''] then (Inr [], w\<lparr>attached := removeAll (ws ! 2) (attached w)\<rparr>)
     else (Inr [], w))"

definition lab_read :: "string \<Rightarrow> (lab, string) py" where
  "lab_read path = (\<lambda>w. (Inr (if path = ''/sys/class/block/nbd0/size'' \<and> ''/dev/nbd0'' \<notin> set (attached w)
     then ''0'' else ''1024''), w))"

definition lab_sys :: "lab sys" where
  "lab_sys = \<lparr>check_output = lab_run,
     sub_exec = (\<lambda>ws. py_return (0, [])),
     file_exists = (\<lambda>p. py_return True),
     list_dir = (\<lambda>p. py_return []),
     remove_file = (\<lambda>p. py_return ()),
     read_file = lab_read,
     read_link = (\<lambda>p. py_raise (Exn OSErr p)),
     glob_files = (\<lambda>p. py_return [''/dev/nbd0'']),
     now = py_gets lab_time,
     pause = (\<lambda>d. py_modify (\<lambda>w. w\<lparr>lab_time := lab_time w + d\<rparr>)),
     new_uuid = py_return ''id'',
     cwd = ''/'',
     float_str = (\<lambda>q. ''0.0''),
     json_loads = (\<lambda>s. Inr JNull),
     temp_dir = py_return ''/tmp/x'',
     remove_tree = (\<lambda>p. py_return ()),
     write_file = (\<lambda>p c. py_return ()),
     yaml_dump = (\<lambda>d. [])\<rparr>"

definition lab_virt :: "lab virt" where
  "lab_virt = \<lparr>v_open = py_modify (\<lambda>w. w\<lparr>connections := Suc (connections w)\<rparr>),
     v_close = py_modify (\<lambda>w. w\<lparr>connections := connections w - 1\<rparr>),
     v_define = (\<lambda>x. ok_unit), v_lookup = (\<lambda>x. ok_unit), v_create = (\<lambda>x. ok_unit),
     v_destroy = (\<lambda>x. ok_unit), v_undefine = (\<lambda>x. ok_unit),
     v_is_active = (\<lambda>x. py_return True), v_state = (\<lambda>x. py_return 1), v_leases = (\<lambda>x. py_return []),
     v_domains = py_return [], v_metadata = (\<lambda>x. py_return []),
     v_net_lookup = (\<lambda>x. ok_unit), v_net_update = (\<lambda>x c y. ok_unit), v_net_xml = (\<lambda>x. py_return []),
     v_net_active = (\<lambda>x. py_return 1), v_net_create = (\<lambda>x. ok_unit),
     unparse = (\<lambda>d. []),
     parse_xml = (\<lambda>ks x. Inr (JObj [(''network'', JObj [(''ip'', JObj [(''@address'', JStr ''10.0.0.1''),
        (''@netmask'', JStr ''255.0.0.0''), (''dhcp'', JObj [(''range'', JObj [(''@start'', JStr ''10.0.0.2''),
          (''@end'', JStr ''10.0.0.3'')]), (''host'', JList [JObj [(''@ip'', JStr ''10.0.0.2''), (''@mac'', JStr ''m9'')]])])])])])),
     parse_hosts = (\<lambda>a b. Inr [''10.0.0.2'', ''10.0.0.3'']),
     parse_net = (\<lambda>a b. Inr ''10.0.0.0/8'')\<rparr>"

definition lab_manager :: "lab manager" where
  "lab_manager = \<lparr>sys = lab_sys, virt = lab_virt,
     store_paths = \<lparr>base_qcow_path = ''/base'', run_qcow_path = ''/run'', ssd_path = ''/ssd'', hdd_path = ''/hdd''\<rparr>,
     iso_base = ''/run'', handlers = [(''isolated'', Private lab_virt ''default'')]\<rparr>"

definition all_free :: "lab \<Rightarrow> int \<Rightarrow> bind_result" where
  "all_free w q = BindOk"

lemmas lab_defs = ok_unit_def lab_run_def lab_read_def lab_sys_def lab_virt_def lab_manager_def all_free_def

definition gpu :: "string \<Rightarrow> pci" where
  "gpu slot = \<lparr>pci_domain = ''0000'', pci_bus = ''01'', pci_slot = slot, pci_function = ''0'', pci_info = []\<rparr>"

definition lab_hyp :: hyp where
  "lab_hyp = new_allocator [''m1'', ''m2''] [gpu ''00'', gpu ''01''] ''lab'' 4 5000 ''eth0'' ''default''"

definition lab_host :: "lab host" where
  "lab_host = \<lparr>hyp = lab_hyp, env = \<lparr>lab_time = 0, attached = [], connections = 0\<rparr>\<rparr>"

definition one_gpu :: vm_params where
  "one_gpu = \<lparr>p_base_image = JStr ''ubuntu'', p_base_image_size = JNull, p_memory_gb = JNum 20,
     p_networks = JStr ''isolated'', p_num_gpus = 1, p_num_cpus = JNum 10, p_disks = [],
     p_allocation_id = JStr ''a1'', p_requestor = JNull\<rparr>"

definition lab_vm :: "nat \<Rightarrow> string \<Rightarrow> string \<Rightarrow> vm" where
  "lab_vm oid slot mac = \<lparr>vm_oid = oid, vm_name = numbered ''lab'' 0, num_cpus = JNum 10, memsize = JNum 20,
     base_image = JStr ''ubuntu'', base_image_size = JNull,
     net_ifaces = [\<lparr>net_mac = mac, net_mode = ''isolated'', net_source = ''default'', net_ip = None\<rparr>],
     pcis = [gpu slot], disks = [], sol_port = JNum 5000, vm_image = None, cloud_init_iso = None,
     vm_uuid = ''u'', vm_allocation_id = JStr ''a1'', vm_requestor = JNull, vm_user = ''root'', vm_password = ''root''\<rparr>"

lemma find_port_first: "0 < n \<Longrightarrow> JNum (of_int port) \<notin> set used \<Longrightarrow> bind port = BindOk \<Longrightarrow>
    find_port bind used n port = Inr port"
  by (cases n) auto

lemma free_index_first: "map_of d (numbered s i) = None \<Longrightarrow> free_index s d i = i"
  by (subst free_index.simps) simp

text \<open>A host whose machines are gone, with its resources in some order.\<close>

definition idle :: "string list \<Rightarrow> pci list \<Rightarrow> nat \<Rightarrow> hyp" where
  "idle macs gpus oid = lab_hyp\<lparr>mac_addresses := macs, gpus_list := gpus, next_oid := oid\<rparr>"

definition running :: "string list \<Rightarrow> pci list \<Rightarrow> vm \<Rightarrow> hyp" where
  "running macs gpus v = lab_hyp\<lparr>mac_addresses := macs, gpus_list := gpus, next_oid := Suc (vm_oid v),
     vms := [(vm_name v, v)], sol_used_ports := [JNum 5000]\<rparr>"

lemma lab_begin:
  "allocate_begin (\<lambda>q. BindOk) ''u'' one_gpu (idle (mac # macs) (gpu slot # gpus) oid) =
    (Inr (lab_vm oid slot mac), running macs gpus (lab_vm oid slot mac))"
  by (simp add: allocate_begin_run idle_def running_def lab_hyp_def new_allocator_def one_gpu_def as_list_def
      find_port_first register_vm_def py_defs Let_def free_index_first iface_for_def slice_to_def slice_from_def
      py_bound_def lab_vm_def)

lemma lab_hyp_idle: "lab_hyp = idle [''m1'', ''m2''] [gpu ''00'', gpu ''01''] 0"
  by (simp add: idle_def lab_hyp_def new_allocator_def)

lemma lab_finish: "allocate_finish v (v, Inr ()) (running macs gpus v) = (Inr v, running macs gpus v)"
  by (simp add: allocate_finish_def py_then_modify touch_vm_def running_def py_return_def)

lemma lab_lookup: "destroy_lookup (vm_name v) (running macs gpus v) = (Inr v, running macs gpus v)"
  by (simp add: destroy_lookup_def running_def py_defs)

lemma lab_check: "vm_name v = name \<Longrightarrow> destroy_check name (running macs gpus v) = (Inr (), running macs gpus v)"
  by (simp add: destroy_check_def running_def py_defs)

lemma lab_destroyed:
  assumes "vm_name v = vm_name u" and "sol_port u = JNum 5000"
  shows "destroy_finish (vm_name u) u (Inr ()) (running macs gpus v) =
    (Inr (), idle (macs @ map net_mac (net_ifaces u)) (gpus @ pcis u) (Suc (vm_oid v)))"
  using assms
  by (simp add: destroy_finish_def del_vm_def free_vm_resources_def running_def idle_def lab_hyp_def new_allocator_def py_defs)

lemma lab_kills: "libvirt_kills lab_virt"
  by (simp add: libvirt_kills_def kill_by_name_def with_connection_def lab_defs py_defs)

lemma wf_lab: "wf_hyp (hyp lab_host)"
  by (simp add: lab_host_def lab_hyp_def wf_hyp_new)

end
