(* ===== verification/Hypervisor_Properties.thy ===== *)
theory Hypervisor_Properties
  imports Hypervisor_Demo
begin

text \<open>
  The properties of the hypervisor's allocator and of the machine manager under it, each with a
  witness on the small machine room of \<open>Hypervisor_Demo\<close>.
\<close>

section \<open>Resources\<close>

text \<open>C3. From the start of the service on, restored machines included, and in every interleaving of
  requests in which a destruction works on the machine it looked up: no GPU and no MAC address is in the
  pool twice, in the pool and at a machine, or at two machines.\<close>

theorem resources_have_one_owner:
  assumes "distinct gpus" and "distinct macs"
    and "restore_vms M \<lparr>hyp = new_allocator macs gpus server maxv base paravirt priv, env = w\<rparr> = (r, n)"
    and "(hyp_step True)\<^sup>*\<^sup>* (hyp n, {#}) (h, ts)"
  shows "distinct (gpus_list h @ concat (map (pcis \<circ> snd) (vms h)))
    \<and> distinct (mac_addresses h @ concat (map ((\<lambda>v. map net_mac (net_ifaces v)) \<circ> snd) (vms h)))"
proof -
  have acc: "accounted (mset gpus) (mset macs) (hyp n)"
    using py_invD [OF restore_vms_inv, of "mset gpus" "mset macs" _ M] accounted_new assms(3)
    by (metis host.select_convs(1) snd_conv)
  then have inv: "steps_inv (hyp n, {#})" by (simp add: steps_inv_def accounted_def busy_oids_def)
  have "total gpus_list pcis h \<subseteq># mset gpus"
    using gpu_pool.total_reachable [OF assms(4) inv] acc subset_mset.order_trans by (fastforce simp: accounted_def)
  moreover have "total mac_addresses (\<lambda>v. map net_mac (net_ifaces v)) h \<subseteq># mset macs"
    using mac_pool.total_reachable [OF assms(4) inv] acc subset_mset.order_trans by (fastforce simp: accounted_def)
  ultimately show ?thesis
    using gpu_pool.total_distinct mac_pool.total_distinct assms(1,2) by blast
qed

theorem resources_have_one_owner_witness:
  "distinct (gpus_list (running [''m2''] [gpu ''01''] (lab_vm 0 ''00'' ''m1''))
      @ concat (map (pcis \<circ> snd) (vms (running [''m2''] [gpu ''01''] (lab_vm 0 ''00'' ''m1'')))))"
proof -
  have load: "restore_vms (manager_ops lab_manager all_free) lab_host = (Inr (), lab_host)"
    by (simp add: restore_vms_def on_env_def manager_ops_def value_of_def load_vms_data_def result_or_default_def
        load_lab_vms_def with_connection_def lab_defs lab_host_def py_defs)
  have "hyp_step True (lab_hyp, {#}) (running [''m2''] [gpu ''01''] (lab_vm 0 ''00'' ''m1''),
      add_mset (Allocating (lab_vm 0 ''00'' ''m1'')) {#})"
    unfolding lab_hyp_idle by (rule hyp_step.begins [OF lab_begin])
  then have step: "(hyp_step True)\<^sup>*\<^sup>* (hyp lab_host, {#}) (running [''m2''] [gpu ''01''] (lab_vm 0 ''00'' ''m1''),
      add_mset (Allocating (lab_vm 0 ''00'' ''m1'')) {#})"
    by (simp add: lab_host_def r_into_rtranclp)
  have "distinct [gpu ''00'', gpu ''01'']" by (simp add: gpu_def)
  from resources_have_one_owner [OF this _ load [unfolded lab_host_def lab_hyp_def] step [unfolded lab_host_def lab_hyp_def]]
  show ?thesis by simp
qed



text \<open>C18. In every interleaving whatsoever, a service that starts with at most the configured number of
  machines never has more.\<close>

theorem machine_limit:
  assumes "(hyp_step safe)\<^sup>*\<^sup>* (h, ts) (h', ts')" and "int (length (vms h)) \<le> max_vms h"
  shows "int (length (vms h')) \<le> max_vms h \<and> max_vms h' = max_vms h"
  using assms
proof (induction "(h', ts')" arbitrary: h' ts' rule: rtranclp_induct)
  case base
  then show ?case by simp
next
  case (step s)
  obtain h1 ts1 where s: "s = (h1, ts1)" by (cases s)
  with step have "int (length (vms h1)) \<le> max_vms h \<and> max_vms h1 = max_vms h" by blast
  with limit_step [of safe h1 ts1 h' ts'] step s show ?case by simp
qed

theorem machine_limit_witness:
  "int (length (vms (running [''m2''] [gpu ''01''] (lab_vm 0 ''00'' ''m1'')))) \<le> max_vms lab_hyp"
proof -
  have "hyp_step False (lab_hyp, {#}) (running [''m2''] [gpu ''01''] (lab_vm 0 ''00'' ''m1''),
      add_mset (Allocating (lab_vm 0 ''00'' ''m1'')) {#})"
    unfolding lab_hyp_idle by (rule hyp_step.begins [OF lab_begin])
  from machine_limit [OF r_into_rtranclp [of "hyp_step False", OF this]] show ?thesis
    by (simp add: lab_hyp_def new_allocator_def)
qed


section \<open>Requests\<close>





text \<open>C17. Allocating a machine and destroying it, when libvirt kills it, is answered with success and brings
  back the machines and the pools.\<close>

theorem vm_comes_and_goes:
  assumes "wf_hyp (hyp n)" and "libvirt_kills (virt G)"
    and "allocate_vm (manager_ops G bind) p n = (Inr v, n')"
  shows "fst (handle_destroy_vm (manager_ops G bind) (vm_name v) n') = Inr (200, JObj [(''status'', JStr ''Success'')])
    \<and> same_pools (hyp n) (hyp (snd (handle_destroy_vm (manager_ops G bind) (vm_name v) n')))"
proof -
  obtain w where "m_destroy (manager_ops G bind) (vm_json v) (env n') = (Inr (), w)"
    using manager_destroys [OF assms(2)] by blast
  from manager.allocate_destroy [OF assms(1,3) this] show ?thesis
    by (auto simp: handle_destroy_vm_def py_bind_def py_attempt_def py_return_def split: prod.splits)
qed

theorem vm_comes_and_goes_witness:
  "\<exists>v n'. allocate_vm (manager_ops lab_manager all_free) one_gpu lab_host = (Inr v, n')
    \<and> same_pools lab_hyp (hyp (snd (handle_destroy_vm (manager_ops lab_manager all_free) (vm_name v) n')))"
proof -
  have "\<not> isl (fst (allocate_vm (manager_ops lab_manager all_free) one_gpu lab_host))" by code_simp
  then obtain v n' where run: "allocate_vm (manager_ops lab_manager all_free) one_gpu lab_host = (Inr v, n')"
    by (cases "allocate_vm (manager_ops lab_manager all_free) one_gpu lab_host") (auto simp: isl_def, metis sum.exhaust)
  have "libvirt_kills (virt lab_manager)" using lab_kills by (simp add: lab_manager_def)
  from vm_comes_and_goes [OF wf_lab this run] run show ?thesis by (auto simp: lab_host_def)
qed

end
