(* ===== verification/Host_Correct.thy ===== *)
theory Host_Correct
  imports Image_Store Dhcp
begin

text \<open>
  What the hypervisor's helpers guarantee about the machine they run on: waiting comes to an end,
  connections to libvirt are closed, block devices are disconnected, addresses are not given twice.
  What is assumed of the outside is stated as predicates on the parameters.
\<close>

section \<open>Waiting\<close>

text \<open>A clock that does not go back, sleeping that lasts, and a predicate that does not turn it back.\<close>

definition steady_clock :: "'w sys \<Rightarrow> ('w \<Rightarrow> rat) \<Rightarrow> bool" where
  "steady_clock S time \<longleftrightarrow>
     (\<forall>w. \<exists>w'. now S w = (Inr (time w'), w') \<and> time w \<le> time w')
     \<and> (\<forall>d w. \<exists>w'. pause S d w = (Inr (), w') \<and> time w + d \<le> time w')"

definition forward :: "('w \<Rightarrow> rat) \<Rightarrow> ('w, 'a) py \<Rightarrow> bool" where
  "forward time m \<longleftrightarrow> (\<forall>w. time w \<le> time (snd (m w)))"

definition wait_outcome ::
    "('w \<Rightarrow> rat) \<Rightarrow> ('w, 'a) py \<Rightarrow> ('a \<Rightarrow> bool) \<Rightarrow> (exn \<Rightarrow> bool) \<Rightarrow> rat \<Rightarrow> 'a res \<times> 'w \<Rightarrow> bool" where
  "wait_outcome time predicate holds caught deadline res \<longleftrightarrow>
     (\<exists>x w1. fst res = Inr x \<and> holds x \<and> predicate w1 = res)
     \<or> (\<exists>e w1. fst res = Inl e \<and> \<not> caught e \<and> predicate w1 = res)
     \<or> (\<exists>e. fst res = Inl e \<and> exn_kind e = TimeoutErr \<and> time (snd res) > deadline)"

lemma wait_rounds_outcome:
  assumes clock: "steady_clock S time" and pred: "forward time predicate" and pos: "0 < interval"
    and "timeout < (of_nat k + of_nat fuel - 1) * interval" and "before + of_nat k * interval \<le> time w" and "0 < fuel"
  shows "wait_outcome time predicate holds caught (before + timeout)
    (wait_rounds S predicate holds caught before timeout interval fuel noted w)"
  using assms(4-6)
proof (induction fuel arbitrary: k w noted)
  case 0
  then show ?case by simp
next
  case (Suc fuel)
  obtain r w1 where p: "predicate w = (r, w1)" by (cases "predicate w")
  have w1: "before + of_nat k * interval \<le> time w1"
    using Suc.prems(2) pred p by (metis forward_def order_trans snd_conv)
  obtain w2 where t: "now S w1 = (Inr (time w2), w2)" and w2: "time w1 \<le> time w2"
    using clock by (metis steady_clock_def)
  obtain w3 where z: "pause S interval w2 = (Inr (), w3)" and w3: "time w2 + interval \<le> time w3"
    using clock by (metis steady_clock_def)
  have more: "wait_outcome time predicate holds caught (before + timeout)
      (wait_more S before timeout interval noted'
        (wait_rounds S predicate holds caught before timeout interval fuel noted') w1)" for noted'
  proof (cases "time w2 - before > timeout")
    case True
    with t show ?thesis
      by (simp add: wait_more_def py_bind_def py_raise_def wait_outcome_def)
  next
    case False
    have "0 < fuel"
    proof (rule ccontr)
      assume "\<not> 0 < fuel"
      with Suc.prems(1) have "timeout < of_nat k * interval" by simp
      with False w1 w2 show False by linarith
    qed
    moreover have "timeout < (of_nat (Suc k) + of_nat fuel - 1) * interval"
      using Suc.prems(1) by (simp add: algebra_simps)
    moreover have "before + of_nat (Suc k) * interval \<le> time w3"
      using w1 w2 w3 by (simp add: algebra_simps)
    ultimately show ?thesis
      using Suc.IH [of "Suc k" w3 noted'] False t z
      by (simp add: wait_more_def py_bind_def py_then_def)
  qed
  show ?case
  proof (cases r)
    case (Inl e)
    show ?thesis
    proof (cases "caught e")
      case True
      with Inl p more [of "noted @ exn_msg e @ [CHR 0x0A]"] show ?thesis by (simp add: py_bind_def py_attempt_def Let_def)
    next
      case False
      with Inl p have "wait_rounds S predicate holds caught before timeout interval (Suc fuel) noted w = predicate w"
        by (simp add: py_bind_def py_attempt_def py_raise_def)
      with Inl p False show ?thesis by (auto simp: wait_outcome_def)
    qed
  next
    case (Inr x)
    show ?thesis
    proof (cases "holds x")
      case True
      with Inr p have "wait_rounds S predicate holds caught before timeout interval (Suc fuel) noted w = predicate w"
        by (simp add: py_bind_def py_attempt_def py_return_def)
      with Inr p True show ?thesis by (auto simp: wait_outcome_def)
    next
      case False
      with Inr p more [of noted] show ?thesis by (simp add: py_bind_def py_attempt_def)
    qed
  qed
qed

lemma wait_outcome:
  assumes clock: "steady_clock S time" and "forward time predicate" and pos: "0 < interval"
  shows "\<exists>before \<ge> time w. wait_outcome time predicate holds caught (before + timeout)
    (wait_for_predicate_nothrow S predicate holds timeout interval caught w)"
proof -
  obtain w1 where t: "now S w = (Inr (time w1), w1)" "time w \<le> time w1"
    using clock by (metis steady_clock_def)
  have "timeout / interval \<le> of_int \<lceil>timeout / interval\<rceil>" by simp
  also have "\<dots> \<le> of_nat (nat \<lceil>timeout / interval\<rceil>)" by simp
  finally have "timeout / interval < of_nat (nat \<lceil>timeout / interval\<rceil>) + 1" by linarith
  then have "timeout < (of_nat (nat \<lceil>timeout / interval\<rceil>) + 1) * interval"
    using pos by (simp add: pos_divide_less_eq)
  then have "timeout < (of_nat 0 + of_nat (wait_fuel timeout interval) - 1) * interval"
    by (simp add: wait_fuel_def algebra_simps)
  from wait_rounds_outcome [OF assms this, of "time w1" w1 holds caught "[]"] t show ?thesis
    by (intro exI [of _ "time w1"]) (simp add: wait_for_predicate_nothrow_def py_bind_def wait_fuel_def)
qed

section \<open>Connections\<close>

text \<open>\<open>open\<close> adds a connection unless it fails, \<open>close\<close> takes one away, nothing else changes their number.\<close>

definition unchanged :: "('w \<Rightarrow> 'c) \<Rightarrow> ('w, 'a) py \<Rightarrow> bool" where
  "unchanged f m \<longleftrightarrow> (\<forall>w. f (snd (m w)) = f w)"

definition counts_connections :: "'w virt \<Rightarrow> ('w \<Rightarrow> nat) \<Rightarrow> bool" where
  "counts_connections V conns \<longleftrightarrow>
     (\<forall>w. conns (snd (v_open V w)) = (if isl (fst (v_open V w)) then conns w else Suc (conns w)))
     \<and> (\<forall>w. conns (snd (v_close V w)) = conns w - 1)
     \<and> (\<forall>x. unchanged conns (v_define V x) \<and> unchanged conns (v_lookup V x) \<and> unchanged conns (v_create V x)
          \<and> unchanged conns (v_destroy V x) \<and> unchanged conns (v_undefine V x) \<and> unchanged conns (v_is_active V x)
          \<and> unchanged conns (v_state V x) \<and> unchanged conns (v_leases V x) \<and> unchanged conns (v_metadata V x)
          \<and> unchanged conns (v_net_lookup V x) \<and> unchanged conns (v_net_xml V x) \<and> unchanged conns (v_net_active V x)
          \<and> unchanged conns (v_net_create V x))
     \<and> (\<forall>x c y. unchanged conns (v_net_update V x c y)) \<and> unchanged conns (v_domains V)"

lemma unchanged_iff: "unchanged f m \<longleftrightarrow> (\<forall>c. py_inv (\<lambda>w. f w = c) m)"
  by (auto simp: unchanged_def py_inv_def)

lemma with_connection_closes:
  assumes "counts_connections V conns" and body: "unchanged conns body"
  shows "unchanged conns (with_connection V body)"
  unfolding unchanged_def
proof
  fix w
  obtain r w1 where o: "v_open V w = (r, w1)" by (cases "v_open V w")
  obtain rb w2 where b: "body w1 = (rb, w2)" by (cases "body w1")
  obtain rc w3 where c: "v_close V w2 = (rc, w3)" by (cases "v_close V w2")
  have "conns w1 = (if isl r then conns w else Suc (conns w))" "conns w3 = conns w2 - 1" "conns w2 = conns w1"
    using assms o b c by (metis counts_connections_def fst_conv snd_conv unchanged_def)+
  with o b c show "conns (snd (with_connection V body w)) = conns w"
    by (cases r; cases rc) (simp_all add: with_connection_def py_then_def py_bind_def py_finally_def)
qed

lemma unchanged_intro:
  "unchanged f (py_return x)" "unchanged f (py_raise e)" "unchanged f (py_lift r)"
  "unchanged f m1 \<Longrightarrow> (\<And>x. unchanged f (k1 x)) \<Longrightarrow> unchanged f (py_bind m1 k1)"
  "unchanged f m2 \<Longrightarrow> unchanged f n2 \<Longrightarrow> unchanged f (py_then m2 n2)"
  "unchanged f m3 \<Longrightarrow> (\<And>e. unchanged f (h3 e)) \<Longrightarrow> unchanged f (py_try m3 h3)"
  "unchanged f m4 \<Longrightarrow> unchanged f (py_attempt m4)"
  "unchanged f m5 \<Longrightarrow> unchanged f n5 \<Longrightarrow> unchanged f (if b then m5 else n5)"
  "(\<And>e. unchanged f (h6 e)) \<Longrightarrow> (\<And>x. unchanged f (k6 x)) \<Longrightarrow> unchanged f (case r6 of Inl e \<Rightarrow> h6 e | Inr x \<Rightarrow> k6 x)"
  "unchanged f m7 \<Longrightarrow> (\<And>x. unchanged f (k7 x)) \<Longrightarrow> unchanged f (case v7 of None \<Rightarrow> m7 | Some x \<Rightarrow> k7 x)"
  by (simp_all add: unchanged_iff py_inv_intro split: sum.splits option.splits)

lemma load_domains_unchanged: "(\<And>x. unchanged f (v_metadata V x)) \<Longrightarrow> unchanged f (load_domains V ds)"
  by (induction ds) (auto intro!: unchanged_intro)

lemma connections_unchanged:
  assumes V: "counts_connections V conns"
  shows "unchanged conns (v_define V x)" "unchanged conns (v_lookup V x)" "unchanged conns (v_create V x)"
    "unchanged conns (v_destroy V x)" "unchanged conns (v_undefine V x)" "unchanged conns (v_is_active V x)"
    "unchanged conns (v_state V x)" "unchanged conns (v_leases V x)" "unchanged conns (v_metadata V x)"
    "unchanged conns (v_net_lookup V x)" "unchanged conns (v_net_xml V x)" "unchanged conns (v_net_active V x)"
    "unchanged conns (v_net_create V x)" "unchanged conns (v_net_update V x c y)" "unchanged conns (v_domains V)"
    "unchanged conns (load_domains V ds)"
  using V by (auto simp: counts_connections_def intro: load_domains_unchanged)

lemma network_info_unchanged: "counts_connections V conns \<Longrightarrow> unchanged conns (network_info V x)"
  unfolding network_info_def
  by (intro unchanged_intro with_connection_closes connections_unchanged)

lemma connections_closed:
  assumes V: "counts_connections V conns"
  shows "unchanged conns (define_vm V gen v)" "unchanged conns (start_vm V x)" "unchanged conns (poweroff_vm V x)"
    "unchanged conns (vm_state V x)" "unchanged conns (kill_by_name V x)" "unchanged conns (dhcp_lease_info V x)"
    "unchanged conns (load_lab_vms V)" "unchanged conns (add_dhcp_entry V x ip mac)"
    "unchanged conns (remove_dhcp_entry V x mac)" "unchanged conns (get_network_dhcp_info V x)"
    "unchanged conns (activate_network V x)" "unchanged conns (is_network_active V x)"
  unfolding define_vm_def start_vm_def poweroff_vm_def vm_state_def kill_by_name_def dhcp_lease_info_def
    load_lab_vms_def add_dhcp_entry_def remove_dhcp_entry_def get_network_dhcp_info_def
    activate_network_def is_network_active_def
  by (intro unchanged_intro with_connection_closes [OF V] connections_unchanged [OF V] network_info_unchanged [OF V])+

section \<open>Block devices\<close>

text \<open>\<open>qemu-nbd\<close> attaches and detaches devices, an attached device has a size, and nothing else attaches
  or detaches.\<close>

definition nbd_command :: "string list \<Rightarrow> bool" where
  "nbd_command ws \<longleftrightarrow> take 2 ws = [''qemu-nbd'', ''--connect''] \<or> take 2 ws = [''qemu-nbd'', ''--disconnect'']"

definition nbd_driver :: "'w sys \<Rightarrow> ('w \<Rightarrow> string set) \<Rightarrow> bool" where
  "nbd_driver S conn \<longleftrightarrow>
     (\<forall>d i w. conn (snd (check_output S [''qemu-nbd'', ''--connect'', d, i] w)) =
        (if isl (fst (check_output S [''qemu-nbd'', ''--connect'', d, i] w)) then conn w else insert d (conn w)))
     \<and> (\<forall>d w. conn (snd (check_output S [''qemu-nbd'', ''--disconnect'', d] w)) = conn w - {d})
     \<and> (\<forall>ws. \<not> nbd_command ws \<longrightarrow> unchanged conn (check_output S ws))
     \<and> (\<forall>p. unchanged conn (read_file S p)) \<and> (\<forall>p. unchanged conn (glob_files S p))
     \<and> unchanged conn (now S) \<and> (\<forall>d. unchanged conn (pause S d))
     \<and> (\<forall>d w w'. is_used S d w = (Inr False, w') \<longrightarrow> d \<notin> conn w)
     \<and> (\<forall>p w ds w'. glob_files S p w = (Inr ds, w') \<longrightarrow> [] \<notin> set ds)"

lemma nbd_driverD:
  assumes "nbd_driver S conn"
  shows "conn (snd (check_output S [''qemu-nbd'', ''--connect'', d, i] w)) =
      (if isl (fst (check_output S [''qemu-nbd'', ''--connect'', d, i] w)) then conn w else insert d (conn w))"
    and "conn (snd (check_output S [''qemu-nbd'', ''--disconnect'', d] w)) = conn w - {d}"
    and "unchanged conn (read_file S p)" and "unchanged conn (glob_files S p)"
    and "unchanged conn (now S)" and "unchanged conn (pause S t)"
    and "is_used S d w = (Inr False, w') \<Longrightarrow> d \<notin> conn w"
    and "glob_files S p w = (Inr ds, w') \<Longrightarrow> [] \<notin> set ds"
proof -
  note rest = assms [unfolded nbd_driver_def, THEN conjunct2, THEN conjunct2, THEN conjunct2, THEN conjunct2,
      THEN conjunct2, THEN conjunct2, THEN conjunct2]
  show "is_used S d w = (Inr False, w') \<Longrightarrow> d \<notin> conn w"
    by (rule rest [THEN conjunct1, rule_format])
  show "glob_files S p w = (Inr ds, w') \<Longrightarrow> [] \<notin> set ds"
    by (rule rest [THEN conjunct2, rule_format])
qed (use assms in \<open>simp_all add: nbd_driver_def\<close>)

lemma is_used_unchanged: "nbd_driver S conn \<Longrightarrow> unchanged conn (is_used S d)"
  unfolding is_used_def by (intro unchanged_intro) (simp add: nbd_driver_def)

lemma first_free_spec:
  assumes S: "nbd_driver S conn" and run: "first_free S ds w = (r, w')"
  shows "conn w' = conn w \<and> (\<forall>d. r = Inr (Some d) \<longrightarrow> d \<in> set ds \<and> d \<notin> conn w)"
  using run
proof (induction ds arbitrary: w)
  case Nil
  then show ?case by (auto simp: py_return_def)
next
  case (Cons d ds)
  obtain u w1 where used: "is_used S d w = (u, w1)" by (cases "is_used S d w")
  have same: "conn w1 = conn w" using is_used_unchanged [OF S, of d] used by (metis snd_conv unchanged_def)
  show ?case
  proof (cases u)
    case (Inl e)
    with Cons.prems used same show ?thesis by (auto simp: py_bind_def)
  next
    case (Inr b)
    show ?thesis
    proof (cases b)
      case True
      with Cons.prems used Inr have "first_free S ds w1 = (r, w')" by (simp add: py_bind_def)
      from Cons.IH [OF this] same show ?thesis by auto
    next
      case False
      moreover have "d \<notin> conn w" using nbd_driverD(7) [OF S, of d w w1] used Inr False by simp
      ultimately show ?thesis using Cons.prems used Inr same by (auto simp: py_bind_def py_return_def)
    qed
  qed
qed

lemma allocate_and_connect_spec:
  assumes S: "nbd_driver S conn" and run: "allocate_and_connect S i w = (r, w')"
  shows "(\<exists>e. r = Inl e) \<and> conn w' = conn w
    \<or> (\<exists>d. r = Inr d \<and> d \<noteq> [] \<and> d \<notin> conn w \<and> conn w' = insert d (conn w))"
proof -
  obtain rg w1 where g: "glob_files S ''/dev/nbd*'' w = (rg, w1)" by (cases "glob_files S ''/dev/nbd*'' w")
  have w1: "conn w1 = conn w" using nbd_driverD(4) [OF S] g by (metis snd_conv unchanged_def)
  show ?thesis
  proof (cases rg)
    case (Inl e)
    with g run w1 show ?thesis
      by (auto simp: allocate_and_connect_def find_free_device_def list_devices_def py_bind_def)
  next
    case (Inr ds)
    obtain rf w2 where f: "first_free S ds w1 = (rf, w2)" by (cases "first_free S ds w1")
    note ff = first_free_spec [OF S f]
    have ne: "[] \<notin> set ds" using nbd_driverD(8) [OF S] g Inr by blast
    have find: "find_free_device S w = (rf, w2)"
      using g Inr f by (simp add: find_free_device_def list_devices_def py_bind_def)
    show ?thesis
    proof (cases "\<exists>d. rf = Inr (Some d)")
      case False
      with find run ff w1 show ?thesis
        by (cases rf) (auto simp: allocate_and_connect_def py_bind_def py_raise_def split: option.splits)
    next
      case True
      then obtain d where d: "rf = Inr (Some d)" by blast
      let ?c = "check_output S [''qemu-nbd'', ''--connect'', d, i] w2"
      have "conn (snd ?c) = (if isl (fst ?c) then conn w2 else insert d (conn w2))"
        by (rule nbd_driverD(1) [OF S])
      with find run ff w1 d ne show ?thesis
        by (cases "fst ?c"; cases ?c)
          (auto simp: allocate_and_connect_def connect_device_def run_cmd_def py_defs)
    qed
  qed
qed

lemma wait_rounds_connect:
  assumes S: "nbd_driver S conn"
    and run: "wait_rounds S (allocate_and_connect S i) (\<lambda>d. d \<noteq> []) caught before timeout interval fuel noted w = (r, w')"
  shows "(\<exists>e. r = Inl e) \<and> conn w' = conn w
    \<or> (\<exists>d. r = Inr d \<and> d \<notin> conn w \<and> conn w' = insert d (conn w))"
  using run
proof (induction fuel arbitrary: w noted)
  case 0
  then show ?case by (auto simp: py_raise_def)
next
  case (Suc fuel)
  obtain x w1 where a: "allocate_and_connect S i w = (x, w1)" by (cases "allocate_and_connect S i w")
  note spec = allocate_and_connect_spec [OF S a]
  show ?case
  proof (cases x)
    case (Inr d)
    with spec a Suc.prems show ?thesis by (auto simp: py_bind_def py_attempt_def py_return_def)
  next
    case (Inl e)
    with spec have w1: "conn w1 = conn w" by auto
    show ?thesis
    proof (cases "caught e")
      case False
      with Inl a w1 Suc.prems show ?thesis by (auto simp: py_bind_def py_attempt_def py_raise_def)
    next
      case True
      obtain t w2 where t: "now S w1 = (t, w2)" by (cases "now S w1")
      obtain z w3 where z: "pause S interval w2 = (z, w3)" by (cases "pause S interval w2")
      have "conn w2 = conn w1" "conn w3 = conn w2"
        using nbd_driverD(5,6) [OF S] t z by (metis snd_conv unchanged_def)+
      with True Inl a w1 t z Suc.prems Suc.IH [of _ w3] show ?thesis
        by (auto simp: py_bind_def py_attempt_def py_raise_def wait_more_def py_then_def Let_def split: sum.splits if_splits)
    qed
  qed
qed

lemma ndb_mount_returns:
  assumes S: "nbd_driver S conn" and body: "\<And>d. unchanged conn (body d)"
  shows "unchanged conn (ndb_mount S i body)"
  unfolding unchanged_def
proof
  fix w
  let ?wait = "wait_for_predicate_nothrow S (allocate_and_connect S i) (\<lambda>d. d \<noteq> []) 10 1 is_exception"
  obtain r w1 where wait: "?wait w = (r, w1)" by (cases "?wait w")
  obtain t w0 where t: "now S w = (t, w0)" by (cases "now S w")
  have w0: "conn w0 = conn w" using nbd_driverD(5) [OF S] t by (metis snd_conv unchanged_def)
  have spec: "(\<exists>e. r = Inl e) \<and> conn w1 = conn w \<or> (\<exists>d. r = Inr d \<and> d \<notin> conn w \<and> conn w1 = insert d (conn w))"
  proof (cases t)
    case (Inl e)
    with t wait w0 show ?thesis by (auto simp: wait_for_predicate_nothrow_def py_bind_def)
  next
    case (Inr b)
    with t wait have "wait_rounds S (allocate_and_connect S i) (\<lambda>d. d \<noteq> []) is_exception b 10 1 (wait_fuel 10 1) [] w0 = (r, w1)"
      by (simp add: wait_for_predicate_nothrow_def py_bind_def)
    from wait_rounds_connect [OF S this] w0 show ?thesis by simp
  qed
  show "conn (snd (ndb_mount S i body w)) = conn w"
  proof (cases r)
    case (Inl e)
    with spec wait show ?thesis by (auto simp: ndb_mount_def py_bind_def)
  next
    case (Inr d)
    obtain rb w2 where b: "body d w1 = (rb, w2)" by (cases "body d w1")
    obtain rd w3 where dis: "check_output S [''qemu-nbd'', ''--disconnect'', d] w2 = (rd, w3)"
      by (cases "check_output S [''qemu-nbd'', ''--disconnect'', d] w2")
    have "conn w3 = conn w2 - {d}" using nbd_driverD(2) [OF S] dis by (metis snd_conv)
    moreover have "conn w2 = conn w1" using body [of d] b by (metis snd_conv unchanged_def)
    ultimately have "conn w3 = conn w" using spec Inr by auto
    with Inr wait b dis show ?thesis
      by (cases rd) (auto simp: ndb_mount_def disconnect_device_def run_cmd_def py_defs)
  qed
qed

lemma mkfs_words:
  "split_ws (mkfs_xfs d u) = ''mkfs.xfs'' # tl (split_ws (mkfs_xfs d u))"
  "split_ws (mkfs_ext4 d u) = ''mkfs.ext4'' # tl (split_ws (mkfs_ext4 d u))"
  by (simp_all add: split_ws_def mkfs_xfs_def mkfs_ext4_def is_space_def)

lemma nbd_command_word: "nbd_command (c # ws) \<Longrightarrow> c = ''qemu-nbd''"
  by (auto simp: nbd_command_def)

lemma mkfs_not_nbd:
  assumes "mkfs_command d fs u = Inr cmd"
  shows "\<not> nbd_command (split_ws cmd)"
proof -
  from assms have "cmd = mkfs_xfs d u \<or> cmd = mkfs_ext4 d u" by (auto simp: mkfs_command_def split: if_splits)
  then obtain c ws where "split_ws cmd = c # ws" "c = ''mkfs.xfs'' \<or> c = ''mkfs.ext4''"
    using mkfs_words [of d u] by (elim disjE) simp_all
  with nbd_command_word [of c ws] show ?thesis by auto
qed

lemma provision_disk_returns:
  assumes S: "nbd_driver S conn"
  shows "unchanged conn (provision_disk S image_path fs u)"
  unfolding provision_disk_def
proof (rule ndb_mount_returns [OF S])
  fix d
  show "unchanged conn (py_bind (py_lift (mkfs_command d fs u)) (\<lambda>cmd. py_then (run_cmd S (Line cmd)) (py_return ())))"
  proof (cases "mkfs_command d fs u")
    case (Inl e)
    then show ?thesis by (simp add: unchanged_def py_bind_def py_lift_def)
  next
    case (Inr cmd)
    have "unchanged conn (check_output S (split_ws cmd))"
      using S mkfs_not_nbd [OF Inr] by (simp add: nbd_driver_def)
    then have "unchanged conn (py_then (run_cmd S (Line cmd)) (py_return ()))"
      unfolding run_cmd_def by (intro unchanged_intro) simp
    with Inr show ?thesis by (simp add: unchanged_def py_bind_def py_lift_def)
  qed
qed

section \<open>Addresses of the private network\<close>

lemma dhcp_info_free:
  assumes "get_network_dhcp_info V net_name w = (Inr (ipnet, hosts, reserved), w')"
  shows "\<forall>ip \<in> set hosts. JStr ip \<notin> fst ` set reserved"
proof -
  from assms obtain entries taken where
    taken: "res_collect entries (\<lambda>h. jitem h ''@ip'') = Inr taken"
    and reserved: "res_collect entries (\<lambda>h. res_bind (jitem h ''@ip'') (\<lambda>ip.
        res_bind (jitem h ''@mac'') (\<lambda>mac. Inr (ip, mac)))) = Inr reserved"
    and hosts: "\<forall>ip \<in> set hosts. JStr ip \<notin> set taken"
    by (auto simp: get_network_dhcp_info_def py_bind_def py_lift_def py_return_def split: sum.splits prod.splits)
  have "fst ` set reserved \<subseteq> set taken"
  proof
    fix ip
    assume "ip \<in> fst ` set reserved"
    then obtain mac where "(ip, mac) \<in> set reserved" by auto
    from res_collect_in [OF reserved this] obtain h where "h \<in> set entries" "jitem h ''@ip'' = Inr ip" by auto
    then obtain i where "i < length entries" "entries ! i = h" by (metis in_set_conv_nth)
    with res_collect_nth [OF taken, of i] res_collect_length [OF taken] \<open>jitem h ''@ip'' = Inr ip\<close>
    show "ip \<in> set taken" by (metis Inr_inject nth_mem)
  qed
  with hosts show ?thesis by blast
qed

end
