(* ===== verification/Host_Properties.thy ===== *)
theory Host_Properties
  imports Hypervisor_Demo Host_Correct
begin

text \<open>
  The properties of the hypervisor that concern its environment: what it promises in a theoretical check,
  how long it waits, and what it leaves open at libvirt, on block devices and on the private network.
\<close>

section \<open>The theoretical check\<close>

lemma fresh_begin:
  assumes "maxv \<noteq> 0" and "bind base = BindOk"
    and "h = new_allocator macs gpus server maxv base paravirt priv"
  shows "if check_allocate_vm h p
    then \<exists>v h'. allocate_begin bind uuid p h = (Inr v, h') \<and> vms h' = [(vm_name v, v)]
        \<and> pcis v @ gpus_list h' = gpus \<and> map net_mac (net_ifaces v) @ mac_addresses h' = macs
    else \<exists>e. allocate_begin bind uuid p h = (Inl e, h)"
proof -
  have port: "find_port bind [] 500 base = Inr base" by (rule find_port_first) (use assms in simp_all)
  show ?thesis
  proof (cases "validate_networks_params (as_list (p_networks p))")
    case (Inl e)
    with assms(1,3) show ?thesis
      by (auto simp: allocate_begin_run check_allocate_vm_def new_allocator_def Let_def)
  next
    case (Inr modes)
    note len = validate_length [OF Inr]
    have macs: "map net_mac (map (iface_for h') (zip (take k macs) modes)) = take k macs"
      if "k = length modes" "k \<le> length macs" for k h'
      using that by (intro nth_equalityI) (auto simp: iface_for_def split: prod.splits)
    have taken: "map net_mac (map (iface_for h') (zip (take k macs) modes)) @ drop k macs = macs"
      if "k = length modes" "k \<le> length macs" for k h'
      by (simp only: macs [OF that] append_take_drop_id)
    from Inr assms(1,3) port len show ?thesis
      by (auto simp: allocate_begin_run check_allocate_vm_def new_allocator_def Let_def register_vm_def py_defs
          free_index_first taken simp del: map_map)
  qed
qed

text \<open>C25. The theoretical check of one demand is right about an idle hypervisor: what it accepts, the
  allocator of a hypervisor without machines reserves, and what it refuses, the allocator refuses.\<close>

theorem theoretical_check_is_exact:
  assumes "maxv \<noteq> 0" and "bind base_port = BindOk"
  shows "check_allocate_vm (new_allocator macs gpus server maxv base_port paravirt priv) p \<longleftrightarrow>
    (\<exists>v h'. allocate_begin bind uuid p (new_allocator macs gpus server maxv base_port paravirt priv) = (Inr v, h')
       \<and> vms h' = [(vm_name v, v)] \<and> pcis v @ gpus_list h' = gpus
       \<and> map net_mac (net_ifaces v) @ mac_addresses h' = macs)"
  using fresh_begin [of maxv bind base_port _ macs gpus server paravirt priv p uuid, OF assms refl] by (auto split: if_splits)


theorem theoretical_check_is_exact_witness:
  "\<exists>v h'. allocate_begin (\<lambda>q. BindOk) ''u'' one_gpu lab_hyp = (Inr v, h') \<and> vms h' = [(vm_name v, v)]"
proof -
  have "check_allocate_vm lab_hyp one_gpu" by code_simp
  with theoretical_check_is_exact [where maxv = 4 and bind = "\<lambda>q. BindOk" and base_port = 5000 and p = one_gpu
      and uuid = "''u''" and macs = "[''m1'', ''m2'']" and gpus = "[gpu ''00'', gpu ''01'']" and server = "''lab''"
      and paravirt = "''eth0''" and priv = "''default''"]
  show ?thesis unfolding lab_hyp_def by auto
qed

section \<open>Waiting\<close>

text \<open>C26. Waiting for a predicate ends, on a clock that does not go back and that sleeping advances: with
  a result that satisfies the predicate, with an exception of another class than the forgiven one, or
  with a timeout when more than the timeout has passed since the start.\<close>

theorem waiting_ends:
  assumes "steady_clock S time" and "forward time predicate" and "0 < interval"
    and "wait_for_predicate_nothrow S predicate holds timeout interval caught w = (r, w')"
  shows "(\<exists>x. r = Inr x \<and> holds x) \<or> (\<exists>e w1. r = Inl e \<and> \<not> caught e \<and> predicate w1 = (r, w'))
    \<or> (\<exists>e. r = Inl e \<and> exn_kind e = TimeoutErr \<and> time w + timeout < time w')"
  using wait_outcome [OF assms(1-3), of w holds caught timeout]
  unfolding assms(4) wait_outcome_def by fastforce

theorem waiting_ends_witness:
  "\<exists>e w'. wait_for_predicate_nothrow lab_sys (py_return ()) (\<lambda>_. False) 10 1 is_exception (env lab_host) = (Inl e, w')
    \<and> exn_kind e = TimeoutErr \<and> 10 < lab_time w'"
proof -
  obtain r w' where run: "wait_for_predicate_nothrow lab_sys (py_return ()) (\<lambda>_. False) 10 1 is_exception (env lab_host) = (r, w')"
    by (cases "wait_for_predicate_nothrow lab_sys (py_return ()) (\<lambda>_. False) 10 1 is_exception (env lab_host)")
  have "steady_clock lab_sys lab_time" by (simp add: steady_clock_def lab_defs py_defs)
  moreover have "forward lab_time (py_return ())" by (simp add: forward_def py_return_def)
  ultimately show ?thesis
    using waiting_ends [OF _ _ _ run, of lab_time] run by (auto simp: lab_host_def py_return_def)
qed

section \<open>Connections to libvirt\<close>

text \<open>C37. Every operation of the libvirt wrapper closes the connection it opened, on every path: when a
  machine is unknown, when libvirt refuses, when a description cannot be read.\<close>

theorem connections_are_closed:
  assumes "counts_connections V conns"
  shows "conns (snd (define_vm V gen v w)) = conns w \<and> conns (snd (start_vm V name w)) = conns w
    \<and> conns (snd (poweroff_vm V name w)) = conns w \<and> conns (snd (vm_state V name w)) = conns w
    \<and> conns (snd (kill_by_name V name w)) = conns w \<and> conns (snd (dhcp_lease_info V name w)) = conns w
    \<and> conns (snd (load_lab_vms V w)) = conns w \<and> conns (snd (add_dhcp_entry V net ip mac w)) = conns w
    \<and> conns (snd (remove_dhcp_entry V net mac w)) = conns w
    \<and> conns (snd (get_network_dhcp_info V net w)) = conns w
    \<and> conns (snd (activate_network V net w)) = conns w \<and> conns (snd (is_network_active V net w)) = conns w"
  using connections_closed [OF assms] by (simp add: unchanged_def)

lemma lab_counts: "counts_connections lab_virt connections"
  by (simp add: counts_connections_def lab_defs unchanged_def py_defs)

theorem connections_are_closed_witness:
  "connections (snd (kill_by_name lab_virt ''lab-vm-0'' (env lab_host))) = connections (env lab_host)"
  using connections_are_closed [OF lab_counts] by blast

section \<open>Block devices\<close>

text \<open>C27. Making the file system of a disk leaves no block device connected and disconnects nobody
  else's, whether the file system is made or not.\<close>

theorem block_devices_returned:
  assumes "nbd_driver S conn"
  shows "conn (snd (provision_disk S image_path fs u w)) = conn w"
  using provision_disk_returns [OF assms] by (simp add: unchanged_def)

lemma lab_nbd: "nbd_driver lab_sys (\<lambda>w. set (attached w) \<inter> {''/dev/nbd0''})"
  unfolding nbd_driver_def
proof (intro conjI allI impI)
  fix d :: string and w w'
  assume run: "is_used lab_sys d w = (Inr False, w')"
  show "d \<notin> set (attached w) \<inter> {''/dev/nbd0''}"
  proof
    assume d: "d \<in> set (attached w) \<inter> {''/dev/nbd0''}"
    then have "d = ''/dev/nbd0''" "''/dev/nbd0'' \<in> set (attached w)" by auto
    then have "is_used lab_sys d w = (Inr True, w)"
      by (simp add: is_used_def lab_sys_def lab_read_def py_defs strip_def is_space_def)
    with run show False by simp
  qed
qed (auto simp: lab_defs unchanged_def py_defs nbd_command_def)

theorem block_devices_returned_witness:
  "set (attached (snd (provision_disk lab_sys ''/run/d'' (JStr ''xfs'') ''u'' (env lab_host)))) \<inter> {''/dev/nbd0''} = {}"
  using block_devices_returned [OF lab_nbd, of "''/run/d''" "JStr ''xfs''" "''u''" "env lab_host"]
  by (simp add: lab_host_def)

section \<open>Disks\<close>

text \<open>The disks of a machine get different device names, none of them the boot disk's, as long as
  there are at most 25; with more, no storage is created at all and the machine has no boot image.\<close>

theorem disks_have_their_own_names:
  assumes "draws_uuids (sys G)"
  shows "\<exists>w' v'. name_disks G 0 (length (disks v)) (w, v) = (if length (disks v) \<le> 25 then Inr ()
        else Inl (Exn IndexErr ''list index out of range''), w', v')
      \<and> (length (disks v) \<le> 25 \<longrightarrow> length (disks v') = length (disks v)
          \<and> (\<exists>names. distinct names \<and> ''sda'' \<notin> set names
               \<and> map (\<lambda>d. map_of d ''device_name'') (disks v') = map (\<lambda>n. Some (JStr n)) names))
      \<and> (25 < length (disks v) \<longrightarrow> (\<exists>w2 v2. create_storage G (w, v) = (Inl (Exn IndexErr ''list index out of range''), w2, v2)
          \<and> vm_image v2 = vm_image v))"
proof -
  from name_disks_run [OF assms, of 0 "length (disks v)" v w] obtain r w' v' where
    run: "name_disks G 0 (length (disks v)) (w, v) = (r, w', v')"
    and res: "if length (disks v) \<le> 25 then r = Inr () \<and> length (disks v') = length (disks v)
          \<and> (\<forall>j < length (disks v). map_of (disks v' ! j) ''device_name'' = Some (JStr (vol_names ! j)))
        else r = Inl (Exn IndexErr ''list index out of range'')" by auto
  show ?thesis
  proof (cases "length (disks v) \<le> 25")
    case True
    with res have "map (\<lambda>d. map_of d ''device_name'') (disks v') = map (\<lambda>n. Some (JStr n)) (take (length (disks v)) vol_names)"
      by (intro nth_equalityI) (auto simp: vol_names)
    moreover have "distinct (take (length (disks v)) vol_names)" "''sda'' \<notin> set (take (length (disks v)) vol_names)"
      using vol_names by (auto dest: in_set_takeD)
    ultimately have "\<exists>names. distinct names \<and> ''sda'' \<notin> set names
        \<and> map (\<lambda>d. map_of d ''device_name'') (disks v') = map (\<lambda>n. Some (JStr n)) names" by blast
    with True res run show ?thesis by auto
  next
    case False
    with create_storage_too_many [OF assms, of v w] res run show ?thesis by auto
  qed
qed

theorem disks_have_their_own_names_witness:
  "\<exists>w' v'. name_disks lab_manager 0 1 (env lab_host, lab_vm 0 ''00'' ''m1''\<lparr>disks := [[]]\<rparr>) = (Inr (), w', v')
     \<and> length (disks v') = 1"
proof -
  have "draws_uuids (sys lab_manager)" by (simp add: draws_uuids_def lab_defs py_defs)
  from disks_have_their_own_names [OF this, of "lab_vm 0 ''00'' ''m1''\<lparr>disks := [[]]\<rparr>" "env lab_host"]
  show ?thesis by auto
qed

section \<open>The private network\<close>

text \<open>C38. An address that is allocated on the private network is one of its DHCP range that no host
  entry had, it is the one that was asked for if one was, and it is entered for the machine's card.\<close>

theorem private_addresses_are_free:
  assumes "allocate_ip_sync V net_name mac wanted w = (Inr ip, w')"
  shows "\<exists>ipnet hosts reserved w1. get_network_dhcp_info V net_name w = (Inr (ipnet, hosts, reserved), w1)
    \<and> ip \<in> set hosts \<and> JStr ip \<notin> fst ` set reserved \<and> (\<forall>i. wanted = Some i \<longrightarrow> ip = i)
    \<and> add_dhcp_entry V net_name ip mac w1 = (Inr (), w')"
proof -
  from assms obtain ipnet hosts reserved w1 where
    info: "get_network_dhcp_info V net_name w = (Inr (ipnet, hosts, reserved), w1)"
    and ip: "ip \<in> set hosts" "\<forall>i. wanted = Some i \<longrightarrow> ip = i"
    and add: "add_dhcp_entry V net_name ip mac w1 = (Inr (), w')"
    by (auto simp: allocate_ip_sync_def py_defs split: prod.splits sum.splits if_splits option.splits)
  with dhcp_info_free [OF info] show ?thesis by blast
qed

theorem private_addresses_are_free_witness:
  "\<exists>w'. allocate_ip_sync lab_virt ''default'' ''m1'' None (env lab_host) = (Inr ''10.0.0.3'', w')
    \<and> (\<exists>ipnet hosts reserved w1. get_network_dhcp_info lab_virt ''default'' (env lab_host) = (Inr (ipnet, hosts, reserved), w1)
        \<and> ''10.0.0.3'' \<in> set hosts \<and> JStr ''10.0.0.3'' \<notin> fst ` set reserved)"
proof -
  have "fst (allocate_ip_sync lab_virt ''default'' ''m1'' None (env lab_host)) = Inr ''10.0.0.3''" by code_simp
  from fst_run [OF this] obtain w' where run: "allocate_ip_sync lab_virt ''default'' ''m1'' None (env lab_host) = (Inr ''10.0.0.3'', w')"
    by (elim exE) (rule that)
  from private_addresses_are_free [OF this] run show ?thesis by blast
qed

end
