(* ===== verification/Cloud_Ec2.thy ===== *)
theory Cloud_Ec2
  imports Rm_Requestor
begin

text \<open>
  The cloudvisor's access to EC2 (\<open>cloudvisor/ec2_wrapper.py\<close>) and the machines it describes
  (\<open>cloudvisor/cloud_vm.py\<close>, \<open>common/vm.py\<close>).  The boto library is a parameter (\<open>'w ec2\<close>): a collection
  is read with the filters that were chained on it and the identifiers that were asked for; the
  other operations are one call each.
\<close>

section \<open>The text of a value\<close>

text \<open>\<open>repr(v)\<close> of a decoded value, for the values the descriptions hold (fractions do not occur).\<close>

definition hex_digit :: "nat \<Rightarrow> char" where
  "hex_digit n = ''0123456789abcdef'' ! (n mod 16)"

definition repr_char :: "char \<Rightarrow> char \<Rightarrow> string" where
  "repr_char quote c = (let n = (of_char c :: nat) in
     if c = quote \<or> n = 92 then [CHR 0x5C, c]
     else if n = 9 then [CHR 0x5C, CHR ''t''] else if n = 10 then [CHR 0x5C, CHR ''n'']
     else if n = 13 then [CHR 0x5C, CHR ''r'']
     else if n < 32 \<or> (127 \<le> n \<and> n \<le> 160) \<or> n = 173 then [CHR 0x5C, CHR ''x'', hex_digit (n div 16), hex_digit n]
     else [c])"

definition repr_str :: "string \<Rightarrow> string" where
  "repr_str s = (let quote = (if CHR 0x27 \<in> set s \<and> CHR 0x22 \<notin> set s then CHR 0x22 else CHR 0x27)
     in [quote] @ concat (map (repr_char quote) s) @ [quote])"

fun py_repr :: "json \<Rightarrow> string" where
  "py_repr JNull = ''None''"
| "py_repr (JBool b) = (if b then ''True'' else ''False'')"
| "py_repr (JNum q) = (if q = of_int \<lfloor>q\<rfloor> then int_str \<lfloor>q\<rfloor> else ''?'')"
| "py_repr (JStr s) = repr_str s"
| "py_repr (JList xs) = ''['' @ join '', '' (map py_repr xs) @ '']''"
| "py_repr (JObj d) = ''{'' @ join '', '' (map (\<lambda>p. repr_str (fst p) @ '': '' @ py_repr (snd p)) d) @ ''}''"

definition str_of :: "json \<Rightarrow> string" where
  "str_of v = (case v of JStr s \<Rightarrow> s | _ \<Rightarrow> py_repr v)"

section \<open>EC2\<close>

text \<open>A filter is a name and the accepted values; a tag is a key and a value.\<close>

type_synonym filter = "string \<times> json list"
type_synonym tag = "string \<times> json"

record ec2_instance =
  inst_id :: string
  inst_image :: json
  inst_type :: json
  inst_arch :: json
  inst_state :: string
  inst_public_ip :: json
  inst_tags :: "tag list"

record sec_group =
  sg_id :: string
  sg_tags :: "tag list"

record launch =
  l_image :: json
  l_key_name :: string
  l_type :: json
  l_description :: json
  l_group :: string
  l_subnet :: json
  l_tags :: "tag list"

text \<open>Of the rules of a security group, the peer: the group itself, an address range, or any host on the
  ssh port.\<close>

datatype rule = FromGroup string string | FromRange string | SshFromAnywhere

record 'w ec2 =
  e_instances :: "filter list \<Rightarrow> json list option \<Rightarrow> ('w, ec2_instance list) py"
  e_images :: "filter list \<Rightarrow> ('w, json list) py"
  e_groups :: "filter list \<Rightarrow> ('w, sec_group list) py"
  e_create_group :: "json \<Rightarrow> json \<Rightarrow> string \<Rightarrow> tag list \<Rightarrow> ('w, sec_group) py"
  e_authorize :: "string \<Rightarrow> rule list \<Rightarrow> ('w, unit) py"
  e_reload_group :: "string \<Rightarrow> ('w, unit) py"
  e_group_subresources :: "string \<Rightarrow> ('w, string list) py"
  e_delete_group :: "string \<Rightarrow> ('w, unit) py"
  e_create_instances :: "launch \<Rightarrow> ('w, ec2_instance list) py"
  e_wait_until_exists :: "ec2_instance \<Rightarrow> ('w, unit) py"
  e_wait_until_running :: "ec2_instance \<Rightarrow> ('w, unit) py"
  e_reload :: "ec2_instance \<Rightarrow> ('w, ec2_instance) py"
  e_terminate :: "string \<Rightarrow> ('w, unit) py"
  e_key_pairs :: "string \<Rightarrow> ('w, string list) py"
  e_vpcs :: "string \<Rightarrow> ('w, string list) py"
  e_subnets :: "filter list \<Rightarrow> ('w, string list) py"
  e_time :: "('w, rat) py"
  e_time_str :: "('w, string) py"
  e_stamp :: "('w, string) py"
  e_uuid4 :: "('w, string) py"
  e_read_file :: "string \<Rightarrow> ('w, string) py"
  float_of :: "json \<Rightarrow> rat res"
  set_order :: "string list \<Rightarrow> string list"

record 'w ec2_wrapper =
  ec2 :: "'w ec2"
  w_id :: string
  vpc_id :: string
  vpc_cidr :: string
  key_name :: string
  key_pem :: string

section \<open>Machines\<close>

text \<open>The fields of \<open>cloud_vm.VM\<close>; \<open>num_cpus\<close> is always \<open>None\<close>, whatever the constructor is given.\<close>

record cloud_vm =
  c_name :: json
  c_memsize :: json
  c_base_image :: json
  c_ifaces :: "json dict list"
  c_uuid :: string
  c_allocation_id :: json
  c_requestor :: json
  c_num_gpus :: json
  c_client_ip :: json
  c_instance_type :: json
  c_instance_id :: json
  c_state :: json
  c_tags :: "json dict"
  c_user :: json
  c_pem :: json
  c_arch :: json

definition base_json :: "cloud_vm \<Rightarrow> json dict" where
  "base_json v =
     [(''net_ifaces'', JList (map JObj (c_ifaces v))),
      (''name'', c_name v),
      (''num_cpus'', JNull),
      (''memsize'', c_memsize v),
      (''base_image'', c_base_image v),
      (''api_version'', JStr ''v1''),
      (''image'', JNull),
      (''uuid'', JStr (c_uuid v)),
      (''allocation_id'', c_allocation_id v),
      (''requestor'', c_requestor v)]"

definition cloud_vm_dict :: "cloud_vm \<Rightarrow> json dict" where
  "cloud_vm_dict v = dict_update (base_json v)
     [(''client_external_ip'', c_client_ip v),
      (''instance_type'', c_instance_type v),
      (''instance_id'', c_instance_id v),
      (''user'', c_user v),
      (''pem_key_string'', c_pem v),
      (''tags'', JObj (c_tags v)),
      (''state'', c_state v)]"

definition long_lasting :: "cloud_vm \<Rightarrow> json" where
  "long_lasting v = (case map_of (c_tags v) ''requestor:long_lasting'' of Some x \<Rightarrow> x | None \<Rightarrow> JBool False)"

definition tags_dict :: "tag list \<Rightarrow> json dict" where
  "tags_dict tags = dict_update [] tags"

definition tag_or_none :: "json dict \<Rightarrow> string \<Rightarrow> json" where
  "tag_or_none tags k = (case map_of tags k of Some v \<Rightarrow> v | None \<Rightarrow> JNull)"

definition from_aws_instance :: "string \<Rightarrow> ec2_instance \<Rightarrow> cloud_vm" where
  "from_aws_instance uuid i =
     (let tags = tags_dict (inst_tags i);
          requestor_ip = tag_or_none tags ''requestor:external_ip''
      in \<lparr>c_name = JStr (inst_id i), c_memsize = JNum 0, c_base_image = inst_image i,
          c_ifaces = [[(''ip'', inst_public_ip i)]], c_uuid = uuid,
          c_allocation_id = tag_or_none tags ''allocation_id'', c_requestor = JObj [], c_num_gpus = JNull,
          c_client_ip = (if truthy requestor_ip then requestor_ip else tag_or_none tags ''client_external_ip''),
          c_instance_type = inst_type i, c_instance_id = JNull, c_state = JStr (inst_state i), c_tags = tags,
          c_user = tag_or_none tags ''user'', c_pem = JNull, c_arch = inst_arch i\<rparr>)"

section \<open>Filters and tags\<close>

definition lower_alnum :: "char \<Rightarrow> bool" where
  "lower_alnum c \<longleftrightarrow> c \<in> set ''0123456789abcdefghijklmnopqrstuvwxyz''"

text \<open>\<open>re.fullmatch('root-cloudvisor-[0-9a-z]{9}-[0-9a-z]{5}-cloudvisor', id)\<close>\<close>

definition main_cloudvisor :: "string \<Rightarrow> bool" where
  "main_cloudvisor i \<longleftrightarrow> length i = 42 \<and> take 16 i = ''root-cloudvisor-'' \<and> list_all lower_alnum (take 9 (drop 16 i))
     \<and> i ! 25 = CHR ''-'' \<and> list_all lower_alnum (take 5 (drop 26 i)) \<and> drop 31 i = ''-cloudvisor''"

definition dict_to_filter :: "json dict \<Rightarrow> filter list" where
  "dict_to_filter d = map (\<lambda>(k, v). (k, case v of JList xs \<Rightarrow> xs | _ \<Rightarrow> [v])) d"

definition dict_to_tags :: "json dict \<Rightarrow> tag list" where
  "dict_to_tags d = d"

definition automation_filters :: "filter list" where
  "automation_filters = dict_to_filter [(''tag:purpose'', JStr ''automation'')]"

definition automation_tag :: tag where
  "automation_tag = (''purpose'', JStr ''automation'')"

definition allocation_tag :: "cloud_vm \<Rightarrow> tag" where
  "allocation_tag v = (''allocation_id'', c_allocation_id v)"

definition default_tags :: "cloud_vm \<Rightarrow> tag list" where
  "default_tags v = [automation_tag, allocation_tag v]"

definition tagged_as_automation :: "ec2_instance \<Rightarrow> bool" where
  "tagged_as_automation i \<longleftrightarrow> map_of (tags_dict (inst_tags i)) ''purpose'' = Some (JStr ''automation'')"

text \<open>\<open>v[:255]\<close> of a requestor's value: strings and lists can be cut.\<close>

definition cut255 :: "json \<Rightarrow> json res" where
  "cut255 v = (case v of JStr s \<Rightarrow> Inr (JStr (take 255 s)) | JList xs \<Rightarrow> Inr (JList (take 255 xs))
     | _ \<Rightarrow> Inl (Exn TypeErr ''not subscriptable''))"

definition requestor_tags :: "cloud_vm \<Rightarrow> json dict res" where
  "requestor_tags v = res_bind (jobj (c_requestor v)) (\<lambda>d.
     res_collect d (\<lambda>(k, x). res_bind (cut255 x) (\<lambda>y. Inr (''requestor:'' @ k, y))))"

definition instance_tags :: "'w ec2_wrapper \<Rightarrow> cloud_vm \<Rightarrow> ('w, tag list) py" where
  "instance_tags W v =
     py_bind (py_lift (requestor_tags v)) (\<lambda>rtags.
     py_bind (e_stamp (ec2 W)) (\<lambda>stamp.
     py_return (map (\<lambda>(k, x). (k, JStr (take 255 (str_of x)))) (cloud_vm_dict v) @ [automation_tag]
       @ [(''Name'', JStr (''automation-infra-'' @ stamp))]
       @ dict_to_tags (dict_update [(''cloudvisor_id'', JStr (w_id W))] rtags))))"

definition allocation_id_from_instance :: "ec2_instance \<Rightarrow> json" where
  "allocation_id_from_instance i = tag_or_none (tags_dict (inst_tags i)) ''allocation_id''"

end
