(* ===== verification/Cloud_Wrapper.thy ===== *)
theory Cloud_Wrapper
  imports Cloud_Ec2
begin

text \<open>
  The operations of \<open>EC2Wrapper\<close> (\<open>cloudvisor/ec2_wrapper.py\<close>).  boto's collections are lazy: they are
  read here where the code iterates over them, and the filters of a chain are added up.
\<close>

section \<open>Start-up\<close>

definition load_vpc_subnets :: "'w ec2 \<Rightarrow> string \<Rightarrow> ('w, string list) py" where
  "load_vpc_subnets E vpc = e_subnets E [(''vpc-id'', [JStr vpc])]"

definition load_vpc :: "'w ec2 \<Rightarrow> string \<Rightarrow> ('w, string) py" where
  "load_vpc E vpc =
     py_bind (e_vpcs E vpc) (\<lambda>vpcs. case vpcs of
       [] \<Rightarrow> py_raise (Exn PlainException ''Existing VPC must be specified'') | v # _ \<Rightarrow> py_return v)"

definition load_key_pair :: "'w ec2 \<Rightarrow> string \<Rightarrow> ('w, string) py" where
  "load_key_pair E keyname =
     py_bind (e_key_pairs E keyname) (\<lambda>keys. case keys of
       [key] \<Rightarrow> py_return key
     | _ \<Rightarrow> py_raise (Exn PlainException (''Length of the keys is '' @ dec (length keys))))"

definition load_machine_key_info :: "'w ec2 \<Rightarrow> string \<Rightarrow> string \<Rightarrow> ('w, string \<times> string) py" where
  "load_machine_key_info E keyname pem_file =
     py_bind (e_read_file E pem_file) (\<lambda>pem_content.
     py_bind (load_key_pair E keyname) (\<lambda>pair. py_return (pair, pem_content)))"

section \<open>Collections\<close>

text \<open>\<open>list(Filters=..., InstanceIds=...)\<close>: the filters of the caller come after the automation filter.\<close>

definition list_instances :: "'w ec2_wrapper \<Rightarrow> filter list \<Rightarrow> json list option \<Rightarrow> ('w, ec2_instance list) py" where
  "list_instances W filters ids = e_instances (ec2 W) (automation_filters @ filters) ids"

definition active_filters :: "filter list" where
  "active_filters = dict_to_filter [(''instance-state-name'',
     JList [JStr ''pending'', JStr ''running'', JStr ''stopping'', JStr ''stopped''])]"

definition list_active :: "'w ec2_wrapper \<Rightarrow> ('w, ec2_instance list) py" where
  "list_active W = list_instances W active_filters None"

definition images :: "'w ec2_wrapper \<Rightarrow> filter list \<Rightarrow> ('w, json list) py" where
  "images W filters = e_images (ec2 W) (automation_filters @ filters)"

definition describe :: "'w ec2_wrapper \<Rightarrow> json \<Rightarrow> ('w, ec2_instance list) py" where
  "describe W instance_ids =
     list_instances W [] (Some (case instance_ids of JList ids \<Rightarrow> ids | i \<Rightarrow> [i]))"

definition automation_security_groups :: "'w ec2_wrapper \<Rightarrow> ('w, sec_group list) py" where
  "automation_security_groups W = e_groups (ec2 W) automation_filters"

definition find_image_by_version_tag :: "'w ec2_wrapper \<Rightarrow> json \<Rightarrow> ('w, json) py" where
  "find_image_by_version_tag W version_tag =
     py_bind (images W (dict_to_filter [(''tag:infra_version'', version_tag)])) (\<lambda>is. case is of
       [i] \<Rightarrow> py_return i
     | _ \<Rightarrow> py_raise (Exn AssertionErr ''images match version''))"

section \<open>Security groups\<close>

definition find_security_group :: "'w ec2_wrapper \<Rightarrow> json \<Rightarrow> ('w, sec_group) py" where
  "find_security_group W allocation_id =
     py_bind (e_groups (ec2 W) [(''vpc-id'', [JStr (vpc_id W)]), (''group-name'', [allocation_id])]) (\<lambda>gs. case gs of
       [] \<Rightarrow> py_raise (Exn StopIterationErr []) | g # _ \<Rightarrow> py_return g)"

definition create_security_group :: "'w ec2_wrapper \<Rightarrow> cloud_vm \<Rightarrow> ('w, sec_group) py" where
  "create_security_group W v =
     (let allocating_ip = c_client_ip v; sg_name = ''automation_allocation_'' @ str_of (c_allocation_id v) in
     py_bind (e_time_str (ec2 W)) (\<lambda>t.
     py_bind (e_create_group (ec2 W) (c_allocation_id v) (c_allocation_id v) (vpc_id W)
        (default_tags v @ [(''Name'', JStr sg_name)] @ [(''creation'', JStr t)])) (\<lambda>sg.
     py_then (e_authorize (ec2 W) (sg_id sg)
        [FromGroup (vpc_id W) (sg_id sg), FromRange (str_of allocating_ip @ ''/32''), SshFromAnywhere, FromRange (vpc_cidr W)])
       (py_return sg))))"

definition get_or_create_security_group :: "'w ec2_wrapper \<Rightarrow> cloud_vm \<Rightarrow> ('w, sec_group) py" where
  "get_or_create_security_group W v =
     py_try (find_security_group W (c_allocation_id v))
       (\<lambda>e. if exn_kind e = StopIterationErr then create_security_group W v else py_raise e)"

definition delete_security_group :: "'w ec2_wrapper \<Rightarrow> json \<Rightarrow> ('w, unit) py" where
  "delete_security_group W allocation_id =
     py_bind (find_security_group W allocation_id) (\<lambda>sg. e_delete_group (ec2 W) (sg_id sg))"

text \<open>A group younger than five minutes is left alone; one that something depends on stays.\<close>

definition delete_if_dangling :: "'w ec2_wrapper \<Rightarrow> sec_group \<Rightarrow> ('w, unit) py" where
  "delete_if_dangling W g =
     py_bind (e_time (ec2 W)) (\<lambda>t.
     py_bind (py_lift (float_of (ec2 W)
        (case map_of (tags_dict (sg_tags g)) ''creation'' of Some c \<Rightarrow> c | None \<Rightarrow> JNum 0))) (\<lambda>creation.
     if t - creation < 5 * 60 then py_return ()
     else
     py_then (e_reload_group (ec2 W) (sg_id g))
     (py_bind (e_group_subresources (ec2 W) (sg_id g)) (\<lambda>subs.
      if subs = [] then
        py_try (e_delete_group (ec2 W) (sg_id g))
          (\<lambda>e. if exn_kind e = ClientErr then py_return () else py_raise e)
      else py_return ()))))"

definition delete_dangling_security_groups :: "'w ec2_wrapper \<Rightarrow> ('w, unit) py" where
  "delete_dangling_security_groups W =
     py_bind (automation_security_groups W) (\<lambda>gs. py_for gs (delete_if_dangling W))"

section \<open>Instances\<close>

text \<open>\<open>v in d.keys()\<close> and \<open>d[v]\<close> for a decoded value: only strings can be among the keys, lists and
  objects are not hashable.\<close>

definition key_lookup :: "'v dict \<Rightarrow> json \<Rightarrow> 'v option res" where
  "key_lookup d v = (case v of JStr k \<Rightarrow> Inr (map_of d k)
     | JList _ \<Rightarrow> Inl (Exn TypeErr ''unhashable type'') | JObj _ \<Rightarrow> Inl (Exn TypeErr ''unhashable type'')
     | _ \<Rightarrow> Inr None)"

definition types_by_gpu_count :: "string list dict" where
  "types_by_gpu_count = [(''1'', [''g4dn.2xlarge'', ''g4dn.4xlarge'']), (''4'', [''g4dn.12xlarge'']),
     (''8'', [''p3.16xlarge'', ''g4dn.metal''])]"

definition types_by_arch :: "string list dict" where
  "types_by_arch = [(''x86_64'', [''g4dn.2xlarge'', ''g4dn.4xlarge'', ''g4dn.12xlarge'', ''p3.16xlarge'', ''g4dn.metal''])]"

definition ec2_check_allocate :: "cloud_vm \<Rightarrow> bool res" where
  "ec2_check_allocate v = res_bind (key_lookup types_by_arch (c_arch v)) (\<lambda>ts. Inr (ts \<noteq> None))"

definition ec2_allocate :: "'w ec2_wrapper \<Rightarrow> cloud_vm \<Rightarrow> ('w, ec2_instance) py" where
  "ec2_allocate W v =
     py_bind (py_lift (case c_ifaces v of [] \<Rightarrow> Inl (Exn IndexErr ''list index out of range'')
       | n # _ \<Rightarrow> jitem (JObj n) ''subnet'')) (\<lambda>net_id.
     py_bind (get_or_create_security_group W v) (\<lambda>sg.
     py_bind (find_image_by_version_tag W (c_base_image v)) (\<lambda>image.
     py_bind (instance_tags W v) (\<lambda>tags.
     py_bind (e_create_instances (ec2 W) \<lparr>l_image = image, l_key_name = key_name W, l_type = c_instance_type v,
         l_description = c_allocation_id v, l_group = sg_id sg, l_subnet = net_id, l_tags = tags\<rparr>) (\<lambda>is.
     case is of [] \<Rightarrow> py_raise (Exn IndexErr ''list index out of range'') | i # _ \<Rightarrow> py_return i)))))"

definition await_running :: "'w ec2_wrapper \<Rightarrow> ec2_instance \<Rightarrow> ('w, ec2_instance) py" where
  "await_running W i =
     py_then (e_wait_until_exists (ec2 W) i)
     (py_then (e_wait_until_running (ec2 W) i) (e_reload (ec2 W) i))"

text \<open>The message of the exception mentions \<open>_tag_in_machine\<close>, which does not exist.\<close>

definition ec2_destroy :: "'w ec2_wrapper \<Rightarrow> json \<Rightarrow> ('w, unit) py" where
  "ec2_destroy W instance_ids =
     py_bind (describe W instance_ids) (\<lambda>machines.
     py_for machines (\<lambda>machine.
       if \<not> tagged_as_automation machine then py_raise (Exn AttributeErr ''_tag_in_machine'')
       else e_terminate (ec2 W) (inst_id machine)))"

definition ec2_destroy_all :: "'w ec2_wrapper \<Rightarrow> ('w, unit) py" where
  "ec2_destroy_all W =
     py_bind (list_active W) (\<lambda>actives.
       ec2_destroy W (JList (map (\<lambda>i. JStr (inst_id i)) actives)))"

end
