(* ===== verification/Cloud_Manager.thy ===== *)
theory Cloud_Manager
  imports Cloud_Wrapper
begin

text \<open>
  The cloudvisor: \<open>EC2Manager\<close> (\<open>cloudvisor/ec2_manager.py\<close>), the periodic cleaner
  (\<open>cloudvisor/cleaner.py\<close>) and the HTTP handlers (\<open>cloudvisor/webapp/rest.py\<close>).  Calls to EC2 run in a
  thread pool one after another here.
\<close>

section \<open>The manager\<close>

record 'w ec2_manager =
  wrapper :: "'w ec2_wrapper"
  subnet_ids :: "string list"

text \<open>The world and the position of \<open>itertools.cycle\<close>.\<close>

record 'w cloud =
  aws :: 'w
  turn :: nat

definition in_aws :: "('w, 'a) py \<Rightarrow> ('w cloud, 'a) py" where
  "in_aws m = (\<lambda>c. case m (aws c) of (r, w) \<Rightarrow> (r, c\<lparr>aws := w\<rparr>))"

text \<open>\<open>next(self.subnet_ids)\<close>: a cycle without elements stops, which in a coroutine is an error.\<close>

definition next_subnet :: "'w ec2_manager \<Rightarrow> ('w cloud, string) py" where
  "next_subnet M = (\<lambda>c.
     if subnet_ids M = [] then (Inl (Exn PlainException ''coroutine raised StopIteration''), c)
     else (Inr (subnet_ids M ! (turn c mod length (subnet_ids M))), c\<lparr>turn := Suc (turn c)\<rparr>))"

definition convert_to_vms :: "'w ec2_manager \<Rightarrow> ec2_instance list \<Rightarrow> ('w cloud, cloud_vm list) py" where
  "convert_to_vms M is =
     py_collect is (\<lambda>i. py_bind (in_aws (e_uuid4 (ec2 (wrapper M)))) (\<lambda>u. py_return (from_aws_instance u i)))"

text \<open>The types to try: the one of the request, or those of the architecture with the number of GPUs, in
  the order the set happens to have.  Only a \<open>KeyError\<close> is replaced.\<close>

definition instance_types :: "'w ec2_manager \<Rightarrow> cloud_vm \<Rightarrow> json list res" where
  "instance_types M v =
     (if truthy (c_instance_type v) then Inr [c_instance_type v]
      else
      res_bind (key_lookup types_by_arch (c_arch v)) (\<lambda>by_arch.
      case by_arch of None \<Rightarrow> Inl (Exn KeyErr ''Instance type is not defined.'')
      | Some ts \<Rightarrow>
          res_bind (key_lookup types_by_gpu_count (c_num_gpus v)) (\<lambda>by_gpus.
          case by_gpus of None \<Rightarrow> Inl (Exn KeyErr ''Instance type is not defined.'')
          | Some us \<Rightarrow> Inr (map JStr (set_order (ec2 (wrapper M)) (filter (\<lambda>t. t \<in> set us) ts))))))"

text \<open>The types are tried in turn; EC2's refusal of the last one is the outcome.  Without any type, the
  name of the created instance is not bound.\<close>

fun try_types :: "'w ec2_manager \<Rightarrow> cloud_vm \<Rightarrow> json list \<Rightarrow> ('w cloud, ec2_instance \<times> json) py" where
  "try_types M v [] = py_raise (Exn NameErr ''created_instance'')"
| "try_types M v (ty # types) =
     py_bind (py_attempt (in_aws (ec2_allocate (wrapper M) (v\<lparr>c_instance_type := ty\<rparr>)))) (\<lambda>r.
     case r of
       Inr i \<Rightarrow> py_return (i, ty)
     | Inl e \<Rightarrow> if exn_kind e = ClientErr \<and> types \<noteq> [] then try_types M v types else py_raise e)"

text \<open>The number of cores that is computed at the end is set on boto's object, not on the machine, and is
  left out here.\<close>

definition allocate_instance :: "'w ec2_manager \<Rightarrow> cloud_vm \<Rightarrow> ('w cloud, cloud_vm) py" where
  "allocate_instance M v =
     py_bind (next_subnet M) (\<lambda>subnet.
     (let v1 = v\<lparr>c_ifaces := [[(''subnet'', JStr subnet)]]\<rparr> in
     py_bind (py_lift (instance_types M v1)) (\<lambda>types.
     py_bind (try_types M v1 types) (\<lambda>(created, ty).
     py_bind (in_aws (await_running (wrapper M) created)) (\<lambda>running.
     py_return (v1\<lparr>c_instance_type := ty, c_instance_id := JStr (inst_id running),
       c_ifaces := [[(''subnet'', JStr subnet), (''ip'', inst_public_ip running)]],
       c_name := JStr (inst_id running), c_user := JStr ''ubuntu'', c_pem := JStr (key_pem (wrapper M))\<rparr>))))))"

definition destroy_instance :: "'w ec2_manager \<Rightarrow> json \<Rightarrow> ('w cloud, unit) py" where
  "destroy_instance M instance_id = in_aws (ec2_destroy (wrapper M) instance_id)"

definition list_vms :: "'w ec2_manager \<Rightarrow> filter list \<Rightarrow> json list option \<Rightarrow> ('w cloud, cloud_vm list) py" where
  "list_vms M filters ids =
     py_bind (in_aws (list_instances (wrapper M) filters ids)) (convert_to_vms M)"

definition get_allocation :: "'w ec2_manager \<Rightarrow> string \<Rightarrow> ('w cloud, cloud_vm list) py" where
  "get_allocation M allocation_id = list_vms M (dict_to_filter [(''tag:allocation_id'', JStr allocation_id)]) None"

definition list_active_vms :: "'w ec2_manager \<Rightarrow> ('w cloud, cloud_vm list) py" where
  "list_active_vms M = py_bind (in_aws (list_active (wrapper M))) (convert_to_vms M)"

definition describe_vms :: "'w ec2_manager \<Rightarrow> json \<Rightarrow> ('w cloud, cloud_vm list) py" where
  "describe_vms M instance_ids = py_bind (in_aws (describe (wrapper M) instance_ids)) (convert_to_vms M)"

definition check_allocate_instance :: "cloud_vm \<Rightarrow> ('w cloud, bool) py" where
  "check_allocate_instance v = py_lift (ec2_check_allocate v)"

definition delete_dangling_security_groups_async :: "'w ec2_manager \<Rightarrow> ('w cloud, unit) py" where
  "delete_dangling_security_groups_async M = in_aws (delete_dangling_security_groups (wrapper M))"

text \<open>\<open>self.destroy\<close> does not exist: both fail as soon as there is a machine.\<close>

definition destroy_many :: "string list \<Rightarrow> ('w cloud, unit) py" where
  "destroy_many ids = (if ids = [] then py_return () else py_raise (Exn AttributeErr ''destroy''))"

definition destroy_all :: "'w ec2_manager \<Rightarrow> ('w cloud, unit) py" where
  "destroy_all M = py_bind (list_active_vms M) (\<lambda>actives.
     if actives = [] then py_return () else py_raise (Exn AttributeErr ''destroy''))"

section \<open>The cleaner\<close>

definition cloud_active_ids :: "'w world_ops \<Rightarrow> string \<Rightarrow> ('w cloud, json list) py" where
  "cloud_active_ids H provisioner_ep =
     py_bind (in_aws (\<lambda>w. case http H w \<lparr>req_verb = GET, req_url = ''http://'' @ provisioner_ep @ ''/api/jobs'',
         req_body = JNull\<rparr> of (r, w') \<Rightarrow> (case r of HReply st b \<Rightarrow> Inr b | HFail e \<Rightarrow> Inl e, w'))) (\<lambda>data.
     py_bind (py_lift (jitem data ''status'')) (\<lambda>st.
     if st \<noteq> JNum 200 then py_raise (Exn PlainException ''couldnt get jobs from ep'')
     else py_lift (res_bind (res_bind (jitem data ''data'') jiter) (\<lambda>as.
       res_collect as (\<lambda>a. jitem a ''allocation_id'')))))"

text \<open>What the loop decides about one machine: nothing, its destruction, or an exception.  The reason of a
  long-lasting machine is called like a function.\<close>

definition dangling_task :: "'w ec2_manager \<Rightarrow> json list \<Rightarrow> cloud_vm \<Rightarrow> json option res" where
  "dangling_task M active v =
     (if c_allocation_id v \<in> set active then Inr None
      else if truthy (long_lasting v) then Inl (Exn TypeErr ''not callable'')
      else case map_of (c_tags v) ''cloudvisor_id'' of
        None \<Rightarrow> Inl (Exn KeyErr ''cloudvisor_id'')
      | Some creator \<Rightarrow>
          if creator = JStr (w_id (wrapper M)) then Inr (Some (c_name v))
          else (case creator of
              JStr c \<Rightarrow> Inr (if main_cloudvisor (w_id (wrapper M)) \<noteq> main_cloudvisor c then None else Some (c_name v))
            | _ \<Rightarrow> Inl (Exn TypeErr ''expected string or bytes-like object'')))"

definition cloud_clean_vms :: "'w world_ops \<Rightarrow> 'w ec2_manager \<Rightarrow> string \<Rightarrow> ('w cloud, unit) py" where
  "cloud_clean_vms H M provisioner_ep =
     py_bind (cloud_active_ids H provisioner_ep) (\<lambda>active.
     py_bind (list_active_vms M) (\<lambda>active_vms.
     py_bind (py_lift (res_collect active_vms (dangling_task M active))) (\<lambda>tasks.
       py_gather_first (map (\<lambda>t. destroy_instance M (the t)) (filter (\<lambda>t. t \<noteq> None) tasks)))))"

definition clean_dangling_security_groups :: "'w ec2_manager \<Rightarrow> ('w cloud, unit) py" where
  "clean_dangling_security_groups M = delete_dangling_security_groups_async M"

text \<open>A number of rounds of the endless loop.\<close>

fun clean_periodically :: "'w world_ops \<Rightarrow> 'w ec2_manager \<Rightarrow> string \<Rightarrow> nat \<Rightarrow> ('w cloud, unit) py" where
  "clean_periodically H M provisioner_ep 0 = py_return ()"
| "clean_periodically H M provisioner_ep (Suc i) =
     py_then (py_try (py_gather_first [cloud_clean_vms H M provisioner_ep, clean_dangling_security_groups M])
         (\<lambda>_. py_return ()))
     (py_then (py_modify (\<lambda>c. c\<lparr>aws := sleep H (60 * 15) (aws c)\<rparr>)) (clean_periodically H M provisioner_ep i))"

section \<open>The HTTP handlers\<close>

text \<open>One demand: the requirements that are popped, with their defaults.\<close>

definition cloud_vm_of :: "string \<Rightarrow> json \<Rightarrow> json \<Rightarrow> json \<Rightarrow> json \<Rightarrow> cloud_vm res" where
  "cloud_vm_of uuid client_ip allocation_id requestor reqs =
     res_bind (jobj reqs) (\<lambda>d.
     (let get = (\<lambda>k dflt. case map_of d k of Some x \<Rightarrow> x | None \<Rightarrow> dflt) in
     Inr \<lparr>c_name = JNull, c_memsize = JNum 0, c_base_image = get ''base_image'' (JStr ''automation_infra_1.0''),
       c_ifaces = [], c_uuid = uuid, c_allocation_id = allocation_id, c_requestor = requestor,
       c_num_gpus = get ''gpus'' (JStr ''1''), c_client_ip = client_ip, c_instance_type = get ''instance_type'' JNull,
       c_instance_id = JNull, c_state = JNull, c_tags = [], c_user = JStr ''ubuntu'', c_pem = JNull,
       c_arch = get ''arch'' (JStr ''x86_64'')\<rparr>))"

definition translate_to_vms :: "'w ec2_manager \<Rightarrow> json \<Rightarrow> ('w cloud, (string \<times> cloud_vm) list) py" where
  "translate_to_vms M request =
     py_bind (py_lift (res_bind (jitem request ''requestor'') (\<lambda>r. jitem r ''external_ip''))) (\<lambda>client_external_ip.
     py_bind (in_aws (e_uuid4 (ec2 (wrapper M)))) (\<lambda>fresh.
     py_bind (py_lift (jget request ''allocation_id'' (JStr fresh))) (\<lambda>allocation_id.
     py_bind (py_lift (res_bind (jitem request ''demands'') jobj)) (\<lambda>demands.
     py_bind (py_lift (jitem request ''requestor'')) (\<lambda>requestor.
     py_collect demands (\<lambda>(host, reqs).
       py_bind (in_aws (e_uuid4 (ec2 (wrapper M)))) (\<lambda>u.
       py_bind (py_lift (cloud_vm_of u client_external_ip allocation_id requestor reqs)) (\<lambda>v.
         py_return (host, v)))))))))"

definition cloud_check_fulfill :: "'w ec2_manager \<Rightarrow> json \<Rightarrow> ('w cloud, int \<times> json) py" where
  "cloud_check_fulfill M requirements =
     py_bind (translate_to_vms M requirements) (\<lambda>vm_requests.
     py_bind (py_collect vm_requests (\<lambda>(host, v). py_bind (check_allocate_instance v) (\<lambda>b. py_return (host, b)))) (\<lambda>possibles.
     py_return (if \<exists>p \<in> set possibles. snd p
       then (200, JObj [(''status'', JStr ''Success''), (''machines'', JList (map (JStr \<circ> fst) (filter snd possibles)))])
       else (406, JObj [(''status'', JStr ''Unable'')]))))"

definition cloud_fulfill :: "'w ec2_manager \<Rightarrow> json \<Rightarrow> ('w cloud, int \<times> json) py" where
  "cloud_fulfill M requirements =
     py_bind (translate_to_vms M requirements) (\<lambda>vm_requests.
     py_bind (gather_raise (map snd vm_requests) (allocate_instance M)) (\<lambda>allocated_machines.
     py_return (200, JObj [(''status'', JStr ''Success''),
       (''info'', JList (map (\<lambda>v. JObj (cloud_vm_dict v)) allocated_machines))])))"

definition cloud_destroy_vm :: "'w ec2_manager \<Rightarrow> string \<Rightarrow> ('w cloud, int \<times> json) py" where
  "cloud_destroy_vm M instance_id =
     py_then (destroy_instance M (JStr instance_id)) (py_return (200, JObj [(''status'', JStr ''Success'')]))"

text \<open>The constructor of the machine needs an architecture, which this handler does not pass.\<close>

definition cloud_allocate_vm :: "'w ec2_manager \<Rightarrow> json \<Rightarrow> ('w cloud, int \<times> json) py" where
  "cloud_allocate_vm M data =
     py_bind (py_lift (jobj data)) (\<lambda>_.
     py_bind (in_aws (e_uuid4 (ec2 (wrapper M)))) (\<lambda>_.
       py_raise (Exn TypeErr ''missing 1 required positional argument: arch'')))"

definition cloud_list_vms :: "'w ec2_manager \<Rightarrow> ('w cloud, int \<times> json) py" where
  "cloud_list_vms M =
     py_bind (list_vms M [] None) (\<lambda>is.
     py_return (200, JObj [(''status'', JStr ''Success''), (''vms'', JList (map (\<lambda>v. JObj (cloud_vm_dict v)) is))]))"

definition cloud_vm_status :: "'w ec2_manager \<Rightarrow> string \<Rightarrow> ('w cloud, int \<times> json) py" where
  "cloud_vm_status M instance_id =
     py_bind (describe_vms M (JStr instance_id)) (\<lambda>is. case is of
       [] \<Rightarrow> py_raise (Exn PlainException ''coroutine raised StopIteration'')
     | i # _ \<Rightarrow> py_return (200, JObj [(''info'', JObj (cloud_vm_dict i))]))"

text \<open>A dictionary comprehension over one key: the last machine of the allocation is left.\<close>

definition cloud_get_allocation :: "'w ec2_manager \<Rightarrow> string \<Rightarrow> ('w cloud, int \<times> json) py" where
  "cloud_get_allocation M allocation_id =
     py_bind (get_allocation M allocation_id) (\<lambda>is.
     py_return (200, JObj (dict_update [] (map (\<lambda>v. (''info'', JList [JObj (cloud_vm_dict v)])) is))))"

definition cloud_ping :: "('w cloud, int \<times> json) py" where
  "cloud_ping = py_return (200, JObj [(''status'', JStr ''pong'')])"

definition cloudvisor_http :: "'w ec2_manager \<Rightarrow> string \<Rightarrow> 'w cloud \<Rightarrow> http_request \<Rightarrow> http_result \<times> 'w cloud" where
  "cloudvisor_http M ep =
     rm_http ep (cloud_check_fulfill M) (cloud_fulfill M) (cloud_destroy_vm M) (cloud_get_allocation M)"

end
