(* ===== verification/Cloud_Correct.thy ===== *)
theory Cloud_Correct
  imports Cloud_Manager
begin

text \<open>
  The cloudvisor's cleaner and its allocations.  What is assumed of EC2 is stated on the parameter: the
  filters mean what they are documented to mean, a machine that is terminated is shown as shutting down.
\<close>

section \<open>What EC2 promises\<close>

definition filter_holds :: "ec2_instance \<Rightarrow> filter \<Rightarrow> bool" where
  "filter_holds i = (\<lambda>(name, values).
     if name = ''instance-state-name'' then JStr (inst_state i) \<in> set values
     else case strip_prefix ''tag:'' name of
       None \<Rightarrow> False
     | Some k \<Rightarrow> (case map_of (tags_dict (inst_tags i)) k of None \<Rightarrow> False | Some v \<Rightarrow> v \<in> set values))"

definition shut_down :: "string set \<Rightarrow> ec2_instance list \<Rightarrow> ec2_instance list" where
  "shut_down ids = map (\<lambda>i. if inst_id i \<in> ids then i\<lparr>inst_state := ''shutting-down''\<rparr> else i)"

definition ec2_account :: "'w ec2 \<Rightarrow> ('w \<Rightarrow> ec2_instance list) \<Rightarrow> bool" where
  "ec2_account E live \<longleftrightarrow>
     (\<forall>fs w. \<exists>w'. e_instances E fs None w = (Inr (filter (\<lambda>i. list_all (filter_holds i) fs) (live w)), w') \<and> live w' = live w)
     \<and> (\<forall>fs j w. j \<in> inst_id ` set (live w) \<longrightarrow> (\<exists>w'. e_instances E fs (Some [JStr j]) w =
           (Inr (filter (\<lambda>i. inst_id i = j \<and> list_all (filter_holds i) fs) (live w)), w') \<and> live w' = live w))
     \<and> (\<forall>j w. j \<in> inst_id ` set (live w) \<longrightarrow> (\<exists>w'. e_terminate E j w = (Inr (), w') \<and> live w' = shut_down {j} (live w)))
     \<and> (\<forall>w. \<exists>u w'. e_uuid4 E w = (Inr u, w') \<and> live w' = live w)"

lemma ec2_accountD:
  assumes "ec2_account E live"
  shows "\<exists>w'. e_instances E fs None w = (Inr (filter (\<lambda>i. list_all (filter_holds i) fs) (live w)), w') \<and> live w' = live w"
    and "j \<in> inst_id ` set (live w) \<Longrightarrow> \<exists>w'. e_instances E fs (Some [JStr j]) w =
           (Inr (filter (\<lambda>i. inst_id i = j \<and> list_all (filter_holds i) fs) (live w)), w') \<and> live w' = live w"
    and "j \<in> inst_id ` set (live w) \<Longrightarrow> \<exists>w'. e_terminate E j w = (Inr (), w') \<and> live w' = shut_down {j} (live w)"
    and "\<exists>u w'. e_uuid4 E w = (Inr u, w') \<and> live w' = live w"
proof -
  note E = assms [unfolded ec2_account_def]
  show "\<exists>w'. e_instances E fs None w = (Inr (filter (\<lambda>i. list_all (filter_holds i) fs) (live w)), w') \<and> live w' = live w"
    by (rule E [THEN conjunct1, rule_format])
  show "j \<in> inst_id ` set (live w) \<Longrightarrow> \<exists>w'. e_instances E fs (Some [JStr j]) w =
           (Inr (filter (\<lambda>i. inst_id i = j \<and> list_all (filter_holds i) fs) (live w)), w') \<and> live w' = live w"
    by (rule E [THEN conjunct2, THEN conjunct1, rule_format])
  show "j \<in> inst_id ` set (live w) \<Longrightarrow> \<exists>w'. e_terminate E j w = (Inr (), w') \<and> live w' = shut_down {j} (live w)"
    by (rule E [THEN conjunct2, THEN conjunct2, THEN conjunct1, rule_format])
  show "\<exists>u w'. e_uuid4 E w = (Inr u, w') \<and> live w' = live w"
    by (rule E [THEN conjunct2, THEN conjunct2, THEN conjunct2, rule_format])
qed

lemma in_aws_run: "m (aws c) = (r, w) \<Longrightarrow> in_aws m c = (r, c\<lparr>aws := w\<rparr>)"
  by (simp add: in_aws_def)

lemma filter_automation: "filter_holds i (''tag:purpose'', [JStr ''automation'']) \<longleftrightarrow> tagged_as_automation i"
  by (auto simp: filter_holds_def strip_prefix_def tagged_as_automation_def split: option.splits)

section \<open>The machines the cleaner looks at\<close>

definition is_active :: "ec2_instance \<Rightarrow> bool" where
  "is_active i \<longleftrightarrow> tagged_as_automation i \<and> inst_state i \<in> {''pending'', ''running'', ''stopping'', ''stopped''}"

lemma active_filters_hold: "list_all (filter_holds i) (automation_filters @ active_filters) \<longleftrightarrow> is_active i"
  by (simp add: automation_filters_def active_filters_def dict_to_filter_def filter_automation is_active_def)
    (auto simp: filter_holds_def)

lemma convert_run:
  assumes E: "ec2_account (ec2 (wrapper M)) live"
  shows "\<exists>c' vs. convert_to_vms M is c = (Inr vs, c') \<and> live (aws c') = live (aws c)
    \<and> list_all2 (\<lambda>i v. \<exists>u. v = from_aws_instance u i) is vs"
proof (induction "is" arbitrary: c)
  case Nil
  then show ?case by (simp add: convert_to_vms_def py_return_def)
next
  case (Cons i "is")
  obtain u w' where u: "e_uuid4 (ec2 (wrapper M)) (aws c) = (Inr u, w')" "live w' = live (aws c)"
    using ec2_accountD(4) [OF E] by blast
  obtain c' vs where "convert_to_vms M is (c\<lparr>aws := w'\<rparr>) = (Inr vs, c')" "live (aws c') = live w'"
    "list_all2 (\<lambda>i v. \<exists>u. v = from_aws_instance u i) is vs"
    using Cons.IH [of "c\<lparr>aws := w'\<rparr>"] by auto
  with u show ?case
    by (intro exI [of _ c'] exI [of _ "from_aws_instance u i # vs"])
      (auto simp: convert_to_vms_def py_bind_def py_return_def in_aws_def)
qed

lemma list_active_run:
  assumes E: "ec2_account (ec2 (wrapper M)) live"
  shows "\<exists>c' vs. list_active_vms M c = (Inr vs, c') \<and> live (aws c') = live (aws c)
    \<and> list_all2 (\<lambda>i v. \<exists>u. v = from_aws_instance u i) (filter is_active (live (aws c))) vs"
proof -
  obtain w' where w': "e_instances (ec2 (wrapper M)) (automation_filters @ active_filters) None (aws c)
      = (Inr (filter is_active (live (aws c))), w')" "live w' = live (aws c)"
    using ec2_accountD(1) [OF E, of "automation_filters @ active_filters" "aws c"]
    unfolding active_filters_hold by blast
  obtain c' vs where "convert_to_vms M (filter is_active (live (aws c))) (c\<lparr>aws := w'\<rparr>) = (Inr vs, c')"
    "live (aws c') = live w'" "list_all2 (\<lambda>i v. \<exists>u. v = from_aws_instance u i) (filter is_active (live (aws c))) vs"
    using convert_run [OF E, of "filter is_active (live (aws c))" "c\<lparr>aws := w'\<rparr>"] by auto
  with w' show ?thesis
    by (intro exI [of _ c'] exI [of _ vs])
      (simp add: list_active_vms_def py_bind_def in_aws_def list_active_def list_instances_def)
qed

section \<open>Terminating machines\<close>

lemma map_id_shut_down [simp]: "map inst_id (shut_down J is) = map inst_id is"
  by (simp add: shut_down_def)

lemma shut_down_ids [simp]: "inst_id ` set (shut_down J is) = inst_id ` set is"
  by (simp only: map_id_shut_down set_map [symmetric])

lemma shut_down_automation:
  "i \<in> set (shut_down J is) \<Longrightarrow> \<exists>k \<in> set is. inst_id k = inst_id i \<and> tagged_as_automation k = tagged_as_automation i"
  by (auto simp: shut_down_def tagged_as_automation_def)

lemma shut_down_again: "shut_down J (shut_down K is) = shut_down (J \<union> K) is"
  by (auto simp: shut_down_def)

lemma shut_down_none [simp]: "shut_down {} is = is"
  by (simp add: shut_down_def map_idI)

lemma shut_down_selected:
  assumes "distinct (map inst_id is)"
  shows "shut_down (inst_id ` set (filter P is)) is = map (\<lambda>i. if P i then i\<lparr>inst_state := ''shutting-down''\<rparr> else i) is"
proof -
  have "inst_id i \<in> inst_id ` set (filter P is) \<longleftrightarrow> P i" if "i \<in> set is" for i
  proof
    assume "inst_id i \<in> inst_id ` set (filter P is)"
    then obtain k where k: "k \<in> set is" "P k" "inst_id k = inst_id i" by auto
    from inj_onD [OF assms [unfolded distinct_map, THEN conjunct2] k(3) k(1) that] k(2) show "P i" by simp
  qed (use that in auto)
  then show ?thesis unfolding shut_down_def by (intro map_cong refl) simp
qed

lemma filter_only: "distinct (map f xs) \<Longrightarrow> x \<in> set xs \<Longrightarrow> filter (\<lambda>k. k = x) xs = [x]"
proof (induction xs)
  case Nil
  then show ?case by simp
next
  case (Cons y ys)
  show ?case
  proof (cases "y = x")
    case True
    with Cons.prems have "x \<notin> set ys" by auto
    with True show ?thesis by (auto simp: filter_empty_conv)
  next
    case False
    with Cons show ?thesis by simp
  qed
qed

lemma destroy_instance_run:
  assumes E: "ec2_account (ec2 (wrapper M)) live" and "distinct (map inst_id (live (aws c)))"
    and "i \<in> set (live (aws c))" and "tagged_as_automation i" and "j = inst_id i"
  shows "\<exists>c'. destroy_instance M (JStr j) c = (Inr (), c') \<and> live (aws c') = shut_down {j} (live (aws c))"
proof -
  have j: "j \<in> inst_id ` set (live (aws c))" using assms by simp
  have fs: "list_all (filter_holds k) automation_filters \<longleftrightarrow> tagged_as_automation k" for k
    by (simp add: automation_filters_def dict_to_filter_def filter_automation)
  have only: "filter (\<lambda>k. inst_id k = j \<and> list_all (filter_holds k) automation_filters) (live (aws c)) = [i]"
  proof -
    have "k = i" if "k \<in> set (live (aws c))" "inst_id k = j" for k
      using that assms(2,3,5) by (metis distinct_map inj_onD)
    then have "filter (\<lambda>k. inst_id k = j \<and> tagged_as_automation k) (live (aws c)) = filter (\<lambda>k. k = i) (live (aws c))"
      using assms(4,5) by (intro filter_cong refl) auto
    also have "\<dots> = [i]" by (rule filter_only [OF assms(2,3)])
    finally show ?thesis by (simp add: fs)
  qed
  obtain w1 where w1: "e_instances (ec2 (wrapper M)) automation_filters (Some [JStr j]) (aws c) = (Inr [i], w1)" "live w1 = live (aws c)"
    using ec2_accountD(2) [OF E j, of automation_filters] unfolding only by blast
  obtain w2 where w2: "e_terminate (ec2 (wrapper M)) j w1 = (Inr (), w2)" "live w2 = shut_down {j} (live w1)"
    using ec2_accountD(3) [OF E, of j w1] j w1(2) by auto
  from w1 w2 assms(4,5) show ?thesis
    by (intro exI [of _ "c\<lparr>aws := w2\<rparr>"])
      (simp add: destroy_instance_def in_aws_def ec2_destroy_def describe_def list_instances_def py_bind_def py_then_def py_return_def)
qed


lemma terminate_all_run:
  assumes E: "ec2_account (ec2 (wrapper M)) live" and "distinct (map inst_id (live (aws c)))"
    and "\<forall>j \<in> set js. \<exists>i \<in> set (live (aws c)). inst_id i = j \<and> tagged_as_automation i"
  shows "\<exists>c'. py_gather_first (map (\<lambda>j. destroy_instance M (JStr j)) js) c = (Inr (), c')
    \<and> live (aws c') = shut_down (set js) (live (aws c))"
  using assms(2,3)
proof (induction js arbitrary: c)
  case Nil
  then show ?case by (simp add: py_return_def)
next
  case (Cons j js)
  from Cons.prems(2) obtain i where i: "i \<in> set (live (aws c))" "j = inst_id i" "tagged_as_automation i" by auto
  obtain c1 where c1: "destroy_instance M (JStr j) c = (Inr (), c1)" "live (aws c1) = shut_down {j} (live (aws c))"
    using destroy_instance_run [OF E Cons.prems(1) i(1,3,2)] by blast
  have "\<exists>k \<in> set (live (aws c1)). inst_id k = j' \<and> tagged_as_automation k" if "j' \<in> set js" for j'
  proof -
    from that Cons.prems(2) obtain k where "k \<in> set (live (aws c))" "inst_id k = j'" "tagged_as_automation k" by auto
    then show ?thesis unfolding c1(2)
      by (intro bexI [of _ "if inst_id k \<in> {j} then k\<lparr>inst_state := ''shutting-down''\<rparr> else k"])
        (auto simp: shut_down_def tagged_as_automation_def)
  qed
  moreover have "distinct (map inst_id (live (aws c1)))" using Cons.prems(1) c1(2) by simp
  ultimately obtain c2 where c2: "py_gather_first (map (\<lambda>j. destroy_instance M (JStr j)) js) c1 = (Inr (), c2)"
    "live (aws c2) = shut_down (set js) (live (aws c1))"
    using Cons.IH [of c1] by blast
  have "live (aws c2) = shut_down (set (j # js)) (live (aws c))"
    unfolding c2(2) c1(2) shut_down_again by simp
  with c1(1) c2(1) show ?case by (intro exI [of _ c2]) simp
qed

section \<open>The cleaner's decision\<close>

text \<open>A machine whose allocation is not active any more; one that the cleaner can decide about, because it
  is not marked as long lasting and has a creator; and what the decision is.\<close>

definition dangling :: "json list \<Rightarrow> ec2_instance \<Rightarrow> bool" where
  "dangling active i \<longleftrightarrow> is_active i \<and> tag_or_none (tags_dict (inst_tags i)) ''allocation_id'' \<notin> set active"

definition marked_long_lasting :: "ec2_instance \<Rightarrow> bool" where
  "marked_long_lasting i \<longleftrightarrow>
     (case map_of (tags_dict (inst_tags i)) ''requestor:long_lasting'' of None \<Rightarrow> False | Some v \<Rightarrow> truthy v)"

definition creator_of :: "ec2_instance \<Rightarrow> string option" where
  "creator_of i = (case map_of (tags_dict (inst_tags i)) ''cloudvisor_id'' of Some (JStr c) \<Rightarrow> Some c | _ \<Rightarrow> None)"

definition responsible :: "string \<Rightarrow> string \<Rightarrow> bool" where
  "responsible own creator \<longleftrightarrow> creator = own \<or> main_cloudvisor own = main_cloudvisor creator"

lemma dangling_task_run:
  assumes v: "v = from_aws_instance u i" and "is_active i"
    and "dangling active i \<Longrightarrow> \<not> marked_long_lasting i \<and> creator_of i = Some (creator i)"
  shows "dangling_task M active v = Inr (if dangling active i \<and> responsible (w_id (wrapper M)) (creator i)
    then Some (JStr (inst_id i)) else None)"
proof (cases "dangling active i")
  case False
  with assms(2) have "c_allocation_id v \<in> set active" by (simp add: v from_aws_instance_def dangling_def Let_def)
  with False show ?thesis by (simp add: dangling_task_def)
next
  case True
  with assms(3) have "\<not> truthy (long_lasting v)" "map_of (c_tags v) ''cloudvisor_id'' = Some (JStr (creator i))"
    by (auto simp: v from_aws_instance_def Let_def long_lasting_def marked_long_lasting_def creator_of_def
        split: option.splits json.splits)
  moreover from True have "c_allocation_id v \<notin> set active" "c_name v = JStr (inst_id i)"
    by (simp_all add: v from_aws_instance_def dangling_def Let_def)
  ultimately show ?thesis using True by (auto simp: dangling_task_def responsible_def)
qed

lemma res_collect_Inr:
  "list_all2 (\<lambda>x v. f v = Inr (g x)) xs vs \<Longrightarrow> res_collect vs f = Inr (map g xs)"
  by (induction rule: list_all2_induct) auto

lemma res_collect_fails:
  "list_all2 (\<lambda>x v. f v = (if P x then Inl e else Inr (g x))) xs vs \<Longrightarrow> \<exists>x \<in> set xs. P x \<Longrightarrow> res_collect vs f = Inl e"
proof (induction rule: list_all2_induct)
  case Nil
  then show ?case by simp
next
  case (Cons x xs v vs)
  then show ?case by (cases "P x") simp_all
qed

lemma long_lasting_task_run:
  assumes v: "v = from_aws_instance u i" and "is_active i"
    and "dangling active i \<Longrightarrow> \<not> marked_long_lasting i \<Longrightarrow> creator_of i = Some (creator i)"
  shows "dangling_task M active v = (if dangling active i \<and> marked_long_lasting i then Inl (Exn TypeErr ''not callable'')
    else Inr (if dangling active i \<and> responsible (w_id (wrapper M)) (creator i) then Some (JStr (inst_id i)) else None))"
proof (cases "dangling active i \<and> marked_long_lasting i")
  case True
  then have "truthy (long_lasting v)" "c_allocation_id v \<notin> set active"
    by (auto simp: v from_aws_instance_def Let_def long_lasting_def marked_long_lasting_def dangling_def split: option.splits)
  with True show ?thesis by (simp add: dangling_task_def)
next
  case False
  with dangling_task_run [of v u i active creator M] assms show ?thesis by auto
qed

section \<open>A pass of the cleaner\<close>

text \<open>The allocate service answers with the identifiers of its jobs, and asking it starts no machine.\<close>

definition jobs_are :: "'w world_ops \<Rightarrow> ('w \<Rightarrow> ec2_instance list) \<Rightarrow> string \<Rightarrow> json list \<Rightarrow> 'w \<Rightarrow> bool" where
  "jobs_are H live ep active w \<longleftrightarrow> (\<exists>jobs w'. http H w \<lparr>req_verb = GET, req_url = ''http://'' @ ep @ ''/api/jobs'', req_body = JNull\<rparr>
       = (HReply 200 (JObj [(''status'', JNum 200), (''data'', JList jobs)]), w')
     \<and> res_collect jobs (\<lambda>a. jitem a ''allocation_id'') = Inr active \<and> live w' = live w)"

lemma pass_starts:
  assumes E: "ec2_account (ec2 (wrapper M)) live" and H: "jobs_are H live ep active (aws c)"
  shows "\<exists>c' vs. live (aws c') = live (aws c) \<and> list_all2 (\<lambda>i v. \<exists>u. v = from_aws_instance u i) (filter is_active (live (aws c))) vs
    \<and> cloud_clean_vms H M ep c = py_bind (py_lift (res_collect vs (dangling_task M active))) (\<lambda>tasks.
       py_gather_first (map (\<lambda>t. destroy_instance M (the t)) (filter (\<lambda>t. t \<noteq> None) tasks))) c'"
proof -
  from H obtain jobs w' where h: "http H (aws c) \<lparr>req_verb = GET, req_url = ''http://'' @ ep @ ''/api/jobs'', req_body = JNull\<rparr>
       = (HReply 200 (JObj [(''status'', JNum 200), (''data'', JList jobs)]), w')"
     "res_collect jobs (\<lambda>a. jitem a ''allocation_id'') = Inr active" "live w' = live (aws c)"
    unfolding jobs_are_def by blast
  have "cloud_active_ids H ep c = (Inr active, c\<lparr>aws := w'\<rparr>)"
    using h(1,2) by (simp add: cloud_active_ids_def in_aws_def py_bind_def py_lift_def res_bind_def)
  moreover obtain c' vs where "list_active_vms M (c\<lparr>aws := w'\<rparr>) = (Inr vs, c')" "live (aws c') = live w'"
    "list_all2 (\<lambda>i v. \<exists>u. v = from_aws_instance u i) (filter is_active (live w')) vs"
    using list_active_run [OF E, of "c\<lparr>aws := w'\<rparr>"] by auto
  ultimately show ?thesis using h(3)
    by (intro exI [of _ c'] exI [of _ vs]) (simp add: cloud_clean_vms_def py_bind_def)
qed

end
