(* ===== verification/Cloud_Contract.thy ===== *)
theory Cloud_Contract
  imports Rm_Contract Cloud_Correct
begin

text \<open>
  The cloudvisor lends the automation machines of an EC2 account: its HTTP interface meets the contract
  \<open>machine_lender\<close>, with the machines of the account as the view, and giving a machine back is shutting
  it down.
\<close>

definition lent_instance :: "ec2_instance list \<Rightarrow> string \<Rightarrow> bool" where
  "lent_instance L k \<longleftrightarrow> (\<exists>i \<in> set L. inst_id i = k \<and> tagged_as_automation i)"

definition distinct_machines :: "('w \<Rightarrow> ec2_instance list) \<Rightarrow> 'w cloud \<Rightarrow> bool" where
  "distinct_machines live c \<longleftrightarrow> distinct (map inst_id (live (aws c)))"

lemma lent_instance_shut_down: "lent_instance L k \<Longrightarrow> lent_instance (shut_down J L) k"
  unfolding lent_instance_def shut_down_def set_map bex_simps
  by (elim bexE) (rule bexI, auto simp: tagged_as_automation_def)

lemma fold_shut_down: "fold (\<lambda>k. shut_down {k}) ks L = shut_down (set ks) L"
  by (induction ks arbitrary: L) (simp_all add: shut_down_again)

theorem cloudvisor_contract:
  assumes E: "ec2_account (ec2 (wrapper M)) live"
  shows "machine_lender (cloudvisor_http M ep) ep (distinct_machines live) (\<lambda>c. live (aws c)) (\<lambda>k. shut_down {k}) lent_instance"
proof
  fix c k
  assume ok: "distinct_machines live c" and k: "url_segment k" and l: "lent_instance (live (aws c)) k"
  let ?rq = "\<lparr>req_verb = DELETE, req_url = deallocate_url ep k, req_body = JNull\<rparr>"
  from l obtain i where i: "i \<in> set (live (aws c))" "tagged_as_automation i" "k = inst_id i"
    by (auto simp: lent_instance_def)
  obtain c' where c': "destroy_instance M (JStr k) c = (Inr (), c')" "live (aws c') = shut_down {k} (live (aws c))"
    using destroy_instance_run [OF E ok [unfolded distinct_machines_def] i] by blast
  then have "cloudvisor_http M ep c ?rq = (HReply 200 (JObj [(''status'', JStr ''Success'')]), c')"
    using k by (simp add: cloudvisor_http_def serve_def cloud_destroy_vm_def py_then_def py_bind_def py_return_def)
  with c'(2) ok show "\<exists>res c'. cloudvisor_http M ep c ?rq = (HReply 200 res, c') \<and> distinct_machines live c'
      \<and> live (aws c') = shut_down {k} (live (aws c))"
    by (auto simp: distinct_machines_def)
qed (rule lent_instance_shut_down)

end
