(* ===== verification/Cloud_Properties.thy ===== *)
theory Cloud_Properties
  imports Cloud_Contract
begin

text \<open>
  The properties of the cloudvisor, with witnesses on an account of two machines.
\<close>

section \<open>A small account\<close>

record account =
  machines :: "ec2_instance list"
  groups :: "sec_group list"

definition account_ec2 :: "account ec2" where
  "account_ec2 = \<lparr>
     e_instances = (\<lambda>fs ids w. (case ids of
         None \<Rightarrow> Inr (filter (\<lambda>i. list_all (filter_holds i) fs) (machines w))
       | Some js \<Rightarrow> if set js \<subseteq> (JStr \<circ> inst_id) ` set (machines w)
           then Inr (filter (\<lambda>i. JStr (inst_id i) \<in> set js \<and> list_all (filter_holds i) fs) (machines w))
           else Inl (Exn ClientErr ''InvalidInstanceID.NotFound''), w)),
     e_images = (\<lambda>fs. py_return [JStr ''ami'']),
     e_groups = (\<lambda>fs. py_return [\<lparr>sg_id = ''sg'', sg_tags = []\<rparr>]),
     e_create_group = (\<lambda>d n v t. py_return \<lparr>sg_id = ''sg'', sg_tags = t\<rparr>),
     e_authorize = (\<lambda>g rs. py_return ()), e_reload_group = (\<lambda>g. py_return ()),
     e_group_subresources = (\<lambda>g. py_return []), e_delete_group = (\<lambda>g. py_return ()),
     e_create_instances = (\<lambda>l w. let i = \<lparr>inst_id = ''i-'' @ dec (length (machines w)), inst_image = l_image l,
          inst_type = l_type l, inst_arch = JStr ''x86_64'', inst_state = ''running'', inst_public_ip = JStr ''1.2.3.4'',
          inst_tags = l_tags l\<rparr> in (Inr [i], w\<lparr>machines := machines w @ [i]\<rparr>)),
     e_wait_until_exists = (\<lambda>i. py_return ()), e_wait_until_running = (\<lambda>i. py_return ()), e_reload = py_return,
     e_terminate = (\<lambda>j w. (Inr (), w\<lparr>machines := shut_down {j} (machines w)\<rparr>)),
     e_key_pairs = (\<lambda>k. py_return [k]), e_vpcs = (\<lambda>v. py_return [v]), e_subnets = (\<lambda>fs. py_return []),
     e_time = py_return 0, e_time_str = py_return ''0.0'', e_stamp = py_return ''2020_01_01__0000'',
     e_uuid4 = py_return ''u'', e_read_file = (\<lambda>f. py_return ''pem''),
     float_of = (\<lambda>v. Inr 0), set_order = (\<lambda>ts. ts)\<rparr>"

definition dev_manager :: "string \<Rightarrow> account ec2_manager" where
  "dev_manager own = \<lparr>wrapper = \<lparr>ec2 = account_ec2, w_id = own, vpc_id = ''vpc'', vpc_cidr = ''10.0.0.0/16'',
     key_name = ''key'', key_pem = ''pem''\<rparr>, subnet_ids = [''subnet'']\<rparr>"

lemma account_ok: "ec2_account account_ec2 machines"
  by (auto simp: ec2_account_def account_ec2_def py_return_def)

definition machine_of :: "string \<Rightarrow> string \<Rightarrow> tag list \<Rightarrow> ec2_instance" where
  "machine_of i alloc extra = \<lparr>inst_id = i, inst_image = JStr ''ami'', inst_type = JStr ''g4dn.2xlarge'',
     inst_arch = JStr ''x86_64'', inst_state = ''running'', inst_public_ip = JStr ''1.2.3.4'',
     inst_tags = [(''purpose'', JStr ''automation''), (''allocation_id'', JStr alloc)] @ extra\<rparr>"

definition jobs_api :: "account world_ops" where
  "jobs_api = \<lparr>http = (\<lambda>w rq. (HReply 200 (JObj [(''status'', JNum 200),
       (''data'', JList [JObj [(''allocation_id'', JStr ''a1'')]])]), w)),
     clock = (\<lambda>w. 0), uuid4 = (\<lambda>w. (''u'', w)), sleep = (\<lambda>d w. w)\<rparr>"

definition two_machines :: "tag list \<Rightarrow> account cloud" where
  "two_machines extra = \<lparr>aws = \<lparr>machines = [machine_of ''i-0'' ''a1'' [(''cloudvisor_id'', JStr ''bob-pc-cloudvisor'')],
     machine_of ''i-1'' ''a2'' ((''cloudvisor_id'', JStr ''bob-pc-cloudvisor'') # extra)], groups = []\<rparr>, turn = 0\<rparr>"

lemmas demo_account_defs = machine_of_def two_machines_def tags_dict_def

lemma jobs_api_ok: "jobs_are jobs_api machines ep [JStr ''a1''] w"
  by (auto simp: jobs_are_def jobs_api_def)

section \<open>The cleaner\<close>



text \<open>The reason of a long-lasting machine is a string that the cleaner calls: as long as one dangling
  machine is marked as long lasting, every pass fails before anything is terminated, and so no dangling
  machine of the account is ever shut down.\<close>

theorem long_lasting_machine_stops_cleaning:
  assumes E: "ec2_account (ec2 (wrapper M)) live" and H: "jobs_are H live ep active (aws c)"
    and creators: "\<forall>i \<in> set (live (aws c)). dangling active i \<longrightarrow> creator_of i \<noteq> None"
    and i: "i \<in> set (live (aws c))" "dangling active i" "marked_long_lasting i"
  shows "\<exists>c'. cloud_clean_vms H M ep c = (Inl (Exn TypeErr ''not callable''), c') \<and> live (aws c') = live (aws c)"
proof -
  let ?L = "live (aws c)" and ?bad = "\<lambda>i. dangling active i \<and> marked_long_lasting i"
  let ?g = "\<lambda>i. if dangling active i \<and> responsible (w_id (wrapper M)) (the (creator_of i))
    then Some (JStr (inst_id i)) else None"
  obtain c1 vs where same: "live (aws c1) = ?L"
    and vs: "list_all2 (\<lambda>i v. \<exists>u. v = from_aws_instance u i) (filter is_active ?L) vs"
    and run: "cloud_clean_vms H M ep c = py_bind (py_lift (res_collect vs (dangling_task M active))) (\<lambda>tasks.
       py_gather_first (map (\<lambda>t. destroy_instance M (the t)) (filter (\<lambda>t. t \<noteq> None) tasks))) c1"
    using pass_starts [OF E H] by blast
  have "list_all2 (\<lambda>i v. dangling_task M active v = (if ?bad i then Inl (Exn TypeErr ''not callable'') else Inr (?g i)))
      (filter is_active ?L) vs"
  proof (rule list.rel_mono_strong [OF vs])
    fix i v
    assume i: "i \<in> set (filter is_active ?L)" and "\<exists>u. v = from_aws_instance u i"
    then obtain u where v: "v = from_aws_instance u i" by blast
    show "dangling_task M active v = (if ?bad i then Inl (Exn TypeErr ''not callable'') else Inr (?g i))"
      by (rule long_lasting_task_run [OF v]) (use i creators in auto)
  qed
  moreover have "\<exists>i \<in> set (filter is_active ?L). ?bad i" using i by (auto simp: dangling_def)
  ultimately have tasks: "res_collect vs (dangling_task M active) = Inl (Exn TypeErr ''not callable'')"
    by (rule res_collect_fails)
  have "cloud_clean_vms H M ep c = (Inl (Exn TypeErr ''not callable''), c1)"
    unfolding run tasks py_bind_def py_lift_def prod.case sum.case by (rule refl)
  with same show ?thesis by blast
qed

theorem long_lasting_machine_stops_cleaning_witness:
  "\<exists>c'. cloud_clean_vms jobs_api (dev_manager ''bob-pc-cloudvisor'') ''allocator''
      (two_machines [(''requestor:long_lasting'', JStr ''demo'')]) = (Inl (Exn TypeErr ''not callable''), c')
    \<and> map inst_state (machines (aws c')) = [''running'', ''running'']"
proof -
  let ?own = "''bob-pc-cloudvisor''" and ?x = "[(''requestor:long_lasting'', JStr ''demo'')]"
  let ?i = "machine_of ''i-1'' ''a2'' ((''cloudvisor_id'', JStr ''bob-pc-cloudvisor'') # ?x)"
  have E: "ec2_account (ec2 (wrapper (dev_manager ?own))) machines" by (simp add: dev_manager_def account_ok)
  have creators: "\<forall>i \<in> set (machines (aws (two_machines ?x))). dangling [JStr ''a1''] i \<longrightarrow> creator_of i \<noteq> None"
    by (simp add: demo_account_defs creator_of_def)
  have i: "?i \<in> set (machines (aws (two_machines ?x)))" "dangling [JStr ''a1''] ?i" "marked_long_lasting ?i"
    by (simp_all add: two_machines_def)
      (simp_all add: dangling_def is_active_def tagged_as_automation_def tag_or_none_def marked_long_lasting_def demo_account_defs)
  from long_lasting_machine_stops_cleaning [OF E jobs_api_ok creators i, of "''allocator''"] show ?thesis
    by (auto simp: two_machines_def) (simp_all add: machine_of_def)
qed

section \<open>Allocations\<close>

lemma try_types_type: "try_types M v types c = (Inr (i, ty), c') \<Longrightarrow> ty \<in> set types"
  by (induction types arbitrary: c) (auto simp: py_defs split: prod.splits sum.splits if_splits)

text \<open>C29. A machine that is allocated for a demand without an explicit type has a type of the demanded
  architecture and number of GPUs, is held for the allocation of the demand, and carries the identifier
  and the address of the instance that runs.\<close>

theorem cloud_machine_fits:
  assumes "\<forall>ts. set (set_order (ec2 (wrapper M)) ts) = set ts" and "\<not> truthy (c_instance_type v)"
    and "allocate_instance M v c = (Inr v', c')"
  shows "\<exists>arch gpus ty ts us. c_arch v = JStr arch \<and> c_num_gpus v = JStr gpus \<and> c_instance_type v' = JStr ty
    \<and> map_of types_by_arch arch = Some ts \<and> map_of types_by_gpu_count gpus = Some us \<and> ty \<in> set ts \<and> ty \<in> set us
    \<and> c_allocation_id v' = c_allocation_id v \<and> c_name v' = c_instance_id v' \<and> c_name v' \<noteq> JNull"
proof -
  from assms(3) obtain subnet types created ty c1 c2 where
    types: "instance_types M (v\<lparr>c_ifaces := [[(''subnet'', JStr subnet)]]\<rparr>) = Inr types"
    and tried: "try_types M (v\<lparr>c_ifaces := [[(''subnet'', JStr subnet)]]\<rparr>) types c1 = (Inr (created, ty), c2)"
    and v': "c_instance_type v' = ty" "c_allocation_id v' = c_allocation_id v" "c_name v' = c_instance_id v'" "c_name v' \<noteq> JNull"
    by (auto simp: allocate_instance_def py_defs Let_def split: prod.splits sum.splits)
  from types assms(2) obtain arch gpus ts us where look: "c_arch v = JStr arch" "map_of types_by_arch arch = Some ts"
    "c_num_gpus v = JStr gpus" "map_of types_by_gpu_count gpus = Some us"
    and order: "types = map JStr (set_order (ec2 (wrapper M)) (filter (\<lambda>t. t \<in> set us) ts))"
    by (auto simp: instance_types_def key_lookup_def split: json.splits option.splits)
  from try_types_type [OF tried] order assms(1) obtain t where "ty = JStr t" "t \<in> set ts" "t \<in> set us" by auto
  with look v' show ?thesis by auto
qed


definition demo_vm :: cloud_vm where
  "demo_vm = \<lparr>c_name = JNull, c_memsize = JNum 0, c_base_image = JStr ''automation_infra_1.0'', c_ifaces = [], c_uuid = ''u'',
     c_allocation_id = JStr ''a3'', c_requestor = JObj [], c_num_gpus = JStr ''4'', c_client_ip = JStr ''9.9.9.9'',
     c_instance_type = JNull, c_instance_id = JNull, c_state = JNull, c_tags = [], c_user = JStr ''ubuntu'',
     c_pem = JNull, c_arch = JStr ''x86_64''\<rparr>"

theorem cloud_machine_fits_witness:
  "\<exists>v' c'. allocate_instance (dev_manager ''bob-pc-cloudvisor'') demo_vm (two_machines []) = (Inr v', c')
    \<and> c_instance_type v' = JStr ''g4dn.12xlarge''"
proof -
  let ?M = "dev_manager ''bob-pc-cloudvisor''"
  have "\<not> isl (fst (allocate_instance ?M demo_vm (two_machines [])))" by code_simp
  then obtain v' c' where run: "allocate_instance ?M demo_vm (two_machines []) = (Inr v', c')"
    by (cases "allocate_instance ?M demo_vm (two_machines [])") (auto simp: isl_def, metis sum.exhaust)
  have "\<forall>ts. set (set_order (ec2 (wrapper ?M)) ts) = set ts" by (simp add: dev_manager_def account_ec2_def)
  moreover have "\<not> truthy (c_instance_type demo_vm)" by (simp add: demo_vm_def)
  ultimately have "\<exists>arch gpus ty ts us. c_arch demo_vm = JStr arch \<and> c_num_gpus demo_vm = JStr gpus \<and> c_instance_type v' = JStr ty
    \<and> map_of types_by_arch arch = Some ts \<and> map_of types_by_gpu_count gpus = Some us \<and> ty \<in> set ts \<and> ty \<in> set us"
    using cloud_machine_fits [OF _ _ run] by blast
  then have "c_instance_type v' = JStr ''g4dn.12xlarge''" by (auto simp: demo_vm_def types_by_gpu_count_def)
  with run show ?thesis by blast
qed


section \<open>The allocate service and the cloudvisor\<close>

interpretation cloudvisor: machine_lender "cloudvisor_http (dev_manager own) ep" ep "distinct_machines machines"
    "\<lambda>c. machines (aws c)" "\<lambda>k. shut_down {k}" lent_instance for own ep
  by (rule cloudvisor_contract) (simp add: dev_manager_def account_ok)

text \<open>C31. Releasing an allocation of the cloudvisor at the allocate service shuts down exactly the
  instances its record names, removes the allocation and nothing else from the service's store; the
  other machines of the account keep running.  The instances must carry the automation tag; the ones
  that are already shutting down may be named again.\<close>

theorem release_ends_instances:
  assumes "redis_server R" and E: "ec2_account (ec2 (wrapper M)) live" and "http W = cloudvisor_http M ep"
    and ids: "distinct (map inst_id (live (aws (world n))))" and "entries R wf_entry n" and "k \<noteq> []"
    and "hget R (store n) ''allocations'' k = Some a"
    and "fld a ''hardware_details'' = Some (JList details)" and "names_at ep details ks"
    and mine: "\<forall>k \<in> set ks. \<exists>i \<in> set (live (aws (world n))). inst_id i = k \<and> tagged_as_automation i"
  shows "\<exists>n'. release R W (JStr k) n = (Inr (), n')
    \<and> live (aws (world n')) = map (\<lambda>i. if inst_id i \<in> set ks then i\<lparr>inst_state := ''shutting-down''\<rparr> else i) (live (aws (world n)))
    \<and> (\<forall>h k'. hget R (store n') h k' = (if h = ''allocations'' \<and> k' = k then None else hget R (store n) h k'))"
proof -
  have ok: "distinct_machines live (world n)" using ids by (simp add: distinct_machines_def)
  have l: "list_all (lent_instance (live (aws (world n)))) ks" using mine by (simp add: list_all_iff lent_instance_def)
  from machine_lender.release_gives_back [OF cloudvisor_contract [OF E] assms(1,3) ok assms(5-9) l] show ?thesis
    unfolding fold_shut_down by (auto simp: shut_down_def)
qed

definition cloud_world :: "account cloud world_ops" where
  "cloud_world = \<lparr>http = cloudvisor_http (dev_manager ''alice-pc-cloudvisor'') ''cv:8080'', clock = (\<lambda>c. 0),
     uuid4 = (\<lambda>c. (''u'', c)), sleep = (\<lambda>d c. c)\<rparr>"

definition cloud_record :: json where
  "cloud_record = JObj [(''allocation_id'', JStr ''a1''), (''status'', JStr ''success''), (''expiration'', JNum 60),
     (''hardware_details'', JList [JObj [(''vm_id'', JStr ''i-0''), (''resource_manager_ep'', JStr ''cv:8080'')]])]"

definition cloud_node :: "(mem, account cloud) node" where
  "cloud_node = \<lparr>store = \<lparr>hashes = [(''allocations'', [(''a1'', cloud_record)])], published = []\<rparr>,
     world = two_machines []\<rparr>"

theorem release_ends_instances_witness:
  "\<exists>n'. release mem_redis cloud_world (JStr ''a1'') cloud_node = (Inr (), n')
    \<and> map inst_state (machines (aws (world n'))) = [''shutting-down'', ''running'']
    \<and> hget mem_redis (store n') ''allocations'' ''a1'' = None"
proof -
  let ?M = "dev_manager ''alice-pc-cloudvisor''"
  have E: "ec2_account (ec2 (wrapper ?M)) machines" by (simp add: dev_manager_def account_ok)
  have W: "http cloud_world = cloudvisor_http ?M ''cv:8080''" by (simp add: cloud_world_def)
  have ids: "distinct (map inst_id (machines (aws (world cloud_node))))" by (simp add: cloud_node_def demo_account_defs)
  have wf: "entries mem_redis wf_entry cloud_node"
    by (auto simp: entries_mem wf_entry_def wf_allocation_def stored_statuses_def mem_run cloud_node_def cloud_record_def split: if_splits)
  have a: "hget mem_redis (store cloud_node) ''allocations'' ''a1'' = Some cloud_record" by (simp add: cloud_node_def mem_run)
  have d: "fld cloud_record ''hardware_details'' = Some (JList [JObj [(''vm_id'', JStr ''i-0''), (''resource_manager_ep'', JStr ''cv:8080'')]])"
    by (simp add: cloud_record_def)
  have ks: "names_at ''cv:8080'' [JObj [(''vm_id'', JStr ''i-0''), (''resource_manager_ep'', JStr ''cv:8080'')]] [''i-0'']"
    by (simp add: names_at_def url_segment_def)
  have mine: "\<forall>k \<in> set [''i-0'']. \<exists>i \<in> set (machines (aws (world cloud_node))). inst_id i = k \<and> tagged_as_automation i"
    by (simp add: cloud_node_def demo_account_defs tagged_as_automation_def)
  from release_ends_instances [OF mem_redis.redis_server_axioms E W ids wf _ a d ks mine]
  show ?thesis by (auto simp: cloud_node_def) (simp_all add: demo_account_defs)
qed

end
