(* ===== verification/Net_Tools.thy ===== *)
theory Net_Tools
  imports Vm_Manager
begin

text \<open>
  The network devices of the hypervisor's host (\<open>utils/net.py\<close>), the checks and the start-up sequence of
  \<open>hypervisor/__main__.py\<close>.  The answers of the netifaces library are a parameter: the addresses of a
  device, each with its network, as texts.
\<close>

section \<open>Devices\<close>

definition sh :: "'w sys \<Rightarrow> string \<Rightarrow> ('w, unit) py" where
  "sh S line = py_then (run_cmd S (Shell line)) (py_return ())"

definition device_exists :: "'w sys \<Rightarrow> string \<Rightarrow> ('w, bool) py" where
  "device_exists S device =
     py_try (py_then (sh S (''ip link show '' @ device)) (py_return True)) (\<lambda>_. py_return False)"

definition delete_net_device :: "'w sys \<Rightarrow> string \<Rightarrow> ('w, unit) py" where
  "delete_net_device S device = sh S (''ip link del '' @ device)"

definition add_macvlan_device :: "'w sys \<Rightarrow> string \<Rightarrow> string \<Rightarrow> ('w, unit) py" where
  "add_macvlan_device S link_dev macvlan_dev =
     sh S (''ip link add link '' @ link_dev @ '' '' @ macvlan_dev @ '' type macvlan mode bridge'')"

definition add_ip_to_device :: "'w sys \<Rightarrow> string \<Rightarrow> string \<Rightarrow> ('w, unit) py" where
  "add_ip_to_device S device ip_cidr = sh S (''ip address add '' @ ip_cidr @ '' dev '' @ device)"

definition start_device :: "'w sys \<Rightarrow> string \<Rightarrow> ('w, unit) py" where
  "start_device S device = sh S (''ip link set dev '' @ device @ '' up'')"

definition change_route_metric_for_device :: "'w sys \<Rightarrow> string \<Rightarrow> nat \<Rightarrow> ('w, unit) py" where
  "change_route_metric_for_device S device metric = sh S (''ifmetric '' @ device @ '' '' @ dec metric)"

definition add_route :: "'w sys \<Rightarrow> string \<Rightarrow> string \<Rightarrow> nat option \<Rightarrow> ('w, unit) py" where
  "add_route S network device metric =
     sh S (''ip route add '' @ network @ '' dev '' @ device
       @ (case metric of None \<Rightarrow> [] | Some m \<Rightarrow> '' metric '' @ dec m))"

definition delete_routes :: "'w sys \<Rightarrow> string \<Rightarrow> ('w, unit) py" where
  "delete_routes S device = sh S (''ip route flush dev '' @ device)"

text \<open>\<open>ip_interface(...).compressed\<close> and \<open>.network.compressed\<close> of each address of the device.\<close>

type_synonym ip_info = "string \<times> string"

definition device_info_of :: "(string \<Rightarrow> ('w, ip_info list option) py) \<Rightarrow> string \<Rightarrow> ('w, ip_info list) py" where
  "device_info_of addresses device_name =
     py_bind (addresses device_name) (\<lambda>infos. case infos of
       None \<Rightarrow> py_raise (Exn PlainException ''Not AF_INET info'') | Some is \<Rightarrow> py_return is)"

text \<open>The gateways of a host: address, device, and whether it is the default one.  Nothing uses this.\<close>

definition default_gateway :: "('w, (string \<times> string \<times> bool) list) py \<Rightarrow> string \<Rightarrow> ('w, string \<times> string \<times> bool) py" where
  "default_gateway inet_gateways device_name =
     py_bind inet_gateways (\<lambda>gateways.
     case filter (\<lambda>gw. fst (snd gw) = device_name \<and> snd (snd gw)) gateways of
       [] \<Rightarrow> py_raise (Exn IndexErr ''list index out of range'')
     | gw # _ \<Rightarrow> py_return gw)"

text \<open>A failure is logged and swallowed, and the device is removed again when it is there.\<close>

definition macvlan_steps :: "'w sys \<Rightarrow> string \<Rightarrow> ip_info \<Rightarrow> string \<Rightarrow> ('w, unit) py" where
  "macvlan_steps S eth_device ip_iface macvlan_device_name =
     py_then (add_macvlan_device S eth_device macvlan_device_name)
     (py_then (add_ip_to_device S macvlan_device_name (fst ip_iface))
     (py_then (start_device S macvlan_device_name)
     (py_then (delete_routes S macvlan_device_name)
     (py_then (change_route_metric_for_device S eth_device (100 + 1))
       (add_route S (snd ip_iface) macvlan_device_name (Some 100))))))"

definition macvlan_undo :: "'w sys \<Rightarrow> string \<Rightarrow> ('w, unit) py" where
  "macvlan_undo S macvlan_device_name =
     py_bind (device_exists S macvlan_device_name) (\<lambda>there.
     if \<not> there then py_return ()
     else py_try (py_then (delete_routes S macvlan_device_name) (delete_net_device S macvlan_device_name))
       (\<lambda>_. py_return ()))"

definition setup_macvlan :: "'w sys \<Rightarrow> string \<Rightarrow> ip_info \<Rightarrow> string \<Rightarrow> ('w, unit) py" where
  "setup_macvlan S eth_device ip_iface macvlan_device_name =
     py_try (macvlan_steps S eth_device ip_iface macvlan_device_name)
       (\<lambda>_. macvlan_undo S macvlan_device_name)"

section \<open>Start-up of the hypervisor\<close>

definition macvlan_dev_name :: string where
  "macvlan_dev_name = ''vm-macvlan''"

text \<open>A device that is left from an earlier run is deleted first; of several addresses the first is taken.\<close>

definition setup_macvlan_device ::
    "'w sys \<Rightarrow> (string \<Rightarrow> ('w, ip_info list option) py) \<Rightarrow> string \<Rightarrow> ('w, unit) py" where
  "setup_macvlan_device S addresses paravirt_device =
     py_bind (device_exists S macvlan_dev_name) (\<lambda>there.
     py_then (if there then py_then (delete_routes S macvlan_dev_name) (delete_net_device S macvlan_dev_name)
              else py_return ())
     (py_bind (device_info_of addresses paravirt_device) (\<lambda>ip_info. case ip_info of
        [] \<Rightarrow> py_raise (Exn IndexErr ''list index out of range'')
      | i # _ \<Rightarrow> setup_macvlan S paravirt_device i macvlan_dev_name)))"

definition check_kvm_ok :: "'w sys \<Rightarrow> ('w, unit) py" where
  "check_kvm_ok S = py_then (run_cmd S (Line ''kvm-ok'')) (py_return ())"

text \<open>The pipes are words for lsmod here: the lines are split, no shell sees them.  Raising a tuple is a
  \<open>TypeError\<close>.\<close>

definition verify_gpu_drivers_not_loaded :: "'w sys \<Rightarrow> ('w, unit) py" where
  "verify_gpu_drivers_not_loaded S =
     py_bind (run_cmd S (Line ''lsmod | grep nvidia'')) (\<lambda>nvidia_modules.
     py_bind (run_cmd S (Line ''lsmod | grep nouveau'')) (\<lambda>nouveau_modules.
     if nvidia_modules \<noteq> [] \<or> nouveau_modules \<noteq> [] then
       py_raise (Exn TypeErr ''exceptions must derive from BaseException'')
     else py_return ()))"

record arguments =
  a_config :: string
  a_paravirt :: string
  a_private :: string
  a_server :: string
  a_max_vms :: int
  a_sol_port :: int
  a_restore :: bool

definition jstrings :: "json \<Rightarrow> string list res" where
  "jstrings v = res_bind (jlist v) (\<lambda>xs. res_collect xs jkey)"

text \<open>The checks and set-up steps in their order, then the allocator with the configured resources, which
  takes over or deletes the machines that libvirt knows.\<close>

definition prepare_host ::
    "'w sys \<Rightarrow> (string \<Rightarrow> ('w, ip_info list option) py) \<Rightarrow> 'w virt \<Rightarrow> arguments \<Rightarrow> pci list \<Rightarrow> ('w, unit) py" where
  "prepare_host S addresses V a gpus =
     py_then (check_kvm_ok S)
     (py_then (setup_macvlan_device S addresses (a_paravirt a))
     (py_then (check_network_interface_up S (a_paravirt a))
     (py_then (check_libvirt_network_is_up V (a_private a))
     (py_then (vfio_bind_pci_devices S gpus)
       (nbd_initialize S)))))"

definition hypervisor_start ::
    "'w manager \<Rightarrow> ('w \<Rightarrow> int \<Rightarrow> bind_result) \<Rightarrow> (string \<Rightarrow> ('w, ip_info list option) py) \<Rightarrow> (string \<Rightarrow> json res) \<Rightarrow>
     arguments \<Rightarrow> 'w \<Rightarrow> 'w host res \<times> 'w" where
  "hypervisor_start G bind addresses yaml_load a =
     py_bind (load_config (sys G) yaml_load (a_config a)) (\<lambda>(gpus, macs).
     py_then (prepare_host (sys G) addresses (virt G) a gpus)
     (py_bind (py_lift (jstrings macs)) (\<lambda>macs. (\<lambda>w.
        let n = \<lparr>hyp = new_allocator macs gpus (a_server a) (a_max_vms a) (a_sol_port a) (a_paravirt a) (a_private a), env = w\<rparr>;
            M = manager_ops G bind
        in case (if a_restore a then restore_vms M n else delete_all_dangling_vms M n) of
          (Inl e, n') \<Rightarrow> (Inl e, env n') | (Inr _, n') \<Rightarrow> (Inr n', env n')))))"

end
