(* ===== verification/Config_Tools.thy ===== *)
theory Config_Tools
  imports Dhcp
begin

text \<open>
  The tool that writes the hypervisor's configuration (\<open>hypervisor/tools/config_hypervisor.py\<close>): random
  MAC addresses, identifiers and the file itself.  The random numbers are a parameter.
\<close>

section \<open>Hexadecimal numerals\<close>

definition hex_char :: "nat \<Rightarrow> char" where
  "hex_char n = ''0123456789abcdef'' ! n"

fun hex :: "nat \<Rightarrow> string" where
  "hex n = (if n < 16 then [hex_char n] else hex (n div 16) @ [hex_char (n mod 16)])"

declare hex.simps [simp del]

text \<open>\<open>"%02x" % n\<close>\<close>

definition hex2 :: "nat \<Rightarrow> string" where
  "hex2 n = (if n < 16 then ''0'' @ hex n else hex n)"

text \<open>\<open>int(s, 16)\<close> for a string of at most two characters: white space around it and a sign are allowed, no
  prefix and no underscore fits.\<close>

fun hex_digits :: "int \<Rightarrow> string \<Rightarrow> int option" where
  "hex_digits acc [] = Some acc"
| "hex_digits acc (c # cs) = (case hex_value c of None \<Rightarrow> None | Some d \<Rightarrow> hex_digits (16 * acc + int d) cs)"

definition int16 :: "string \<Rightarrow> int res" where
  "int16 s = (let t = strip s; neg = (t \<noteq> [] \<and> hd t = CHR ''-'');
       ds = (if t \<noteq> [] \<and> (hd t = CHR ''-'' \<or> hd t = CHR ''+'') then tl t else t)
     in case (if ds = [] then None else hex_digits 0 ds) of
       None \<Rightarrow> Inl (Exn ValueErr ''invalid literal for int() with base 16'')
     | Some i \<Rightarrow> Inr (if neg then - i else i))"

section \<open>Identifiers\<close>

definition random_uuid :: "('w, nat) py \<Rightarrow> ('w, nat list) py" where
  "random_uuid randint = py_collect [0..<16] (\<lambda>_. randint)"

text \<open>Four, two, two, two and six bytes with dashes between; the \<open>%\<close> operator wants exactly sixteen.\<close>

definition uuid_to_string :: "nat list \<Rightarrow> string res" where
  "uuid_to_string u =
     (if length u \<noteq> 16 then Inl (Exn TypeErr ''arguments of the format string'')
      else (let part = (\<lambda>i n. concat (map hex2 (take n (drop i u))))
        in Inr (join ''-'' [part 0 4, part 4 2, part 6 2, part 8 2, part 10 6])))"

definition uuid_from_string :: "string \<Rightarrow> int list res" where
  "uuid_from_string s =
     (let t = filter (\<lambda>c. c \<noteq> CHR ''-'') s in res_collect [0..<16] (\<lambda>i. int16 (take 2 (drop (2 * i) t))))"

section \<open>MAC addresses\<close>

definition ouis :: "(string \<times> nat list) list" where
  "ouis = [(''xen'', [0x00, 0x16, 0x3E]), (''qemu'', [0x52, 0x54, 0x00])]"

definition oui_of :: "string \<Rightarrow> nat list" where
  "oui_of ty = (case map_of ouis ty of Some o3 \<Rightarrow> o3 | None \<Rightarrow> [0x00, 0x16, 0x3E])"

definition mac_string :: "nat list \<Rightarrow> string" where
  "mac_string mac = join '':'' (map hex2 mac)"

definition random_mac :: "('w, nat) py \<Rightarrow> string \<Rightarrow> ('w, string) py" where
  "random_mac randint ty =
     py_bind (py_collect [0..<3] (\<lambda>_. randint)) (\<lambda>bytes. py_return (mac_string (oui_of ty @ bytes)))"

section \<open>The file\<close>

definition find_gpu_bus_addr :: "'w sys \<Rightarrow> ('w, string) py" where
  "find_gpu_bus_addr S = check_output S [''/bin/bash'', ''-c'',
     ''lspci -D | grep -i nvidia | grep -vi audio | awk '' @ [CHR 0x27] @ ''{print $1}'' @ [CHR 0x27]]"

text \<open>\<open>str.splitlines\<close> for the line ends of a command's output: no empty line at the end.\<close>

definition split_lines :: "string \<Rightarrow> string list" where
  "split_lines s = (let ls = split_on (\<lambda>c. c = CHR 0x0A) s in if last ls = [] then butlast ls else ls)"

text \<open>An existing file is never overwritten; the devices are left out when there are none.\<close>

definition write_config :: "'w sys \<Rightarrow> (string \<Rightarrow> ('w, unit) py) \<Rightarrow> ('w, nat) py \<Rightarrow> string \<Rightarrow> nat \<Rightarrow> ('w, unit) py" where
  "write_config S make_dirs randint config_dir max_vms =
     py_bind (find_gpu_bus_addr S) (\<lambda>out.
     (let lines = split_lines out;
          pcis = (if lines = [] then [] else [(''pcis'', JList (map (\<lambda>l. JObj [(''pci'', JStr l)]) lines))]) in
     py_bind (py_collect [0..<max_vms] (\<lambda>_. random_mac randint ''qemu'')) (\<lambda>macs.
     py_then (make_dirs config_dir)
     (py_bind (file_exists S (config_dir @ ''/hypervisor.yaml'')) (\<lambda>there.
      if there then py_return ()
      else write_file S (config_dir @ ''/hypervisor.yaml'')
        (yaml_dump S (JObj (pcis @ [(''macs'', JList (map JStr macs))]))))))))"

section \<open>Reading back what is printed\<close>

lemma nib_cases: "n < 16 \<Longrightarrow> n \<in> {0, 1, 2, 3, 4, 5, 6, 7, 8, 9, 10, 11, 12, 13, 14, 15 :: nat}"
  by (simp, presburger)

lemma nibbles: "b < 256 \<Longrightarrow> b div 16 < 16" "b mod 16 < (16 :: nat)"
  by (auto simp: less_mult_imp_div_less)

lemma hex_value_char: "n < 16 \<Longrightarrow> hex_value (hex_char n) = Some n"
  by (drule nib_cases) (auto simp: hex_char_def hex_value_def Let_def)

lemma hex_char_plain: "n < 16 \<Longrightarrow> hex_char n \<notin> {CHR '':'', CHR ''-'', CHR ''+''} \<and> \<not> is_space (hex_char n)"
  by (drule nib_cases) (auto simp: hex_char_def is_space_def)

lemma hex2_byte: "b < 256 \<Longrightarrow> hex2 b = [hex_char (b div 16), hex_char (b mod 16)]"
  by (auto simp: hex2_def hex.simps [of b] hex.simps [of "b div 16"] hex_char_def)

lemma unhex_bytes: "\<forall>b \<in> set bs. b < 256 \<Longrightarrow> unhex (concat (map hex2 bs)) = Inr bs"
  by (induction bs) (simp_all add: hex2_byte hex_value_char nibbles res_bind_def)

lemma filter_hex2: "b < 256 \<Longrightarrow> c \<in> {CHR '':'', CHR ''-''} \<Longrightarrow> filter (\<lambda>x. x \<noteq> c) (hex2 b) = hex2 b"
  using hex_char_plain [of "b div 16", OF nibbles(1)] hex_char_plain [of "b mod 16", OF nibbles(2)] by (auto simp: hex2_byte)

lemma filter_join: "\<forall>b \<in> set bs. b < 256 \<Longrightarrow>
    filter (\<lambda>c. c \<noteq> CHR '':'') (join '':'' (map hex2 bs)) = concat (map hex2 bs)"
proof (induction bs)
  case Nil
  then show ?case by simp
next
  case (Cons b bs)
  then show ?case by (cases bs) (simp_all add: filter_hex2)
qed

text \<open>The DHCP client reads the addresses the tool prints.\<close>

lemma mac_raw_mac_string: "\<forall>b \<in> set bs. b < 256 \<Longrightarrow> mac_raw (mac_string bs) = Inr bs"
  by (simp add: mac_raw_def mac_string_def filter_join unhex_bytes)

lemma filter_concat_hex2: "\<forall>b \<in> set bs. b < 256 \<Longrightarrow>
    filter (\<lambda>c. c \<noteq> CHR ''-'') (concat (map hex2 bs)) = concat (map hex2 bs)"
  by (induction bs) (simp_all add: filter_hex2)

lemma int16_hex2: "b < 256 \<Longrightarrow> int16 (hex2 b) = Inr (int b)"
proof -
  assume b: "b < 256"
  then have n: "b div 16 < 16" "b mod 16 < 16" by auto
  have "strip (hex2 b) = hex2 b"
    using hex_char_plain [OF n(1)] hex_char_plain [OF n(2)] by (simp add: hex2_byte [OF b] strip_def)
  moreover have "int b = 16 * (int b div 16) + int b mod 16" by simp
  ultimately show ?thesis
    using hex_char_plain [OF n(1)] hex_value_char [OF n(1)] hex_value_char [OF n(2)]
    by (simp add: int16_def hex2_byte [OF b] Let_def zdiv_int zmod_int)
qed

lemma take2_concat_hex2: "\<forall>b \<in> set bs. b < 256 \<Longrightarrow> i < length bs \<Longrightarrow>
    take 2 (drop (2 * i) (concat (map hex2 bs))) = hex2 (bs ! i)"
proof (induction bs arbitrary: i)
  case Nil
  then show ?case by simp
next
  case (Cons b bs)
  then show ?case by (cases i) (simp_all add: hex2_byte)
qed

lemma res_collect_all: "(\<And>x. x \<in> set xs \<Longrightarrow> f x = Inr (g x)) \<Longrightarrow> res_collect xs f = Inr (map g xs)"
  by (induction xs) simp_all

lemma uuid_parts:
  assumes "length u = 16"
  shows "take 4 u @ take 2 (drop 4 u) @ take 2 (drop 6 u) @ take 2 (drop 8 u) @ take 6 (drop 10 u) = u"
proof -
  have a: "take 4 u @ take 2 (drop 4 u) = take 6 u" using take_add [of 4 2 u] by simp
  have b: "take 6 u @ take 2 (drop 6 u) = take 8 u" using take_add [of 6 2 u] by simp
  have c: "take 8 u @ take 2 (drop 8 u) = take 10 u" using take_add [of 8 2 u] by simp
  have d: "take 10 u @ take 6 (drop 10 u) = u" using assms by simp
  show ?thesis by (simp only: append_assoc [symmetric] a b c d)
qed

lemma uuid_round_trip:
  assumes len: "length u = 16" and bytes: "\<forall>b \<in> set u. b < 256"
  shows "\<exists>s. uuid_to_string u = Inr s \<and> uuid_from_string s = Inr (map int u)"
proof -
  let ?p = "\<lambda>i n. concat (map hex2 (take n (drop i u)))"
  let ?s = "join ''-'' [?p 0 4, ?p 4 2, ?p 6 2, ?p 8 2, ?p 10 6]"
  have clean: "filter (\<lambda>c. c \<noteq> CHR ''-'') (?p i n) = ?p i n" for i n
    by (rule filter_concat_hex2) (use bytes in \<open>auto dest!: in_set_takeD in_set_dropD\<close>)
  have "filter (\<lambda>c. c \<noteq> CHR ''-'') ?s = ?p 0 4 @ ?p 4 2 @ ?p 6 2 @ ?p 8 2 @ ?p 10 6"
    using clean [of 4 0] by (simp add: clean)
  also have "\<dots> = concat (map hex2 u)"
    using uuid_parts [OF len] by (metis concat_append drop0 map_append)
  finally have "uuid_from_string ?s = res_collect [0..<16] (\<lambda>i. int16 (take 2 (drop (2 * i) (concat (map hex2 u)))))"
    by (simp add: uuid_from_string_def Let_def)
  also have "\<dots> = Inr (map (\<lambda>i. int (u ! i)) [0..<16])"
    by (rule res_collect_all) (use bytes len in \<open>simp add: take2_concat_hex2 int16_hex2\<close>)
  also have "map (\<lambda>i. int (u ! i)) [0..<16] = map int u"
    using len by (intro nth_equalityI) simp_all
  finally show ?thesis using len by (simp add: uuid_to_string_def Let_def)
qed

end
