(* ===== verification/Clients.thy ===== *)
theory Clients
  imports Provisioner_Rest Hardvisor
begin

text \<open>
  The clients of the services: the heartbeats of the resource managers (\<open>utils/heartbeat.py\<close>), the
  cleaners that are not part of a service (\<open>utils/cleaner.py\<close>, \<open>clean_dangling_vms.py\<close>), the command line
  tools (\<open>common/resource_manager_api.py\<close>, \<open>hypervisor_cli.py\<close>, \<open>cloudvisor/cloud_provisionr_cli.py\<close>),
  and what hardvisor does at its start (\<open>hardvisor/__main__.py\<close>).
\<close>

section \<open>Heartbeats\<close>

definition heartbeat_url :: "string \<Rightarrow> string" where
  "heartbeat_url ep = ''http://'' @ ep @ ''/api/resource_manager/heartbeat''"

definition int_of :: "rat \<Rightarrow> rat" where
  "int_of t = (if t < 0 then of_int \<lceil>t\<rceil> else of_int \<lfloor>t\<rfloor>)"

definition beat_info :: "rat \<Rightarrow> json dict \<Rightarrow> json dict" where
  "beat_info t rm_info = AList.update ''last_hb'' (JNum (int_of t)) rm_info"

text \<open>One heartbeat: whatever goes wrong is logged, a reply that is no success as well.  A client
  certificate changes the transport only.\<close>

definition send_heartbeat :: "'w world_ops \<Rightarrow> string \<Rightarrow> json dict \<Rightarrow> 'w \<Rightarrow> 'w" where
  "send_heartbeat W provisioner_ep info w =
     snd (http W w \<lparr>req_verb = PUT, req_url = heartbeat_url provisioner_ep, req_body = JObj info\<rparr>)"

text \<open>A number of rounds of the endless loop.\<close>

fun send_heartbeats :: "'w world_ops \<Rightarrow> string \<Rightarrow> nat \<Rightarrow> json dict \<Rightarrow> 'w \<Rightarrow> 'w" where
  "send_heartbeats W provisioner_ep 0 rm_info w = w"
| "send_heartbeats W provisioner_ep (Suc i) rm_info w =
     (let info = beat_info (clock W w) rm_info
      in send_heartbeats W provisioner_ep i info (sleep W 15 (send_heartbeat W provisioner_ep info w)))"

text \<open>The allocate service as the other side: its routes for heartbeats and jobs.\<close>

definition provisioner_http ::
    "'s redis_ops \<Rightarrow> string \<Rightarrow> ('s, 'w) node \<Rightarrow> http_request \<Rightarrow> http_result \<times> ('s, 'w) node" where
  "provisioner_http R ep n rq =
     (if req_verb rq = PUT \<and> req_url rq = heartbeat_url ep then serve (rm_heartbeat R (req_body rq)) n
      else if req_verb rq = GET \<and> req_url rq = ''http://'' @ ep @ ''/api/jobs'' then serve (alljobs R) n
      else (HReply 404 JNull, n))"

definition provisioner_world :: "'s redis_ops \<Rightarrow> 'w world_ops \<Rightarrow> string \<Rightarrow> ('s, 'w) node world_ops" where
  "provisioner_world R W ep =
     \<lparr>http = provisioner_http R ep, clock = (\<lambda>n. clock W (world n)),
      uuid4 = (\<lambda>n. case uuid4 W (world n) of (u, w) \<Rightarrow> (u, n\<lparr>world := w\<rparr>)),
      sleep = (\<lambda>d n. n\<lparr>world := sleep W d (world n)\<rparr>)\<rparr>"

section \<open>Cleaners outside the services\<close>

text \<open>A round of \<open>utils/cleaner.py\<close> over the allocator's dictionary of machines.  A failed status is only
  logged.  The loop runs over the names of the machines, which have no \<open>allocation_id\<close>: with any machine
  the round fails, and the next one begins without a pause.\<close>

definition utils_clean_round :: "'w world_ops \<Rightarrow> string \<Rightarrow> string list \<Rightarrow> ('w, unit) py" where
  "utils_clean_round W provisioner_ep vm_names =
     py_bind (\<lambda>w. case http W w \<lparr>req_verb = GET, req_url = ''http://'' @ provisioner_ep @ ''/api/jobs'', req_body = JNull\<rparr>
        of (r, w') \<Rightarrow> (case r of HReply st b \<Rightarrow> Inr b | HFail e \<Rightarrow> Inl e, w')) (\<lambda>j_resp.
     py_bind (py_lift (jitem j_resp ''status'')) (\<lambda>_.
     py_bind (py_lift (res_bind (res_bind (jitem j_resp ''data'') jiter) (\<lambda>as.
        res_collect as (\<lambda>a. jitem a ''allocation_id'')))) (\<lambda>_.
     if vm_names \<noteq> [] then py_raise (Exn AttributeErr ''allocation_id'')
     else py_modify (sleep W 60))))"

fun utils_clean_dangling_vms :: "'w world_ops \<Rightarrow> string \<Rightarrow> string list \<Rightarrow> nat \<Rightarrow> ('w, unit) py" where
  "utils_clean_dangling_vms W provisioner_ep vm_names 0 = py_return ()"
| "utils_clean_dangling_vms W provisioner_ep vm_names (Suc i) =
     py_then (py_try (utils_clean_round W provisioner_ep vm_names) (\<lambda>_. py_return ()))
       (utils_clean_dangling_vms W provisioner_ep vm_names i)"

text \<open>The synchronous readers, and the beginning of the script that uses them: the dictionary of resource
  managers is iterated by its keys, which are bytes and cannot be subscripted with a name.\<close>

definition resource_managers_sync :: "'s redis_ops \<Rightarrow> ('s, 'w, json dict) svc" where
  "resource_managers_sync R = r_hgetall R ''resource_managers''"

definition allocations_sync :: "'s redis_ops \<Rightarrow> ('s, 'w, json dict) svc" where
  "allocations_sync R = r_hgetall R ''allocations''"

definition clean_script_endpoints :: "'s redis_ops \<Rightarrow> ('s, 'w, json dict \<times> string list) svc" where
  "clean_script_endpoints R =
     py_bind (allocations_sync R) (\<lambda>redis_allocations.
     py_bind (resource_managers_sync R) (\<lambda>rms.
     if rms \<noteq> [] then py_raise (Exn TypeErr ''byte indices must be integers or slices, not str'')
     else py_return (redis_allocations, [])))"

section \<open>Requests of the command line tools\<close>

definition api_create :: "string \<Rightarrow> json \<Rightarrow> http_request" where
  "api_create rm data = \<lparr>req_verb = POST, req_url = ''http://'' @ rm @ ''/vms'', req_body = data\<rparr>"

definition api_delete :: "string \<Rightarrow> string \<Rightarrow> http_request" where
  "api_delete rm name = \<lparr>req_verb = DELETE, req_url = ''http://'' @ rm @ ''/vms/'' @ name, req_body = JNull\<rparr>"

definition api_list_images :: "string \<Rightarrow> http_request" where
  "api_list_images rm = \<lparr>req_verb = GET, req_url = ''http://'' @ rm @ ''/images'', req_body = JNull\<rparr>"

definition api_list_vms :: "string \<Rightarrow> http_request" where
  "api_list_vms rm = \<lparr>req_verb = GET, req_url = ''http://'' @ rm @ ''/vms'', req_body = JNull\<rparr>"

definition api_update_vm :: "string \<Rightarrow> string \<Rightarrow> json \<Rightarrow> http_request" where
  "api_update_vm rm name status =
     \<lparr>req_verb = POST, req_url = ''http://'' @ rm @ ''/vms/'' @ name @ ''/status'', req_body = status\<rparr>"

definition api_vm_info :: "string \<Rightarrow> string \<Rightarrow> http_request" where
  "api_vm_info rm name = \<lparr>req_verb = GET, req_url = ''http://'' @ rm @ ''/vms/'' @ name, req_body = JNull\<rparr>"

definition api_resources :: "string \<Rightarrow> http_request" where
  "api_resources rm = \<lparr>req_verb = GET, req_url = ''http://'' @ rm @ ''/resources'', req_body = JNull\<rparr>"

record cli_args =
  cli_allocator :: string
  cli_name :: string
  cli_image :: string
  cli_size :: json
  cli_ram :: int
  cli_ssd :: "int option"
  cli_hdd :: "int option"
  cli_cpus :: int
  cli_networks :: "string list"
  cli_gpus :: int

definition cli_disk :: "int option \<Rightarrow> string \<Rightarrow> string \<Rightarrow> json list" where
  "cli_disk gb ty mount = (case gb of None \<Rightarrow> [] | Some i \<Rightarrow>
     if i = 0 then [] else [JObj [(''size'', JNum (of_int i)), (''type'', JStr ty), (''mount'', JStr mount), (''fs'', JStr ''xfs'')]])"

definition do_create :: "cli_args \<Rightarrow> http_request" where
  "do_create a = api_create (cli_allocator a) (JObj
     [(''base_image'', JStr (cli_image a)), (''base_image_size'', cli_size a), (''ram'', JNum (of_int (cli_ram a))),
      (''num_cpus'', JNum (of_int (cli_cpus a))), (''networks'', JList (map JStr (cli_networks a))),
      (''num_gpus'', JNum (of_int (cli_gpus a))),
      (''disks'', JList (cli_disk (cli_ssd a) ''ssd'' ''/ssd'' @ cli_disk (cli_hdd a) ''hdd'' ''/storage''))])"

text \<open>The last two commands are functions without parameters that are called with one.\<close>

definition cli_command :: "string \<Rightarrow> cli_args \<Rightarrow> http_request res" where
  "cli_command c a =
     (if c = ''create'' then Inr (do_create a)
      else if c = ''delete'' then Inr (api_delete (cli_allocator a) (cli_name a))
      else if c = ''images'' then Inr (api_list_images (cli_allocator a))
      else if c = ''list'' then Inr (api_list_vms (cli_allocator a))
      else if c = ''poweroff'' then Inr (api_update_vm (cli_allocator a) (cli_name a) (JObj [(''power'', JStr ''off'')]))
      else if c = ''poweron'' then Inr (api_update_vm (cli_allocator a) (cli_name a) (JObj [(''power'', JStr ''on'')]))
      else if c = ''info'' \<or> c = ''resources'' then Inl (Exn TypeErr ''takes 0 positional arguments but 1 was given'')
      else Inl (Exn KeyErr c))"

record cloud_cli_args =
  cc_allocator :: string
  cc_os_type :: string
  cc_customer :: string
  cc_provider :: string
  cc_region :: string
  cc_instance_type :: string
  cc_ssd :: int
  cc_storage :: int

definition do_provision :: "cloud_cli_args \<Rightarrow> http_request" where
  "do_provision a = \<lparr>req_verb = POST, req_url = ''http://'' @ cc_allocator a @ ''/provision'', req_body = JObj
     [(''os_type'', JStr (cc_os_type a)), (''customer_name'', JStr (cc_customer a)), (''provider'', JStr (cc_provider a)),
      (''region'', JStr (cc_region a)), (''instance_type'', JStr (cc_instance_type a)),
      (''ssd_ebs_size'', JNum (of_int (cc_ssd a))), (''storage_ebs_size'', JNum (of_int (cc_storage a)))]\<rparr>"

definition do_destroy :: "cloud_cli_args \<Rightarrow> http_request" where
  "do_destroy a = \<lparr>req_verb = POST, req_url = ''http://'' @ cc_allocator a @ ''/destroy'', req_body = JObj
     [(''region'', JStr (cc_region a)), (''customer_name'', JStr (cc_customer a))]\<rparr>"

definition do_list_instances :: "cloud_cli_args \<Rightarrow> http_request" where
  "do_list_instances a = \<lparr>req_verb = GET, req_url = ''http://'' @ cc_allocator a @ ''/instances'', req_body = JObj
     [(''region'', JStr (cc_region a)), (''customer_name'', JStr (cc_customer a))]\<rparr>"

section \<open>Hardvisor's start\<close>

definition load_machines_config :: "'s redis_ops \<Rightarrow> json res \<Rightarrow> ('s, 'w, unit) svc" where
  "load_machines_config R config = py_bind (py_lift (res_bind config jobj)) (update_machines R)"

text \<open>The keys of the application: the certificate and its key are there only when they were given, and
  the start of the daemons reads both.\<close>

definition hardvisor_app :: "json dict \<Rightarrow> string \<Rightarrow> string option \<Rightarrow> string option \<Rightarrow> json dict" where
  "hardvisor_app info provisioner ssl_key ssl_cert =
     [(''info'', JObj info), (''provisioner'', JStr provisioner)]
     @ (case ssl_key of None \<Rightarrow> [] | Some k \<Rightarrow> if k = [] then [] else [(''ssl_key'', JStr k)])
     @ (case ssl_cert of None \<Rightarrow> [] | Some c \<Rightarrow> if c = [] then [] else [(''ssl_cert'', JStr c)])"

definition hardvisor_start_daemons :: "json dict \<Rightarrow> (json \<times> json \<times> json \<times> json) res" where
  "hardvisor_start_daemons app =
     res_bind (jitem (JObj app) ''info'') (\<lambda>info.
     res_bind (jitem (JObj app) ''provisioner'') (\<lambda>provisioner.
     res_bind (jitem (JObj app) ''ssl_cert'') (\<lambda>cert.
     res_bind (jitem (JObj app) ''ssl_key'') (\<lambda>key. Inr (info, provisioner, cert, key)))))"

text \<open>Running a command on a machine: a shell on the own host is given the ssh command line; \<open>reboot\<close> makes the
  coroutine of its command and does not await it, so nothing runs.\<close>

definition remote_run :: "(string \<Rightarrow> ('w, int \<times> string \<times> string) py) \<Rightarrow> json dict \<Rightarrow> string \<Rightarrow> ('w, int \<times> string \<times> string) py" where
  "remote_run subprocess_shell d cmd = py_bind (py_lift (remote_cmd d cmd)) subprocess_shell"

definition remote_reboot :: "(string \<Rightarrow> ('w, int \<times> string \<times> string) py) \<Rightarrow> json dict \<Rightarrow> ('w, unit) py" where
  "remote_reboot subprocess_shell d = py_return ()"

text \<open>The reset of a machine's k3s between two reboots, which nothing calls.\<close>

definition k3s_commands :: "string list" where
  "k3s_commands =
     [''systemctl disable k3s k3s-agent --now'',
      ''rm -rf /var/lib/rancher/k3s/server/*'',
      ''curl -sfL https://get.k3s.io | sh -s - --cluster-reset --cluster-reset-restore-path=<path_to_snap> --cluster-init'',
      ''journalctl SYSLOG_IDENTIFIER=k3s --since '' @ [CHR 0x27] @ ''1 min ago'' @ [CHR 0x27]
        @ '' | grep '' @ [CHR 0x27] @ ''restart without --cluster-reset'' @ [CHR 0x27],
      ''systemctl disable --now k3s'']"

definition k3s_clean :: "(string \<Rightarrow> ('w, int \<times> string \<times> string) py) \<Rightarrow> json dict \<Rightarrow> ('w, unit) py" where
  "k3s_clean subprocess_shell d = py_for k3s_commands (\<lambda>cmd. py_then (remote_run subprocess_shell d cmd) (py_return ()))"

definition manager_clean :: "(string \<Rightarrow> ('w, int \<times> string \<times> string) py) \<Rightarrow> json dict \<Rightarrow> ('w, unit) py" where
  "manager_clean subprocess_shell d =
     py_then (remote_reboot subprocess_shell d) (py_then (k3s_clean subprocess_shell d) (remote_reboot subprocess_shell d))"

section \<open>Registration\<close>

lemma heartbeat_registers:
  assumes "redis_server R" and "map_of info ''alias'' = Some (JStr k)"
  shows "store (send_heartbeat (provisioner_world R W ep) ep (beat_info t info) n)
    = hset R (store n) ''resource_managers'' k (JObj (beat_info t info))"
  using assms(2)
  by (simp add: send_heartbeat_def provisioner_world_def provisioner_http_def serve_def rm_heartbeat_def beat_info_def py_defs)

end
