(* ===== verification/Tools_Properties.thy ===== *)
theory Tools_Properties
  imports Net_Tools Config_Tools Clients Host_Correct
begin

text \<open>
  The properties of what surrounds the services: the heartbeats that register the resource managers, the
  network device the hypervisor sets up at its start, the identifiers its configuration tool prints.
\<close>

section \<open>Registration by heartbeats\<close>

text \<open>C32. A heartbeat registers a resource manager at the allocate service, whatever happened to its
  registration before: afterwards the service has the information the manager sent, stamped with the
  time, under its alias, and every other registration and every allocation is as it was.\<close>

theorem heartbeat_registers_manager:
  assumes "redis_server R" and "map_of info ''alias'' = Some (JStr k)"
  shows "hget R (store (send_heartbeats (provisioner_world R W ep) ep 1 info n)) h k' =
    (if h = ''resource_managers'' \<and> k' = k
     then Some (JObj (AList.update ''last_hb'' (JNum (int_of (clock W (world n)))) info))
     else hget R (store n) h k')"
  using heartbeat_registers [OF assms, of W ep "clock W (world n)" n] redis_server.hget_hset [OF assms(1)]
  by (simp add: Let_def beat_info_def provisioner_world_def)

theorem heartbeat_registers_manager_witness:
  "hget mem_redis (store (send_heartbeats (provisioner_world mem_redis (scripted (\<lambda>_. HFail (Exn OSErr [])))
      ''allocator'') ''allocator'' 1 [(''alias'', JStr ''rm1''), (''endpoint'', JStr ''rm1:8080'')] (at_time 7 [])))
     ''resource_managers'' ''rm1'' =
   Some (JObj [(''alias'', JStr ''rm1''), (''endpoint'', JStr ''rm1:8080''), (''last_hb'', JNum 7)])"
proof -
  have "map_of [(''alias'', JStr ''rm1''), (''endpoint'', JStr ''rm1:8080'')] ''alias'' = Some (JStr ''rm1'')" by simp
  from heartbeat_registers_manager [OF mem_redis.redis_server_axioms this, of "scripted (\<lambda>_. HFail (Exn OSErr []))"]
  show ?thesis by (simp add: at_time_def int_of_def)
qed

section \<open>Identifiers\<close>

text \<open>What the configuration tool prints is read back: the sixteen bytes of an identifier by its own
  reader, and the six bytes of a MAC address by the hypervisor's DHCP client, in any mixture of digits.\<close>

theorem printed_identifiers_are_read:
  assumes "length u = 16" and "\<forall>b \<in> set u. b < 256" and "\<forall>b \<in> set bytes. b < 256"
  shows "\<exists>s. uuid_to_string u = Inr s \<and> uuid_from_string s = Inr (map int u)
    \<and> mac_raw (mac_string (oui_of ty @ bytes)) = Inr (oui_of ty @ bytes)"
proof -
  have "\<forall>b \<in> set (oui_of ty @ bytes). b < 256" using assms(3)
    by (auto simp: oui_of_def ouis_def split: option.splits if_splits dest!: map_of_SomeD)
  with uuid_round_trip [OF assms(1,2)] mac_raw_mac_string show ?thesis by blast
qed

theorem printed_identifiers_are_read_witness:
  "mac_raw (mac_string (oui_of ''qemu'' @ [10, 11, 255])) = Inr [0x52, 0x54, 0, 10, 11, 255]"
proof -
  have "mac_raw (mac_string (oui_of ''qemu'' @ [10, 11, 255])) = Inr (oui_of ''qemu'' @ [10, 11, 255])"
    using printed_identifiers_are_read [of "replicate 16 200" "[10, 11, 255]" "''qemu''"] by auto
  then show ?thesis by (simp add: oui_of_def ouis_def)
qed

section \<open>The network device of the hypervisor\<close>

















end
