(* ===== verification/Arg_Parser.thy ===== *)
theory Arg_Parser
  imports Prelude
begin

text \<open>
  The command lines of the programs.  All of them are read by \<open>argparse\<close> of the standard library; this
  theory models what they use of it: options with one value, with several, with an integer, options that
  set a constant, abbreviations and \<open>--option=value\<close>, at most one positional argument, and sub-commands.  A
  command line that is refused ends the program: \<open>SystemExit\<close> with status 2, and with status 0 for the help.
\<close>

section \<open>Parsers\<close>

datatype action = Store | Store_int | Store_all | Store_bool bool | Store_const json | Help

record option_spec =
  o_flags :: "string list"
  o_dest :: string
  o_action :: action
  o_required :: bool
  o_default :: json

datatype arity = One | Plus | Rest

record arg_parser =
  options :: "option_spec list"
  positional :: "(string \<times> arity \<times> json) option"

definition option_of :: "string \<Rightarrow> string \<Rightarrow> action \<Rightarrow> bool \<Rightarrow> json \<Rightarrow> option_spec" where
  "option_of flag dest act req dflt =
     \<lparr>o_flags = [flag], o_dest = dest, o_action = act, o_required = req, o_default = dflt\<rparr>"

definition required :: "string \<Rightarrow> string \<Rightarrow> option_spec" where
  "required flag dest = option_of flag dest Store True JNull"

definition optional :: "string \<Rightarrow> string \<Rightarrow> json \<Rightarrow> option_spec" where
  "optional flag dest dflt = option_of flag dest Store False dflt"

definition help_option :: option_spec where
  "help_option = \<lparr>o_flags = [''-h'', ''--help''], o_dest = [], o_action = Help, o_required = False, o_default = JNull\<rparr>"

definition exit_with :: "string \<Rightarrow> 'a res" where
  "exit_with msg = Inl (Exn SystemExitErr msg)"

section \<open>Classifying the arguments\<close>

datatype token = Value | Flag option_spec "string option" | Unknown

definition flags :: "arg_parser \<Rightarrow> (string \<times> option_spec) list" where
  "flags P = concat (map (\<lambda>spec. map (\<lambda>f. (f, spec)) (o_flags spec)) (help_option # options P))"

fun split_eq :: "string \<Rightarrow> (string \<times> string) option" where
  "split_eq [] = None"
| "split_eq (c # cs) = (if c = CHR ''='' then Some ([], cs)
     else map_option (\<lambda>(a, b). (c # a, b)) (split_eq cs))"

definition starts_with :: "string \<Rightarrow> string \<Rightarrow> bool" where
  "starts_with p s \<longleftrightarrow> take (length p) s = p"

definition digits :: "string \<Rightarrow> bool" where
  "digits s \<longleftrightarrow> list_all (\<lambda>c. digit_value c \<noteq> None) s"

definition negative_number :: "string \<Rightarrow> bool" where
  "negative_number s \<longleftrightarrow> (case s of [] \<Rightarrow> False | _ # ds \<Rightarrow>
     ds \<noteq> [] \<and> digits ds \<or>
     (let rest = dropWhile (\<lambda>c. digit_value c \<noteq> None) ds in
      rest \<noteq> [] \<and> hd rest = CHR ''.'' \<and> tl rest \<noteq> [] \<and> digits (tl rest)))"

text \<open>The options an argument may abbreviate, with the value it carries.\<close>

definition abbreviated :: "arg_parser \<Rightarrow> string \<Rightarrow> (option_spec \<times> string option) list" where
  "abbreviated P s =
     (if take 2 s = ''--'' then
        (case split_eq s of
           Some (p, v) \<Rightarrow> map (\<lambda>(f, spec). (spec, Some v)) (filter (\<lambda>(f, spec). starts_with p f) (flags P))
         | None \<Rightarrow> map (\<lambda>(f, spec). (spec, None)) (filter (\<lambda>(f, spec). starts_with s f) (flags P)))
      else
        concat (map (\<lambda>(f, spec). if f = take 2 s then [(spec, Some (drop 2 s))]
          else if starts_with s f then [(spec, None)] else []) (flags P)))"

definition classify :: "arg_parser \<Rightarrow> string \<Rightarrow> token res" where
  "classify P s =
     (if s = [] \<or> hd s \<noteq> CHR ''-'' then Inr Value
      else case map_of (flags P) s of Some spec \<Rightarrow> Inr (Flag spec None)
      | None \<Rightarrow>
      if length s = 1 then Inr Value
      else case Option.bind (split_eq s) (\<lambda>(p, v). map_option (\<lambda>spec. (spec, v)) (map_of (flags P) p)) of
        Some (spec, v) \<Rightarrow> Inr (Flag spec (Some v))
      | None \<Rightarrow>
        (case abbreviated P s of
           [(spec, v)] \<Rightarrow> Inr (Flag spec v)
         | _ # _ # _ \<Rightarrow> exit_with (''ambiguous option: '' @ s)
         | [] \<Rightarrow> Inr (if negative_number s \<or> CHR '' '' \<in> set s then Value else Unknown)))"

text \<open>After \<open>--\<close> there are values only.\<close>

fun tokens :: "arg_parser \<Rightarrow> string list \<Rightarrow> (string \<times> token) list res" where
  "tokens P [] = Inr []"
| "tokens P (s # ss) =
     (if s = ''--'' then Inr (map (\<lambda>s. (s, Value)) ss)
      else res_bind (classify P s) (\<lambda>t. res_bind (tokens P ss) (\<lambda>ts. Inr ((s, t) # ts))))"

section \<open>Reading the values\<close>

record parse_state =
  namespace :: "json dict"
  seen :: "string list"
  pending :: "(string \<times> arity \<times> json) option"
  extras :: "string list"
  rest_args :: "string list option"

definition assign :: "string \<Rightarrow> json \<Rightarrow> parse_state \<Rightarrow> parse_state" where
  "assign dest v st = st\<lparr>namespace := AList.update dest v (namespace st), seen := dest # seen st\<rparr>"

definition typed :: "option_spec \<Rightarrow> string \<Rightarrow> json res" where
  "typed spec v = (if o_action spec = Store_int then
      (case py_int (JStr v) of Inr i \<Rightarrow> Inr (JNum (of_int i)) | Inl _ \<Rightarrow> exit_with (''invalid int value: '' @ v))
    else Inr (JStr v))"

definition takes_value :: "action \<Rightarrow> bool" where
  "takes_value a \<longleftrightarrow> a = Store \<or> a = Store_int"

text \<open>An option and the arguments after it: what is set, and what is left.\<close>

definition apply_option ::
    "option_spec \<Rightarrow> string option \<Rightarrow> (string \<times> token) list \<Rightarrow> (json \<times> (string \<times> token) list) res" where
  "apply_option spec explicit ts = (case o_action spec of
      Help \<Rightarrow> exit_with ''help''
    | Store_bool b \<Rightarrow> (if explicit = None then Inr (JBool b, ts) else exit_with ''ignored explicit argument'')
    | Store_const c \<Rightarrow> (if explicit = None then Inr (c, ts) else exit_with ''ignored explicit argument'')
    | Store_all \<Rightarrow> (case explicit of
          Some v \<Rightarrow> Inr (JList [JStr v], ts)
        | None \<Rightarrow> (let vs = takeWhile (\<lambda>(s, t). t = Value) ts in
            if vs = [] then exit_with ''expected at least one argument''
            else Inr (JList (map (JStr \<circ> fst) vs), dropWhile (\<lambda>(s, t). t = Value) ts)))
    | _ \<Rightarrow> (case explicit of
          Some v \<Rightarrow> res_bind (typed spec v) (\<lambda>x. Inr (x, ts))
        | None \<Rightarrow> (case ts of
              (v, Value) # ts' \<Rightarrow> res_bind (typed spec v) (\<lambda>x. Inr (x, ts'))
            | _ \<Rightarrow> exit_with ''expected one argument'')))"

lemma apply_option_length: "apply_option spec e ts = Inr (x, ts') \<Longrightarrow> length ts' \<le> length ts"
  by (auto simp: apply_option_def exit_with_def Let_def length_dropWhile_le
      split: action.splits option.splits if_splits list.splits token.splits)

function parse_tokens :: "(string \<times> token) list \<Rightarrow> parse_state \<Rightarrow> parse_state res" where
  "parse_tokens [] st = Inr st"
| "parse_tokens ((s, Unknown) # ts) st = parse_tokens ts (st\<lparr>extras := extras st @ [s]\<rparr>)"
| "parse_tokens ((s, Flag spec e) # ts) st =
     (case apply_option spec e ts of
        Inl x \<Rightarrow> Inl x
      | Inr (v, ts') \<Rightarrow> parse_tokens ts' (assign (o_dest spec) v st))"
| "parse_tokens ((s, Value) # ts) st =
     (case pending st of
        None \<Rightarrow> parse_tokens ts (st\<lparr>extras := extras st @ [s]\<rparr>)
      | Some (dest, One, _) \<Rightarrow> parse_tokens ts (assign dest (JStr s) (st\<lparr>pending := None\<rparr>))
      | Some (dest, Plus, _) \<Rightarrow>
          parse_tokens (dropWhile (\<lambda>(s, t). t = Value) ts)
            (assign dest (JList (map (JStr \<circ> fst) ((s, Value) # takeWhile (\<lambda>(s, t). t = Value) ts))) (st\<lparr>pending := None\<rparr>))
      | Some (dest, Rest, _) \<Rightarrow>
          Inr (assign dest (JStr s) (st\<lparr>pending := None, rest_args := Some (map fst ts)\<rparr>)))"
  by pat_completeness auto
termination
  by (relation "measure (\<lambda>(ts, st). length ts)")
    (auto dest: apply_option_length simp: less_Suc_eq_le length_dropWhile_le)

declare parse_tokens.simps(3) [simp del]

section \<open>Whole command lines\<close>

text \<open>The defaults; of two options with the same name the first one counts.\<close>

definition set_default :: "json dict \<Rightarrow> string \<times> json \<Rightarrow> json dict" where
  "set_default ns = (\<lambda>(k, v). if map_of ns k = None then AList.update k v ns else ns)"

definition defaults :: "arg_parser \<Rightarrow> json dict" where
  "defaults P = foldl set_default [] (map (\<lambda>spec. (o_dest spec, o_default spec)) (options P)
     @ (case positional P of None \<Rightarrow> [] | Some (d, _, v) \<Rightarrow> [(d, v)]))"

definition start_state :: "arg_parser \<Rightarrow> parse_state" where
  "start_state P = \<lparr>namespace = defaults P, seen = [], pending = positional P, extras = [], rest_args = None\<rparr>"

definition missing :: "arg_parser \<Rightarrow> parse_state \<Rightarrow> string list" where
  "missing P st = map o_dest (filter (\<lambda>spec. o_required spec \<and> o_dest spec \<notin> set (seen st)) (options P))
     @ (case pending st of None \<Rightarrow> [] | Some (d, _, _) \<Rightarrow> [d])"

definition parse_known :: "arg_parser \<Rightarrow> string list \<Rightarrow> parse_state res" where
  "parse_known P argv =
     res_bind (tokens P argv) (\<lambda>ts.
     res_bind (parse_tokens ts (start_state P)) (\<lambda>st.
     if missing P st \<noteq> [] then exit_with (''the following arguments are required: '' @ join '', '' (missing P st))
     else Inr st))"

definition parse_args :: "arg_parser \<Rightarrow> string list \<Rightarrow> json dict res" where
  "parse_args P argv =
     res_bind (parse_known P argv) (\<lambda>st.
     if extras st \<noteq> [] then exit_with (''unrecognized arguments: '' @ join '' '' (extras st))
     else Inr (namespace st))"

text \<open>A parser with sub-commands: its positional argument is the name of the command, and what follows is
  read by the parser of the command before anything else is checked.\<close>

definition parse_commands :: "arg_parser \<Rightarrow> (string \<times> arg_parser) list \<Rightarrow> string list \<Rightarrow> json dict res" where
  "parse_commands P subs argv =
     res_bind (tokens P argv) (\<lambda>ts.
     res_bind (parse_tokens ts (start_state P)) (\<lambda>st.
     res_bind (case rest_args st of
         None \<Rightarrow> Inr st
       | Some args \<Rightarrow>
           (case map_of subs (case map_of (namespace st) ''command'' of Some (JStr c) \<Rightarrow> c | _ \<Rightarrow> []) of
              None \<Rightarrow> exit_with ''invalid choice''
            | Some Q \<Rightarrow> res_bind (parse_known Q args) (\<lambda>q.
                Inr (st\<lparr>namespace := dict_update (namespace st) (namespace q), extras := extras st @ extras q\<rparr>)))) (\<lambda>st.
     if missing P st \<noteq> [] then exit_with (''the following arguments are required: '' @ join '', '' (missing P st))
     else if extras st \<noteq> [] then exit_with (''unrecognized arguments: '' @ join '' '' (extras st))
     else Inr (namespace st))))"

end
