(* ===== verification/Start_Up.thy ===== *)
theory Start_Up
  imports Arg_Parser Net_Tools Config_Tools Clients Cloud_Manager
begin

text \<open>
  The programs from their command lines on: the options of every program, with the defaults it takes from
  the environment, and what its main part does with them.  The web server is a parameter of the outside: a
  main part ends with the description of the server it starts (\<open>server\<close>).  Logging is left out.
\<close>

section \<open>The environment\<close>

record os_env =
  os_vars :: "string dict"
  os_user :: string
  os_host :: string
  os_home :: string
  os_ip :: string

definition getenv :: "os_env \<Rightarrow> string \<Rightarrow> json \<Rightarrow> json" where
  "getenv E k dflt = (case map_of (os_vars E) k of Some v \<Rightarrow> JStr v | None \<Rightarrow> dflt)"

text \<open>What a main part reads of the parsed arguments.\<close>

definition arg :: "json dict \<Rightarrow> string \<Rightarrow> json res" where
  "arg ns k = (case map_of ns k of Some v \<Rightarrow> Inr v | None \<Rightarrow> Inl (Exn AttributeErr k))"

definition str_arg :: "json dict \<Rightarrow> string \<Rightarrow> string res" where
  "str_arg ns k = res_bind (arg ns k) jkey"

definition int_arg :: "json dict \<Rightarrow> string \<Rightarrow> int res" where
  "int_arg ns k = res_bind (arg ns k) py_int"

definition opt_arg :: "json dict \<Rightarrow> string \<Rightarrow> string option res" where
  "opt_arg ns k = res_bind (arg ns k) (\<lambda>v. if v = JNull then Inr None else res_bind (jkey v) (Inr \<circ> Some))"

text \<open>The server a program starts: what it tells the allocate service about itself, the address of the
  allocate service when it has one, and the port it was told to listen on.\<close>

record server =
  s_info :: "json dict"
  s_provisioner :: "string option"
  s_port :: json

definition info_of :: "string \<Rightarrow> string \<Rightarrow> string \<Rightarrow> json \<Rightarrow> json dict" where
  "info_of ali rm_type ip port =
     [(''alias'', JStr ali), (''rm_type'', JStr rm_type), (''endpoint'', JStr (ip @ '':'' @ py_str port))]"

section \<open>Hypervisor\<close>

definition provisioner_option :: "os_env \<Rightarrow> option_spec" where
  "provisioner_option E = optional ''--provisioner'' ''provisioner'' (getenv E ''HABERTEST_PROVISONER_ADDRESS'' JNull)"

definition hypervisor_parser :: "os_env \<Rightarrow> arg_parser" where
  "hypervisor_parser E = \<lparr>options = [
     required ''--config'' ''config'',
     optional ''--qemu-uri'' ''qemu_uri'' (JStr ''qemu:///system''),
     optional ''--images-dir'' ''images_dir'' (JStr ''var/lib/libvirt/images''),
     optional ''--run-dir'' ''run_dir'' (JStr ''var/lib/libvirt/images''),
     optional ''--ssd-dir'' ''ssd_dir'' (JStr ''var/lib/libvirt/images''),
     optional ''--hdd-dir'' ''hdd_dir'' (JStr ''var/lib/libvirt/images''),
     optional ''--log-level'' ''log_level'' (JStr ''INFO''),
     option_of ''--max-vms'' ''max_vms'' Store_int False (JNum 1),
     optional ''--private-net'' ''private_net'' (JStr ''default''),
     required ''--paravirt-net-device'' ''paravirt_net_device'',
     option_of ''--sol-port'' ''sol_port'' Store_int True JNull,
     required ''--server-name'' ''server_name'',
     option_of ''--port'' ''port'' Store_int False (JNum 9080),
     option_of ''--restore-vms'' ''vms_restore'' (Store_bool True) False (JBool True),
     option_of ''--delete-vms'' ''vms_restore'' (Store_bool False) False (JBool True),
     provisioner_option E], positional = None\<rparr>"

definition hypervisor_arguments :: "json dict \<Rightarrow> arguments res" where
  "hypervisor_arguments ns =
     res_bind (str_arg ns ''config'') (\<lambda>config.
     res_bind (str_arg ns ''paravirt_net_device'') (\<lambda>paravirt.
     res_bind (str_arg ns ''private_net'') (\<lambda>private.
     res_bind (str_arg ns ''server_name'') (\<lambda>server.
     res_bind (int_arg ns ''max_vms'') (\<lambda>max_vms.
     res_bind (int_arg ns ''sol_port'') (\<lambda>sol.
     res_bind (arg ns ''vms_restore'') (\<lambda>restore.
     Inr \<lparr>a_config = config, a_paravirt = paravirt, a_private = private, a_server = server, a_max_vms = max_vms,
       a_sol_port = sol, a_restore = truthy restore\<rparr>)))))))"

text \<open>The machine manager of the options: the image store, libvirt at the given address, and the handlers of
  the two kinds of networks.\<close>

definition hypervisor_manager ::
    "'w sys \<Rightarrow> (string \<Rightarrow> 'w virt) \<Rightarrow> (string \<Rightarrow> 'w requestor) \<Rightarrow> json dict \<Rightarrow> 'w manager res" where
  "hypervisor_manager S libvirt dhcp ns =
     res_bind (str_arg ns ''qemu_uri'') (\<lambda>uri.
     res_bind (str_arg ns ''images_dir'') (\<lambda>images.
     res_bind (str_arg ns ''run_dir'') (\<lambda>run.
     res_bind (str_arg ns ''ssd_dir'') (\<lambda>ssd.
     res_bind (str_arg ns ''hdd_dir'') (\<lambda>hdd.
     res_bind (str_arg ns ''paravirt_net_device'') (\<lambda>paravirt.
     res_bind (str_arg ns ''private_net'') (\<lambda>private.
     Inr \<lparr>sys = S, virt = libvirt uri,
       store_paths = \<lparr>base_qcow_path = images, run_qcow_path = run, ssd_path = ssd, hdd_path = hdd\<rparr>,
       iso_base = run,
       handlers = [(''bridge'', Bridged (dhcp paravirt)), (''isolated'', Private (libvirt uri) private)]\<rparr>)))))))"

definition hypervisor_server :: "os_env \<Rightarrow> json dict \<Rightarrow> server res" where
  "hypervisor_server E ns =
     res_bind (str_arg ns ''server_name'') (\<lambda>name.
     res_bind (arg ns ''port'') (\<lambda>port.
     res_bind (opt_arg ns ''provisioner'') (\<lambda>provisioner.
     Inr \<lparr>s_info = info_of (name @ ''-hypervisor'') ''hypervisor'' (os_ip E) port,
       s_provisioner = provisioner, s_port = port\<rparr>)))"

definition hypervisor_main ::
    "os_env \<Rightarrow> 'w sys \<Rightarrow> (string \<Rightarrow> 'w virt) \<Rightarrow> (string \<Rightarrow> 'w requestor) \<Rightarrow> ('w \<Rightarrow> int \<Rightarrow> bind_result) \<Rightarrow>
     (string \<Rightarrow> ('w, ip_info list option) py) \<Rightarrow> (string \<Rightarrow> json res) \<Rightarrow> string list \<Rightarrow> ('w, 'w host \<times> server) py" where
  "hypervisor_main E S libvirt dhcp bind addresses yaml_load argv =
     py_bind (py_lift (parse_args (hypervisor_parser E) argv)) (\<lambda>ns.
     py_bind (py_lift (hypervisor_arguments ns)) (\<lambda>a.
     py_bind (py_lift (hypervisor_manager S libvirt dhcp ns)) (\<lambda>G.
     py_bind (hypervisor_start G bind addresses yaml_load a) (\<lambda>host.
     py_bind (py_lift (hypervisor_server E ns)) (\<lambda>s. py_return (host, s))))))"

section \<open>Hardvisor\<close>

definition hardvisor_parser :: "os_env \<Rightarrow> arg_parser" where
  "hardvisor_parser E = \<lparr>options = [
     optional ''--ip'' ''ip'' (getenv E ''HABERTEST_HARDVISOR_IP'' (JStr (os_ip E))),
     optional ''--port'' ''port'' (getenv E ''HABERTEST_HARDVISOR_PORT'' (JNum 9081)),
     optional ''--config-path'' ''config_path'' (getenv E ''HABERTEST_HARDVISOR_CONFIG'' (JStr (os_home E @ ''/.habertest/hardvisor.yaml''))),
     optional ''--log-level'' ''log_level'' (getenv E ''LOG_LEVEL'' (JStr ''DEBUG'')),
     optional ''--log-file-path'' ''log_file_path'' (getenv E ''LOG_FILE_PATH'' (JStr ''/var/log/hardvisor.log'')),
     optional ''--hardvisor-id'' ''hardvisor_id'' (getenv E ''HABERTEST_HARDVISOR_ID''
       (JStr (os_user E @ ''-'' @ os_host E @ ''-hardvisor''))),
     provisioner_option E,
     optional ''--ssl-key'' ''ssl_key'' (getenv E ''HABERTEST_SSL_KEY'' JNull),
     optional ''--ssl-cert'' ''ssl_cert'' (getenv E ''HABERTEST_SSL_CERT'' JNull)], positional = None\<rparr>"

text \<open>A certificate or key that is given must exist.\<close>

definition assert_exists :: "'w sys \<Rightarrow> string option \<Rightarrow> ('w, unit) py" where
  "assert_exists S path = (case path of None \<Rightarrow> py_return () | Some p \<Rightarrow>
     if p = [] then py_return ()
     else py_bind (file_exists S p) (\<lambda>there. if there then py_return ()
       else py_raise (Exn AssertionErr (''cert file for communication with provisioner doesnt exist at '' @ p))))"

text \<open>The server is started without a port: the option is announced only.\<close>

definition hardvisor_server :: "json dict \<Rightarrow> server res" where
  "hardvisor_server ns =
     res_bind (str_arg ns ''hardvisor_id'') (\<lambda>id.
     res_bind (str_arg ns ''ip'') (\<lambda>ip.
     res_bind (arg ns ''port'') (\<lambda>port.
     res_bind (opt_arg ns ''provisioner'') (\<lambda>provisioner.
     Inr \<lparr>s_info = info_of id ''hardvisor'' ip port, s_provisioner = provisioner, s_port = JNull\<rparr>))))"

definition in_env :: "('w, 'a) py \<Rightarrow> ('s, 'w, 'a) svc" where
  "in_env m = (\<lambda>n. case m (world n) of (r, w) \<Rightarrow> (r, n\<lparr>world := w\<rparr>))"

definition hardvisor_main ::
    "os_env \<Rightarrow> 'w sys \<Rightarrow> 's redis_ops \<Rightarrow> (string \<Rightarrow> json res) \<Rightarrow> string list \<Rightarrow> ('s, 'w, server \<times> json dict) svc" where
  "hardvisor_main E S R yaml_load argv =
     py_bind (py_lift (parse_args (hardvisor_parser E) argv)) (\<lambda>ns.
     py_bind (py_lift (str_arg ns ''config_path'')) (\<lambda>path.
     py_bind (in_env (read_file S path)) (\<lambda>content.
     py_then (load_machines_config R (yaml_load content))
     (py_bind (py_lift (hardvisor_server ns)) (\<lambda>s.
      case s_provisioner s of
        None \<Rightarrow> py_return (s, [(''info'', JObj (s_info s))])
      | Some p \<Rightarrow>
          py_bind (py_lift (opt_arg ns ''ssl_key'')) (\<lambda>key.
          py_bind (py_lift (opt_arg ns ''ssl_cert'')) (\<lambda>cert.
          py_then (in_env (assert_exists S key))
          (py_then (in_env (assert_exists S cert))
            (py_return (s, hardvisor_app (s_info s) p key cert))))))))))"

section \<open>Cloudvisor\<close>

text \<open>The default of the subnets is computed whether or not the option is given.\<close>

definition cloudvisor_parser :: "os_env \<Rightarrow> arg_parser res" where
  "cloudvisor_parser E =
     (case map_of (os_vars E) ''SUBNET_IDS'' of
        None \<Rightarrow> Inl (Exn AttributeErr ''split'')
      | Some subnets \<Rightarrow> Inr \<lparr>options = [
          optional ''--ip'' ''ip'' (getenv E ''HABERTEST_CLOUDVISOR_IP'' (JStr (os_ip E))),
          optional ''--port'' ''port'' (getenv E ''SERVICE_PORT'' (JNum 9080)),
          optional ''--vpc'' ''vpc'' (getenv E ''VPC_ID'' JNull),
          optional ''--key-name'' ''key_name'' (getenv E ''KEY_PAIR_ID'' JNull),
          optional ''--pem-file'' ''pem_file'' (JStr (os_home E @ ''/.ssh/anyvision-devops.pem'')),
          option_of ''--subnet-ids'' ''subnet_ids'' Store_all False (JList (map JStr (split_ws subnets))),
          optional ''--log-level'' ''log_level'' (getenv E ''LOG_LEVEL'' (JStr ''DEBUG'')),
          optional ''--cloudvisor-id'' ''cloudvisor_id'' (getenv E ''HABERTEST_CLOUDVISOR_ID''
            (JStr (os_user E @ ''-'' @ os_host E @ ''-cloudvisor''))),
          provisioner_option E], positional = None\<rparr>)"

text \<open>The wrapper of an account: \<open>cidr\<close> gives the address block of a VPC.\<close>

definition open_wrapper :: "'w ec2 \<Rightarrow> (string \<Rightarrow> string) \<Rightarrow> string \<Rightarrow> string \<Rightarrow> string \<Rightarrow> string \<Rightarrow> ('w, 'w ec2_wrapper) py" where
  "open_wrapper B cidr vpc keyname pem_file own =
     py_bind (load_vpc B vpc) (\<lambda>v.
     py_bind (load_machine_key_info B keyname pem_file) (\<lambda>(name, pem).
     py_return \<lparr>ec2 = B, w_id = own, vpc_id = v, vpc_cidr = cidr v, key_name = name, key_pem = pem\<rparr>))"

text \<open>The alias is made of the user and the host, whatever identifier was given.\<close>

definition cloudvisor_server :: "os_env \<Rightarrow> json dict \<Rightarrow> server res" where
  "cloudvisor_server E ns =
     res_bind (str_arg ns ''ip'') (\<lambda>ip.
     res_bind (arg ns ''port'') (\<lambda>port.
     res_bind (opt_arg ns ''provisioner'') (\<lambda>provisioner.
     Inr \<lparr>s_info = info_of (os_user E @ ''-'' @ os_host E @ ''-cloudvisor'') ''cloudvisor'' ip port,
       s_provisioner = provisioner, s_port = port\<rparr>)))"

definition cloudvisor_main ::
    "os_env \<Rightarrow> 'w ec2 \<Rightarrow> (string \<Rightarrow> string) \<Rightarrow> string list \<Rightarrow> ('w, 'w ec2_manager \<times> server) py" where
  "cloudvisor_main E B cidr argv =
     py_bind (py_lift (cloudvisor_parser E)) (\<lambda>P.
     py_bind (py_lift (parse_args P argv)) (\<lambda>ns.
     py_bind (py_lift (str_arg ns ''vpc'')) (\<lambda>vpc.
     py_bind (py_lift (str_arg ns ''key_name'')) (\<lambda>keyname.
     py_bind (py_lift (str_arg ns ''pem_file'')) (\<lambda>pem.
     py_bind (py_lift (str_arg ns ''cloudvisor_id'')) (\<lambda>id.
     py_bind (open_wrapper B cidr vpc keyname pem id) (\<lambda>W.
     py_bind (py_lift (res_bind (arg ns ''subnet_ids'') jstrings)) (\<lambda>subnets.
     py_bind (py_lift (cloudvisor_server E ns)) (\<lambda>s.
       py_return (\<lparr>wrapper = W, subnet_ids = subnets\<rparr>, s))))))))))"

text \<open>\<open>init_managers\<close> of the package and the debugging console: a fixed account.\<close>

definition init_managers :: "os_env \<Rightarrow> 'w ec2 \<Rightarrow> (string \<Rightarrow> string) \<Rightarrow> ('w, 'w ec2_wrapper \<times> 'w ec2_manager) py" where
  "init_managers E B cidr =
     py_bind (open_wrapper B cidr ''vpc-0e1b3b5e01c93e71e'' ''anyvision-devops'' (os_home E @ ''/.ssh/anyvision-devops.pem'')
        (os_user E @ ''-'' @ os_host E @ ''-cloudvisor'')) (\<lambda>W.
     py_return (W, \<lparr>wrapper = W, subnet_ids = [''subnet-0e210e70248adadac'']\<rparr>))"

section \<open>Daemons, the own address, the console\<close>

text \<open>What the daemons of a program are started with: the information and the address of the allocate service
  for the heartbeats, and the cleaner of the cloudvisor.  They are started only with an allocate service.\<close>

definition hypervisor_start_daemons :: "server \<Rightarrow> (json dict \<times> string) option" where
  "hypervisor_start_daemons s = map_option (\<lambda>p. (s_info s, p)) (s_provisioner s)"

definition cloudvisor_start_daemons :: "'w ec2_manager \<Rightarrow> server \<Rightarrow> ((json dict \<times> string) \<times> (string \<times> 'w ec2_manager)) option" where
  "cloudvisor_start_daemons M s = map_option (\<lambda>p. ((s_info s, p), (p, M))) (s_provisioner s)"

text \<open>The own address is that of a datagram socket that is connected to an address nobody needs to have;
  without a route it is the loopback address.  A cancellation is no \<open>Exception\<close>.\<close>

record 'w socket =
  sock_connect :: "string \<times> int \<Rightarrow> ('w, unit) py"
  sock_name :: "('w, string \<times> int) py"
  sock_close :: "('w, unit) py"

definition get_ip :: "('w, 'w socket) py \<Rightarrow> ('w, string) py" where
  "get_ip open_socket =
     py_bind open_socket (\<lambda>s.
     py_finally
       (py_try (py_then (sock_connect s (''10.255.255.255'', 1)) (py_bind (sock_name s) (\<lambda>n. py_return (fst n))))
         (\<lambda>e. if exn_kind e \<in> {CancelledErr, SystemExitErr} then py_raise e else py_return ''127.0.0.1''))
       (sock_close s))"

lemma get_ip_always:
  assumes "open_socket w = (Inr s, w1)" and "\<And>w. \<exists>w'. sock_close s w = (Inr (), w')"
    and "sock_connect s (''10.255.255.255'', 1) w1 = (Inl e, w2)" and "exn_kind e \<notin> {CancelledErr, SystemExitErr}"
  shows "\<exists>w'. get_ip open_socket w = (Inr ''127.0.0.1'', w')"
proof -
  obtain w3 where "sock_close s w2 = (Inr (), w3)" using assms(2) by blast
  with assms show ?thesis by (simp add: get_ip_def py_defs)
qed

text \<open>The debugging console asks twice for the external address and then makes a machine without the number of
  GPUs and the architecture, which the constructor wants: it never gets to the debugger.\<close>

definition debug_console ::
    "os_env \<Rightarrow> 'w ec2 \<Rightarrow> (string \<Rightarrow> string) \<Rightarrow> ('w, string) py \<Rightarrow> ('w, string) py \<Rightarrow> ('w, unit) py" where
  "debug_console E B cidr external_ip host_ip =
     py_then (init_managers E B cidr)
     (py_then external_ip
     (py_then host_ip
     (py_then external_ip
       (py_raise (Exn TypeErr ''missing 2 required positional arguments: num_gpus and arch'')))))"

end
