(* ===== verification/Tool_Mains.thy ===== *)
theory Tool_Mains
  imports Start_Up
begin

text \<open>
  The command line tools of the resource managers, from their arguments to what they do:
  \<open>hypervisor_cli.py\<close>, \<open>cloud_provisionr_cli.py\<close>, the main parts of \<open>storage.py\<close>, \<open>image_store.py\<close>,
  \<open>dhcp_handlers.py\<close> and \<open>config_hypervisor.py\<close>, and \<open>clean_dangling_vms.py\<close>.
\<close>

section \<open>The hypervisor's client\<close>

definition command_parser :: arg_parser where
  "command_parser = \<lparr>options = [required ''--allocator'' ''allocator''], positional = Some (''command'', Rest, JNull)\<rparr>"

definition only :: "option_spec list \<Rightarrow> arg_parser" where
  "only specs = \<lparr>options = specs, positional = None\<rparr>"

text \<open>\<open>--networks\<close> sets one of Python's functions, which nothing reads.\<close>

definition create_parser :: arg_parser where
  "create_parser = \<lparr>options = [
     required ''--image'' ''image'',
     optional ''--size'' ''size'' JNull,
     option_of ''--ram'' ''ram'' Store_int True JNull,
     option_of ''--ssd'' ''ssd'' Store_int False JNull,
     option_of ''--hdd'' ''hdd'' Store_int False JNull,
     option_of ''--cpus'' ''cpus'' Store_int True JNull,
     option_of ''--networks'' ''accumulate'' (Store_const (JStr ''sum'')) False (JStr ''max''),
     option_of ''--gpus'' ''gpus'' Store_int False (JNum 0)],
     positional = Some (''networks_all'', Plus, JList [JStr ''bridge''])\<rparr>"

definition cli_parsers :: "(string \<times> arg_parser) list" where
  "cli_parsers = [
     (''create'', create_parser),
     (''delete'', only [required ''--name'' ''name'']),
     (''images'', only []),
     (''list'', only []),
     (''poweroff'', only [required ''--name'' ''name'']),
     (''poweron'', only [required ''--name'' ''name'']),
     (''info'', only [required ''--name'' ''name'']),
     (''resources'', only [])]"

definition opt_int :: "json dict \<Rightarrow> string \<Rightarrow> int option" where
  "opt_int ns k = (case map_of ns k of Some (JNum q) \<Rightarrow> Some \<lfloor>q\<rfloor> | _ \<Rightarrow> None)"

definition text_or :: "string \<Rightarrow> json dict \<Rightarrow> string \<Rightarrow> string" where
  "text_or dflt ns k = (case map_of ns k of Some (JStr s) \<Rightarrow> s | _ \<Rightarrow> dflt)"

definition int_or :: "int \<Rightarrow> json dict \<Rightarrow> string \<Rightarrow> int" where
  "int_or dflt ns k = (case opt_int ns k of Some i \<Rightarrow> i | None \<Rightarrow> dflt)"

text \<open>The fields a command does not have are never read by it.\<close>

definition cli_args_of :: "json dict \<Rightarrow> cli_args" where
  "cli_args_of ns = \<lparr>
     cli_allocator = text_or [] ns ''allocator'',
     cli_name = text_or [] ns ''name'',
     cli_image = text_or [] ns ''image'',
     cli_size = (case map_of ns ''size'' of Some v \<Rightarrow> v | None \<Rightarrow> JNull),
     cli_ram = int_or 0 ns ''ram'',
     cli_ssd = opt_int ns ''ssd'',
     cli_hdd = opt_int ns ''hdd'',
     cli_cpus = int_or 0 ns ''cpus'',
     cli_networks = (case map_of ns ''networks_all'' of Some (JList vs) \<Rightarrow> map py_str vs | _ \<Rightarrow> []),
     cli_gpus = int_or 0 ns ''gpus''\<rparr>"

definition cli_main :: "string list \<Rightarrow> http_request res" where
  "cli_main argv =
     res_bind (parse_commands command_parser cli_parsers argv) (\<lambda>ns.
     case map_of ns ''command'' of
       Some (JStr c) \<Rightarrow> cli_command c (cli_args_of ns)
     | _ \<Rightarrow> Inl (Exn KeyErr ''command''))"

section \<open>The cloud client\<close>

definition cloud_cli_parsers :: "(string \<times> arg_parser) list" where
  "cloud_cli_parsers = [
     (''provision'', only [
        optional ''--provider'' ''provider'' (JStr ''AWS''),
        required ''--customer_name'' ''customer_name'',
        optional ''--os_type'' ''os_type'' (JStr ''ubuntu-1804-lts''),
        optional ''--region'' ''region'' (JStr ''eu-west-3''),
        optional ''--instance_type'' ''instance_type'' (JStr ''g4dn.xlarge''),
        option_of ''--ssd'' ''ssd'' Store_int False (JNum 100),
        option_of ''--storage'' ''storage'' Store_int False (JNum 500)]),
     (''destroy'', only [required ''--region'' ''region'', required ''--customer_name'' ''customer_name'']),
     (''list'', only [required ''--customer-name'' ''customer_name'', required ''--region'' ''region''])]"

definition cloud_cli_args_of :: "json dict \<Rightarrow> cloud_cli_args" where
  "cloud_cli_args_of ns = \<lparr>
     cc_allocator = text_or [] ns ''allocator'',
     cc_os_type = text_or [] ns ''os_type'',
     cc_customer = text_or [] ns ''customer_name'',
     cc_provider = text_or [] ns ''provider'',
     cc_region = text_or [] ns ''region'',
     cc_instance_type = text_or [] ns ''instance_type'',
     cc_ssd = int_or 0 ns ''ssd'',
     cc_storage = int_or 0 ns ''storage''\<rparr>"

definition cloud_cli_main :: "string list \<Rightarrow> http_request res" where
  "cloud_cli_main argv =
     res_bind (parse_commands command_parser cloud_cli_parsers argv) (\<lambda>ns.
     (let a = cloud_cli_args_of ns in
      case map_of ns ''command'' of
        Some (JStr c) \<Rightarrow>
          (if c = ''provision'' then Inr (do_provision a)
           else if c = ''destroy'' then Inr (do_destroy a)
           else if c = ''list'' then Inr (do_list_instances a)
           else Inl (Exn KeyErr c))
      | _ \<Rightarrow> Inl (Exn KeyErr ''command'')))"

section \<open>Disks, images and addresses\<close>

definition storage_parser :: arg_parser where
  "storage_parser = \<lparr>options = [
     optional ''--fs'' ''fs'' (JStr ''ext4''),
     optional ''--label'' ''label'' JNull], positional = Some (''image'', One, JNull)\<rparr>"

text \<open>The label is passed where the identifier of the file system belongs.\<close>

definition storage_main :: "'w sys \<Rightarrow> string list \<Rightarrow> ('w, unit) py" where
  "storage_main S argv =
     py_bind (py_lift (parse_args storage_parser argv)) (\<lambda>ns.
     py_bind (py_lift (arg ns ''image'')) (\<lambda>image.
     py_bind (py_lift (arg ns ''fs'')) (\<lambda>fs.
     py_bind (py_lift (opt_arg ns ''label'')) (\<lambda>label.
     py_then (nbd_initialize S)
       (provision_disk S (py_str image) fs (case label of None \<Rightarrow> [] | Some l \<Rightarrow> l))))))"

definition image_parsers :: "(string \<times> arg_parser) list" where
  "image_parsers = [
     (''create'', only [optional ''--image'' ''image'' JNull, optional ''--backing'' ''backing'' JNull,
        optional ''--size'' ''size'' JNull, optional ''--type'' ''type'' JNull, optional ''--name'' ''name'' JNull]),
     (''delete'', only [optional ''--image'' ''image'' JNull]),
     (''info'', only [optional ''--image'' ''image'' JNull])]"

definition dir_name :: "string \<Rightarrow> string" where
  "dir_name p = (let d = rev (dropWhile (\<lambda>c. c \<noteq> CHR ''/'') (rev p)) in
     if d = [] \<or> list_all (\<lambda>c. c = CHR ''/'') d then d else rev (dropWhile (\<lambda>c. c = CHR ''/'') (rev d)))"

text \<open>Only the creation of an empty image and the query work: a clone misses the size, which has no default,
  and a deletion reads \<open>backing_file\<close>, which was not set.\<close>

definition image_main :: "'w sys \<Rightarrow> string list \<Rightarrow> ('w, json) py" where
  "image_main S argv =
     py_bind (py_lift (parse_commands \<lparr>options = [], positional = Some (''command'', Rest, JNull)\<rparr> image_parsers argv)) (\<lambda>ns.
     py_bind (py_lift (str_arg ns ''command'')) (\<lambda>command.
     py_bind (if command = ''create'' then py_lift (opt_arg ns ''backing'') else py_return None) (\<lambda>backing.
     py_bind (py_lift (str_arg ns ''image'')) (\<lambda>image.
     (let dir = dir_name (abs_path (cwd S) image) in
      if command = ''create'' then
        (if backing = None then
           py_bind (py_lift (arg ns ''name'')) (\<lambda>name.
           py_bind (py_lift (arg ns ''type'')) (\<lambda>ty.
           py_bind (py_lift (arg ns ''size'')) (\<lambda>size.
           py_then (create_qcow S \<lparr>base_qcow_path = [], run_qcow_path = dir, ssd_path = dir, hdd_path = dir\<rparr>
             (if name = JNull then ''None'' else py_str name) (if ty = JNull then JStr ''None'' else ty) size (JStr ''1234''))
             (py_return JNull))))
         else py_raise (Exn TypeErr ''missing 1 required positional argument: image_size''))
      else if command = ''delete'' then py_raise (Exn NameErr ''backing_file'')
      else qcow_info S (JStr image))))))"

definition dhcp_parser :: arg_parser where
  "dhcp_parser = \<lparr>options = [optional ''--iface'' ''iface'' JNull, optional ''--ip'' ''ip'' JNull],
     positional = Some (''mac'', One, JNull)\<rparr>"

definition dhcp_main :: "'w sys \<Rightarrow> (string \<Rightarrow> 'w requestor) \<Rightarrow> string list \<Rightarrow> ('w, string) py" where
  "dhcp_main S requestor_on argv =
     py_bind (py_lift (parse_args dhcp_parser argv)) (\<lambda>ns.
     py_bind (py_lift (str_arg ns ''iface'')) (\<lambda>iface.
     py_bind (py_lift (str_arg ns ''mac'')) (\<lambda>mac.
     py_bind (py_lift (opt_arg ns ''ip'')) (\<lambda>ip.
       request_lease S (requestor_on iface) mac ip))))"

section \<open>The configuration tool and the cleaning script\<close>

definition config_parser :: arg_parser where
  "config_parser = only [\<lparr>o_flags = [''-m'', ''--max-vms''], o_dest = ''max_vms'', o_action = Store_int,
     o_required = False, o_default = JNum 4\<rparr>]"

definition config_main ::
    "'w sys \<Rightarrow> (string \<Rightarrow> ('w, unit) py) \<Rightarrow> ('w, nat) py \<Rightarrow> string \<Rightarrow> string list \<Rightarrow> ('w, unit) py" where
  "config_main S make_dirs randint config_dir argv =
     py_bind (py_lift (parse_args config_parser argv)) (\<lambda>ns.
     py_bind (py_lift (int_arg ns ''max_vms'')) (\<lambda>max_vms.
       write_config S make_dirs randint config_dir (nat max_vms)))"

text \<open>The script behind its first error: the machines of every manager, and for each one whose allocation is
  unknown the question whether to delete it.  \<open>input\<close> is what the user types.\<close>

definition clean_script_vm ::
    "'w world_ops \<Rightarrow> (string \<Rightarrow> ('s, 'w, string) svc) \<Rightarrow> json dict \<Rightarrow> string \<Rightarrow> json \<Rightarrow> ('s, 'w, unit) svc" where
  "clean_script_vm W input redis_allocations rm_ep vm =
     py_bind (py_lift (jitem vm ''allocation_id'')) (\<lambda>allocation_id.
     if \<not> truthy allocation_id then py_then (py_lift (jitem vm ''name'')) (py_return ())
     else if \<not> hashable allocation_id then py_raise (Exn TypeErr ''unhashable type'')
     else if (\<exists>k \<in> set (map fst redis_allocations). allocation_id = JStr k) then py_return ()
     else
       py_bind (py_lift (jitem vm ''name'')) (\<lambda>name.
       py_bind (input ''delete vm? (Y)'') (\<lambda>answer.
       if map lower_char answer = ''y'' then
         py_bind (w_http W \<lparr>req_verb = DELETE, req_url = ''http://'' @ rm_ep @ ''/vms/'' @ py_str name, req_body = JNull\<rparr>) (\<lambda>(status, _).
         if status = 200 then py_return () else py_raise (Exn AssertionErr ''Wasnt successful deleting vm :(''))
       else py_return ())))"

definition clean_script_loop ::
    "'w world_ops \<Rightarrow> (string \<Rightarrow> ('s, 'w, string) svc) \<Rightarrow> json dict \<Rightarrow> string list \<Rightarrow> ('s, 'w, unit) svc" where
  "clean_script_loop W input redis_allocations rm_eps =
     py_for rm_eps (\<lambda>rm_ep.
       py_bind (w_http W \<lparr>req_verb = GET, req_url = ''http://'' @ rm_ep @ ''/vms'', req_body = JNull\<rparr>) (\<lambda>(_, resp).
       py_bind (py_lift (res_bind (jitem resp ''vms'') jiter)) (\<lambda>vms.
         py_for vms (clean_script_vm W input redis_allocations rm_ep))))"

definition clean_script :: "'s redis_ops \<Rightarrow> 'w world_ops \<Rightarrow> (string \<Rightarrow> ('s, 'w, string) svc) \<Rightarrow> ('s, 'w, unit) svc" where
  "clean_script R W input =
     py_bind (clean_script_endpoints R) (\<lambda>(redis_allocations, rm_eps).
       clean_script_loop W input redis_allocations rm_eps)"

definition clean_parser :: arg_parser where
  "clean_parser = only [optional ''--redis-host'' ''redis_host'' (JStr ''redis''), optional ''--redis-port'' ''redis_port'' (JNum 6379)]"

definition clean_main ::
    "(json \<Rightarrow> json \<Rightarrow> 's redis_ops) \<Rightarrow> 'w world_ops \<Rightarrow> (string \<Rightarrow> ('s, 'w, string) svc) \<Rightarrow> string list \<Rightarrow> ('s, 'w, unit) svc" where
  "clean_main connect W input argv =
     py_bind (py_lift (parse_args clean_parser argv)) (\<lambda>ns.
     py_bind (py_lift (arg ns ''redis_host'')) (\<lambda>host.
     py_bind (py_lift (arg ns ''redis_port'')) (\<lambda>port.
       clean_script (connect host port) W input)))"

end
