(* ===== verification/Arg_Parser_Correct.thy ===== *)
theory Arg_Parser_Correct
  imports Arg_Parser
begin

text \<open>
  What a parsed command line gives: every option has a value of its kind, and options written out one by
  one are read back.
\<close>

section \<open>Every option has a value of its kind\<close>

text \<open>The values an action can store all satisfy a predicate.\<close>

fun action_ok :: "action \<Rightarrow> (json \<Rightarrow> bool) \<Rightarrow> bool" where
  "action_ok Store T = (\<forall>s. T (JStr s))"
| "action_ok Store_int T = (\<forall>i. T (JNum (of_int i)))"
| "action_ok Store_all T = (\<forall>vs. T (JList (map JStr vs)))"
| "action_ok (Store_bool b) T = T (JBool b)"
| "action_ok (Store_const c) T = T c"
| "action_ok Help T = True"

text \<open>A typing of the options: what an option stores fits, and so does its default unless it must be given.\<close>

definition well_typed :: "arg_parser \<Rightarrow> (string \<Rightarrow> json \<Rightarrow> bool) \<Rightarrow> bool" where
  "well_typed P T \<longleftrightarrow> (\<forall>spec \<in> set (options P). action_ok (o_action spec) (T (o_dest spec))
     \<and> (o_required spec \<or> T (o_dest spec) (o_default spec)))"

definition known_flags :: "arg_parser \<Rightarrow> (string \<times> token) list \<Rightarrow> bool" where
  "known_flags P ts \<longleftrightarrow> (\<forall>s spec e. (s, Flag spec e) \<in> set ts \<longrightarrow> spec = help_option \<or> spec \<in> set (options P))"

lemma flags_spec: "(f, spec) \<in> set (flags P) \<Longrightarrow> spec = help_option \<or> spec \<in> set (options P)"
  by (auto simp: flags_def)

lemma abbreviated_spec: "(spec, e) \<in> set (abbreviated P s) \<Longrightarrow> \<exists>f. (f, spec) \<in> set (flags P)"
  by (auto simp: abbreviated_def split: if_splits option.splits)

lemma classify_spec: "classify P s = Inr (Flag spec e) \<Longrightarrow> \<exists>f. (f, spec) \<in> set (flags P)"
  by (auto simp: classify_def exit_with_def abbreviated_spec split: if_splits option.splits list.splits
      bind_splits dest!: map_of_SomeD intro: abbreviated_spec) (metis abbreviated_spec list.set_intros(1))+

lemma tokens_known: "tokens P ss = Inr ts \<Longrightarrow> known_flags P ts"
proof (induction P ss arbitrary: ts rule: tokens.induct)
  case (1 P)
  then show ?case by (simp add: known_flags_def)
next
  case (2 P s ss)
  show ?case
  proof (cases "s = ''--''")
    case True
    with "2.prems" show ?thesis by (auto simp: known_flags_def)
  next
    case False
    with "2.prems" obtain t ts' where t: "classify P s = Inr t" and ts': "tokens P ss = Inr ts'" "ts = (s, t) # ts'" by auto
    from "2.IH" [OF False ts'(1)] classify_spec [of P s] t ts'(2) show ?thesis
      unfolding known_flags_def by (auto dest!: flags_spec)
  qed
qed

lemma apply_option_typed:
  assumes "apply_option spec e ts = Inr (v, ts')"
  shows "o_action spec \<noteq> Help" and "set ts' \<subseteq> set ts" and "action_ok (o_action spec) T \<Longrightarrow> T v"
proof -
  have one: "\<exists>vs. [JStr x] = map JStr vs" for x by (rule exI [of _ "[x]"]) simp
  show "o_action spec \<noteq> Help" "set ts' \<subseteq> set ts" "action_ok (o_action spec) T \<Longrightarrow> T v"
    using assms one
    by (cases "o_action spec"; auto simp: apply_option_def exit_with_def typed_def Let_def map_map [symmetric] simp del: map_map
        split: option.splits list.splits token.splits sum.splits if_splits dest: set_dropWhileD; metis)+
qed

text \<open>The state of the parser: what was seen has a value of its kind, the rest its default.\<close>

definition typed_state :: "arg_parser \<Rightarrow> (string \<Rightarrow> json \<Rightarrow> bool) \<Rightarrow> parse_state \<Rightarrow> bool" where
  "typed_state P T st \<longleftrightarrow> pending st = None \<and> (\<forall>spec \<in> set (options P). \<exists>v. map_of (namespace st) (o_dest spec) = Some v
     \<and> (if o_dest spec \<in> set (seen st) then T (o_dest spec) v
        else \<exists>spec' \<in> set (options P). o_dest spec' = o_dest spec \<and> v = o_default spec'))"

lemma typed_state_assign:
  assumes "typed_state P T st" and "T k v"
  shows "typed_state P T (assign k v st)"
  using assms by (auto simp: typed_state_def assign_def update_conv')

lemma parse_tokens_typed:
  assumes "well_typed P T"
  shows "parse_tokens ts st = Inr st' \<Longrightarrow> known_flags P ts \<Longrightarrow> typed_state P T st \<Longrightarrow> typed_state P T st'"
proof (induction ts st rule: parse_tokens.induct)
  case (1 st)
  then show ?case by simp
next
  case (2 s ts st)
  from "2.prems" have "typed_state P T (st\<lparr>extras := extras st @ [s]\<rparr>)" "known_flags P ts"
    by (auto simp: typed_state_def known_flags_def)
  with 2 show ?case by simp
next
  case (3 s spec e ts st)
  from "3.prems"(1) obtain v ts' where run: "apply_option spec e ts = Inr (v, ts')"
    and rest: "parse_tokens ts' (assign (o_dest spec) v st) = Inr st'"
    by (auto simp: parse_tokens.simps(3) split: sum.splits)
  note o = apply_option_typed [OF run]
  from "3.prems"(2) have "spec = help_option \<or> spec \<in> set (options P)" by (simp add: known_flags_def)
  with o(1) have "spec \<in> set (options P)" by (auto simp: help_option_def)
  then have "T (o_dest spec) v" using assms o(3) by (auto simp: well_typed_def)
  moreover have "known_flags P ts'" using o(2) "3.prems"(2) by (auto simp: known_flags_def)
  ultimately show ?case using "3.IH" [OF run refl rest] "3.prems"(3) typed_state_assign by blast
next
  case (4 s ts st)
  from "4.prems"(3) have none: "pending st = None" by (simp add: typed_state_def)
  from "4.prems" have "typed_state P T (st\<lparr>extras := extras st @ [s]\<rparr>)" "known_flags P ts"
    by (auto simp: typed_state_def known_flags_def)
  with none "4.prems"(1) "4.IH"(1) show ?case by simp
qed

lemma set_default_map_of: "map_of (set_default ns (k, v)) x = (case map_of ns x of Some y \<Rightarrow> Some y
    | None \<Rightarrow> if x = k then Some v else None)"
  by (auto simp: set_default_def update_conv' split: option.splits)

lemma foldl_default:
  "\<exists>v. map_of (foldl set_default ns kvs) x = Some v \<and> (map_of ns x = Some v \<or> (x, v) \<in> set kvs)"
  if "map_of ns x \<noteq> None \<or> x \<in> fst ` set kvs"
  using that
proof (induction kvs arbitrary: ns)
  case Nil
  then show ?case by auto
next
  case (Cons p kvs)
  obtain k v where p: "p = (k, v)" by (cases p)
  have "map_of (set_default ns p) x \<noteq> None \<or> x \<in> fst ` set kvs"
    using Cons.prems by (auto simp: p set_default_map_of split: option.splits)
  from Cons.IH [OF this] show ?case by (auto simp: p set_default_map_of split: option.splits if_splits)
qed

lemma start_typed:
  assumes "positional P = None"
  shows "typed_state P T (start_state P)"
proof -
  have "\<exists>v. map_of (defaults P) (o_dest spec) = Some v \<and> (\<exists>spec' \<in> set (options P). o_dest spec' = o_dest spec \<and> v = o_default spec')"
    if "spec \<in> set (options P)" for spec
    using foldl_default [of "[]" "o_dest spec" "map (\<lambda>spec. (o_dest spec, o_default spec)) (options P)"] that assms
    by (force simp: defaults_def)
  then show ?thesis using assms by (simp add: typed_state_def start_state_def)
qed

lemma missing_required:
  "missing P st = [] \<Longrightarrow> spec \<in> set (options P) \<Longrightarrow> o_required spec \<Longrightarrow> o_dest spec \<in> set (seen st)"
  by (auto simp: missing_def filter_empty_conv)

lemma parse_args_typed:
  assumes P: "well_typed P T" "positional P = None" and run: "parse_args P argv = Inr ns"
    and spec: "spec \<in> set (options P)"
  shows "\<exists>v. map_of ns (o_dest spec) = Some v \<and> T (o_dest spec) v"
proof -
  from run obtain ts st where ts: "tokens P argv = Inr ts" and st: "parse_tokens ts (start_state P) = Inr st"
    and miss: "missing P st = []" and ns: "ns = namespace st"
    by (auto simp: parse_args_def parse_known_def exit_with_def split: if_splits)
  have typed: "typed_state P T st"
    by (rule parse_tokens_typed [OF P(1) st tokens_known [OF ts] start_typed [OF P(2)]])
  from typed spec obtain v where v: "map_of ns (o_dest spec) = Some v" and
    cases: "if o_dest spec \<in> set (seen st) then T (o_dest spec) v
       else \<exists>spec' \<in> set (options P). o_dest spec' = o_dest spec \<and> v = o_default spec'"
    unfolding typed_state_def ns by blast
  show ?thesis
  proof (cases "o_dest spec \<in> set (seen st)")
    case True
    with v cases show ?thesis by simp
  next
    case False
    with cases obtain spec' where "spec' \<in> set (options P)" "o_dest spec' = o_dest spec" "v = o_default spec'" by auto
    with False missing_required [OF miss] P(1) v show ?thesis by (metis well_typed_def)
  qed
qed

section \<open>Reading numbers and values\<close>

text \<open>A printed number is read back by \<open>int\<close>.\<close>

lemma digits_value_append:
  "digits_value acc (xs @ ys) = (case digits_value acc xs of None \<Rightarrow> None | Some a \<Rightarrow> digits_value a ys)"
  by (induction xs arbitrary: acc) (auto split: option.splits)

lemma digit_char: "n < 10 \<Longrightarrow> digit_value (''0123456789'' ! n) = Some (int n) \<and> \<not> is_space (''0123456789'' ! n)
    \<and> ''0123456789'' ! n \<noteq> CHR ''-'' \<and> ''0123456789'' ! n \<noteq> CHR ''+''"
  by (simp add: less_Suc_eq numeral_eq_Suc) (elim disjE; simp add: digit_value_def is_space_def)

lemma digits_value_dec: "digits_value 0 (dec n) = Some (int n)"
proof (induction n rule: dec.induct)
  case (1 n)
  show ?case
  proof (cases "n < 10")
    case True
    then show ?thesis using digit_char [of n] by (simp add: dec.simps [of n])
  next
    case False
    with 1 digit_char [of "n mod 10"] show ?thesis
      by (simp add: dec.simps [of n] digits_value_append) presburger
  qed
qed

lemma dec_chars: "\<forall>c \<in> set (dec n). \<not> is_space c \<and> c \<noteq> CHR ''-'' \<and> c \<noteq> CHR ''+''"
proof (induction n rule: dec.induct)
  case (1 n)
  then show ?case using digit_char [of n] digit_char [of "n mod 10"]
    by (auto simp: dec.simps [of n])
qed

lemma dropWhile_none: "\<forall>c \<in> set s. \<not> P c \<Longrightarrow> dropWhile P s = s"
  by (cases s) simp_all

lemma strip_id: "\<forall>c \<in> set s. \<not> is_space c \<Longrightarrow> strip s = s"
  by (simp add: strip_def dropWhile_none)

lemma py_int_dec: "py_int (JStr (dec n)) = Inr (int n)"
proof -
  obtain c cs where d: "dec n = c # cs" using dec_nonempty [of n] by (cases "dec n") auto
  with dec_chars [of n] have "numeral_value (dec n) = digits_value 0 (dec n)" by (simp add: numeral_value_def)
  then show ?thesis using dec_chars [of n] by (simp add: py_int_def strip_id digits_value_dec)
qed

text \<open>Arguments that do not begin with a dash are values.\<close>

definition plain :: "string \<Rightarrow> bool" where
  "plain s \<longleftrightarrow> s = [] \<or> hd s \<noteq> CHR ''-''"

lemma plain_dec: "plain (dec n)"
  using dec_chars [of n] by (cases "dec n") (auto simp: plain_def)

lemma tokens_plain: "plain s \<Longrightarrow> tokens P (s # ss) = res_bind (tokens P ss) (\<lambda>ts. Inr ((s, Value) # ts))"
  by (auto simp: plain_def classify_def res_bind_def)

lemma tokens_all_plain: "\<forall>s \<in> set ss. plain s \<Longrightarrow> tokens P ss = Inr (map (\<lambda>s. (s, Value)) ss)"
  by (induction ss) (simp_all add: tokens_plain res_bind_def del: tokens.simps(2))

lemma tokens_other:
  "s \<noteq> ''--'' \<Longrightarrow> classify P s = Inr t \<Longrightarrow> tokens P (s # ss) = res_bind (tokens P ss) (\<lambda>ts. Inr ((s, t) # ts))"
  by (simp add: res_bind_def)

end
