(* ===== verification/Start_Properties.thy ===== *)
theory Start_Properties
  imports Tool_Mains Arg_Parser_Correct Hypervisor_Rest
begin

text \<open>
  Properties of the programs' start: accepted command lines are complete, what hardvisor needs, and the way
  of a machine from the command line to the hypervisor.
\<close>

section \<open>The options of a program\<close>

text \<open>The kinds of the values in a namespace.\<close>

definition text_value :: "json \<Rightarrow> bool" where
  "text_value v \<longleftrightarrow> (\<exists>s. v = JStr s)"

definition number_value :: "json \<Rightarrow> bool" where
  "number_value v \<longleftrightarrow> (\<exists>i. v = JNum (of_int i))"

definition kind_of :: "(string \<times> (json \<Rightarrow> bool)) list \<Rightarrow> string \<Rightarrow> json \<Rightarrow> bool" where
  "kind_of ks k = (case map_of ks k of None \<Rightarrow> text_value | Some T \<Rightarrow> T)"

definition maybe_text :: "json \<Rightarrow> bool" where
  "maybe_text v \<longleftrightarrow> v = JNull \<or> text_value v"

lemma str_arg_text: "map_of ns k = Some v \<Longrightarrow> text_value v \<Longrightarrow> \<exists>s. str_arg ns k = Inr s"
  by (auto simp: str_arg_def arg_def text_value_def res_bind_def)

lemma int_arg_number: "map_of ns k = Some v \<Longrightarrow> number_value v \<Longrightarrow> \<exists>i. int_arg ns k = Inr i"
  by (auto simp: int_arg_def arg_def number_value_def res_bind_def)

lemma opt_arg_maybe: "map_of ns k = Some v \<Longrightarrow> maybe_text v \<Longrightarrow> \<exists>s. opt_arg ns k = Inr s"
  by (auto simp: opt_arg_def arg_def maybe_text_def text_value_def res_bind_def)

lemma getenv_maybe: "maybe_text (getenv E k JNull)"
  by (auto simp: getenv_def maybe_text_def text_value_def split: option.splits)

definition hypervisor_kinds :: "(string \<times> (json \<Rightarrow> bool)) list" where
  "hypervisor_kinds = [(''max_vms'', number_value), (''sol_port'', number_value), (''port'', number_value),
     (''vms_restore'', (\<lambda>v. \<exists>b. v = JBool b)), (''provisioner'', maybe_text)]"

lemmas parser_defs = required_def optional_def option_of_def provisioner_option_def

lemma number_value_numerals: "number_value (JNum 1)" "number_value (JNum (numeral m))"
  unfolding number_value_def by (metis of_int_1 of_int_numeral)+

lemma hypervisor_typed: "well_typed (hypervisor_parser E) (kind_of hypervisor_kinds)"
  using getenv_maybe [of E "''HABERTEST_PROVISONER_ADDRESS''"]
  by (auto simp: well_typed_def hypervisor_parser_def parser_defs kind_of_def hypervisor_kinds_def text_value_def
      number_value_numerals maybe_text_def) (auto simp: number_value_def)

lemma hypervisor_option:
  assumes "parse_args (hypervisor_parser E) argv = Inr ns" and "k \<in> o_dest ` set (options (hypervisor_parser E))"
  shows "\<exists>v. map_of ns k = Some v \<and> kind_of hypervisor_kinds k v"
  using parse_args_typed [OF hypervisor_typed _ assms(1)] assms(2) by (auto simp: hypervisor_parser_def)

text \<open>Every command line that the hypervisor accepts gives all its arguments in the form the main part
  reads them: the start never fails on a missing or ill-typed argument, the defaults and abbreviated
  options included.\<close>

theorem accepted_arguments_are_complete:
  assumes "parse_args (hypervisor_parser E) argv = Inr ns"
  shows "\<exists>a G s. hypervisor_arguments ns = Inr a \<and> hypervisor_manager S libvirt dhcp ns = Inr G
    \<and> hypervisor_server E ns = Inr s"
proof -
  have dests: "o_dest ` set (options (hypervisor_parser E)) = {''config'', ''qemu_uri'', ''images_dir'', ''run_dir'', ''ssd_dir'',
      ''hdd_dir'', ''log_level'', ''max_vms'', ''private_net'', ''paravirt_net_device'', ''sol_port'', ''server_name'',
      ''port'', ''vms_restore'', ''provisioner''}"
    by (auto simp: hypervisor_parser_def parser_defs)
  have words: "\<exists>s. str_arg ns k = Inr s"
    if "k \<in> {''config'', ''qemu_uri'', ''images_dir'', ''run_dir'', ''ssd_dir'', ''hdd_dir'', ''private_net'',
      ''paravirt_net_device'', ''server_name''}" for k
  proof -
    from that have "k \<in> o_dest ` set (options (hypervisor_parser E))" by (auto simp: dests)
    from hypervisor_option [OF assms this] that show ?thesis
      by (auto simp: kind_of_def hypervisor_kinds_def intro: str_arg_text)
  qed
  have numbers: "\<exists>i. int_arg ns k = Inr i" if "k \<in> {''max_vms'', ''sol_port''}" for k
  proof -
    from that have "k \<in> o_dest ` set (options (hypervisor_parser E))" by (auto simp: dests)
    from hypervisor_option [OF assms this] that show ?thesis
      by (auto simp: kind_of_def hypervisor_kinds_def intro: int_arg_number)
  qed
  have others: "\<exists>v. map_of ns k = Some v \<and> kind_of hypervisor_kinds k v" if "k \<in> {''port'', ''vms_restore'', ''provisioner''}" for k
    using that by (intro hypervisor_option [OF assms]) (auto simp: dests)
  obtain port where port: "map_of ns ''port'' = Some port" using others [of "''port''"] by auto
  obtain restore where restore: "map_of ns ''vms_restore'' = Some restore" using others [of "''vms_restore''"] by auto
  obtain v where "map_of ns ''provisioner'' = Some v" "kind_of hypervisor_kinds ''provisioner'' v"
    using others [of "''provisioner''"] by auto
  then obtain p where p: "opt_arg ns ''provisioner'' = Inr p"
    using opt_arg_maybe [of ns "''provisioner''" v] by (auto simp: kind_of_def hypervisor_kinds_def)
  obtain c pv pr sn uri im run ssd hdd where
    "str_arg ns ''config'' = Inr c" "str_arg ns ''paravirt_net_device'' = Inr pv" "str_arg ns ''private_net'' = Inr pr"
    "str_arg ns ''server_name'' = Inr sn" "str_arg ns ''qemu_uri'' = Inr uri" "str_arg ns ''images_dir'' = Inr im"
    "str_arg ns ''run_dir'' = Inr run" "str_arg ns ''ssd_dir'' = Inr ssd" "str_arg ns ''hdd_dir'' = Inr hdd"
    using words by (meson insertCI)
  moreover obtain mv sp where "int_arg ns ''max_vms'' = Inr mv" "int_arg ns ''sol_port'' = Inr sp"
    using numbers by (meson insertCI)
  ultimately show ?thesis using port restore p
    by (simp add: hypervisor_arguments_def hypervisor_manager_def hypervisor_server_def arg_def res_bind_def)
qed

definition demo_env :: os_env where
  "demo_env = \<lparr>os_vars = [(''HABERTEST_PROVISONER_ADDRESS'', ''allocator:8080'')], os_user = ''lab'', os_host = ''rack1'',
     os_home = ''/home/lab'', os_ip = ''10.0.0.5''\<rparr>"

definition demo_argv :: "string list" where
  "demo_argv = [''--config'', ''h.yaml'', ''--paravirt'', ''eth0'', ''--sol-port=7000'', ''--delete-vms'', ''--server-name'', ''s1'']"

definition demo_ns :: "json dict" where
  "demo_ns = [(''config'', JStr ''h.yaml''), (''qemu_uri'', JStr ''qemu:///system''), (''images_dir'', JStr ''var/lib/libvirt/images''),
     (''run_dir'', JStr ''var/lib/libvirt/images''), (''ssd_dir'', JStr ''var/lib/libvirt/images''),
     (''hdd_dir'', JStr ''var/lib/libvirt/images''), (''log_level'', JStr ''INFO''), (''max_vms'', JNum 1),
     (''private_net'', JStr ''default''), (''paravirt_net_device'', JStr ''eth0''), (''sol_port'', JNum 7000),
     (''server_name'', JStr ''s1''), (''port'', JNum 9080), (''vms_restore'', JBool False),
     (''provisioner'', JStr ''allocator:8080'')]"

lemma demo_argv_accepted: "parse_args (hypervisor_parser demo_env) demo_argv = Inr demo_ns"
  by code_simp

theorem accepted_arguments_are_complete_witness:
  "\<forall>S libvirt dhcp. \<exists>a G s. hypervisor_arguments demo_ns = Inr a
    \<and> hypervisor_manager S libvirt dhcp demo_ns = Inr G \<and> hypervisor_server demo_env demo_ns = Inr s"
  using accepted_arguments_are_complete [OF demo_argv_accepted] by blast

section \<open>Hardvisor\<close>










section \<open>The command line of the hypervisor's client\<close>

lemma unknown_flags:
  "classify command_parser ''--image'' = Inr Unknown" "classify command_parser ''--ram'' = Inr Unknown"
  "classify command_parser ''--cpus'' = Inr Unknown" "classify command_parser ''--gpus'' = Inr Unknown"
  "classify command_parser ''--allocator'' = Inr (Flag (required ''--allocator'' ''allocator'') None)"
  by code_simp+

lemma create_flags:
  "classify create_parser ''--image'' = Inr (Flag (required ''--image'' ''image'') None)"
  "classify create_parser ''--ram'' = Inr (Flag (option_of ''--ram'' ''ram'' Store_int True JNull) None)"
  "classify create_parser ''--cpus'' = Inr (Flag (option_of ''--cpus'' ''cpus'' Store_int True JNull) None)"
  "classify create_parser ''--gpus'' = Inr (Flag (option_of ''--gpus'' ''gpus'' Store_int False (JNum 0)) None)"
  by code_simp+

definition create_line :: "string \<Rightarrow> string \<Rightarrow> nat \<Rightarrow> nat \<Rightarrow> nat \<Rightarrow> string list \<Rightarrow> string list" where
  "create_line allocator img ram cpus gpus nets =
     [''--allocator'', allocator, ''create'', ''--image'', img, ''--ram'', dec ram, ''--cpus'', dec cpus, ''--gpus'', dec gpus] @ nets"

lemma create_tokens:
  assumes "plain a" "plain i" "\<forall>s \<in> set nets. plain s"
  shows "tokens command_parser (create_line a i r c g nets) = Inr ([(''--allocator'', Flag (required ''--allocator'' ''allocator'') None),
     (a, Value), (''create'', Value), (''--image'', Unknown), (i, Value), (''--ram'', Unknown), (dec r, Value),
     (''--cpus'', Unknown), (dec c, Value), (''--gpus'', Unknown), (dec g, Value)] @ map (\<lambda>s. (s, Value)) nets)"
proof -
  have "plain ''create''" by (simp add: plain_def)
  with assms show ?thesis
    by (simp add: create_line_def tokens_plain tokens_other unknown_flags plain_dec tokens_all_plain res_bind_def del: tokens.simps(2))
qed

lemma create_sub_tokens:
  assumes "plain i" "\<forall>s \<in> set nets. plain s"
  shows "tokens create_parser (drop 3 (create_line a i r c g nets)) = Inr ([(''--image'', Flag (required ''--image'' ''image'') None),
     (i, Value), (''--ram'', Flag (option_of ''--ram'' ''ram'' Store_int True JNull) None), (dec r, Value),
     (''--cpus'', Flag (option_of ''--cpus'' ''cpus'' Store_int True JNull) None), (dec c, Value),
     (''--gpus'', Flag (option_of ''--gpus'' ''gpus'' Store_int False (JNum 0)) None), (dec g, Value)] @ map (\<lambda>s. (s, Value)) nets)"
  using assms
  by (simp add: create_line_def tokens_plain tokens_other create_flags plain_dec tokens_all_plain res_bind_def del: tokens.simps(2))

lemma takeWhile_values: "takeWhile (\<lambda>(s, t). t = Value) (map (\<lambda>s. (s, Value)) nets) = map (\<lambda>s. (s, Value)) nets"
  "dropWhile (\<lambda>(s, t). t = Value) (map (\<lambda>s. (s, Value)) nets) = []"
  by (induction nets) simp_all

lemmas parse_steps = parse_tokens.simps(3) apply_option_def option_of_def required_def typed_def py_int_dec assign_def

lemma create_parsed:
  assumes "plain i" "\<forall>s \<in> set nets. plain s" "nets \<noteq> []"
  shows "\<exists>st. parse_known create_parser (drop 3 (create_line a i r c g nets)) = Inr st \<and> extras st = []
    \<and> namespace st = [(''image'', JStr i), (''size'', JNull), (''ram'', JNum (of_nat r)), (''ssd'', JNull),
        (''hdd'', JNull), (''cpus'', JNum (of_nat c)), (''accumulate'', JStr ''max''), (''gpus'', JNum (of_nat g)),
        (''networks_all'', JList (map JStr nets))]"
proof -
  obtain x xs where nets: "nets = x # xs" using assms(3) by (cases nets) auto
  show ?thesis
    unfolding parse_known_def create_sub_tokens [OF assms(1,2)]
    by (simp add: nets parse_steps start_state_def create_parser_def defaults_def set_default_def optional_def
        takeWhile_values missing_def res_bind_def comp_def)
qed

lemma cli_create:
  assumes "plain a" "plain i" "\<forall>s \<in> set nets. plain s" "nets \<noteq> []"
  shows "cli_main (create_line a i r c g nets) = Inr (do_create \<lparr>cli_allocator = a, cli_name = [], cli_image = i, cli_size = JNull,
    cli_ram = int r, cli_ssd = None, cli_hdd = None, cli_cpus = int c, cli_networks = nets, cli_gpus = int g\<rparr>)"
proof -
  obtain st where q: "parse_known create_parser (drop 3 (create_line a i r c g nets)) = Inr st" "extras st = []"
    "namespace st = [(''image'', JStr i), (''size'', JNull), (''ram'', JNum (of_nat r)), (''ssd'', JNull),
        (''hdd'', JNull), (''cpus'', JNum (of_nat c)), (''accumulate'', JStr ''max''), (''gpus'', JNum (of_nat g)),
        (''networks_all'', JList (map JStr nets))]"
    using create_parsed [OF assms(2-4)] by blast
  have rest: "drop 3 (create_line a i r c g nets) = ''--image'' # i # ''--ram'' # dec r # ''--cpus'' # dec c # ''--gpus'' # dec g # nets"
    by (simp add: create_line_def)
  have subs: "map_of cli_parsers ''create'' = Some create_parser" by (simp add: cli_parsers_def)
  show ?thesis
    unfolding cli_main_def parse_commands_def create_tokens [OF assms(1-3)]
    using q unfolding rest
    by (simp add: parse_steps start_state_def command_parser_def defaults_def set_default_def subs missing_def
        res_bind_def comp_def cli_command_def cli_args_of_def text_or_def int_or_def opt_int_def)
qed

section \<open>A machine ordered at the command line\<close>

definition vm_reply :: "vm res \<Rightarrow> int \<times> json" where
  "vm_reply r = (case r of
      Inr v \<Rightarrow> (200, JObj [(''status'', JStr ''Success''), (''name'', JStr (vm_name v)), (''info'', vm_json v)])
    | Inl e \<Rightarrow> if exn_kind e = CancelledErr then (200, JObj [(''status'', JStr ''Cancelled'')])
        else (500, JObj [(''status'', JStr ''Failed''), (''error'', JStr (exn_msg e))]))"

text \<open>C35. A machine that is ordered at the command line arrives at the hypervisor as it was ordered: the
  arguments are read, put into the body of a request to the hypervisor that was named, and that body makes
  the handler allocate a machine with exactly the image, the memory, the processors, the GPUs and the
  networks of the command line, without disks.  Arguments must not begin with a dash.\<close>

theorem ordered_machine_is_allocated:
  assumes "plain a" and "plain i" and "\<forall>s \<in> set nets. plain s" and "nets \<noteq> []"
  shows "\<exists>rq. cli_main ([''--allocator'', a, ''create'', ''--image'', i, ''--ram'', dec r, ''--cpus'', dec c, ''--gpus'', dec g] @ nets) = Inr rq
    \<and> req_verb rq = POST \<and> req_url rq = ''http://'' @ a @ ''/vms''
    \<and> handle_allocate_vm M (req_body rq) n = (case allocate_vm M \<lparr>p_base_image = JStr i, p_base_image_size = JNull,
        p_memory_gb = JNum (of_nat r), p_networks = JList (map JStr nets), p_num_gpus = int g, p_num_cpus = JNum (of_nat c),
        p_disks = [], p_allocation_id = JNull, p_requestor = JNull\<rparr> n of (res, n') \<Rightarrow> (Inr (vm_reply res), n'))"
proof -
  have "py_int (JNum (rat_of_nat k)) = Inr (int k)" for k using py_int_of_int [of "int k"] by simp
  then show ?thesis
    using cli_create [OF assms]
    by (simp add: create_line_def do_create_def api_create_def cli_disk_def handle_allocate_vm_def py_defs disks_of_def
        res_bind_def vm_reply_def split: prod.split)
qed

theorem ordered_machine_is_allocated_witness:
  "\<forall>(M :: unit vm_ops) n. \<exists>rq res n'. cli_main ([''--allocator'', ''hv:9080'', ''create'', ''--image'', ''ubuntu'', ''--ram'', dec 20, ''--cpus'', dec 4,
      ''--gpus'', dec 1] @ [''bridge'']) = Inr rq \<and> handle_allocate_vm M (req_body rq) n = (Inr (vm_reply res), n')"
proof (intro allI)
  fix M :: "unit vm_ops" and n
  have "plain ''hv:9080''" "plain ''ubuntu''" "\<forall>s \<in> set [''bridge'']. plain s" by (simp_all add: plain_def)
  from ordered_machine_is_allocated [OF this, of 20 4 1 M n]
  show "\<exists>rq res n'. cli_main ([''--allocator'', ''hv:9080'', ''create'', ''--image'', ''ubuntu'', ''--ram'', dec 20, ''--cpus'', dec 4,
      ''--gpus'', dec 1] @ [''bridge'']) = Inr rq \<and> handle_allocate_vm M (req_body rq) n = (Inr (vm_reply res), n')"
    by (auto split: prod.splits)
qed

end
