(* ===== verification/Connections.thy ===== *)
theory Connections
  imports Provisioner_Rest
begin

text \<open>
  The connections of the services: the Redis clients (\<open>redisclient.py\<close> of the allocate and of the heartbeat
  service, \<open>hardvisor/redis_client.py\<close>), which open a connection when it is first needed, the start of the
  two web applications (\<open>app.py\<close>), and the websocket that relays a Redis subscription
  (\<open>resourcemanager.volunteer_sub\<close>).
\<close>

section \<open>The Redis clients\<close>

text \<open>Where a connection goes, as it is passed to the library; \<open>JNull\<close> stands for an argument that is not
  passed, and the library then takes database 0.\<close>

record address =
  to_host :: json
  to_port :: json
  to_db :: json

record redis_client =
  rc_host :: json
  rc_port :: int
  rc_database :: int
  rc_pool :: address
  rc_conn :: "address option"
  rc_async :: "address option"

definition redis_client_of :: "json \<Rightarrow> json \<Rightarrow> json \<Rightarrow> redis_client res" where
  "redis_client_of host port db =
     res_bind (py_int port) (\<lambda>p.
     res_bind (py_int db) (\<lambda>d.
     Inr \<lparr>rc_host = host, rc_port = p, rc_database = d, rc_pool = \<lparr>to_host = host, to_port = port, to_db = db\<rparr>,
       rc_conn = None, rc_async = None\<rparr>))"

text \<open>\<open>conn\<close>: the synchronous connection comes from the pool, with its database.\<close>

definition sync_conn :: "redis_client \<Rightarrow> address \<times> redis_client" where
  "sync_conn c = (case rc_conn c of Some x \<Rightarrow> (x, c) | None \<Rightarrow> (rc_pool c, c\<lparr>rc_conn := Some (rc_pool c)\<rparr>))"

text \<open>\<open>asyncconn\<close>: a connection that is there is returned at once; otherwise the coroutine asks for one with
  host and port, waits, and stores what it gets.  Another coroutine can come in while it waits.\<close>

definition async_target :: "redis_client \<Rightarrow> address" where
  "async_target c = \<lparr>to_host = rc_host c, to_port = JNum (of_int (rc_port c)), to_db = JNull\<rparr>"

definition async_ask :: "redis_client \<Rightarrow> address + address" where
  "async_ask c = (case rc_async c of Some x \<Rightarrow> Inr x | None \<Rightarrow> Inl (async_target c))"

definition async_store :: "address \<Rightarrow> redis_client \<Rightarrow> redis_client" where
  "async_store x c = c\<lparr>rc_async := Some x\<rparr>"

text \<open>The clients of the two services, made when their modules are loaded.\<close>

definition env_or :: "string dict \<Rightarrow> string \<Rightarrow> json \<Rightarrow> json" where
  "env_or vars k dflt = (case map_of vars k of Some v \<Rightarrow> JStr v | None \<Rightarrow> dflt)"

definition allocate_redis :: "string dict \<Rightarrow> redis_client res" where
  "allocate_redis vars = redis_client_of (env_or vars ''REDIS_HOST'' (JStr ''redis''))
     (env_or vars ''REDIS_PORT'' (JStr ''6379'')) (env_or vars ''REDIS_DB'' (JNum 0))"

definition heartbeat_redis :: "string dict \<Rightarrow> redis_client res" where
  "heartbeat_redis vars = redis_client_of (env_or vars ''REDIS_HOST'' (JStr ''localhost''))
     (env_or vars ''REDIS_PORT'' (JStr ''6379'')) (env_or vars ''REDIS_DB'' JNull)"

text \<open>Hardvisor's client opens a pool of ten connections, whatever size it was made with.\<close>

record pool_client =
  pc_host :: json
  pc_port :: json
  pc_pool_size :: int
  pc_conn :: "(address \<times> int) option"

definition pool_client_of :: "json \<Rightarrow> json \<Rightarrow> int \<Rightarrow> pool_client" where
  "pool_client_of host port poolsize = \<lparr>pc_host = host, pc_port = port, pc_pool_size = poolsize, pc_conn = None\<rparr>"

definition pool_conn :: "pool_client \<Rightarrow> (address \<times> int) \<times> pool_client" where
  "pool_conn c = (case pc_conn c of
      Some x \<Rightarrow> (x, c)
    | None \<Rightarrow> (let x = (\<lparr>to_host = pc_host c, to_port = pc_port c, to_db = JNull\<rparr>, 10) in (x, c\<lparr>pc_conn := Some x\<rparr>)))"

section \<open>The web applications\<close>

text \<open>The module of the client is loaded before the environment is checked.\<close>

record web_app =
  app_redis :: redis_client
  app_port :: int
  app_tasks :: "string list"

definition allocate_app :: "string dict \<Rightarrow> int \<Rightarrow> web_app res" where
  "allocate_app vars port =
     res_bind (allocate_redis vars) (\<lambda>redis.
     res_bind (checkenv vars) (\<lambda>_.
     Inr \<lparr>app_redis = redis, app_port = port, app_tasks = []\<rparr>))"

definition startup_daemons :: "web_app \<Rightarrow> web_app" where
  "startup_daemons a = a\<lparr>app_tasks := app_tasks a @ [''expired_jobs'']\<rparr>"

definition cleanup_daemons :: "web_app \<Rightarrow> web_app" where
  "cleanup_daemons a = a\<lparr>app_tasks := filter (\<lambda>t. t \<noteq> ''expired_jobs'') (app_tasks a)\<rparr>"

definition heartbeat_app :: "string dict \<Rightarrow> int \<Rightarrow> web_app res" where
  "heartbeat_app vars port =
     res_bind (heartbeat_redis vars) (\<lambda>redis.
     res_bind (checkenv vars) (\<lambda>_.
     Inr \<lparr>app_redis = redis, app_port = port, app_tasks = []\<rparr>))"

text \<open>Answers that report errors, with the status of an \<open>aiohttp\<close> reply (\<open>responses.py\<close>); nothing uses them.\<close>

definition validation_errors :: "json \<Rightarrow> reply" where
  "validation_errors errors = (200, JObj [(''errors'', errors)])"

definition server_errors :: "json \<Rightarrow> reply" where
  "server_errors errors = (500, JObj [(''server_errors'', errors)])"

section \<open>Relaying a subscription\<close>

text \<open>The Redis subscription and the websocket of one request, and the sockets of the application.\<close>

record 'w relay =
  r_connect :: "('w, unit) py"
  r_prepare :: "('w, unit) py"
  r_subscribe :: "string \<Rightarrow> ('w, unit) py"
  r_next :: "('w, json) py"
  r_send :: "json \<Rightarrow> ('w, unit) py"
  r_close :: "('w, unit) py"

record 'w sockets =
  peers :: 'w
  open_sockets :: "nat list"

definition on_peers :: "('w, 'a) py \<Rightarrow> ('w sockets, 'a) py" where
  "on_peers m = (\<lambda>s. case m (peers s) of (r, w) \<Rightarrow> (r, s\<lparr>peers := w\<rparr>))"

text \<open>The loop ends with an exception: of the subscription, of the websocket, or because the task is
  cancelled, at the latest while it waits for the message after a given number of them.\<close>

fun relay_messages :: "'w relay \<Rightarrow> nat \<Rightarrow> ('w sockets, unit) py" where
  "relay_messages L 0 = py_raise (Exn CancelledErr [])"
| "relay_messages L (Suc i) =
     py_bind (on_peers (r_next L)) (\<lambda>reply.
     py_then (on_peers (r_send L reply)) (relay_messages L i))"

definition volunteer_sub :: "'w relay \<Rightarrow> string \<Rightarrow> string \<Rightarrow> nat \<Rightarrow> nat \<Rightarrow> ('w sockets, unit) py" where
  "volunteer_sub L resourcemanager_id inventory_id socket i =
     py_then (on_peers (r_connect L))
     (py_then (on_peers (r_prepare L))
     (py_then (py_modify (\<lambda>s. s\<lparr>open_sockets := List.insert socket (open_sockets s)\<rparr>))
     (py_then (on_peers (r_subscribe L (''i:'' @ resourcemanager_id @ ''-'' @ inventory_id)))
       (py_finally (relay_messages L i)
         (py_then (on_peers (r_close L))
           (py_modify (\<lambda>s. s\<lparr>open_sockets := removeAll socket (open_sockets s)\<rparr>)))))))"

section \<open>What the clients do\<close>

text \<open>Coroutines that ask for the asynchronous connection in any order: the client, and how many of them
  wait for a connection of their own.\<close>

inductive asking :: "redis_client \<times> nat \<Rightarrow> redis_client \<times> nat \<Rightarrow> bool" where
  found: "async_ask c = Inr x \<Longrightarrow> asking (c, k) (c, k)"
| opens: "async_ask c = Inl x \<Longrightarrow> asking (c, k) (c, Suc k)"
| stores: "asking (c, Suc k) (async_store (async_target c) c, k)"

inductive_cases askingE: "asking (c, k) (c', k')"

lemma asking_inv:
  assumes "asking\<^sup>*\<^sup>* (c0, 0) (c, k)" and "rc_async c0 = None"
  shows "rc_host c = rc_host c0 \<and> rc_port c = rc_port c0 \<and> rc_pool c = rc_pool c0 \<and> rc_conn c = rc_conn c0
    \<and> (\<forall>x. rc_async c = Some x \<longrightarrow> x = async_target c0)"
proof -
  have "case s of (c, k) \<Rightarrow> rc_host c = rc_host c0 \<and> rc_port c = rc_port c0 \<and> rc_pool c = rc_pool c0
      \<and> rc_conn c = rc_conn c0 \<and> (\<forall>x. rc_async c = Some x \<longrightarrow> x = async_target c0)"
    if "asking\<^sup>*\<^sup>* (c0, 0) s" for s
    using that
  proof (induction rule: rtranclp_induct)
    case base
    with assms(2) show ?case by simp
  next
    case (step s s')
    from step(2,3) show ?case
      by (cases rule: asking.cases) (auto simp: async_store_def async_target_def)
  qed
  from this [OF assms(1)] show ?thesis by simp
qed

lemma relay_ends: "\<exists>e s'. relay_messages L i s = (Inl e, s') \<and> open_sockets s' = open_sockets s"
proof (induction i arbitrary: s)
  case 0
  then show ?case by (simp add: py_raise_def)
next
  case (Suc i)
  obtain r w where r: "r_next L (peers s) = (r, w)" by (cases "r_next L (peers s)")
  show ?case
  proof (cases r)
    case (Inl e)
    with r show ?thesis by (simp add: py_bind_def on_peers_def)
  next
    case (Inr v)
    obtain q w' where q: "r_send L v w = (q, w')" by (cases "r_send L v w")
    show ?thesis
    proof (cases q)
      case (Inl e)
      with r Inr q show ?thesis by (simp add: py_bind_def py_then_def on_peers_def)
    next
      case (Inr u)
      with r q \<open>r = Inr v\<close> Suc.IH [of "s\<lparr>peers := w'\<rparr>"] show ?thesis
        by (simp add: py_bind_def py_then_def on_peers_def)
    qed
  qed
qed

text \<open>A websocket is among those of the application no longer when its handler ends, whatever ended the
  relaying, provided closing it does not fail; the handler never ends normally.\<close>

lemma websocket_is_discarded:
  assumes "r_connect L w0 = (Inr (), w1)" and "r_prepare L w1 = (Inr (), w2)"
    and "r_subscribe L (''i:'' @ rm @ ''-'' @ inventory) w2 = (Inr (), w3)" and close: "\<forall>w. \<exists>w'. r_close L w = (Inr (), w')"
  shows "\<exists>e s'. volunteer_sub L rm inventory socket i \<lparr>peers = w0, open_sockets = ss\<rparr> = (Inl e, s')
    \<and> open_sockets s' = removeAll socket (List.insert socket ss)"
proof -
  obtain e s1 where run: "relay_messages L i \<lparr>peers = w3, open_sockets = List.insert socket ss\<rparr> = (Inl e, s1)"
    and same: "open_sockets s1 = List.insert socket ss"
    using relay_ends [of L i "\<lparr>peers = w3, open_sockets = List.insert socket ss\<rparr>"] by auto
  obtain w' where "r_close L (peers s1) = (Inr (), w')" using close by blast
  with run same assms(1-3) show ?thesis
    by (simp add: volunteer_sub_def py_then_def py_bind_def py_modify_def py_finally_def on_peers_def)
qed

text \<open>The heartbeat service does not start without \<open>REDIS_DB\<close>: its client fails before the check that would
  name the variable.\<close>

lemma heartbeat_needs_database:
  assumes "map_of vars ''REDIS_DB'' = None"
  shows "\<exists>e. heartbeat_app vars port = Inl e \<and> exn_kind e \<noteq> OSErr"
  using assms
  by (auto simp: heartbeat_app_def heartbeat_redis_def redis_client_of_def env_or_def py_int_def res_bind_def
      split: sum.splits option.splits)

text \<open>C36. In whatever order the coroutines of the allocate service ask for its asynchronous connection, the
  one they get goes to the configured host without a database, hence to database 0, while the synchronous
  connection goes to the configured database: with REDIS_DB set, the allocations that are stored and
  those that the synchronous reader sees are in different databases.\<close>

theorem database_is_ignored:
  assumes "allocate_redis vars = Inr c0" and "asking\<^sup>*\<^sup>* (c0, 0) (c, k)"
    and "async_ask c = Inr x \<or> async_ask c = Inl x"
  shows "to_host x = env_or vars ''REDIS_HOST'' (JStr ''redis'') \<and> to_db x = JNull
    \<and> to_host (fst (sync_conn c)) = to_host x \<and> to_db (fst (sync_conn c)) = env_or vars ''REDIS_DB'' (JNum 0)"
proof -
  from assms(1) have c0: "rc_async c0 = None" "rc_conn c0 = None" "rc_host c0 = env_or vars ''REDIS_HOST'' (JStr ''redis'')"
    "rc_pool c0 = \<lparr>to_host = env_or vars ''REDIS_HOST'' (JStr ''redis''), to_port = env_or vars ''REDIS_PORT'' (JStr ''6379''),
       to_db = env_or vars ''REDIS_DB'' (JNum 0)\<rparr>"
    by (auto simp: allocate_redis_def redis_client_of_def)
  note asking_inv [OF assms(2) c0(1)]
  then show ?thesis
    using c0 assms(3) by (auto simp: async_ask_def async_target_def sync_conn_def split: option.splits)
qed

definition demo_vars :: "string dict" where
  "demo_vars = [(''REDIS_HOST'', ''db''), (''REDIS_DB'', ''3'')]"

theorem database_is_ignored_witness:
  "\<exists>c0. allocate_redis demo_vars = Inr c0 \<and> async_ask c0 = Inl (async_target c0) \<and> to_db (async_target c0) = JNull
    \<and> to_db (fst (sync_conn c0)) = JStr ''3''"
proof -
  obtain c0 where c0: "allocate_redis demo_vars = Inr c0" and ask: "async_ask c0 = Inl (async_target c0)"
    by (simp add: allocate_redis_def redis_client_of_def env_or_def demo_vars_def py_int_def numeral_value_def strip_def
        is_space_def digit_value_def res_bind_def async_ask_def)
  from database_is_ignored [OF c0 rtranclp.rtrancl_refl disjI2 [OF ask]] c0 ask show ?thesis
    by (simp add: demo_vars_def env_or_def)
qed

end
