(* ===== verification/Time_Limit.thy ===== *)
theory Time_Limit
  imports Tasks
begin

text \<open>
  \<open>time_limit\<close> of \<open>utils/waiter.py\<close>, which interrupts the body of a \<open>with\<close> statement by the alarm signal.  The
  body is a task whose pieces are what the interpreter executes between two points at which it looks for
  signals; a process has one alarm.
\<close>

section \<open>The alarm of a process\<close>

record 'w process =
  machine :: 'w
  alarm_at :: "rat option"

text \<open>\<open>signal.alarm(seconds)\<close> replaces the alarm that is set; zero seconds take it away.\<close>

definition set_alarm :: "('w \<Rightarrow> rat) \<Rightarrow> nat \<Rightarrow> ('w process, unit) py" where
  "set_alarm clk seconds = py_modify (\<lambda>s. s\<lparr>alarm_at :=
     (if seconds = 0 then None else Some (clk (machine s) + of_nat seconds))\<rparr>)"

definition alarm_due :: "('w \<Rightarrow> rat) \<Rightarrow> 'w process \<Rightarrow> bool" where
  "alarm_due clk s \<longleftrightarrow> (case alarm_at s of None \<Rightarrow> False | Some t \<Rightarrow> t \<le> clk (machine s))"

text \<open>A piece of a body, which the handler interrupts when the alarm has gone off before it: the handler raises
  where the interpreter is, so that the statements around the piece see the exception.\<close>

definition t_checked :: "('w \<Rightarrow> rat) \<Rightarrow> ('w process, 'a) py \<Rightarrow> ('w process, 'a) task" where
  "t_checked clk m = t_atomic (\<lambda>s. if alarm_due clk s
     then (Inl (Exn TimeoutErr ''Timed out!''), s\<lparr>alarm_at := None\<rparr>) else m s)"

definition on_machine :: "('w, 'a) py \<Rightarrow> ('w process, 'a) py" where
  "on_machine m = (\<lambda>s. case m (machine s) of (r, w) \<Rightarrow> (r, s\<lparr>machine := w\<rparr>))"

definition t_finally :: "('s, 'a) task \<Rightarrow> ('s, unit) task \<Rightarrow> ('s, 'a) task" where
  "t_finally t u = t_bind (t_attempt t) (\<lambda>r. t_then u (t_lift r))"

definition time_limit :: "('w \<Rightarrow> rat) \<Rightarrow> nat \<Rightarrow> ('w process, 'a) task \<Rightarrow> ('w process, 'a) task" where
  "time_limit clk seconds body =
     t_then (t_checked clk (set_alarm clk seconds)) (t_finally body (t_checked clk (set_alarm clk 0)))"

section \<open>What a limit does\<close>

lemma run_checked [task_run]: "run (t_checked clk m) s = (if alarm_due clk s
    then (Inl (Exn TimeoutErr ''Timed out!''), s\<lparr>alarm_at := None\<rparr>) else m s)"
  by (simp add: t_checked_def task_run)

lemma run_finally [task_run]: "run (t_finally t u) = py_bind (py_attempt (run t)) (\<lambda>r. py_then (run u) (py_lift r))"
  by (simp add: t_finally_def task_run)

text \<open>A piece is interrupted exactly when the clock has reached the alarm.\<close>

lemma checked_machine:
  "run (t_checked clk (on_machine m)) s = (if alarm_due clk s
     then (Inl (Exn TimeoutErr ''Timed out!''), s\<lparr>alarm_at := None\<rparr>)
     else (case m (machine s) of (r, w) \<Rightarrow> (r, s\<lparr>machine := w\<rparr>)))"
  by (simp add: run_checked on_machine_def)

text \<open>However a limited body ends, no alarm is set afterwards.\<close>

lemma cancelled: "alarm_at (snd (run (t_checked clk (set_alarm clk 0)) s)) = None"
  by (simp add: run_checked set_alarm_def py_modify_def)

lemma then_lift_state: "snd (py_then m (py_lift r) s) = snd (m s)"
  by (simp add: py_then_def py_bind_def py_lift_def split: sum.split prod.split)

lemma finally_clears: "alarm_at (snd (run (t_finally body (t_checked clk (set_alarm clk 0))) s)) = None"
proof -
  obtain r s' where "run body s = (r, s')" by (cases "run body s")
  then show ?thesis by (simp add: run_finally py_bind_def py_attempt_def then_lift_state cancelled)
qed

lemma time_limit_clears: "alarm_at (snd (run (time_limit clk seconds body) s)) = None"
proof (cases "alarm_due clk s")
  case True
  then show ?thesis by (simp add: time_limit_def run_then run_checked py_then_def py_bind_def)
next
  case False
  then have "run (t_checked clk (set_alarm clk seconds)) s = (Inr (), snd (set_alarm clk seconds s))"
    by (simp add: run_checked set_alarm_def py_modify_def)
  then show ?thesis by (simp add: time_limit_def run_then py_then_def py_bind_def finally_clears)
qed

text \<open>Hence a limit inside a limited body disarms the outer one: what comes after it is not interrupted,
  however late it is.\<close>

lemma inner_limit_disarms_outer:
  assumes "alarm_at s = None" and "run (time_limit clk b x) (snd (set_alarm clk a s)) = (Inr u, s1)"
    and "m (machine s1) = (Inr v, w)"
  shows "run (time_limit clk a (t_then (time_limit clk b x) (t_checked clk (on_machine m)))) s
    = (Inr v, s1\<lparr>machine := w\<rparr>)"
proof -
  have none: "alarm_at s1 = None" using time_limit_clears [of clk b x "snd (set_alarm clk a s)"] assms(2) by simp
  have start: "run (t_checked clk (set_alarm clk a)) s = (Inr (), snd (set_alarm clk a s))"
    using assms(1) by (simp add: run_checked alarm_due_def set_alarm_def py_modify_def)
  have later: "run (t_checked clk (on_machine m)) s1 = (Inr v, s1\<lparr>machine := w\<rparr>)"
    using none assms(3) by (simp add: run_checked alarm_due_def on_machine_def)
  have stop: "run (t_checked clk (set_alarm clk 0)) (s1\<lparr>machine := w\<rparr>) = (Inr (), s1\<lparr>machine := w\<rparr>)"
    using none by (simp add: run_checked alarm_due_def set_alarm_def py_modify_def)
  show ?thesis
    unfolding time_limit_def [of clk a] run_then run_finally
    using start assms(2) later stop by (simp add: py_then_def py_bind_def py_attempt_def py_lift_def)
qed

end
