(* ===== verification/Waiting.thy ===== *)
theory Waiting
  imports Host_System Time_Limit
begin

text \<open>
  The remaining waiting loops of \<open>utils/waiter.py\<close>, the configuration of the log
  (\<open>utils/anylogging.py\<close>), and the terminal (\<open>lab_terminal.py\<close>).
\<close>

section \<open>Waiting without forgiving\<close>

fun plain_rounds :: "'w sys \<Rightarrow> ('w, bool) py \<Rightarrow> rat \<Rightarrow> rat \<Rightarrow> rat \<Rightarrow> nat \<Rightarrow> ('w, unit) py" where
  "plain_rounds S predicate before timeout interval 0 = py_raise (Exn AssertionErr ''no turns left'')"
| "plain_rounds S predicate before timeout interval (Suc fuel) =
     py_bind predicate (\<lambda>ok.
     if ok then py_return ()
     else py_bind (now S) (\<lambda>t.
       if t - before > timeout then py_raise (Exn TimeoutErr ''Predicate timed out'')
       else py_then (pause S interval) (plain_rounds S predicate before timeout interval fuel)))"

definition wait_for_predicate :: "'w sys \<Rightarrow> ('w, bool) py \<Rightarrow> rat \<Rightarrow> rat \<Rightarrow> ('w, unit) py" where
  "wait_for_predicate S predicate timeout interval =
     py_bind (now S) (\<lambda>before. plain_rounds S predicate before timeout interval (wait_fuel timeout interval))"

section \<open>Collecting results\<close>

text \<open>The results of the tries are joined until there are enough of them; a try that raises is noted, and
  the timeout is looked at before every try.  The result may have fewer elements than expected.\<close>

fun aggregate_rounds ::
    "'w sys \<Rightarrow> ('w, json) py \<Rightarrow> nat \<Rightarrow> rat \<Rightarrow> rat \<Rightarrow> rat \<Rightarrow> nat \<Rightarrow> string \<Rightarrow> json list \<Rightarrow> ('w, json list) py" where
  "aggregate_rounds S predicate expected_len_stop interval timeout before 0 noted res = py_return res"
| "aggregate_rounds S predicate expected_len_stop interval timeout before (Suc tries) noted res =
     py_bind (now S) (\<lambda>t.
     if t - before > timeout then
       py_raise (Exn TimeoutErr (''Predicate timed out, during the time we caught theses exceptions: '' @ [CHR 0x0A] @ noted))
     else py_bind (py_attempt predicate) (\<lambda>r.
     case r of
       Inl e \<Rightarrow> py_then (pause S interval)
         (aggregate_rounds S predicate expected_len_stop interval timeout before tries (noted @ exn_msg e @ [CHR 0x0A]) res)
     | Inr current_res \<Rightarrow>
         (case jiter current_res of
            Inl _ \<Rightarrow> py_raise (Exn PlainException ''Did not get iterable object as result'')
          | Inr xs \<Rightarrow>
              if length (res @ xs) \<ge> expected_len_stop then py_return (res @ xs)
              else py_then (pause S interval)
                (aggregate_rounds S predicate expected_len_stop interval timeout before tries noted (res @ xs)))))"

definition await_and_aggregate ::
    "'w sys \<Rightarrow> ('w, json) py \<Rightarrow> nat \<Rightarrow> rat \<Rightarrow> nat \<Rightarrow> rat \<Rightarrow> ('w, json list) py" where
  "await_and_aggregate S predicate expected_len_stop interval tries timeout =
     py_bind (now S) (\<lambda>before.
       aggregate_rounds S predicate expected_len_stop interval timeout before tries [] [])"

definition is_iterable :: "json \<Rightarrow> bool" where
  "is_iterable v \<longleftrightarrow> (case jiter v of Inr _ \<Rightarrow> True | Inl _ \<Rightarrow> False)"

text \<open>Waiting without forgiving is waiting with no forgiven exception, with a shorter message.\<close>

definition short_timeout :: "'a res \<Rightarrow> unit res" where
  "short_timeout r = (case r of
      Inr _ \<Rightarrow> Inr ()
    | Inl e \<Rightarrow> if exn_kind e = TimeoutErr then Inl (Exn TimeoutErr ''Predicate timed out'') else Inl e)"

lemma plain_rounds_wait_rounds:
  assumes "\<And>w e w'. predicate w = (Inl e, w') \<Longrightarrow> exn_kind e \<noteq> TimeoutErr"
    and "\<And>w. \<exists>t w'. now S w = (Inr t, w')" and "\<And>w. \<exists>w'. pause S interval w = (Inr (), w')"
  shows "plain_rounds S predicate before timeout interval fuel w =
    (case wait_rounds S predicate (\<lambda>b. b) (\<lambda>_. False) before timeout interval fuel noted w of (r, w') \<Rightarrow> (short_timeout r, w'))"
proof (induction fuel arbitrary: w)
  case 0
  then show ?case by (simp add: py_raise_def short_timeout_def)
next
  case (Suc fuel)
  obtain r w1 where p: "predicate w = (r, w1)" by (cases "predicate w")
  obtain t w2 where t: "now S w1 = (Inr t, w2)" using assms(2) by blast
  obtain w3 where s: "pause S interval w2 = (Inr (), w3)" using assms(3) by blast
  show ?case
  proof (cases r)
    case (Inl e)
    with p assms(1) [of w e w1] show ?thesis by (simp add: py_defs short_timeout_def)
  next
    case (Inr ok)
    with p t s Suc.IH [of w3] show ?thesis by (simp add: py_defs wait_more_def short_timeout_def)
  qed
qed

lemma aggregate_enough:
  assumes "aggregate_rounds S predicate e interval timeout before tries noted res w = (Inr xs, w')"
  shows "\<exists>ys. xs = res @ ys"
  using assms
  by (induction tries arbitrary: noted res w)
    (fastforce simp: py_defs split: sum.splits prod.splits if_splits)+

section \<open>The log\<close>

text \<open>A level is a number or a name; \<open>setLevel\<close> refuses an unknown name.\<close>

datatype log_level = Number nat | Named string

definition level_numbers :: "(string \<times> nat) list" where
  "level_numbers = [(''CRITICAL'', 50), (''FATAL'', 50), (''ERROR'', 40), (''WARN'', 30), (''WARNING'', 30), (''INFO'', 20),
     (''DEBUG'', 10), (''NOTSET'', 0)]"

definition check_level :: "log_level \<Rightarrow> nat res" where
  "check_level l = (case l of
      Number n \<Rightarrow> Inr n
    | Named s \<Rightarrow> (case map_of level_numbers s of Some n \<Rightarrow> Inr n | None \<Rightarrow> Inl (Exn ValueErr (''Unknown level: '' @ s))))"

datatype log_target = Stdout | Stderr | Rotating string nat nat

record log_handler =
  lh_target :: log_target
  lh_level :: nat
  lh_colored :: bool

record root_logger =
  log_lvl :: nat
  log_handlers :: "log_handler list"

definition configure_console_logging :: "bool \<Rightarrow> log_level \<Rightarrow> root_logger \<Rightarrow> root_logger res" where
  "configure_console_logging use_color level l =
     res_bind (check_level level) (\<lambda>n.
     Inr (l\<lparr>log_handlers := log_handlers l @ [\<lparr>lh_target = Stdout, lh_level = n, lh_colored = use_color\<rparr>]\<rparr>))"

definition configure_file_logging :: "string \<Rightarrow> log_level \<Rightarrow> nat \<Rightarrow> root_logger \<Rightarrow> root_logger res" where
  "configure_file_logging filename level backup_count l =
     res_bind (check_level level) (\<lambda>n.
     Inr (l\<lparr>log_handlers := log_handlers l @ [\<lparr>lh_target = Rotating filename 50000000 backup_count, lh_level = n, lh_colored = False\<rparr>]\<rparr>))"

text \<open>The comparison with \<open>NOTSET\<close> is one with the number 0.\<close>

definition configure_logging :: "log_level \<Rightarrow> log_level \<Rightarrow> log_level \<Rightarrow> string option \<Rightarrow> root_logger \<Rightarrow> root_logger res" where
  "configure_logging root_level console_level file_level filename l =
     res_bind (check_level root_level) (\<lambda>n.
     (let l = l\<lparr>log_lvl := n\<rparr> in
     res_bind (case filename of
         None \<Rightarrow> Inr l
       | Some f \<Rightarrow> if file_level \<noteq> Number 0 then configure_file_logging f file_level 100000 l else Inr l) (\<lambda>l.
     if console_level \<noteq> Number 0 then configure_console_logging True console_level l else Inr l)))"

text \<open>The colours of a line: by a mark of the record or by its level.\<close>

definition colors :: "(string \<times> string) list" where
  "colors = [(''WARNING'', [CHR 0x1B] @ ''[33m''), (''CRITICAL'', [CHR 0x1B] @ ''[31m''), (''ERROR'', [CHR 0x1B] @ ''[31m'')]"

definition reset_seq :: string where
  "reset_seq = [CHR 0x1B] @ ''[0m''"

definition line_colors :: "string \<Rightarrow> string option \<Rightarrow> string \<times> string" where
  "line_colors levelname colorize_record =
     ((case colorize_record of
         Some c \<Rightarrow> c
       | None \<Rightarrow> (case map_of colors levelname of Some c \<Rightarrow> c | None \<Rightarrow> [])), reset_seq)"

definition normal_format :: string where
  "normal_format = ''%(asctime)s %(process)d %(thread)d %(levelname)s %(name)s '' @
     ''%(message)s %(funcName)s %(pathname)s:%(lineno)d''"

definition colored_format :: string where
  "colored_format = ''%(asctime)s %(process)d %(thread)d %(start_color)s %(levelname)s %(name)s '' @
     ''%(message)s %(end_color)s %(funcName)s %(pathname)s:%(lineno)d''"

text \<open>The logger of the two services (\<open>settings.py\<close>): every message goes to the error output.  It is a logger of
  its own beside the root logger.\<close>

definition settings_logger :: "root_logger \<Rightarrow> root_logger" where
  "settings_logger l = l\<lparr>log_lvl := 10, log_handlers := log_handlers l @ [\<lparr>lh_target = Stderr, lh_level = 10, lh_colored = False\<rparr>]\<rparr>"

text \<open>Configuring the log adds handlers: a second call makes every line appear once more on the console.\<close>

lemma configured_twice:
  assumes "configure_logging r c f file l = Inr l1" and "configure_logging r c f file l1 = Inr l2"
  shows "\<exists>hs. log_handlers l1 = log_handlers l @ hs \<and> log_handlers l2 = log_handlers l @ hs @ hs"
  using assms
  by (auto simp: configure_logging_def configure_file_logging_def configure_console_logging_def Let_def
      split: option.splits if_splits)

section \<open>The terminal\<close>

text \<open>What the terminal uses of IPython, which is not in the repository: \<open>initialize\<close> with the extensions and the
  arguments, the handler of an exception class, which is told whether the debugger is on, and the banner.\<close>

record 't ipython =
  ip_initialize :: "string list \<Rightarrow> string list \<Rightarrow> ('t, unit) py"
  ip_set_custom_exc :: "string list \<Rightarrow> (bool \<Rightarrow> ('t, unit) py) \<Rightarrow> ('t, unit) py"
  ip_showtraceback :: "('t, unit) py"
  ip_start :: "('t, unit) py"
  ip_set_banner :: "string \<Rightarrow> ('t, unit) py"
  ip_init_banner :: "('t, unit) py"

definition terminal_extensions :: "string list \<Rightarrow> string list" where
  "terminal_extensions defaults = defaults @ [''automation_infra.lab_connector'']"

definition my_handler :: "'t ipython \<Rightarrow> bool \<Rightarrow> ('t, unit) py" where
  "my_handler T call_pdb = (if call_pdb then ip_showtraceback T else py_return ())"

definition launch_instance :: "'t ipython \<Rightarrow> string list \<Rightarrow> string list \<Rightarrow> ('t, unit) py" where
  "launch_instance T defaults argv =
     py_then (ip_initialize T (terminal_extensions defaults) argv)
       (py_then (ip_set_custom_exc T [''SSHCalledProcessError''] (my_handler T)) (ip_start T))"

definition init_banner :: "'t ipython \<Rightarrow> ('t, unit) py" where
  "init_banner T = py_then (ip_set_banner T ''Anyvision Test terminal'') (ip_init_banner T)"

end
