(* ===== verification/Spec2Isabelle.thy ===== *)
theory Spec2Isabelle
  imports Interleaved_Properties Duplicate_Requests Hardvisor_Orders Rental Inventory_Properties Hypervisor_Properties Host_Properties Cloud_Properties Tools_Properties
    Start_Properties Connections Waiting
begin

text \<open>
  A verification library for habertest-backend, a service that lends machines to test runs.

  The program.  The \<^emph>\<open>allocate service\<close> (\<open>hwallocator/provisioner/webapp\<close>) keeps in Redis the
  resource managers that have sent a heartbeat (hash \<open>resource_managers\<close>) and the allocations (hash
  \<open>allocations\<close>).  A request names hosts with their demands; the service asks every resource manager
  which hosts it could serve (\<open>/fulfill/theoretically\<close>), splits the hosts among the managers, asks each
  to serve its part (\<open>/fulfill/now\<close>), and stores the machines with an expiration.  The \<^emph>\<open>heartbeat
  service\<close> (\<open>hwallocator/heartbeat_server\<close>) extends the expiration; a background task of the allocate
  service takes expired machines back (\<open>/deallocate/{name}\<close>).  There are three resource managers
  (\<open>resource_managers/\<close>): \<^emph>\<open>hardvisor\<close> lends physical machines from an inventory in Redis,
  \<^emph>\<open>hypervisor\<close> creates virtual machines on a host with libvirt, \<^emph>\<open>cloudvisor\<close> creates EC2 instances;
  hardvisor and cloudvisor also free machines whose allocation the service does not know any more.

  The model.  A handler is a computation of type \<open>('s, 'a) py\<close>: from a state to a result or an
  exception, and the new state; \<open>Prelude\<close> has its constructs (statements, \<open>try\<close>, loops, gathers), the JSON
  values and the dictionary operations, and the rules that carry invariants through the constructs.  What
  is not in the repository is a parameter: Redis (\<open>redis_ops\<close>), HTTP peers, clock and uuids
  (\<open>world_ops\<close>), processes and files of the host (\<open>sys\<close>), libvirt with its XML and address libraries
  (\<open>virt\<close>), the packet library (\<open>requestor\<close>), boto (\<open>ec2\<close>).  What a proof uses of them is stated as a
  locale (\<open>redis_server\<close>) or as a predicate (\<open>steady_clock\<close>, \<open>counts_connections\<close>, \<open>nbd_driver\<close>,
  \<open>libvirt_kills\<close>, \<open>ec2_account\<close>, \<open>kernel_links\<close>), and each has an instance on which the witnesses run.
  Tasks of a gather run one after another in the order of the list.  The handlers are whole computations;
  their interleavings are modelled where the code has to cope with them: in the allocator (\<open>hyp_step\<close>), and
  for all handlers of the allocate and heartbeat services and of hardvisor, which are cut at every command
  and request there (\<open>Tasks\<close>, \<open>Interleaved\<close>, \<open>Hardvisor_Interleaved\<close>).

  Allocate and heartbeat service.
    \<^item> \<open>Redis_Store\<close>: the parameters and the in-memory Redis of the witnesses.
    \<^item> \<open>Provisioner_Store\<close> (\<open>redisclient.py\<close>), \<open>Rm_Requestor\<close> (\<open>rm_requestor.py\<close>, and the routes of a resource
      manager, \<open>rm_http\<close>), \<open>Fulfiller\<close> (\<open>fulfiller.py\<close>), \<open>Expires\<close> (\<open>expires.py\<close>), \<open>Provisioner_Rest\<close>
      (\<open>rest.py\<close>, \<open>resourcemanager.py\<close>, \<open>claim.py\<close>, \<open>app.py\<close>, and the heartbeat handlers).
    \<^item> \<open>Fulfiller_Correct\<close>, \<open>Expires_Correct\<close>: the splitting of the hosts, the outcome of a request and of a
      release, the pass of the expiry task.  \<open>Allocate_Properties\<close>: the well-formedness of the store as an
      invariant of the reachable states, and the properties of the requests.
    \<^item> \<open>Tasks\<close>: coroutines as computations cut into pieces, running them in one go (\<open>run\<close>) or in a pool in any
      order (\<open>pool_step\<close>), and the rules for what a task guarantees under interference.  \<open>Interleaved\<close>: the
      handlers as tasks, and the lemmas that running one in one go is the handler; \<open>Interleaved_Correct\<close>: every
      task keeps the store well formed under interference, and whole operations are among the interleavings;
      \<open>Interleaved_Properties\<close>: the invariant, and the orders in which a heartbeat is lost or comes too late.
      \<open>Duplicate_Requests\<close>: two requests with one identifier.  \<open>fulfill_lock\<close> is a lock of each request's own
      \<open>Fulfiller\<close>, so it is left out.
    \<^item> \<open>Connections\<close> (\<open>redisclient.py\<close> of both services, \<open>hardvisor/redis_client.py\<close>, \<open>app.py\<close>, \<open>volunteer_sub\<close>,
      \<open>responses.py\<close>): where the connections go, the start of the services, the relay of a subscription.

  Hardvisor.
    \<^item> \<open>Hardvisor\<close> (\<open>manager.py\<close>, \<open>redis_client.py\<close>, \<open>__init__.py\<close>, \<open>remote_executor.py\<close>,
      \<open>periodically.py\<close>): inventory, reservation, handlers, cleaner; \<open>Hardvisor_Correct\<close> the lemmas.
    \<^item> \<open>Rm_Contract\<close>: the locales of a resource manager as the allocate service sees it: \<open>machine_lender\<close>, in
      which the release and the expiry of an allocation are proved to give the machines back, and
      \<open>resource_manager\<close>, which also serves requests and is a lender (\<open>sublocale\<close>); \<open>Hardvisor_Contract\<close>
      interprets it.  \<open>Inventory_Properties\<close>: the properties of the inventory and of both services;
      \<open>Rental\<close>: the round trip from a request to the release of its machines.
    \<^item> \<open>Locked_Tasks\<close>: tasks that share a lock (\<open>lock_step\<close>), and the rules for what they guarantee to each
      other and rely on.  \<open>Hardvisor_Interleaved\<close>: the handlers, the cleaner and the start as such tasks, with
      the lock of \<open>allocate\<close>; \<open>Hardvisor_Locked\<close> their guarantees; \<open>Hardvisor_Orders\<close>: machines change hands
      only when they are free, no task waits for ever, and the orders in which a release or the cleaner takes a
      machine from its new holder.

  Hypervisor.
    \<^item> \<open>Machine\<close> (\<open>common/vm.py\<close>, \<open>physical_vm.py\<close>, \<open>utils/pci.py\<close>): machines and PCI addresses.
    \<^item> \<open>Allocator\<close> (\<open>allocator.py\<close>): the pools and the machines; \<open>allocate_begin\<close>, \<open>allocate_finish\<close>,
      \<open>destroy_lookup\<close>, \<open>destroy_check\<close>, \<open>destroy_finish\<close> are the stretches of the code without an \<open>await\<close>, and
      \<open>allocate_vm\<close>, \<open>destroy_vm\<close>, \<open>restore_vms\<close> the whole operations over the machine manager.
    \<^item> \<open>Allocator_Correct\<close>, \<open>Allocator_Steps\<close>: the step relation \<open>hyp_step\<close> of interleaved requests and the
      locale \<open>pool\<close>, interpreted for GPUs and for MAC addresses; \<open>Allocator_Restore\<close> the start from libvirt's
      machines; \<open>Allocator_Spec\<close> the abstract office that leases parts of a stock, and the simulation.
    \<^item> \<open>Host_System\<close>, \<open>Image_Store\<close>, \<open>Cloud_Init\<close>, \<open>Dhcp\<close>, \<open>Libvirt_Wrapper\<close>, \<open>Vm_Template\<close>: commands, waiting
      loops, images and block devices, the start-up disk, addresses, domains and their XML.
    \<^item> \<open>Vm_Manager\<close> (\<open>vm_manager.py\<close>) composes them; \<open>manager_ops\<close> is what the allocator is given.
      \<open>Manager_Contract\<close>: the locale \<open>machine_manager\<close> with the law the allocator relies on (the manager
      does not change what a machine holds) and the outcome of whole allocations and destructions;
      \<open>Vm_Manager_Correct\<close> interprets it on the model of the manager.
    \<^item> \<open>Hypervisor_Rest\<close> (\<open>rest.py\<close>): the handlers; \<open>Hypervisor_Correct\<close> the outcome of a fulfilment;
      \<open>Hypervisor_Demo\<close> the host of the witnesses; \<open>Hypervisor_Properties\<close>, \<open>Host_Correct\<close> and
      \<open>Host_Properties\<close> the properties.
    \<^item> \<open>Net_Tools\<close> (\<open>utils/net.py\<close>, \<open>hypervisor/__main__.py\<close>) the start-up; \<open>Config_Tools\<close>
      (\<open>config_hypervisor.py\<close>) the configuration tool.

  Cloudvisor.  \<open>Cloud_Ec2\<close> and \<open>Cloud_Wrapper\<close> (\<open>cloud_vm.py\<close>, \<open>ec2_wrapper.py\<close>), \<open>Cloud_Manager\<close>
  (\<open>ec2_manager.py\<close>, \<open>cleaner.py\<close>, \<open>webapp/rest.py\<close>); \<open>Cloud_Correct\<close>, \<open>Cloud_Contract\<close> (the cloudvisor as a \<open>machine_lender\<close>) and
  \<open>Cloud_Properties\<close>.

  Clients.  \<open>Clients\<close> (\<open>utils/heartbeat.py\<close>, \<open>utils/cleaner.py\<close>, the requests of the command line tools,
  hardvisor's start and the commands on its machines); \<open>Tools_Properties\<close>.

  Programs.  \<open>Arg_Parser\<close>: the part of \<open>argparse\<close> that the programs use; \<open>Arg_Parser_Correct\<close>: an accepted
  command line gives every option a value of its type, and numbers are read back.  \<open>Start_Up\<close>: the three
  \<open>__main__.py\<close>, from the options and the environment to the server and the daemons they start, and
  \<open>utils/ip.py\<close>; \<open>Tool_Mains\<close>: the command line tools; \<open>Start_Properties\<close> their properties.  \<open>Waiting\<close>: the
  rest of \<open>utils/waiter.py\<close>, the configuration of the log (\<open>utils/anylogging.py\<close>, \<open>settings.py\<close>) and the terminal
  (\<open>lab_terminal.py\<close>); \<open>Time_Limit\<close>: the limit that interrupts a call by the alarm signal.

  Bounds.  The endless loops (expiry, cleaners, heartbeats) are functions of a number of rounds, and
  the properties hold for every round or every number of them.  \<open>wait_for_predicate_nothrow\<close> is given
  \<open>wait_fuel\<close> turns; \<open>waiting_ends\<close> shows that the deadline comes before they are used up.  \<open>find_port\<close>
  makes the five hundred attempts of the code.  All other recursions end by their measures.

  Simplifications.  A request to a resource manager is one piece: the other side has done its work when the
  reply is read.  The deallocations an expiry pass starts run where the pass awaits them.  The tasks of one
  gather do not interleave with each other, except hardvisor's, which may also run as tasks of their own.  \<open>argparse\<close> is modelled for at most one positional argument, and
  after \<open>--\<close> every argument counts as a value.  Lines that are only logged or printed are left out.

  Not modelled: \<open>choose_from\<close> of \<open>fulfiller.py\<close>, an unused placeholder; the class \<open>RedisClient\<close> of the heartbeat
  service a second time, which is a copy of the allocate service's without its commands; the web frameworks and
  the libraries themselves, which are not in the repository; Helm charts, Dockerfiles and shell scripts.
\<close>

section \<open>Hypervisors and the allocate service\<close>

lemma vm_check_not_accepted: "\<not> accepts (fst (serve (vm_check_fulfill b) n))"
  by (auto simp: serve_def vm_check_fulfill_def py_defs accepts_def fld_def split: prod.splits sum.splits)

lemma vm_fulfill_not_accepted: "\<not> accepts (fst (serve (vm_fulfill M b) n))"
  by (auto simp: serve_def vm_fulfill_def py_defs accepts_def fld_def split: prod.splits sum.splits if_splits)

lemma not_found_not_accepted: "\<not> accepts (HReply 404 b)"
  by (simp add: accepts_def)

lemma hypervisor_not_accepted:
  "req_verb rq = POST \<Longrightarrow> \<not> accepts (fst (hypervisor_http M ep n rq))"
  by (auto simp: hypervisor_http_def rm_http_def vm_check_not_accepted vm_fulfill_not_accepted not_found_not_accepted)

text \<open>C24. The hypervisor's answer to the theoretical check names no machines, which the allocate service
  reads: when every resource manager that is asked is a hypervisor, whatever its state and its pools,
  every new request is unfulfillable, leaves no allocation, and deletes the registrations of all of them.\<close>

theorem hypervisors_are_deregistered:
  assumes "redis_server R"
    and "\<forall>w rq. req_verb rq = POST \<longrightarrow> (\<exists>M ep n. fst (http W w rq) = fst (hypervisor_http M ep n rq))"
    and "map_of m ''allocation_id'' = Some (JStr k)" "k \<noteq> []"
    and "hget R (store n) ''allocations'' k = None"
    and "objects (hgetall R (store n) ''resource_managers'')"
  shows "\<exists>a n'. fulfill R W (JObj m) n = (Inr a, n')
    \<and> fld a ''status'' = Some (JStr ''unfulfillable'')
    \<and> (\<forall>h k'. hget R (store n') h k' =
        (if h = ''resource_managers'' then None else hget R (store n) h k'))"
proof (rule redis_server.fulfill_refused [OF assms(1) _ assms(3-6)])
  show "nobody_accepts W"
    unfolding nobody_accepts_def using assms(2) hypervisor_not_accepted by metis
qed

definition hypervisor_world :: "lab host world_ops" where
  "hypervisor_world = \<lparr>http = hypervisor_http (manager_ops lab_manager all_free) ''rm1:8080'', clock = (\<lambda>n. 5),
     uuid4 = (\<lambda>n. (''6f1a'', n)), sleep = (\<lambda>d n. n)\<rparr>"

theorem hypervisors_are_deregistered_witness:
  "\<exists>a n'. fulfill mem_redis hypervisor_world (JObj demo_request)
      \<lparr>store = \<lparr>hashes = [(''resource_managers'', [(''rm1'', JObj demo_rm)])], published = []\<rparr>, world = lab_host\<rparr> = (Inr a, n')
    \<and> fld a ''status'' = Some (JStr ''unfulfillable'')
    \<and> hget mem_redis (store n') ''resource_managers'' ''rm1'' = None"
proof -
  let ?n = "\<lparr>store = \<lparr>hashes = [(''resource_managers'', [(''rm1'', JObj demo_rm)])], published = []\<rparr>, world = lab_host\<rparr>"
  have hyps: "\<forall>w rq. req_verb rq = POST \<longrightarrow> (\<exists>M ep n. fst (http hypervisor_world w rq) = fst (hypervisor_http (M :: lab vm_ops) ep n rq))"
    by (auto simp: hypervisor_world_def)
  have id: "map_of demo_request ''allocation_id'' = Some (JStr ''a1'')" by (simp add: demo_defs)
  have new: "hget mem_redis (store ?n) ''allocations'' ''a1'' = None" by (simp add: mem_run)
  have objs: "objects (hgetall mem_redis (store ?n) ''resource_managers'')"
    by (simp add: mem_run objects_def)
  from hypervisors_are_deregistered [OF mem_redis.redis_server_axioms hyps id _ new objs] show ?thesis by auto
qed

end
